(* ===== verification/Prelude.thy ===== *)
theory Prelude
  imports Main "HOL-Library.Word" "HOL-Library.Monad_Syntax"
begin

text \<open>
  Shared ground of the development: the machine integers of the C++ sources as words, bit
  fields inside a 64-bit word (the shape of every hardware structure of the hypervisor), the
  interface of a getter/setter pair as a locale, and counted loops with the rules that carry
  their invariants.  In the whole development \<open>None\<close> stands for undefined behaviour
  of the source (an access outside an array, a dereferenced end iterator), never for an error
  code the source returns.
\<close>

unbundle bit_operations_syntax

section \<open>Machine integers\<close>

type_synonym u8 = "8 word"
type_synonym u16 = "16 word"
type_synonym u32 = "32 word"
type_synonym u64 = "64 word"

lemma unat_of_nat_u64: "n < 2 ^ 64 \<Longrightarrow> unat (of_nat n :: u64) = n"
  by (simp add: unat_of_nat take_bit_nat_eq_self)

lemma unat_drop_bit: "unat (drop_bit n (a :: u64)) = unat a div 2 ^ n"
proof -
  have "take_bit 64 (unat a) = unat a"
    using unsigned_less [of a, where ?'a = nat] by (simp add: take_bit_nat_eq_self_iff)
  then show ?thesis unfolding unsigned_drop_bit_eq by (simp add: drop_bit_eq_div)
qed

lemma unat_push_bit:
  assumes "unat a * 2 ^ n < 2 ^ 64"
  shows "unat (push_bit n (a :: u64)) = unat a * 2 ^ n"
proof -
  have "unat (push_bit n a) = take_bit 64 (push_bit n (unat a))" by (simp add: unsigned_push_bit_eq)
  also have "\<dots> = unat a * 2 ^ n" using assms by (simp add: push_bit_eq_mult take_bit_nat_eq_self)
  finally show ?thesis .
qed

lemma take_bit_self_u64: "unat a < 2 ^ n \<Longrightarrow> take_bit n (a :: u64) = a"
  by (simp only: word_unat_eq_iff unsigned_take_bit_eq take_bit_nat_eq_self)

section \<open>Bit fields of a 64-bit word\<close>

text \<open>\<open>bits off n w\<close> reads the \<open>n\<close> bits of \<open>w\<close> from position
  \<open>off\<close> on, \<open>put_bits off n v w\<close> overwrites them with the low bits of
  \<open>v\<close>.\<close>

definition bits :: "nat \<Rightarrow> nat \<Rightarrow> u64 \<Rightarrow> u64" where
  "bits off n w = take_bit n (drop_bit off w)"

definition put_bits :: "nat \<Rightarrow> nat \<Rightarrow> u64 \<Rightarrow> u64 \<Rightarrow> u64" where
  "put_bits off n v w = (w AND NOT (push_bit off (mask n))) OR push_bit off (take_bit n v)"

lemma bit_bits: "bit (bits off n w) i \<longleftrightarrow> i < n \<and> bit w (off + i)"
  by (simp add: bits_def bit_take_bit_iff bit_drop_bit_eq)

lemma bit_put_bits:
  "bit (put_bits off n v w) i \<longleftrightarrow>
     i < 64 \<and> (if off \<le> i \<and> i < off + n then bit v (i - off) else bit w i)"
  by (auto simp: put_bits_def bit_simps)

lemma u64_bit_bound: "bit (w :: u64) i \<Longrightarrow> i < 64"
  using bit_imp_le_length by force

lemma bits_put_bits_same: "off + n \<le> 64 \<Longrightarrow> bits off n (put_bits off n v w) = take_bit n v"
  by (rule bit_eqI) (auto simp: bit_bits bit_put_bits bit_take_bit_iff)

lemma bits_put_bits_disjoint:
  "off' + n' \<le> off \<or> off + n \<le> off' \<Longrightarrow> bits off' n' (put_bits off n v w) = bits off' n' w"
  by (rule bit_eqI) (auto simp: bit_bits bit_put_bits dest: u64_bit_bound)

lemma put_bits_bits_same: "put_bits off n (bits off n w) w = w"
  by (rule bit_eqI) (auto simp: bit_bits bit_put_bits dest: u64_bit_bound)

lemma put_bits_twice: "put_bits off n v (put_bits off n v' w) = put_bits off n v w"
  by (rule bit_eqI) (auto simp: bit_put_bits)

lemma put_bits_commute:
  "off' + n' \<le> off \<or> off + n \<le> off' \<Longrightarrow>
   put_bits off n v (put_bits off' n' v' w) = put_bits off' n' v' (put_bits off n v w)"
  by (rule bit_eqI) (auto simp: bit_put_bits)

lemma put_bits_outside:
  "put_bits off n v w AND NOT (push_bit off (mask n)) = w AND NOT (push_bit off (mask n))"
  by (rule bit_eqI) (auto simp: bit_put_bits bit_simps)

lemma bits_take_bit: "take_bit n (bits off n w) = bits off n w"
  by (simp add: bits_def)

lemma bits_less: "n < 64 \<Longrightarrow> unat (bits off n w) < 2 ^ n"
  by (simp add: bits_def unsigned_take_bit_eq)

text \<open>The equations that unfold a shift-and-mask expression of the source into a bit field:
  the masks are numerals, so both sides are evaluated.\<close>

lemmas field_eval = bits_def put_bits_def take_bit_eq_mask mask_eq_exp_minus_1
lemmas flag_eval = bit_iff_and_push_bit_not_eq_0 field_eval

section \<open>The interface of an accessor pair\<close>

text \<open>\<open>accessor_ok off n get put\<close>: the setter stores the low \<open>n\<close> bits of its
  argument, the getter reads them back, writing back what was read changes nothing, a second
  write wins, and no bit outside the field is touched.\<close>

definition accessor_ok :: "nat \<Rightarrow> nat \<Rightarrow> (u64 \<Rightarrow> u64) \<Rightarrow> (u64 \<Rightarrow> u64 \<Rightarrow> u64) \<Rightarrow> bool" where
  "accessor_ok off n get put \<longleftrightarrow>
     (\<forall>v w. get (put v w) = take_bit n v) \<and>
     (\<forall>w. put (get w) w = w) \<and>
     (\<forall>v v' w. put v (put v' w) = put v w) \<and>
     (\<forall>v w. put v w AND NOT (push_bit off (mask n)) = w AND NOT (push_bit off (mask n)))"

locale bit_field =
  fixes get :: "u64 \<Rightarrow> u64" and put :: "u64 \<Rightarrow> u64 \<Rightarrow> u64" and off n :: nat
  assumes get_eq: "get w = bits off n w"
    and put_eq: "put v w = put_bits off n v w"
    and fits: "off + n \<le> 64"
begin

lemma get_put: "get (put v w) = take_bit n v"
  by (simp add: get_eq put_eq bits_put_bits_same fits)

lemma get_put_fits: "take_bit n v = v \<Longrightarrow> get (put v w) = v"
  by (simp add: get_put)

lemma put_get: "put (get w) w = w"
  by (simp add: get_eq put_eq put_bits_bits_same)

lemma put_put: "put v (put v' w) = put v w"
  by (simp add: put_eq put_bits_twice)

lemma other_field: "off' + n' \<le> off \<or> off + n \<le> off' \<Longrightarrow> bits off' n' (put v w) = bits off' n' w"
  by (simp add: put_eq bits_put_bits_disjoint)

lemma put_outside: "put v w AND NOT (push_bit off (mask n)) = w AND NOT (push_bit off (mask n))"
  by (simp add: put_eq put_bits_outside)

lemma ok: "accessor_ok off n get put"
  unfolding accessor_ok_def by (simp add: get_put put_get put_put put_outside)

end

text \<open>A one-bit flag: the getter returns a boolean.  It is a bit field of width 1 once the
  booleans are read as the numbers 0 and 1.\<close>

locale bit_flag =
  fixes get :: "u64 \<Rightarrow> bool" and put :: "bool \<Rightarrow> u64 \<Rightarrow> u64" and off :: nat
  assumes flag_get_eq: "get w \<longleftrightarrow> bit w off"
    and flag_put_eq: "put b w = put_bits off 1 (of_bool b) w"
    and flag_fits: "off < 64"

lemma flag_bits: "of_bool (bit w off) = bits off 1 w"
  by (rule bit_eqI) (auto simp: bit_bits bit_simps)

lemma flag_put_odd: "put_bits off 1 (of_bool (odd v)) w = put_bits off 1 v w"
  by (rule bit_eqI) (auto simp: bit_put_bits bit_0 bit_simps)

sublocale bit_flag \<subseteq> fld: bit_field "\<lambda>w. of_bool (get w)" "\<lambda>v. put (odd v)" off 1
  using flag_fits
  by unfold_locales
    (simp_all add: flag_get_eq flag_put_eq flag_bits flag_put_odd del: One_nat_def)

context bit_flag
begin

lemma flag_get_put: "get (put b w) = b"
  using flag_fits by (simp add: flag_get_eq flag_put_eq bit_put_bits)

lemma flag_other: "i \<noteq> off \<Longrightarrow> i < 64 \<Longrightarrow> bit (put b w) i = bit w i"
  by (auto simp: flag_put_eq bit_put_bits)

end

section \<open>Counted loops\<close>

text \<open>\<open>for (i = 0; i < n; ++i) body\<close>: the body is applied to \<open>0\<close>, \<open>1\<close>, \dots,
  \<open>n - 1\<close> in this order.  \<open>loop_opt\<close> is the loop whose body may be undefined,
  \<open>loop_ret\<close> the loop whose body may also return from the enclosing function: the
  flag of the result tells whether the loop is still running.\<close>

primrec loop :: "nat \<Rightarrow> (nat \<Rightarrow> 's \<Rightarrow> 's) \<Rightarrow> 's \<Rightarrow> 's" where
  "loop 0 f s = s"
| "loop (Suc n) f s = f n (loop n f s)"

primrec loop_opt :: "nat \<Rightarrow> (nat \<Rightarrow> 's \<Rightarrow> 's option) \<Rightarrow> 's \<Rightarrow> 's option" where
  "loop_opt 0 f s = Some s"
| "loop_opt (Suc n) f s = Option.bind (loop_opt n f s) (f n)"

primrec loop_ret :: "nat \<Rightarrow> (nat \<Rightarrow> 's \<Rightarrow> ('s \<times> 'e option) option) \<Rightarrow> 's \<Rightarrow> ('s \<times> 'e option) option" where
  "loop_ret 0 f s = Some (s, None)"
| "loop_ret (Suc n) f s =
     Option.bind (loop_ret n f s) (\<lambda>(t, r). case r of None \<Rightarrow> f n t | Some e \<Rightarrow> Some (t, Some e))"

lemma loop_inv:
  assumes "I 0 s" and "\<And>i t. i < n \<Longrightarrow> I i t \<Longrightarrow> I (Suc i) (f i t)"
  shows "I n (loop n f s)"
  using assms(2) by (induction n) (auto simp: assms(1))

lemma loop_opt_inv:
  assumes "I 0 s" and "\<And>i t. i < n \<Longrightarrow> I i t \<Longrightarrow> \<exists>t'. f i t = Some t' \<and> I (Suc i) t'"
  shows "\<exists>t'. loop_opt n f s = Some t' \<and> I n t'"
  using assms(2)
proof (induction n)
  case 0
  then show ?case by (simp add: assms(1))
next
  case (Suc n)
  have "\<exists>t. loop_opt n f s = Some t \<and> I n t"
    by (rule Suc.IH) (simp add: Suc.prems)
  then obtain t where "loop_opt n f s = Some t" and "I n t" by blast
  with Suc.prems [of n t] show ?case by auto
qed

lemma loop_ret_inv:
  assumes "I 0 s"
    and "\<And>i t. i < n \<Longrightarrow> I i t \<Longrightarrow>
           (\<exists>t'. f i t = Some (t', None) \<and> I (Suc i) t') \<or> (\<exists>t' e. f i t = Some (t', Some e) \<and> J e t')"
  shows "(\<exists>t'. loop_ret n f s = Some (t', None) \<and> I n t') \<or>
         (\<exists>t' e. loop_ret n f s = Some (t', Some e) \<and> J e t')"
  using assms(2)
proof (induction n)
  case 0
  then show ?case by (simp add: assms(1))
next
  case (Suc n)
  have "(\<exists>t. loop_ret n f s = Some (t, None) \<and> I n t) \<or>
        (\<exists>t e. loop_ret n f s = Some (t, Some e) \<and> J e t)"
    by (rule Suc.IH) (simp add: Suc.prems)
  then consider t where "loop_ret n f s = Some (t, None)" "I n t"
    | t e where "loop_ret n f s = Some (t, Some e)" "J e t"
    by blast
  then show ?case
  proof cases
    case 1
    with Suc.prems [of n t] show ?thesis by auto
  next
    case 2
    then show ?thesis by simp
  qed
qed

text \<open>What every step keeps, the loop keeps, whether or not it returns early.\<close>

lemma loop_opt_preserves:
  assumes "loop_opt n f s = Some s'" and "P s" and "\<And>i t t'. P t \<Longrightarrow> f i t = Some t' \<Longrightarrow> P t'"
  shows "P s'"
  using assms(1)
proof (induction n arbitrary: s')
  case 0
  with assms(2) show ?case by simp
next
  case (Suc n)
  then obtain t where "loop_opt n f s = Some t" and "f n t = Some s'" by (auto split: bind_splits)
  with Suc.IH assms(3) show ?case by blast
qed

lemma loop_ret_preserves:
  assumes "loop_ret n f s = Some (s', r)" and "P s" and "\<And>i t t' r. P t \<Longrightarrow> f i t = Some (t', r) \<Longrightarrow> P t'"
  shows "P s'"
  using assms(1)
proof (induction n arbitrary: s' r)
  case 0
  with assms(2) show ?case by simp
next
  case (Suc n)
  then obtain t q where t: "loop_ret n f s = Some (t, q)"
    and q: "(case q of None \<Rightarrow> f n t | Some e \<Rightarrow> Some (t, Some e)) = Some (s', r)"
    by (auto split: bind_splits)
  have "P t" using Suc.IH [OF t] .
  with q assms(3) show ?case by (auto split: option.splits)
qed

section \<open>Aligned addresses\<close>

definition page_size :: u64 where
  "page_size = 0x1000"

lemma page_size_eq: "page_size = 2 ^ 12"
  by (simp add: page_size_def)

end
