(* ===== verification/Machine.thy ===== *)
theory Machine
  imports Prelude
begin

text \<open>
  The processor as the program sees it: the register context of
  \<^verbatim>\<open>include/zpp/x64/context.h\<close>, the descriptor-table registers of
  \<^verbatim>\<open>include/zpp/x64/generic.h\<close>, the model-specific registers of
  \<^verbatim>\<open>include/zpp/x64/intel/msr.h\<close>, and the instruction wrappers of
  \<^verbatim>\<open>include/zpp/x64/asm.h\<close> and \<^verbatim>\<open>include/zpp/x64/intel/asm.h\<close>.  Each wrapper is a
  function on the record \<open>cpu\<close>.  What the hardware decides (whether a VMX instruction
  succeeds, what \<open>cpuid\<close> returns) is a parameter, the record \<open>hardware\<close>.
\<close>

section \<open>Registers\<close>

record cpu_context =
  c_rax :: u64
  c_rbx :: u64
  c_rcx :: u64
  c_rdx :: u64
  c_rsp :: u64
  c_rbp :: u64
  c_rsi :: u64
  c_rdi :: u64
  c_r8 :: u64
  c_r9 :: u64
  c_r10 :: u64
  c_r11 :: u64
  c_r12 :: u64
  c_r13 :: u64
  c_r14 :: u64
  c_r15 :: u64
  c_rip :: u64
  c_rflags :: u64
  c_xmm :: "nat \<Rightarrow> u64 \<times> u64"
  c_fxsave :: "nat \<Rightarrow> u8"
  c_mxcsr :: u32
  c_cs :: u16
  c_ds :: u16
  c_es :: u16
  c_fs :: u16
  c_gs :: u16
  c_ss :: u16

definition sizeof_context :: u64 where
  "sizeof_context = 0x3a0"

text \<open>\<open>gdtr\<close> and \<open>idtr\<close>: the base and the limit, one less than the size.\<close>

record table_register =
  tr_base :: u64
  tr_limit :: u16

section \<open>Model-specific registers\<close>

definition ia32_mtrr_capability :: u32 where "ia32_mtrr_capability = 0xfe"
definition ia32_debug_control :: u32 where "ia32_debug_control = 0x1d9"
definition ia32_fs_base :: u32 where "ia32_fs_base = 0xc0000100"
definition ia32_gs_base :: u32 where "ia32_gs_base = 0xc0000101"

definition vmx_begin :: nat where "vmx_begin = 0x480"
definition vmx_end :: nat where "vmx_end = 0x492"
definition vmx_size :: nat where "vmx_size = vmx_end - vmx_begin"

definition vmx_basic :: nat where "vmx_basic = 0x480"
definition cr0_fixed_0 :: nat where "cr0_fixed_0 = 0x486"
definition cr0_fixed_1 :: nat where "cr0_fixed_1 = 0x487"
definition cr4_fixed_0 :: nat where "cr4_fixed_0 = 0x488"
definition cr4_fixed_1 :: nat where "cr4_fixed_1 = 0x489"
definition processor_based_contorls_2 :: nat where "processor_based_contorls_2 = 0x48b"
definition true_pin_based_controls :: nat where "true_pin_based_controls = 0x48d"
definition true_processor_based_controls :: nat where "true_processor_based_controls = 0x48e"
definition true_exit_controls :: nat where "true_exit_controls = 0x48f"
definition true_entry_controls :: nat where "true_entry_controls = 0x490"

lemmas vmx_msr_defs = vmx_begin_def vmx_end_def vmx_size_def vmx_basic_def cr0_fixed_0_def
  cr0_fixed_1_def cr4_fixed_0_def cr4_fixed_1_def processor_based_contorls_2_def
  true_pin_based_controls_def true_processor_based_controls_def true_exit_controls_def
  true_entry_controls_def

definition mtrr_physbase_0 :: nat where "mtrr_physbase_0 = 0x200"
definition mtrr_physmask_0 :: nat where "mtrr_physmask_0 = 0x201"

definition adjust_msr :: "u64 \<Rightarrow> u64 \<Rightarrow> u64" where
  "adjust_msr msr v =
     (let v = v AND drop_bit 32 (0xffffffff00000000 AND msr) in v OR (0xffffffff AND msr))"

text \<open>A capability register holds, in its low half, the controls that must be 1 and, in its high
  half, those that may be 1; the result honours both and keeps every requested control that is
  allowed.\<close>

lemma bit_adjust_msr:
  "bit (adjust_msr msr v) i \<longleftrightarrow> i < 32 \<and> (bit msr i \<or> bit v i \<and> bit msr (32 + i))"
proof -
  have mask: "(0xffffffff :: u64) = mask 32" "(0xffffffff00000000 :: u64) = push_bit 32 (mask 32)"
    by (simp_all add: mask_eq_exp_minus_1)
  show ?thesis
    unfolding adjust_msr_def mask by (auto simp: bit_simps dest: u64_bit_bound)
qed

section \<open>The processor\<close>

record cpu =
  cpu_cr0 :: u64
  cpu_cr3 :: u64
  cpu_cr4 :: u64
  cpu_dr7 :: u64
  cpu_msr :: "u32 \<Rightarrow> u64"
  cpu_gdtr :: table_register
  cpu_idtr :: table_register
  cpu_ldtr :: u16
  cpu_tr :: u16
  cpu_interrupts :: bool
  cpu_vmxon :: "u64 option"
  cpu_vmcs :: "u64 option"
  cpu_vmcs_data :: "u64 \<Rightarrow> u64 \<Rightarrow> u64"
  cpu_xcr :: "u32 \<Rightarrow> u64"
  cpu_invd :: nat

text \<open>The outcome of a VMX instruction: \<open>VMfailInvalid\<close> sets CF, \<open>VMfailValid\<close> sets
  ZF.  The wrappers test CF only.\<close>

datatype vm_outcome = VMsucceed | VMfailInvalid | VMfailValid

record hardware =
  hw_vmxon :: "cpu \<Rightarrow> u64 \<Rightarrow> vm_outcome"
  hw_vmclear :: "cpu \<Rightarrow> u64 \<Rightarrow> vm_outcome"
  hw_vmptrld :: "cpu \<Rightarrow> u64 \<Rightarrow> vm_outcome"
  hw_vmread :: "cpu \<Rightarrow> u64 \<Rightarrow> vm_outcome"
  hw_vmwrite :: "cpu \<Rightarrow> u64 \<Rightarrow> u64 \<Rightarrow> vm_outcome"
  hw_cpuid :: "u32 \<Rightarrow> u32 \<Rightarrow> u32 \<times> u32 \<times> u32 \<times> u32"

section \<open>Instruction wrappers\<close>

definition set_cr0 :: "u64 \<Rightarrow> cpu \<Rightarrow> cpu" where "set_cr0 v c = c\<lparr>cpu_cr0 := v\<rparr>"
definition set_cr3 :: "u64 \<Rightarrow> cpu \<Rightarrow> cpu" where "set_cr3 v c = c\<lparr>cpu_cr3 := v\<rparr>"
definition set_cr4 :: "u64 \<Rightarrow> cpu \<Rightarrow> cpu" where "set_cr4 v c = c\<lparr>cpu_cr4 := v\<rparr>"
definition lgdt :: "table_register \<Rightarrow> cpu \<Rightarrow> cpu" where "lgdt r c = c\<lparr>cpu_gdtr := r\<rparr>"
definition ltr :: "u16 \<Rightarrow> cpu \<Rightarrow> cpu" where "ltr v c = c\<lparr>cpu_tr := v\<rparr>"
definition disable_interrupts :: "cpu \<Rightarrow> cpu" where "disable_interrupts c = c\<lparr>cpu_interrupts := False\<rparr>"
definition enable_interrupts :: "cpu \<Rightarrow> cpu" where "enable_interrupts c = c\<lparr>cpu_interrupts := True\<rparr>"
definition rdmsr :: "u32 \<Rightarrow> cpu \<Rightarrow> u64" where "rdmsr msr c = cpu_msr c msr"
definition invd :: "cpu \<Rightarrow> cpu" where "invd c = c\<lparr>cpu_invd := cpu_invd c + 1\<rparr>"

text \<open>\<open>ecx\<close> selects the register, \<open>edx:eax\<close> is the value: the two halves of the 64-bit
  argument.\<close>

definition xsetbv :: "u32 \<Rightarrow> u64 \<Rightarrow> cpu \<Rightarrow> cpu" where
  "xsetbv r v c =
     (let eax = (ucast v :: u32); edx = (ucast (drop_bit 32 v) :: u32)
      in c\<lparr>cpu_xcr := (cpu_xcr c)(r := push_bit 32 (ucast edx) OR ucast eax)\<rparr>)"

text \<open>The VMX wrappers return nonzero (here: True) exactly when CF is set.\<close>

definition vmxon :: "hardware \<Rightarrow> u64 \<Rightarrow> cpu \<Rightarrow> bool \<times> cpu" where
  "vmxon hw region c =
     (case hw_vmxon hw c region of
        VMsucceed \<Rightarrow> (False, c\<lparr>cpu_vmxon := Some region, cpu_vmcs := None\<rparr>)
      | VMfailInvalid \<Rightarrow> (True, c)
      | VMfailValid \<Rightarrow> (False, c))"

definition vmxoff :: "cpu \<Rightarrow> cpu" where
  "vmxoff c = c\<lparr>cpu_vmxon := None, cpu_vmcs := None\<rparr>"

definition vmclear :: "hardware \<Rightarrow> u64 \<Rightarrow> cpu \<Rightarrow> bool \<times> cpu" where
  "vmclear hw region c =
     (case hw_vmclear hw c region of
        VMsucceed \<Rightarrow> (False, if cpu_vmcs c = Some region then c\<lparr>cpu_vmcs := None\<rparr> else c)
      | VMfailInvalid \<Rightarrow> (True, c)
      | VMfailValid \<Rightarrow> (False, c))"

definition vmptrld :: "hardware \<Rightarrow> u64 \<Rightarrow> cpu \<Rightarrow> bool \<times> cpu" where
  "vmptrld hw region c =
     (case hw_vmptrld hw c region of
        VMsucceed \<Rightarrow> (False, c\<lparr>cpu_vmcs := Some region\<rparr>)
      | VMfailInvalid \<Rightarrow> (True, c)
      | VMfailValid \<Rightarrow> (False, c))"

text \<open>\<open>vmread\<close> writes its result through the pointer only when it succeeds, so the caller's
  initial value is an argument.\<close>

definition vmread :: "hardware \<Rightarrow> u64 \<Rightarrow> u64 \<Rightarrow> cpu \<Rightarrow> bool \<times> u64" where
  "vmread hw f old c =
     (case hw_vmread hw c f of
        VMsucceed \<Rightarrow> (False, (case cpu_vmcs c of Some region \<Rightarrow> cpu_vmcs_data c region f | None \<Rightarrow> old))
      | VMfailInvalid \<Rightarrow> (True, old)
      | VMfailValid \<Rightarrow> (False, old))"

definition vmwrite :: "hardware \<Rightarrow> u64 \<Rightarrow> u64 \<Rightarrow> cpu \<Rightarrow> bool \<times> cpu" where
  "vmwrite hw f v c =
     (case hw_vmwrite hw c f v of
        VMsucceed \<Rightarrow>
          (False, (case cpu_vmcs c of
             Some region \<Rightarrow> c\<lparr>cpu_vmcs_data := (cpu_vmcs_data c)(region := (cpu_vmcs_data c region)(f := v))\<rparr>
           | None \<Rightarrow> c))
      | VMfailInvalid \<Rightarrow> (True, c)
      | VMfailValid \<Rightarrow> (False, c))"

definition cpuid :: "hardware \<Rightarrow> u32 \<Rightarrow> u32 \<Rightarrow> u32 \<times> u32 \<times> u32 \<times> u32" where
  "cpuid hw leaf subleaf = hw_cpuid hw leaf subleaf"

lemmas cpu_ops = set_cr0_def set_cr3_def set_cr4_def lgdt_def ltr_def disable_interrupts_def
  enable_interrupts_def rdmsr_def invd_def vmxoff_def

lemma xsetbv_value: "cpu_xcr (xsetbv r v c) r = v"
proof -
  have "push_bit 32 (ucast (ucast (drop_bit 32 v) :: u32) :: u64) OR ucast (ucast v :: u32) = v"
    by (rule bit_eqI) (auto simp: bit_simps dest: u64_bit_bound)
  then show ?thesis by (simp add: xsetbv_def Let_def)
qed

section \<open>Concrete machines\<close>

text \<open>A processor with every register zero and VMX off, a context of zeros, and a processor that
  accepts every VMX instruction: the machines on which statements are evaluated.\<close>

definition reset_cpu :: cpu where
  "reset_cpu =
     \<lparr>cpu_cr0 = 0, cpu_cr3 = 0, cpu_cr4 = 0, cpu_dr7 = 0, cpu_msr = (\<lambda>_. 0),
      cpu_gdtr = \<lparr>tr_base = 0, tr_limit = 0\<rparr>, cpu_idtr = \<lparr>tr_base = 0, tr_limit = 0\<rparr>,
      cpu_ldtr = 0, cpu_tr = 0, cpu_interrupts = True, cpu_vmxon = None, cpu_vmcs = None,
      cpu_vmcs_data = (\<lambda>_ _. 0), cpu_xcr = (\<lambda>_. 0), cpu_invd = 0\<rparr>"

definition zero_context :: cpu_context where
  "zero_context =
     \<lparr>c_rax = 0, c_rbx = 0, c_rcx = 0, c_rdx = 0, c_rsp = 0, c_rbp = 0, c_rsi = 0, c_rdi = 0,
      c_r8 = 0, c_r9 = 0, c_r10 = 0, c_r11 = 0, c_r12 = 0, c_r13 = 0, c_r14 = 0, c_r15 = 0,
      c_rip = 0, c_rflags = 0, c_xmm = (\<lambda>_. (0, 0)), c_fxsave = (\<lambda>_. 0), c_mxcsr = 0,
      c_cs = 0, c_ds = 0, c_es = 0, c_fs = 0, c_gs = 0, c_ss = 0\<rparr>"

definition accepting_hardware :: hardware where
  "accepting_hardware =
     \<lparr>hw_vmxon = (\<lambda>_ _. VMsucceed), hw_vmclear = (\<lambda>_ _. VMsucceed), hw_vmptrld = (\<lambda>_ _. VMsucceed),
      hw_vmread = (\<lambda>_ _. VMsucceed), hw_vmwrite = (\<lambda>_ _ _. VMsucceed), hw_cpuid = (\<lambda>_ _. (0, 0, 0, 0))\<rparr>"

end
