(* ===== verification/Memory.thy ===== *)
theory Memory
  imports Prelude
begin

text \<open>
  Memory as bytes, little-endian integers in it, and the C runtime of the hypervisor
  (\<^verbatim>\<open>src/crt/crt.cpp\<close>): \<open>memcpy\<close>, \<open>memmove\<close>, \<open>memset\<close>, \<open>memcmp\<close> and
  \<open>strlen\<close>.  Pointers are 64-bit words; an address wraps around as pointer arithmetic on the
  machine does.
\<close>

type_synonym memory = "u64 \<Rightarrow> u8"

section \<open>Little-endian integers\<close>

primrec read_le :: "nat \<Rightarrow> memory \<Rightarrow> u64 \<Rightarrow> u64" where
  "read_le 0 m a = 0"
| "read_le (Suc n) m a = ucast (m a) OR push_bit 8 (read_le n m (a + 1))"

definition read_u16 :: "memory \<Rightarrow> u64 \<Rightarrow> u16" where "read_u16 m a = ucast (read_le 2 m a)"
definition read_u32 :: "memory \<Rightarrow> u64 \<Rightarrow> u32" where "read_u32 m a = ucast (read_le 4 m a)"
definition read_u64 :: "memory \<Rightarrow> u64 \<Rightarrow> u64" where "read_u64 m a = read_le 8 m a"

definition byte_of :: "u64 \<Rightarrow> nat \<Rightarrow> u8" where
  "byte_of v i = ucast (drop_bit (8 * i) v)"

definition write_u64 :: "u64 \<Rightarrow> u64 \<Rightarrow> memory \<Rightarrow> memory" where
  "write_u64 a v m = (\<lambda>x. if x - a < 8 then byte_of v (unat (x - a)) else m x)"

lemma u8_bit_bound: "bit (w :: u8) i \<Longrightarrow> i < 8"
  using bit_imp_le_length by force

lemma bit_read_le:
  "n \<le> 8 \<Longrightarrow> bit (read_le n m a) i \<longleftrightarrow> i < 8 * n \<and> bit (m (a + of_nat (i div 8))) (i mod 8)"
proof (induction n arbitrary: a i)
  case 0
  then show ?case by simp
next
  case (Suc n)
  show ?case
  proof (cases "i < 8")
    case True
    with Suc.prems show ?thesis by (auto simp: bit_simps)
  next
    case False
    then have "i div 8 = Suc ((i - 8) div 8)" and md: "(i - 8) mod 8 = i mod 8"
      by (auto simp: le_div_geq le_mod_geq not_less)
    then have ad: "a + of_nat (i div 8) = a + 1 + of_nat ((i - 8) div 8)" by (simp add: algebra_simps)
    show ?thesis
      unfolding ad using False Suc.IH [of "a + 1" "i - 8", unfolded md] Suc.prems
      by (auto simp: bit_simps simp del: add.assoc dest: u8_bit_bound u64_bit_bound)
  qed
qed

lemma bit_byte_of: "bit (byte_of v i) j \<longleftrightarrow> j < 8 \<and> bit v (8 * i + j)"
  by (auto simp: byte_of_def bit_simps)

lemma read_write_u64: "read_u64 (write_u64 a v m) a = v"
proof (rule bit_eqI)
  fix i
  show "bit (read_u64 (write_u64 a v m) a) i \<longleftrightarrow> bit v i"
  proof (cases "i < 64")
    case True
    then have "(of_nat (i div 8) :: u64) < 8" and "unat (of_nat (i div 8) :: u64) = i div 8"
      by (simp_all add: unat_of_nat word_less_nat_alt take_bit_nat_eq_self_iff)
    with True show ?thesis
      by (simp add: read_u64_def bit_read_le write_u64_def bit_byte_of)
  next
    case False
    then show ?thesis by (auto simp: read_u64_def bit_read_le dest: u64_bit_bound)
  qed
qed

text \<open>Reading a fixed number of bytes, for evaluation.\<close>

lemma read_le_numeral:
  "read_le (numeral k) m a = ucast (m a) OR push_bit 8 (read_le (pred_numeral k) m (a + 1))"
  by (simp add: numeral_eq_Suc)

text \<open>Reading depends on the bytes of the range only.\<close>

lemma read_le_cong:
  "(\<And>j. j < n \<Longrightarrow> m (a + of_nat j) = m' (a + of_nat j)) \<Longrightarrow> read_le n m a = read_le n m' a"
proof (induction n arbitrary: a)
  case 0
  then show ?case by simp
next
  case (Suc n)
  have "read_le n m (a + 1) = read_le n m' (a + 1)"
  proof (rule Suc.IH)
    fix j assume "j < n"
    then show "m (a + 1 + of_nat j) = m' (a + 1 + of_nat j)"
      using Suc.prems [of "Suc j"] by (simp add: algebra_simps)
  qed
  then show ?case using Suc.prems [of 0] by simp
qed

section \<open>The C runtime\<close>

definition memcpy :: "u64 \<Rightarrow> u64 \<Rightarrow> nat \<Rightarrow> memory \<Rightarrow> memory" where
  "memcpy dest src count m = loop count (\<lambda>i m. m(dest + of_nat i := m (src + of_nat i))) m"

definition memmove :: "u64 \<Rightarrow> u64 \<Rightarrow> nat \<Rightarrow> memory \<Rightarrow> memory" where
  "memmove dest src count m = loop count (\<lambda>i m. m(dest + of_nat i := m (src + of_nat i))) m"

definition memset :: "u64 \<Rightarrow> u32 \<Rightarrow> nat \<Rightarrow> memory \<Rightarrow> memory" where
  "memset dest v count m = loop count (\<lambda>i m. m(dest + of_nat i := ucast v)) m"

text \<open>The first difference between two bytes, as an \<open>int\<close>.\<close>

fun memcmp_from :: "nat \<Rightarrow> u64 \<Rightarrow> u64 \<Rightarrow> nat \<Rightarrow> memory \<Rightarrow> int" where
  "memcmp_from 0 dest src i m = 0"
| "memcmp_from (Suc n) dest src i m =
     (let diff = uint (m (dest + of_nat i)) - uint (m (src + of_nat i))
      in if diff \<noteq> 0 then diff else memcmp_from n dest src (i + 1) m)"

definition memcmp :: "u64 \<Rightarrow> u64 \<Rightarrow> nat \<Rightarrow> memory \<Rightarrow> int" where
  "memcmp dest src count m = memcmp_from count dest src 0 m"

partial_function (option) strlen_from :: "u64 \<Rightarrow> nat \<Rightarrow> memory \<Rightarrow> nat option" where
  "strlen_from s i m = (if m (s + of_nat i) = 0 then Some i else strlen_from s (i + 1) m)"

definition strlen :: "u64 \<Rightarrow> memory \<Rightarrow> nat option" where
  "strlen s m = strlen_from s 0 m"

section \<open>What the runtime functions do\<close>

text \<open>Offsets below \<open>2 ^ 64\<close> name different addresses.\<close>

lemma offset_inj:
  assumes "i < 2 ^ 64" and "j < 2 ^ 64"
  shows "(a :: u64) + of_nat i = a + of_nat j \<longleftrightarrow> i = j"
proof -
  from assms have "unat (of_nat i :: u64) = i" "unat (of_nat j :: u64) = j"
    by (simp_all add: unat_of_nat take_bit_nat_eq_self_iff)
  then show ?thesis by (metis add_left_cancel)
qed

definition in_range :: "u64 \<Rightarrow> u64 \<Rightarrow> nat \<Rightarrow> bool" where
  "in_range x a n \<longleftrightarrow> (\<exists>j < n. x = a + of_nat j)"

text \<open>The common loop of the copies, with the bytes it reads fixed before it starts: right as
  long as no byte is overwritten before it is read.\<close>

lemma copy_loop_bytes:
  fixes n :: nat and m :: memory
  assumes ok: "\<forall>i < n. \<forall>j < i. src + of_nat i \<noteq> dest + of_nat j"
  shows "loop n (\<lambda>i m. m(dest + of_nat i := m (src + of_nat i))) m x =
    (if in_range x dest n then m (src + (x - dest)) else m x)"
proof -
  let ?I = "\<lambda>k t. \<forall>x. t x = (if in_range x dest k then m (src + (x - dest)) else m x)"
  have "?I n (loop n (\<lambda>i m. m(dest + of_nat i := m (src + of_nat i))) m)"
  proof (rule loop_inv [where I = ?I])
    show "?I 0 m" by (simp add: in_range_def)
  next
    fix i t assume i: "i < n" and I: "?I i t"
    have src: "t (src + of_nat i) = m (src + of_nat i)"
      using I ok i by (auto simp: in_range_def)
    have rng: "in_range y dest (Suc i) \<longleftrightarrow> y = dest + of_nat i \<or> in_range y dest i" for y
      by (auto simp: in_range_def less_Suc_eq)
    show "?I (Suc i) (t(dest + of_nat i := t (src + of_nat i)))"
      using I src by (auto simp: rng)
  qed
  then show ?thesis by blast
qed

text \<open>\<open>memmove\<close> copies forward only, so it is right when the destination does not start inside
  the source: with \<open>dest = src + d\<close>, when \<open>d\<close> is at least \<open>count\<close> (which includes every
  destination below the source).\<close>

definition forward_ok :: "u64 \<Rightarrow> u64 \<Rightarrow> nat \<Rightarrow> bool" where
  "forward_ok dest src count \<longleftrightarrow> count \<le> unat (dest - src) \<or> dest = src"

lemma forward_ok_disjoint:
  assumes "forward_ok dest src n" and "n \<le> 2 ^ 63" and "dest \<noteq> src" and "i < n" and "j < i"
  shows "src + of_nat i \<noteq> dest + (of_nat j :: u64)"
proof
  assume eq: "src + of_nat i = dest + (of_nat j :: u64)"
  have "dest - src = of_nat i - (of_nat j :: u64)" using eq by (simp add: algebra_simps)
  also have "\<dots> = of_nat (i - j)" using assms(5) by (simp add: of_nat_diff)
  finally have "unat (dest - src) = i - j"
    using assms(2,4) by (simp add: unat_of_nat take_bit_nat_eq_self_iff)
  with assms(1,3,4) show False by (simp add: forward_ok_def)
qed

lemma memmove_bytes:
  assumes "forward_ok dest src n" and "n \<le> 2 ^ 63"
  shows "memmove dest src n m x = (if in_range x dest n then m (src + (x - dest)) else m x)"
proof (cases "dest = src")
  case True
  have "loop n (\<lambda>i m. m(dest + of_nat i := m (src + of_nat i))) m = m"
    using True by (induction n) auto
  then show ?thesis using True by (simp add: memmove_def)
next
  case False
  show ?thesis
    unfolding memmove_def
    by (rule copy_loop_bytes) (use assms forward_ok_disjoint [OF assms False] in auto)
qed

lemma memcpy_bytes:
  assumes "forward_ok dest src n" and "n \<le> 2 ^ 63"
  shows "memcpy dest src n m x = (if in_range x dest n then m (src + (x - dest)) else m x)"
  using memmove_bytes [OF assms] by (simp add: memcpy_def memmove_def)

lemma memset_bytes: "memset dest v n m x = (if in_range x dest n then ucast v else m x)"
proof -
  let ?I = "\<lambda>k t. \<forall>x. t x = (if in_range x dest k then ucast v else m x)"
  have "?I n (memset dest v n m)"
    unfolding memset_def by (rule loop_inv [where I = ?I]) (auto simp: in_range_def less_Suc_eq)
  then show ?thesis by blast
qed

lemma memcmp_from_zero:
  "memcmp_from n dest src i m = 0 \<longleftrightarrow> (\<forall>j < n. m (dest + of_nat (i + j)) = m (src + of_nat (i + j)))"
proof (induction n arbitrary: i)
  case 0
  then show ?case by simp
next
  case (Suc n)
  have "(\<forall>j < Suc n. m (dest + of_nat (i + j)) = m (src + of_nat (i + j))) \<longleftrightarrow>
      m (dest + of_nat i) = m (src + of_nat i) \<and>
      (\<forall>j < n. m (dest + of_nat (i + 1 + j)) = m (src + of_nat (i + 1 + j)))"
    by (subst All_less_Suc2) simp
  then show ?case
    unfolding memcmp_from.simps Let_def using Suc.IH [of "i + 1"]
    by (cases "m (dest + of_nat i) = m (src + of_nat i)") (simp_all only: word_uint_eq_iff, simp_all)
qed

lemma memcmp_zero: "memcmp dest src n m = 0 \<longleftrightarrow> (\<forall>j < n. m (dest + of_nat j) = m (src + of_nat j))"
  by (simp add: memcmp_def memcmp_from_zero)

lemma strlen_from_correct:
  assumes "m (s + of_nat (i + n)) = 0" and "\<forall>j < n. m (s + of_nat (i + j)) \<noteq> 0"
  shows "strlen_from s i m = Some (i + n)"
  using assms
proof (induction n arbitrary: i)
  case 0
  then show ?case by (subst strlen_from.simps) simp
next
  case (Suc n)
  have "strlen_from s (i + 1) m = Some (i + 1 + n)"
  proof (rule Suc.IH)
    show "m (s + of_nat (i + 1 + n)) = 0" using Suc.prems(1) by simp
    show "\<forall>j < n. m (s + of_nat (i + 1 + j)) \<noteq> 0"
      using Suc.prems(2) by (auto simp: algebra_simps dest: spec [of _ "Suc _"])
  qed
  moreover have "m (s + of_nat i) \<noteq> 0" using Suc.prems(2) by force
  ultimately show ?case by (subst strlen_from.simps) simp
qed

section \<open>Overlapping ranges\<close>

text \<open>\<open>memmove\<close> is not a move for a destination inside the source: moving a block up by one byte
  fills the whole destination with the first byte of the source.\<close>

theorem memmove_up_by_one:
  assumes "i < n"
  shows "memmove (a + 1) a n m (a + 1 + of_nat i) = m a"
proof -
  let ?I = "\<lambda>k t. \<forall>j \<le> k. t (a + of_nat j) = m a"
  have "?I n (memmove (a + 1) a n m)"
    unfolding memmove_def
    by (rule loop_inv [where I = ?I]) (auto simp: le_Suc_eq algebra_simps)
  then have "memmove (a + 1) a n m (a + of_nat (Suc i)) = m a" using assms by (simp only: Suc_le_eq)
  then show ?thesis by (simp add: algebra_simps)
qed

theorem memmove_up_by_one_witness:
  "memmove 1 0 3 (\<lambda>a. ucast a + 5) 3 = 5 \<and> (\<lambda>a :: u64. ucast a + 5 :: u8) 2 = 7"
  using memmove_up_by_one [of 2 3 0 "\<lambda>a. ucast a + 5"] by simp

end
