(* ===== verification/Context_Asm.thy ===== *)
theory Context_Asm
  imports Machine Memory
begin

text \<open>
  The assembly that saves and restores the context of a processor: \<open>capture_context\<close> and
  \<open>restore_context\<close> of \<^verbatim>\<open>x64/asm.h\<close>, \<open>zpp_x64_capture_context_into_stack\<close> of \<^verbatim>\<open>x64/asm.cpp\<close>,
  \<open>vm_exit_entry\<close> of \<^verbatim>\<open>x64/vm_exit_entry.cpp\<close> and \<open>_start\<close> of \<^verbatim>\<open>hypervisor/main.cpp\<close>, as programs of
  a small machine with the instructions they use.
\<close>

section \<open>The machine\<close>

datatype reg = RAX | RBX | RCX | RDX | RSP | RBP | RSI | RDI | R8 | R9 | R10 | R11 | R12 | R13 | R14 | R15

datatype seg = CS | DS | ES | FS | GS | SS

text \<open>\<open>a_fx\<close> is the image of the x87 state as \<open>fxsave\<close> lays it out, in bytes 0 to 23 and 32 to 159 (with the
  constant mask of \<open>mxcsr\<close> in bytes 28 to 31 and reserved bytes from 416); the image that \<open>fxsave\<close> stores
  also holds \<open>mxcsr\<close> (bytes 24 to 27) and the registers \<open>xmm\<close> (bytes 160 to 415).  Bytes 464 to 511 of its
  operand are left alone.  The flags \<open>RF\<close> and \<open>VM\<close>, which \<open>pushfq\<close> stores as zero, are taken to be clear.\<close>

record asm_state =
  a_reg :: "reg \<Rightarrow> u64"
  a_rip :: u64
  a_rflags :: u64
  a_xmm :: "nat \<Rightarrow> u64 \<times> u64"
  a_mxcsr :: u32
  a_fx :: "nat \<Rightarrow> u8"
  a_seg :: "seg \<Rightarrow> u16"
  a_mem :: memory

datatype instr =
    Push reg | Push_cx | Pushfq | Pop reg
  | Mov reg reg | Mov_load reg reg u64 | Mov_store reg u64 reg | Mov_cx reg u64 | Lea reg reg u64
  | Movdqa_store reg u64 nat | Movdqa_load nat reg u64
  | Fxsave reg u64 | Fxrstor reg u64 | Stmxcsr reg u64 | Ldmxcsr reg u64
  | Mov_seg reg u64 seg | Add reg u64 | Sub reg u64 | Call u64 | Ret | Iretq

definition write_block :: "u64 \<Rightarrow> nat \<Rightarrow> (nat \<Rightarrow> u8) \<Rightarrow> memory \<Rightarrow> memory" where
  "write_block a n f m = (\<lambda>x. if unat (x - a) < n then f (unat (x - a)) else m x)"

definition xmm_byte :: "u64 \<times> u64 \<Rightarrow> nat \<Rightarrow> u8" where
  "xmm_byte v j = (if j < 8 then byte_of (fst v) j else byte_of (snd v) (j - 8))"

definition fx_image :: "asm_state \<Rightarrow> nat \<Rightarrow> u8" where
  "fx_image s j =
     (if 24 \<le> j \<and> j < 28 then byte_of (ucast (a_mxcsr s)) (j - 24)
      else if 160 \<le> j \<and> j < 416 then xmm_byte (a_xmm s ((j - 160) div 16)) ((j - 160) mod 16)
      else a_fx s j)"

definition x87_byte :: "nat \<Rightarrow> bool" where
  "x87_byte j \<longleftrightarrow> j < 24 \<or> 32 \<le> j \<and> j < 160"

definition read_xmm :: "memory \<Rightarrow> u64 \<Rightarrow> u64 \<times> u64" where
  "read_xmm m a = (read_u64 m a, read_u64 m (a + 8))"

text \<open>A write to \<open>cx\<close> keeps the rest of \<open>rcx\<close>.\<close>

definition low_half :: "u64 \<Rightarrow> u16 \<Rightarrow> u64" where
  "low_half x v = (x AND NOT (mask 16)) OR ucast v"

definition set_reg :: "reg \<Rightarrow> u64 \<Rightarrow> asm_state \<Rightarrow> asm_state" where
  "set_reg r v s = s\<lparr>a_reg := (a_reg s)(r := v)\<rparr>"

definition store_block :: "u64 \<Rightarrow> nat \<Rightarrow> (nat \<Rightarrow> u8) \<Rightarrow> asm_state \<Rightarrow> asm_state" where
  "store_block a n f s = s\<lparr>a_mem := write_block a n f (a_mem s)\<rparr>"

definition push_block :: "nat \<Rightarrow> u64 \<Rightarrow> asm_state \<Rightarrow> asm_state" where
  "push_block n v s = store_block (a_reg s RSP - of_nat n) n (byte_of v) (set_reg RSP (a_reg s RSP - of_nat n) s)"

text \<open>One instruction; \<open>flags\<close> gives the flags after an addition.\<close>

fun exec :: "(u64 \<Rightarrow> u64 \<Rightarrow> u64) \<Rightarrow> instr \<Rightarrow> asm_state \<Rightarrow> asm_state" where
  "exec flags (Push r) s = push_block 8 (a_reg s r) s"
| "exec flags Push_cx s = push_block 2 (a_reg s RCX) s"
| "exec flags Pushfq s = push_block 8 (a_rflags s) s"
| "exec flags (Pop r) s = set_reg r (read_u64 (a_mem s) (a_reg s RSP)) (set_reg RSP (a_reg s RSP + 8) s)"
| "exec flags (Mov r r') s = set_reg r (a_reg s r') s"
| "exec flags (Mov_load r b d) s = set_reg r (read_u64 (a_mem s) (a_reg s b + d)) s"
| "exec flags (Mov_store b d r) s = store_block (a_reg s b + d) 8 (byte_of (a_reg s r)) s"
| "exec flags (Mov_cx b d) s =
     set_reg RCX (low_half (a_reg s RCX) (read_u16 (a_mem s) (a_reg s b + d))) s"
| "exec flags (Lea r b d) s = set_reg r (a_reg s b + d) s"
| "exec flags (Movdqa_store b d i) s = store_block (a_reg s b + d) 16 (xmm_byte (a_xmm s i)) s"
| "exec flags (Movdqa_load i b d) s = s\<lparr>a_xmm := (a_xmm s)(i := read_xmm (a_mem s) (a_reg s b + d))\<rparr>"
| "exec flags (Fxsave b d) s = store_block (a_reg s b + d) 464 (fx_image s) s"
| "exec flags (Fxrstor b d) s =
     (let a = a_reg s b + d; m = a_mem s
      in s\<lparr>a_mxcsr := read_u32 m (a + 24),
           a_xmm := (\<lambda>i. if i < 16 then read_xmm m (a + 160 + of_nat i * 16) else a_xmm s i),
           a_fx := (\<lambda>j. if x87_byte j then m (a + of_nat j) else a_fx s j)\<rparr>)"
| "exec flags (Stmxcsr b d) s = store_block (a_reg s b + d) 4 (byte_of (ucast (a_mxcsr s))) s"
| "exec flags (Ldmxcsr b d) s = s\<lparr>a_mxcsr := read_u32 (a_mem s) (a_reg s b + d)\<rparr>"
| "exec flags (Mov_seg b d g) s = store_block (a_reg s b + d) 2 (byte_of (ucast (a_seg s g))) s"
| "exec flags (Add r v) s = (set_reg r (a_reg s r + v) s)\<lparr>a_rflags := flags (a_reg s r) v\<rparr>"
| "exec flags (Sub r v) s = (set_reg r (a_reg s r - v) s)\<lparr>a_rflags := flags (a_reg s r) (- v)\<rparr>"
| "exec flags (Call ret) s = push_block 8 ret s"
| "exec flags Ret s = (set_reg RSP (a_reg s RSP + 8) s)\<lparr>a_rip := read_u64 (a_mem s) (a_reg s RSP)\<rparr>"
| "exec flags Iretq s =
     (let sp = a_reg s RSP; m = a_mem s
      in (set_reg RSP (read_u64 m (sp + 24)) s)
           \<lparr>a_rip := read_u64 m sp, a_rflags := read_u64 m (sp + 16),
            a_seg := (a_seg s)(CS := read_u16 m (sp + 8), SS := read_u16 m (sp + 32))\<rparr>)"

definition run :: "(u64 \<Rightarrow> u64 \<Rightarrow> u64) \<Rightarrow> instr list \<Rightarrow> asm_state \<Rightarrow> asm_state" where
  "run flags is s = fold (exec flags) is s"

section \<open>The programs\<close>

text \<open>The stores both captures share: \<open>rax\<close> points to the context, \<open>rbp\<close> to the saved \<open>rbp\<close>.\<close>

definition store_context :: "instr list" where
  "store_context =
     [Mov_load RCX RBP (- 0x8), Mov_store RAX 0 RCX, Mov_store RAX 0x8 RBX, Mov_load RCX RBP (- 0x10),
      Mov_store RAX 0x10 RCX, Mov_store RAX 0x18 RDX, Lea RCX RBP 0x18, Mov_store RAX 0x20 RCX,
      Mov_load RCX RBP 0, Mov_store RAX 0x28 RCX, Mov_store RAX 0x30 RSI, Mov_store RAX 0x38 RDI,
      Mov_store RAX 0x40 R8, Mov_store RAX 0x48 R9, Mov_store RAX 0x50 R10, Mov_store RAX 0x58 R11,
      Mov_store RAX 0x60 R12, Mov_store RAX 0x68 R13, Mov_store RAX 0x70 R14, Mov_store RAX 0x78 R15,
      Mov_load RCX RBP 0x10, Mov_store RAX 0x80 RCX, Mov_load RCX RBP 0x8, Mov_store RAX 0x88 RCX,
      Movdqa_store RAX 0x90 0, Movdqa_store RAX 0xa0 1, Movdqa_store RAX 0xb0 2, Movdqa_store RAX 0xc0 3,
      Movdqa_store RAX 0xd0 4, Movdqa_store RAX 0xe0 5, Movdqa_store RAX 0xf0 6, Movdqa_store RAX 0x100 7,
      Movdqa_store RAX 0x110 8, Movdqa_store RAX 0x120 9, Movdqa_store RAX 0x130 10, Movdqa_store RAX 0x140 11,
      Movdqa_store RAX 0x150 12, Movdqa_store RAX 0x160 13, Movdqa_store RAX 0x170 14, Movdqa_store RAX 0x180 15,
      Fxsave RAX 0x190, Stmxcsr RAX 0x390, Mov_seg RAX 0x394 CS, Mov_seg RAX 0x396 DS, Mov_seg RAX 0x398 ES,
      Mov_seg RAX 0x39a FS, Mov_seg RAX 0x39c GS, Mov_seg RAX 0x39e SS]"

definition capture_context :: "instr list" where
  "capture_context = [Pushfq, Push RBP, Mov RBP RSP, Push RAX, Push RCX, Mov RAX RDI] @ store_context @
     [Add RSP 0x10, Pop RBP, Add RSP 0x8, Ret]"

definition zpp_x64_capture_context_into_stack :: "instr list" where
  "zpp_x64_capture_context_into_stack =
     [Pushfq, Push RBP, Mov RBP RSP, Push RAX, Push RCX, Lea RAX RBP 0x18] @ store_context @
     [Add RSP 0x10, Pop RBP, Add RSP 0x8, Ret]"

text \<open>The loads of the registers, and the frame for \<open>iretq\<close>.\<close>

definition restore_registers :: "instr list" where
  "restore_registers =
     [Mov RAX RDI, Mov_load RBX RAX 0x8, Mov_load RDX RAX 0x18, Mov_load RBP RAX 0x28, Mov_load RSI RAX 0x30,
      Mov_load RDI RAX 0x38, Mov_load R8 RAX 0x40, Mov_load R9 RAX 0x48, Mov_load R10 RAX 0x50,
      Mov_load R11 RAX 0x58, Mov_load R12 RAX 0x60, Mov_load R13 RAX 0x68, Mov_load R14 RAX 0x70,
      Mov_load R15 RAX 0x78, Ldmxcsr RAX 0x390, Fxrstor RAX 0x190,
      Movdqa_load 0 RAX 0x90, Movdqa_load 1 RAX 0xa0, Movdqa_load 2 RAX 0xb0, Movdqa_load 3 RAX 0xc0,
      Movdqa_load 4 RAX 0xd0, Movdqa_load 5 RAX 0xe0, Movdqa_load 6 RAX 0xf0, Movdqa_load 7 RAX 0x100,
      Movdqa_load 8 RAX 0x110, Movdqa_load 9 RAX 0x120, Movdqa_load 10 RAX 0x130, Movdqa_load 11 RAX 0x140,
      Movdqa_load 12 RAX 0x150, Movdqa_load 13 RAX 0x160, Movdqa_load 14 RAX 0x170, Movdqa_load 15 RAX 0x180]"

definition restore_frame :: "instr list" where
  "restore_frame =
     [Mov_cx RAX 0x39e, Sub RSP 0x6, Push_cx, Mov_load RCX RAX 0x20, Push RCX, Mov_load RCX RAX 0x88, Push RCX,
      Mov_cx RAX 0x394, Sub RSP 0x6, Push_cx, Mov_load RCX RAX 0x80, Push RCX, Mov_load RCX RAX 0, Push RCX,
      Mov_load RCX RAX 0x10, Pop RAX, Iretq]"

definition restore_context :: "instr list" where
  "restore_context = restore_registers @ restore_frame"

text \<open>A called program is written out after \<open>Call\<close>, whose argument is the address of the next instruction.
  \<open>_start\<close> and \<open>vm_exit_entry\<close> end in a jump to a C++ function with its argument in \<open>rdi\<close>.\<close>

definition start_entry :: "u64 \<Rightarrow> instr list" where
  "start_entry ret = [Sub RSP 0x3a8, Call ret] @ zpp_x64_capture_context_into_stack @
     [Mov RAX RSP, Mov_load R10 RSP 0x3a8, Mov_store RAX 0x80 R10, Lea R10 RSP 0x3b0, Mov_store RAX 0x20 R10,
      Mov RDI RAX, Sub RSP 0x8]"

definition vm_exit_entry :: "u64 \<Rightarrow> instr list" where
  "vm_exit_entry ret = [Call ret] @ zpp_x64_capture_context_into_stack @ [Lea RDI RSP 0x3a0, Sub RSP 0x8]"

section \<open>The context in memory\<close>

text \<open>The structure \<open>context\<close> at an address, and the registers it is to hold.\<close>

definition context_at :: "memory \<Rightarrow> u64 \<Rightarrow> cpu_context" where
  "context_at m p =
     \<lparr>c_rax = read_u64 m p, c_rbx = read_u64 m (p + 0x8), c_rcx = read_u64 m (p + 0x10), c_rdx = read_u64 m (p + 0x18),
      c_rsp = read_u64 m (p + 0x20), c_rbp = read_u64 m (p + 0x28), c_rsi = read_u64 m (p + 0x30),
      c_rdi = read_u64 m (p + 0x38), c_r8 = read_u64 m (p + 0x40), c_r9 = read_u64 m (p + 0x48),
      c_r10 = read_u64 m (p + 0x50), c_r11 = read_u64 m (p + 0x58), c_r12 = read_u64 m (p + 0x60),
      c_r13 = read_u64 m (p + 0x68), c_r14 = read_u64 m (p + 0x70), c_r15 = read_u64 m (p + 0x78),
      c_rip = read_u64 m (p + 0x80), c_rflags = read_u64 m (p + 0x88),
      c_xmm = (\<lambda>i. if i < 16 then read_xmm m (p + 0x90 + of_nat i * 16) else (0, 0)),
      c_fxsave = (\<lambda>j. if j < 464 then m (p + 0x190 + of_nat j) else 0), c_mxcsr = read_u32 m (p + 0x390),
      c_cs = read_u16 m (p + 0x394), c_ds = read_u16 m (p + 0x396), c_es = read_u16 m (p + 0x398),
      c_fs = read_u16 m (p + 0x39a), c_gs = read_u16 m (p + 0x39c), c_ss = read_u16 m (p + 0x39e)\<rparr>"

definition context_of :: "asm_state \<Rightarrow> u64 \<Rightarrow> u64 \<Rightarrow> cpu_context" where
  "context_of s sp ip =
     \<lparr>c_rax = a_reg s RAX, c_rbx = a_reg s RBX, c_rcx = a_reg s RCX, c_rdx = a_reg s RDX, c_rsp = sp,
      c_rbp = a_reg s RBP, c_rsi = a_reg s RSI, c_rdi = a_reg s RDI, c_r8 = a_reg s R8, c_r9 = a_reg s R9,
      c_r10 = a_reg s R10, c_r11 = a_reg s R11, c_r12 = a_reg s R12, c_r13 = a_reg s R13, c_r14 = a_reg s R14,
      c_r15 = a_reg s R15, c_rip = ip, c_rflags = a_rflags s, c_xmm = (\<lambda>i. if i < 16 then a_xmm s i else (0, 0)),
      c_fxsave = (\<lambda>j. if j < 464 then fx_image s j else 0), c_mxcsr = a_mxcsr s,
      c_cs = a_seg s CS, c_ds = a_seg s DS, c_es = a_seg s ES, c_fs = a_seg s FS, c_gs = a_seg s GS, c_ss = a_seg s SS\<rparr>"

text \<open>The stores of a context as blocks: offset, size and bytes.\<close>

definition context_blocks :: "cpu_context \<Rightarrow> (nat \<times> nat \<times> (nat \<Rightarrow> u8)) list" where
  "context_blocks c =
     [(0, 8, byte_of (c_rax c)), (0x8, 8, byte_of (c_rbx c)), (0x10, 8, byte_of (c_rcx c)),
      (0x18, 8, byte_of (c_rdx c)), (0x20, 8, byte_of (c_rsp c)), (0x28, 8, byte_of (c_rbp c)),
      (0x30, 8, byte_of (c_rsi c)), (0x38, 8, byte_of (c_rdi c)), (0x40, 8, byte_of (c_r8 c)),
      (0x48, 8, byte_of (c_r9 c)), (0x50, 8, byte_of (c_r10 c)), (0x58, 8, byte_of (c_r11 c)),
      (0x60, 8, byte_of (c_r12 c)), (0x68, 8, byte_of (c_r13 c)), (0x70, 8, byte_of (c_r14 c)),
      (0x78, 8, byte_of (c_r15 c)), (0x80, 8, byte_of (c_rip c)), (0x88, 8, byte_of (c_rflags c)),
      (0x90, 16, xmm_byte (c_xmm c 0)), (0xa0, 16, xmm_byte (c_xmm c 1)), (0xb0, 16, xmm_byte (c_xmm c 2)),
      (0xc0, 16, xmm_byte (c_xmm c 3)), (0xd0, 16, xmm_byte (c_xmm c 4)), (0xe0, 16, xmm_byte (c_xmm c 5)),
      (0xf0, 16, xmm_byte (c_xmm c 6)), (0x100, 16, xmm_byte (c_xmm c 7)), (0x110, 16, xmm_byte (c_xmm c 8)),
      (0x120, 16, xmm_byte (c_xmm c 9)), (0x130, 16, xmm_byte (c_xmm c 10)), (0x140, 16, xmm_byte (c_xmm c 11)),
      (0x150, 16, xmm_byte (c_xmm c 12)), (0x160, 16, xmm_byte (c_xmm c 13)), (0x170, 16, xmm_byte (c_xmm c 14)),
      (0x180, 16, xmm_byte (c_xmm c 15)), (0x190, 464, c_fxsave c), (0x390, 4, byte_of (ucast (c_mxcsr c))),
      (0x394, 2, byte_of (ucast (c_cs c))), (0x396, 2, byte_of (ucast (c_ds c))), (0x398, 2, byte_of (ucast (c_es c))),
      (0x39a, 2, byte_of (ucast (c_fs c))), (0x39c, 2, byte_of (ucast (c_gs c))), (0x39e, 2, byte_of (ucast (c_ss c)))]"

section \<open>Blocks of memory\<close>

definition write_blocks :: "u64 \<Rightarrow> (nat \<times> nat \<times> (nat \<Rightarrow> u8)) list \<Rightarrow> memory \<Rightarrow> memory" where
  "write_blocks p bs m = fold (\<lambda>(k, n, f). write_block (p + of_nat k) n f) bs m"

fun blocks_ok :: "nat \<Rightarrow> (nat \<times> nat \<times> (nat \<Rightarrow> u8)) list \<Rightarrow> nat \<Rightarrow> bool" where
  "blocks_ok lo [] hi \<longleftrightarrow> lo \<le> hi"
| "blocks_ok lo ((k, n, f) # bs) hi \<longleftrightarrow> lo \<le> k \<and> blocks_ok (k + n) bs hi"

text \<open>Two ranges of addresses without a common byte.\<close>

definition apart :: "u64 \<Rightarrow> nat \<Rightarrow> u64 \<Rightarrow> nat \<Rightarrow> bool" where
  "apart p n a k \<longleftrightarrow> n \<le> unat (a - p) \<and> unat (a - p) + k \<le> 2 ^ 64"

lemma blocks_ok_le: "blocks_ok lo bs hi \<Longrightarrow> lo \<le> hi"
  by (induction lo bs hi rule: blocks_ok.induct) auto

lemma unat_offset_diff: "unat (p + of_nat x - (p + of_nat k) :: u64) = (if k \<le> x then x - k else x + 2 ^ 64 - k)"
  if "x < 2 ^ 64" and "k < 2 ^ 64"
proof -
  have u: "unat (of_nat x :: u64) = x" "unat (of_nat k :: u64) = k"
    using that by (simp_all add: unat_of_nat_u64)
  have "p + of_nat x - (p + of_nat k) = (of_nat x - of_nat k :: u64)" by simp
  then show ?thesis by (simp only: unat_sub_if' u) simp
qed

lemma write_block_outside:
  assumes "k + n < 2 ^ 64" and "x < 2 ^ 64" and "x < k \<or> k + n \<le> x"
  shows "write_block (p + of_nat k) n f m (p + of_nat x) = m (p + of_nat x)"
proof -
  have "k < 2 ^ 64" using assms by simp
  from unat_offset_diff [OF assms(2) this, of p] have "\<not> unat (p + of_nat x - (p + of_nat k)) < n" using assms by auto
  then show ?thesis by (simp only: write_block_def if_False)
qed

lemma write_block_inside:
  assumes "k + n < 2 ^ 64" and "j < n"
  shows "write_block (p + of_nat k) n f m (p + of_nat (k + j)) = f j"
proof -
  have "k + j < 2 ^ 64" "k < 2 ^ 64" using assms by simp_all
  from unat_offset_diff [OF this, of p] have "unat (p + of_nat (k + j) - (p + of_nat k)) = j" by simp
  then show ?thesis using assms(2) by (simp only: write_block_def if_True)
qed

lemma write_blocks_outside:
  assumes "blocks_ok lo bs hi" and "hi < 2 ^ 64" and "x < 2 ^ 64" and "x < lo \<or> hi \<le> x"
  shows "write_blocks p bs m (p + of_nat x) = m (p + of_nat x)"
  using assms
proof (induction bs arbitrary: lo m)
  case Nil
  then show ?case by (simp add: write_blocks_def)
next
  case (Cons b bs)
  obtain k n f where b: "b = (k, n, f)" by (cases b)
  have ok: "lo \<le> k" "blocks_ok (k + n) bs hi" using Cons.prems(1) b by simp_all
  have kn: "k + n < 2 ^ 64" "x < k \<or> k + n \<le> x" "x < k + n \<or> hi \<le> x"
    using blocks_ok_le [OF ok(2)] Cons.prems(2,4) ok(1) by auto
  show ?case
    using Cons.IH [OF ok(2) Cons.prems(2,3) kn(3), of "write_block (p + of_nat k) n f m"]
      write_block_outside [OF kn(1) Cons.prems(3) kn(2), of p f m] by (simp add: write_blocks_def b)
qed

lemma write_blocks_inside:
  assumes "blocks_ok lo bs hi" and "hi < 2 ^ 64" and "(k, n, f) \<in> set bs" and "j < n"
  shows "write_blocks p bs m (p + of_nat (k + j)) = f j"
  using assms
proof (induction bs arbitrary: lo m)
  case Nil
  then show ?case by simp
next
  case (Cons b bs)
  obtain k' n' f' where b: "b = (k', n', f')" by (cases b)
  have ok: "blocks_ok (k' + n') bs hi" using Cons.prems(1) b by simp
  show ?case
  proof (cases "b = (k, n, f)")
    case True
    have le: "k + n \<le> hi" using blocks_ok_le [OF ok] True b by simp
    have "write_blocks p bs (write_block (p + of_nat k) n f m) (p + of_nat (k + j)) =
        write_block (p + of_nat k) n f m (p + of_nat (k + j))"
      by (rule write_blocks_outside [OF ok Cons.prems(2)]) (use le True b Cons.prems(2,4) in auto)
    also have "\<dots> = f j" by (rule write_block_inside) (use le Cons.prems(2,4) in simp_all)
    finally show ?thesis unfolding write_blocks_def True by simp
  next
    case False
    then show ?thesis
      using Cons.IH [OF ok Cons.prems(2), of "write_block (p + of_nat k') n' f' m"] Cons.prems(3,4) b
      by (auto simp: write_blocks_def)
  qed
qed

lemma apart_offset:
  assumes "apart p n a k" and "j < k"
  shows "n \<le> unat (a + of_nat j - p)"
proof -
  have "a + of_nat j - p = of_nat (unat (a - p) + j)" by simp
  also have "unat \<dots> = unat (a - p) + j"
    using assms by (intro unat_of_nat_u64) (simp add: apart_def)
  finally show ?thesis using assms(1) by (simp add: apart_def)
qed

lemma write_blocks_apart:
  assumes "blocks_ok lo bs n" and "n < 2 ^ 64" and "n \<le> unat (x - p)"
  shows "write_blocks p bs m x = m x"
proof -
  have "p + of_nat (unat (x - p)) = x" by simp
  moreover have "unat (x - p) < 2 ^ 64" using unsigned_less [of "x - p"] by simp
  ultimately show ?thesis using write_blocks_outside [OF assms(1,2), of "unat (x - p)" p m] assms(3) by simp
qed

lemma read_le_write_blocks:
  "read_le k (write_blocks p bs m) a = read_le k m a" if "blocks_ok lo bs n" and "n < 2 ^ 64" and "apart p n a k"
  by (rule read_le_cong) (rule write_blocks_apart [OF that(1,2) apart_offset [OF that(3)]])

lemma read_le_apart: "read_le k (write_block p n f m) a = read_le k m a" if "apart p n a k"
  by (rule read_le_cong) (simp add: write_block_def leD [OF apart_offset [OF that]])

lemma apart_part:
  assumes "apart p n a k" and "c + n' \<le> n" and "d + k' \<le> k" and "0 < k'"
  shows "apart (p + of_nat c) n' (a + of_nat d) k'"
proof -
  let ?x = "unat (a - p) + d - c"
  have x: "c \<le> unat (a - p)" "n' \<le> ?x" "?x + k' \<le> 2 ^ 64" using assms by (auto simp: apart_def)
  have "a + of_nat d - (p + of_nat c) = (of_nat ?x :: u64)" using x(1) by (simp add: of_nat_diff algebra_simps)
  moreover have "unat (of_nat ?x :: u64) = ?x" using x assms(4) by (intro unat_of_nat_u64) simp
  ultimately show ?thesis using x by (simp only: apart_def)
qed

lemma apart_sym_part:
  assumes "apart p n a k" and "c + n' \<le> n" and "d + k' \<le> k" and "0 < n'"
  shows "apart (a + of_nat d) k' (p + of_nat c) n'"
proof -
  let ?x = "2 ^ 64 + c - (unat (a - p) + d)"
  have x: "unat (a - p) + d \<le> 2 ^ 64 + c" "k' \<le> ?x" "?x + n' \<le> 2 ^ 64" using assms by (auto simp: apart_def)
  have z: "of_nat (2 ^ 64) = (0 :: u64)" by (simp add: word_of_nat_eq_0_iff)
  have "p + of_nat c - (a + of_nat d) = (of_nat ?x :: u64)"
    by (simp only: of_nat_diff [OF x(1)] of_nat_add z) simp
  moreover have "unat (of_nat ?x :: u64) = ?x" using x assms(4) by (intro unat_of_nat_u64) simp
  ultimately show ?thesis using x by (simp only: apart_def)
qed

text \<open>Little-endian values from their bytes.\<close>

lemma read_le_bytes:
  assumes "n \<le> 8" and "\<And>j. j < n \<Longrightarrow> m (a + of_nat j) = byte_of v j"
  shows "read_le n m a = take_bit (8 * n) v"
proof (rule bit_eqI)
  fix i
  show "bit (read_le n m a) i \<longleftrightarrow> bit (take_bit (8 * n) v) i"
  proof (cases "i < 8 * n")
    case True
    then have "m (a + of_nat (i div 8)) = byte_of v (i div 8)" by (intro assms(2)) (simp add: less_mult_imp_div_less mult.commute)
    then show ?thesis using True assms(1) by (simp add: bit_read_le bit_byte_of bit_take_bit_iff)
  next
    case False
    then show ?thesis using assms(1) by (simp add: bit_read_le bit_take_bit_iff)
  qed
qed

lemma read_u64_bytes: "(\<And>j. j < 8 \<Longrightarrow> m (a + of_nat j) = byte_of v j) \<Longrightarrow> read_u64 m a = v"
  using read_le_bytes [of 8 m a v] take_bit_length_eq [of v] by (simp add: read_u64_def)

lemma read_u32_bytes: "read_u32 m a = v" if "\<And>j. j < 4 \<Longrightarrow> m (a + of_nat j) = byte_of (ucast v) j"
proof -
  have "ucast (take_bit 32 (ucast v :: u64)) = v" by (rule bit_eqI) (simp add: bit_simps)
  then show ?thesis using read_le_bytes [of 4 m a "ucast v"] that by (simp add: read_u32_def)
qed

lemma read_u16_bytes: "read_u16 m a = v" if "\<And>j. j < 2 \<Longrightarrow> m (a + of_nat j) = byte_of (ucast v) j"
proof -
  have "ucast (take_bit 16 (ucast v :: u64)) = v" by (rule bit_eqI) (simp add: bit_simps)
  then show ?thesis using read_le_bytes [of 2 m a "ucast v"] that by (simp add: read_u16_def)
qed

section \<open>Fields of a stored context\<close>

lemma read_u64_block: "read_u64 (write_blocks p bs m) (p + of_nat k) = v"
  if "blocks_ok lo bs hi" and "hi < 2 ^ 64" and "(k, 8, byte_of v) \<in> set bs"
  using write_blocks_inside [OF that] by (intro read_u64_bytes) (simp add: add.assoc)

lemma read_u32_block: "read_u32 (write_blocks p bs m) (p + of_nat k) = v"
  if "blocks_ok lo bs hi" and "hi < 2 ^ 64" and "(k, 4, byte_of (ucast v)) \<in> set bs"
  using write_blocks_inside [OF that] by (intro read_u32_bytes) (simp add: add.assoc)

lemma read_u16_block: "read_u16 (write_blocks p bs m) (p + of_nat k) = v"
  if "blocks_ok lo bs hi" and "hi < 2 ^ 64" and "(k, 2, byte_of (ucast v)) \<in> set bs"
  using write_blocks_inside [OF that] by (intro read_u16_bytes) (simp add: add.assoc)

lemma read_xmm_block: "read_xmm (write_blocks p bs m) (p + of_nat k) = v"
  if "blocks_ok lo bs hi" and "hi < 2 ^ 64" and "(k, 16, xmm_byte v) \<in> set bs"
proof -
  have w: "write_blocks p bs m (p + of_nat (k + j)) = xmm_byte v j" if "j < 16" for j
    by (rule write_blocks_inside) fact+
  have "read_u64 (write_blocks p bs m) (p + of_nat k) = fst v"
    by (rule read_u64_bytes) (use w in \<open>simp add: add.assoc xmm_byte_def\<close>)
  moreover have "read_u64 (write_blocks p bs m) (p + of_nat k + 8) = snd v"
  proof (rule read_u64_bytes)
    fix j :: nat
    assume "j < 8"
    then show "write_blocks p bs m (p + of_nat k + 8 + of_nat j) = byte_of (snd v) j"
      using w [of "8 + j"] by (simp add: add.assoc xmm_byte_def)
  qed
  ultimately show ?thesis by (simp add: read_xmm_def)
qed

lemma context_blocks_ok: "blocks_ok 0 (context_blocks c) 0x3a0"
  by (simp add: context_blocks_def)

lemmas context_field =
  read_u64_block [OF context_blocks_ok] read_u32_block [OF context_blocks_ok]
  read_u16_block [OF context_blocks_ok] read_xmm_block [OF context_blocks_ok]

section \<open>Execution\<close>

lemmas exec_simps = run_def set_reg_def store_block_def push_block_def

lemma run_append: "run flags (is @ js) s = run flags js (run flags is s)"
  by (simp add: run_def)

definition pushed :: "u64 \<Rightarrow> asm_state \<Rightarrow> memory" where
  "pushed q s = write_block q 8 (byte_of (a_reg s RCX)) (write_block (q + 8) 8 (byte_of (a_reg s RAX))
     (write_block (q + 16) 8 (byte_of (a_reg s RBP)) (write_block (q + 24) 8 (byte_of (a_rflags s)) (a_mem s))))"

lemma capture_prologue:
  assumes "a_reg s RSP = q + 32"
  shows "run flags [Pushfq, Push RBP, Mov RBP RSP, Push RAX, Push RCX] s =
    s\<lparr>a_reg := (a_reg s)(RBP := q + 16, RSP := q), a_mem := pushed q s\<rparr>"
  using assms by (simp add: exec_simps pushed_def add.commute)

text \<open>A read from the stack is not disturbed by the stores into the context.\<close>

lemma read_u64_stack:
  assumes "apart p 0x3a0 q 40" and "n \<le> 0x3a0" and "unat c \<le> 0x3a0 - n" and "unat d \<le> 32"
  shows "read_u64 (write_block (p + c) n f m) (d + q) = read_u64 m (d + q)"
  using read_le_apart [OF apart_part [OF assms(1), of "unat c" n "unat d" 8]] assms(2-)
  by (simp add: read_u64_def add.commute)

lemmas read_u64_stack_0 = read_u64_stack [where c = 0, simplified] read_u64_stack [where d = 0, simplified]
  read_u64_stack [where c = 0 and d = 0, simplified]

lemma fx_image_frame [simp]:
  "fx_image (s\<lparr>a_reg := r\<rparr>) = fx_image s" "fx_image (s\<lparr>a_mem := m\<rparr>) = fx_image s"
  by (simp_all add: fx_image_def fun_eq_iff)

lemma write_block_bounded [simp]: "write_block a n (\<lambda>j. if j < n then f j else z) = write_block a n f"
  by (simp add: write_block_def fun_eq_iff)

lemma store_context_run:
  assumes "apart (a_reg s RAX) 0x3a0 q 40" and "a_reg s RBP = q + 16"
  shows "run flags store_context s =
    s\<lparr>a_reg := (a_reg s)(RCX := read_u64 (a_mem s) (q + 24)),
      a_mem := write_blocks (a_reg s RAX) (context_blocks ((context_of s (q + 40) (read_u64 (a_mem s) (q + 32)))
        \<lparr>c_rax := read_u64 (a_mem s) (q + 8), c_rcx := read_u64 (a_mem s) q, c_rbp := read_u64 (a_mem s) (q + 16),
         c_rflags := read_u64 (a_mem s) (q + 24)\<rparr>)) (a_mem s)\<rparr>"
proof -
  note r = read_u64_stack [OF assms(1)] read_u64_stack_0 [OF assms(1)]
  show ?thesis
    by (simp add: exec_simps store_context_def context_blocks_def context_of_def write_blocks_def add.commute [of q] assms(2) r)
qed

text \<open>The stack of a capture: what was pushed, below the return address.\<close>

lemma pushed_read:
  "read_u64 (pushed q s) q = a_reg s RCX" "read_u64 (pushed q s) (q + 8) = a_reg s RAX"
  "read_u64 (pushed q s) (q + 16) = a_reg s RBP" "read_u64 (pushed q s) (q + 24) = a_rflags s"
  "read_u64 (pushed q s) (q + 32) = read_u64 (a_mem s) (q + 32)"
proof -
  have same: "read_u64 (write_block a 8 (byte_of v) m) a = v" for a v m
    by (rule read_u64_bytes) (simp add: write_block_def unat_of_nat take_bit_nat_eq_self)
  have other: "read_u64 (write_block a 8 f m) b = read_u64 m b" if "apart a 8 b 8" for a b f m
    using that by (simp add: read_u64_def read_le_apart)
  show "read_u64 (pushed q s) q = a_reg s RCX" "read_u64 (pushed q s) (q + 8) = a_reg s RAX"
    "read_u64 (pushed q s) (q + 16) = a_reg s RBP" "read_u64 (pushed q s) (q + 24) = a_rflags s"
    "read_u64 (pushed q s) (q + 32) = read_u64 (a_mem s) (q + 32)"
    by (simp_all add: pushed_def same other apart_def)
qed

definition captured :: "(u64 \<Rightarrow> u64 \<Rightarrow> u64) \<Rightarrow> u64 \<Rightarrow> u64 \<Rightarrow> asm_state \<Rightarrow> asm_state" where
  "captured flags p q s =
     s\<lparr>a_reg := (a_reg s)(RAX := p, RCX := a_rflags s, RSP := q + 40), a_rip := read_u64 (a_mem s) (q + 32),
       a_rflags := flags (q + 24) 8,
       a_mem := write_blocks p (context_blocks (context_of s (q + 40) (read_u64 (a_mem s) (q + 32)))) (pushed q s)\<rparr>"

lemma stored_run:
  assumes "apart p 0x3a0 q 40"
  shows "run flags store_context (s\<lparr>a_reg := (a_reg s)(RBP := q + 16, RSP := q, RAX := p), a_mem := pushed q s\<rparr>) =
    s\<lparr>a_reg := (a_reg s)(RBP := q + 16, RSP := q, RAX := p, RCX := a_rflags s),
      a_mem := write_blocks p (context_blocks (context_of s (q + 40) (read_u64 (a_mem s) (q + 32)))) (pushed q s)\<rparr>"
proof -
  let ?s = "s\<lparr>a_reg := (a_reg s)(RBP := q + 16, RSP := q, RAX := p), a_mem := pushed q s\<rparr>"
  have "context_of ?s sp ip\<lparr>c_rax := a_reg s RAX, c_rcx := a_reg s RCX, c_rbp := a_reg s RBP, c_rflags := a_rflags s\<rparr>
      = context_of s sp ip" for sp ip
    by (simp add: context_of_def cong: if_cong)
  then show ?thesis using store_context_run [of ?s q flags] assms by (simp add: pushed_read)
qed

lemma stack_read_after_store:
  assumes "apart p 0x3a0 q 40" and "d \<le> 32"
  shows "read_u64 (write_blocks p (context_blocks c) m) (q + of_nat d) = read_u64 m (q + of_nat d)"
proof -
  have "apart p 0x3a0 (q + of_nat d) 8" using apart_part [OF assms(1), of 0 "0x3a0" d 8] assms(2) by simp
  then show ?thesis unfolding read_u64_def by (intro read_le_write_blocks [OF context_blocks_ok]) simp_all
qed

lemma capture_epilogue:
  assumes "apart p 0x3a0 q 40"
  shows "run flags (store_context @ [Add RSP 0x10, Pop RBP, Add RSP 0x8, Ret])
      (s\<lparr>a_reg := (a_reg s)(RBP := q + 16, RSP := q, RAX := p), a_mem := pushed q s\<rparr>) = captured flags p q s"
  using stack_read_after_store [OF assms, of 16] stack_read_after_store [OF assms, of 32]
    pushed_read [of q s]
  unfolding run_append stored_run [OF assms]
  by (intro asm_state.equality) (simp_all add: captured_def exec_simps add.commute [of q] fun_eq_iff)

lemma capture_run:
  assumes "a_reg s RSP = q + 32" and "apart p 0x3a0 q 40"
    and "exec flags i (s\<lparr>a_reg := (a_reg s)(RBP := q + 16, RSP := q), a_mem := pushed q s\<rparr>) =
      s\<lparr>a_reg := (a_reg s)(RBP := q + 16, RSP := q, RAX := p), a_mem := pushed q s\<rparr>"
  shows "run flags ([Pushfq, Push RBP, Mov RBP RSP, Push RAX, Push RCX, i] @ store_context @
    [Add RSP 0x10, Pop RBP, Add RSP 0x8, Ret]) s = captured flags p q s"
proof -
  have e: "[Pushfq, Push RBP, Mov RBP RSP, Push RAX, Push RCX, i] = [Pushfq, Push RBP, Mov RBP RSP, Push RAX, Push RCX] @ [i]"
    by simp
  have i: "run flags [i] t = exec flags i t" for t by (simp add: run_def)
  show ?thesis
    using capture_epilogue [OF assms(2), of flags s] by (simp only: e run_append capture_prologue [OF assms(1)] i assms(3))
qed

lemma capture_context_run:
  assumes "a_reg s RSP = q + 32" and "apart (a_reg s RDI) 0x3a0 q 40"
  shows "run flags capture_context s = captured flags (a_reg s RDI) q s"
  unfolding capture_context_def by (rule capture_run [OF assms]) (simp add: set_reg_def)

lemma capture_into_stack_run:
  assumes "a_reg s RSP = q + 32"
  shows "run flags zpp_x64_capture_context_into_stack s = captured flags (q + 40) q s"
  unfolding zpp_x64_capture_context_into_stack_def
  by (rule capture_run [OF assms]) (simp_all add: set_reg_def apart_def add.commute [of q])

lemma less_16_cases: "(\<forall>i < 16. P i) \<longleftrightarrow> P 0 \<and> P 1 \<and> P 2 \<and> P 3 \<and> P 4 \<and> P 5 \<and> P 6 \<and> P 7 \<and>
    P 8 \<and> P 9 \<and> P 10 \<and> P 11 \<and> P 12 \<and> P 13 \<and> P 14 \<and> P (15 :: nat)"
  by (simp add: numeral_eq_Suc All_less_Suc conj_ac)

lemma context_blocks_xmm: "i < 16 \<Longrightarrow> (0x90 + 16 * i, 16, xmm_byte (c_xmm c i)) \<in> set (context_blocks c)"
proof -
  have "\<forall>i < 16. (0x90 + 16 * i, 16, xmm_byte (c_xmm c i)) \<in> set (context_blocks c)"
    unfolding less_16_cases by (simp add: context_blocks_def)
  then show "i < 16 \<Longrightarrow> ?thesis" by blast
qed

lemma context_at_written: "context_at (write_blocks p (context_blocks (context_of s sp ip)) m) p = context_of s sp ip"
proof -
  let ?c = "context_of s sp ip"
  let ?m = "write_blocks p (context_blocks ?c) m"
  have numeral: "(numeral w, 8, byte_of v) \<in> set (context_blocks ?c) \<Longrightarrow> read_u64 ?m (p + numeral w) = v"
    "(numeral w, 2, byte_of (ucast u)) \<in> set (context_blocks ?c) \<Longrightarrow> read_u16 ?m (p + numeral w) = u" for w v u
    using context_field(1) [of "numeral w" v ?c p m] context_field(3) [of "numeral w" u ?c p m] by simp_all
  have gpr:
    "read_u64 ?m (p + 0x8) = c_rbx ?c" "read_u64 ?m (p + 0x10) = c_rcx ?c" "read_u64 ?m (p + 0x18) = c_rdx ?c"
    "read_u64 ?m (p + 0x20) = c_rsp ?c" "read_u64 ?m (p + 0x28) = c_rbp ?c" "read_u64 ?m (p + 0x30) = c_rsi ?c"
    "read_u64 ?m (p + 0x38) = c_rdi ?c" "read_u64 ?m (p + 0x40) = c_r8 ?c" "read_u64 ?m (p + 0x48) = c_r9 ?c"
    "read_u64 ?m (p + 0x50) = c_r10 ?c" "read_u64 ?m (p + 0x58) = c_r11 ?c" "read_u64 ?m (p + 0x60) = c_r12 ?c"
    "read_u64 ?m (p + 0x68) = c_r13 ?c" "read_u64 ?m (p + 0x70) = c_r14 ?c" "read_u64 ?m (p + 0x78) = c_r15 ?c"
    "read_u64 ?m (p + 0x80) = c_rip ?c" "read_u64 ?m (p + 0x88) = c_rflags ?c"
    by (rule numeral, simp add: context_blocks_def)+
  have seg:
    "read_u16 ?m (p + 0x394) = c_cs ?c" "read_u16 ?m (p + 0x396) = c_ds ?c" "read_u16 ?m (p + 0x398) = c_es ?c"
    "read_u16 ?m (p + 0x39a) = c_fs ?c" "read_u16 ?m (p + 0x39c) = c_gs ?c" "read_u16 ?m (p + 0x39e) = c_ss ?c"
    by (rule numeral, simp add: context_blocks_def)+
  have rax: "read_u64 ?m p = c_rax ?c"
    using context_field(1) [of 0 "c_rax ?c" ?c p m] by (simp add: context_blocks_def)
  have mxcsr: "read_u32 ?m (p + 0x390) = c_mxcsr ?c"
    using context_field(2) [of "0x390" "c_mxcsr ?c" ?c p m] by (simp add: context_blocks_def)
  have xmm: "read_xmm ?m (p + 0x90 + of_nat i * 16) = c_xmm ?c i" if "i < 16" for i
    using context_field(4) [OF _ context_blocks_xmm [OF that], of p ?c m] by (simp add: add.assoc mult.commute)
  have fx: "?m (p + 0x190 + of_nat j) = c_fxsave ?c j" if "j < 464" for j
  proof -
    have "(0x190, 464, c_fxsave ?c) \<in> set (context_blocks ?c)" by (simp add: context_blocks_def)
    from write_blocks_inside [OF context_blocks_ok _ this that, of p m] show ?thesis by (simp add: add.assoc)
  qed
  have e: "c_xmm ?c = (\<lambda>i. if i < 16 then c_xmm ?c i else (0, 0))" "c_fxsave ?c = (\<lambda>j. if j < 464 then c_fxsave ?c j else 0)"
    by (simp_all add: context_of_def fun_eq_iff)
  show ?thesis
    by (intro cpu_context.equality) (simp_all add: context_at_def gpr seg rax mxcsr xmm fx flip: e cong: if_cong)
qed

section \<open>Restoring a context\<close>

fun context_reg :: "cpu_context \<Rightarrow> reg \<Rightarrow> u64" where
  "context_reg c RAX = c_rax c" | "context_reg c RBX = c_rbx c" | "context_reg c RCX = c_rcx c"
| "context_reg c RDX = c_rdx c" | "context_reg c RSP = c_rsp c" | "context_reg c RBP = c_rbp c"
| "context_reg c RSI = c_rsi c" | "context_reg c RDI = c_rdi c" | "context_reg c R8 = c_r8 c"
| "context_reg c R9 = c_r9 c" | "context_reg c R10 = c_r10 c" | "context_reg c R11 = c_r11 c"
| "context_reg c R12 = c_r12 c" | "context_reg c R13 = c_r13 c" | "context_reg c R14 = c_r14 c"
| "context_reg c R15 = c_r15 c"

definition loaded :: "asm_state \<Rightarrow> asm_state" where
  "loaded s =
     (let p = a_reg s RDI; m = a_mem s; c = context_at m p
      in s\<lparr>a_reg := (context_reg c)(RAX := p, RCX := a_reg s RCX, RSP := a_reg s RSP),
           a_mxcsr := read_u32 m (p + 0x1a8), a_xmm := (\<lambda>i. if i < 16 then c_xmm c i else a_xmm s i),
           a_fx := (\<lambda>j. if x87_byte j then c_fxsave c j else a_fx s j)\<rparr>)"

lemma restore_registers_run: "run flags restore_registers s = loaded s"
proof (rule asm_state.equality)
  let ?t = "run flags restore_registers s"
  note d = restore_registers_def exec_simps loaded_def Let_def context_at_def
  show "a_reg ?t = a_reg (loaded s)"
  proof
    fix r show "a_reg ?t r = a_reg (loaded s) r" by (cases r) (simp_all add: d)
  qed
  have "\<forall>i < 16. a_xmm ?t i = a_xmm (loaded s) i"
    unfolding less_16_cases by (simp add: d add.assoc)
  moreover have "a_xmm ?t i = a_xmm (loaded s) i" if "\<not> i < 16" for i
    using that by (simp add: d)
  ultimately show "a_xmm ?t = a_xmm (loaded s)" by blast
  show "a_fx ?t = a_fx (loaded s)" by (simp add: d x87_byte_def fun_eq_iff)
qed (simp_all add: restore_registers_def exec_simps loaded_def Let_def add.assoc)

text \<open>The reads of the context are not disturbed by the stores to the stack.\<close>

lemma read_u64_context:
  assumes "apart p 0x3a0 q 48" and "n \<le> 48" and "unat d \<le> 48 - n" and "unat c \<le> 0x398"
  shows "read_u64 (write_block (d + q) n f m) (p + c) = read_u64 m (p + c)"
  using read_le_apart [OF apart_sym_part [OF assms(1), of "unat c" 8 "unat d" n]] assms(2-)
  by (simp add: read_u64_def add.commute)

lemma read_u16_context:
  assumes "apart p 0x3a0 q 48" and "n \<le> 48" and "unat d \<le> 48 - n" and "unat c \<le> 0x39e"
  shows "read_u16 (write_block (d + q) n f m) (p + c) = read_u16 m (p + c)"
  using read_le_apart [OF apart_sym_part [OF assms(1), of "unat c" 2 "unat d" n]] assms(2-)
  by (simp add: read_u16_def add.commute)

lemmas read_context_0 = read_u64_context [where c = 0, simplified] read_u64_context [where d = 0, simplified]

text \<open>Reads of the frame.\<close>

lemma read_u64_pushed: "read_u64 (write_block a 8 (byte_of v) m) a = v"
  by (rule read_u64_bytes) (simp add: write_block_def unat_of_nat take_bit_nat_eq_self)

lemma read_u16_pushed: "read_u16 (write_block a 2 (byte_of (low_half x v)) m) a = v"
proof (rule read_u16_bytes)
  fix j :: nat
  assume j: "j < 2"
  have "byte_of (low_half x v) j = byte_of (ucast v) j"
  proof (rule bit_eqI)
    fix i
    show "bit (byte_of (low_half x v) j) i \<longleftrightarrow> bit (byte_of (ucast v) j) i"
      using j by (auto simp: bit_byte_of low_half_def bit_simps)
  qed
  then show "write_block a 2 (byte_of (low_half x v)) m (a + of_nat j) = byte_of (ucast v) j"
    using j by (simp add: write_block_def unat_of_nat take_bit_nat_eq_self)
qed

lemma read_pushed_other: "apart a n b 8 \<Longrightarrow> read_u64 (write_block a n f m) b = read_u64 m b"
  "apart a n b 2 \<Longrightarrow> read_u16 (write_block a n f m) b = read_u16 m b"
  by (simp_all add: read_u64_def read_u16_def read_le_apart)

lemma restore_frame_run:
  fixes flags
  assumes "a_reg s RSP = q + 48" and "apart (a_reg s RAX) 0x3a0 q 48"
  defines "m \<equiv> a_mem s" and "p \<equiv> a_reg s RAX" and "t \<equiv> run flags restore_frame s"
  shows "a_reg t = (a_reg s)(RAX := read_u64 m p, RCX := read_u64 m (p + 0x10), RSP := read_u64 m (p + 0x20))"
    and "a_rip t = read_u64 m (p + 0x80)" and "a_rflags t = read_u64 m (p + 0x88)"
    and "a_seg t = (a_seg s)(CS := read_u16 m (p + 0x394), SS := read_u16 m (p + 0x39e))"
    and "a_xmm t = a_xmm s" and "a_mxcsr t = a_mxcsr s" and "a_fx t = a_fx s"
proof -
  note r = read_u64_context [OF assms(2)] read_u16_context [OF assms(2)] read_context_0 [OF assms(2)]
    read_u64_pushed read_u16_pushed read_pushed_other
  note d = restore_frame_def exec_simps assms(1) r apart_def add.commute [of q] m_def p_def t_def Let_def
  show "a_reg t = (a_reg s)(RAX := read_u64 m p, RCX := read_u64 m (p + 0x10), RSP := read_u64 m (p + 0x20))"
    by (simp add: d fun_upd_twist)
  show "a_rip t = read_u64 m (p + 0x80)" by (simp add: d)
  show "a_rflags t = read_u64 m (p + 0x88)" by (simp add: d)
  show "a_seg t = (a_seg s)(CS := read_u16 m (p + 0x394), SS := read_u16 m (p + 0x39e))" by (simp add: d)
  show "a_xmm t = a_xmm s" "a_mxcsr t = a_mxcsr s" "a_fx t = a_fx s"
    by (simp_all add: restore_frame_def exec_simps t_def Let_def)
qed

lemma restore_context_run:
  fixes flags
  assumes "apart (a_reg s RDI) 0x3a0 (a_reg s RSP - 48) 48"
  defines "c \<equiv> context_at (a_mem s) (a_reg s RDI)" and "t \<equiv> run flags restore_context s"
  shows "a_reg t = context_reg c" and "a_rip t = c_rip c" and "a_rflags t = c_rflags c"
    and "a_seg t = (a_seg s)(CS := c_cs c, SS := c_ss c)"
    and "a_xmm t = (\<lambda>i. if i < 16 then c_xmm c i else a_xmm s i)"
    and "a_mxcsr t = read_u32 (a_mem s) (a_reg s RDI + 0x1a8)"
    and "a_fx t = (\<lambda>j. if x87_byte j then c_fxsave c j else a_fx s j)"
proof -
  let ?l = "loaded s"
  have t: "t = run flags restore_frame ?l" by (simp add: t_def restore_context_def run_append restore_registers_run)
  have l: "a_reg ?l RSP = a_reg s RSP - 48 + 48" "a_reg ?l RAX = a_reg s RDI" "a_mem ?l = a_mem s" "a_seg ?l = a_seg s"
    by (simp_all add: loaded_def Let_def)
  note f = restore_frame_run [of ?l "a_reg s RSP - 48" flags, OF l(1), unfolded l t [symmetric], OF assms(1)]
  show "a_reg t = context_reg c"
  proof
    fix r show "a_reg t r = context_reg c r" by (cases r) (simp_all add: f loaded_def Let_def c_def context_at_def)
  qed
  show "a_rip t = c_rip c" "a_rflags t = c_rflags c" "a_seg t = (a_seg s)(CS := c_cs c, SS := c_ss c)"
    by (simp_all add: f c_def context_at_def)
  show "a_xmm t = (\<lambda>i. if i < 16 then c_xmm c i else a_xmm s i)"
    "a_mxcsr t = read_u32 (a_mem s) (a_reg s RDI + 0x1a8)"
    "a_fx t = (\<lambda>j. if x87_byte j then c_fxsave c j else a_fx s j)"
    by (simp_all add: f loaded_def Let_def c_def cong: if_cong)
qed

lemma context_at_mxcsr: "read_u32 m (p + 0x1a8) = v"
  if "\<And>j. j < 4 \<Longrightarrow> c_fxsave (context_at m p) (24 + j) = byte_of (ucast v) j"
proof (rule read_u32_bytes)
  fix j :: nat
  assume "j < 4"
  then show "m (p + 0x1a8 + of_nat j) = byte_of (ucast v) j" using that [of j] by (simp add: context_at_def add.assoc)
qed

section \<open>The entry points\<close>

lemma unat_beyond:
  assumes "k \<le> unat (x - q)"
  shows "unat (x - (q + of_nat k) :: u64) = unat (x - q) - k"
proof -
  have "k < 2 ^ 64" using assms unsigned_less [where ?'a = nat and w = "x - q"] by simp
  then have k: "unat (of_nat k :: u64) = k" by (rule unat_of_nat_u64)
  then have "unat (x - q - of_nat k) = unat (x - q) - k" using assms by (simp add: unat_sub word_le_nat_alt)
  then show ?thesis by (simp add: diff_diff_eq)
qed

lemma pushed_frame: "32 \<le> unat (x - q) \<Longrightarrow> pushed q s x = a_mem s x"
  using unat_beyond [of 8 x q] unat_beyond [of 16 x q] unat_beyond [of 24 x q]
  by (auto simp: pushed_def write_block_def)

lemma captured_frame:
  "0x3a0 \<le> unat (x - p) \<Longrightarrow> 32 \<le> unat (x - q) \<Longrightarrow> a_mem (captured flags p q s) x = a_mem s x"
  by (simp add: captured_def write_blocks_apart [OF context_blocks_ok] pushed_frame)

text \<open>A called capture: the context lies above the return address.\<close>

lemma call_capture_run:
  assumes "a_reg s RSP = q + 40"
  shows "run flags ([Call ret] @ zpp_x64_capture_context_into_stack) s =
    captured flags (q + 40) q (s\<lparr>a_reg := (a_reg s)(RSP := q + 32), a_mem := write_block (q + 32) 8 (byte_of ret) (a_mem s)\<rparr>)"
proof -
  let ?s = "s\<lparr>a_reg := (a_reg s)(RSP := q + 32), a_mem := write_block (q + 32) 8 (byte_of ret) (a_mem s)\<rparr>"
  have "run flags [Call ret] s = ?s" using assms by (simp add: exec_simps add.commute [of q])
  moreover have "run flags zpp_x64_capture_context_into_stack ?s = captured flags (q + 40) q ?s"
    by (rule capture_into_stack_run) simp
  ultimately show ?thesis by (simp only: run_append)
qed

lemma context_of_frame: "context_of (s\<lparr>a_reg := (a_reg s)(RSP := v), a_mem := m\<rparr>) = context_of s"
  by (simp add: context_of_def fun_eq_iff)

lemma vm_exit_entry_run:
  fixes flags ret s
  defines "t \<equiv> run flags (vm_exit_entry ret) s"
  shows "a_reg t RDI = a_reg s RSP + 0x3a0" and "a_reg t RSP = a_reg s RSP - 8"
    and "context_at (a_mem t) (a_reg s RSP) = context_of s (a_reg s RSP) ret"
    and "0x3a0 + 40 \<le> unat (x - (a_reg s RSP - 40)) \<Longrightarrow> a_mem t x = a_mem s x"
proof -
  define q where "q = a_reg s RSP - 40"
  let ?s = "s\<lparr>a_reg := (a_reg s)(RSP := q + 32), a_mem := write_block (q + 32) 8 (byte_of ret) (a_mem s)\<rparr>"
  have sp: "a_reg s RSP = q + 40" by (simp add: q_def)
  have t: "t = run flags [Lea RDI RSP 0x3a0, Sub RSP 0x8] (captured flags (q + 40) q ?s)"
    unfolding t_def vm_exit_entry_def using call_capture_run [OF sp] by (simp only: append_assoc [symmetric] run_append)
  have m: "a_mem t = a_mem (captured flags (q + 40) q ?s)" by (simp add: t exec_simps)
  show "a_reg t RDI = a_reg s RSP + 0x3a0" "a_reg t RSP = a_reg s RSP - 8"
    by (simp_all add: t exec_simps captured_def sp)
  show "context_at (a_mem t) (a_reg s RSP) = context_of s (a_reg s RSP) ret"
    unfolding m sp captured_def by (simp add: context_at_written context_of_frame read_u64_pushed)
  assume "0x3a0 + 40 \<le> unat (x - (a_reg s RSP - 40))"
  then have x: "968 \<le> unat (x - q)" by (simp add: q_def)
  then have "a_mem t x = a_mem ?s x"
    unfolding m using unat_beyond [of 40 x q] by (intro captured_frame) simp_all
  also have "\<dots> = a_mem s x" using x unat_beyond [of 32 x q] by (auto simp: write_block_def)
  finally show "a_mem t x = a_mem s x" .
qed

text \<open>Changes of \<open>rip\<close> and \<open>rsp\<close> in a stored context.\<close>

lemma apart_fields:
  "k + n \<le> x \<Longrightarrow> x + l \<le> 2 ^ 32 \<Longrightarrow> apart (p + of_nat k) n (p + of_nat x) l"
proof -
  assume a: "k + n \<le> x" "x + l \<le> 2 ^ 32"
  have "p + of_nat x - (p + of_nat k) = (of_nat (x - k) :: u64)" using a(1) by (simp add: of_nat_diff)
  moreover have "unat (of_nat (x - k) :: u64) = x - k" using a by (intro unat_of_nat_u64) simp
  ultimately show ?thesis using a by (simp only: apart_def) auto
qed

lemma context_at_store:
  "context_at (write_block (p + 0x80) 8 (byte_of v) m) p = (context_at m p)\<lparr>c_rip := v\<rparr>"
  "context_at (write_block (p + 0x20) 8 (byte_of v) m) p = (context_at m p)\<lparr>c_rsp := v\<rparr>"
  "context_at (write_block p 8 (byte_of v) m) p = (context_at m p)\<lparr>c_rax := v\<rparr>"
proof -
  have x: "read_xmm (write_block (p + of_nat k) 8 f m) (p + 0x90 + of_nat i * 16) = read_xmm m (p + 0x90 + of_nat i * 16)"
    if "i < 16" "k \<le> 0x88" for i k f
    using apart_fields [of k 8 "0x90 + i * 16" 8 p] apart_fields [of k 8 "0x90 + i * 16 + 8" 8 p] that
    by (simp add: read_xmm_def read_pushed_other add.assoc)
  have f: "write_block (p + of_nat k) 8 f m (p + 0x190 + of_nat j) = m (p + 0x190 + of_nat j)"
    if "j < 464" "k \<le> 0x88" for j k f
    using write_block_outside [of k 8 "0x190 + j" p f m] that by (simp add: add.assoc)
  have r32: "read_u32 (write_block (p + of_nat k) 8 f m) (p + 0x390) = read_u32 m (p + 0x390)" if "k \<le> 0x88" for k f
    using apart_fields [of k 8 "0x390" 4 p] that by (simp add: read_u32_def read_le_apart)
  show "context_at (write_block (p + 0x80) 8 (byte_of v) m) p = (context_at m p)\<lparr>c_rip := v\<rparr>"
    using x [of _ "0x80"] f [of _ "0x80"] r32 [of "0x80"]
    by (simp add: context_at_def read_pushed_other read_u64_pushed apart_def cong: if_cong)
  show "context_at (write_block (p + 0x20) 8 (byte_of v) m) p = (context_at m p)\<lparr>c_rsp := v\<rparr>"
    using x [of _ "0x20"] f [of _ "0x20"] r32 [of "0x20"]
    by (simp add: context_at_def read_pushed_other read_u64_pushed apart_def cong: if_cong)
  show "context_at (write_block p 8 (byte_of v) m) p = (context_at m p)\<lparr>c_rax := v\<rparr>"
    using x [of _ 0] f [of _ 0] r32 [of 0]
    by (simp add: context_at_def read_pushed_other read_u64_pushed apart_def cong: if_cong)
qed

lemma start_entry_run:
  fixes flags ret s
  defines "t \<equiv> run flags (start_entry ret) s"
  shows "a_reg t RDI = a_reg s RSP - 0x3a8" and "a_reg t RSP = a_reg s RSP - 0x3b0"
    and "context_at (a_mem t) (a_reg t RDI) =
      (context_of s (a_reg s RSP + 8) (read_u64 (a_mem s) (a_reg s RSP)))\<lparr>c_rflags := flags (a_reg s RSP) (- 0x3a8)\<rparr>"
    and "0x3d0 \<le> unat (x - (a_reg s RSP - 0x3d0)) \<Longrightarrow> a_mem t x = a_mem s x"
proof -
  define q where "q = a_reg s RSP - 0x3d0"
  have sp: "a_reg s RSP = q + 0x3d0" by (simp add: q_def)
  let ?s = "s\<lparr>a_rflags := flags (q + 0x3d0) (- 0x3a8), a_reg := (a_reg s)(RSP := q + 40)\<rparr>"
  let ?c = "s\<lparr>a_rflags := flags (q + 0x3d0) (- 0x3a8), a_reg := (a_reg s)(RSP := q + 32),
    a_mem := write_block (q + 32) 8 (byte_of ret) (a_mem s)\<rparr>"
  let ?u = "captured flags (q + 40) q ?c"
  let ?tail = "[Mov RAX RSP, Mov_load R10 RSP 0x3a8, Mov_store RAX 0x80 R10, Lea R10 RSP 0x3b0, Mov_store RAX 0x20 R10,
      Mov RDI RAX, Sub RSP 0x8]"
  have e: "start_entry ret = [Sub RSP 0x3a8] @ ([Call ret] @ zpp_x64_capture_context_into_stack) @ ?tail"
    by (simp add: start_entry_def)
  have sub: "run flags [Sub RSP 0x3a8] s = ?s" by (simp add: exec_simps sp add.commute [of q])
  have capture: "run flags ([Call ret] @ zpp_x64_capture_context_into_stack) ?s = ?u"
    using call_capture_run [of ?s q flags ret] by simp
  have t: "t = run flags ?tail ?u"
    unfolding t_def e run_append [of flags "[Sub RSP 0x3a8]"] sub
      run_append [of flags "[Call ret] @ zpp_x64_capture_context_into_stack"] capture ..
  have above: "a_mem ?u y = a_mem s y" if "0x3d0 \<le> unat (y - q)" for y
  proof -
    have "a_mem ?u y = a_mem ?c y" using unat_beyond [of 40 y q] that by (intro captured_frame) simp_all
    then show ?thesis using unat_beyond [of 32 y q] that by (auto simp: write_block_def)
  qed
  have same: "a_mem ?u (q + 0x3d0 + of_nat j) = a_mem s (q + 0x3d0 + of_nat j)" if "j < 8" for j
  proof (rule above)
    have "q + 0x3d0 + of_nat j - q = of_nat (0x3d0 + j)" by simp
    also have "unat \<dots> = 0x3d0 + j" using that by (intro unat_of_nat_u64) simp
    finally show "0x3d0 \<le> unat (q + 0x3d0 + of_nat j - q)" by simp
  qed
  have ret: "read_u64 (a_mem ?u) (q + 0x3d0) = read_u64 (a_mem s) (q + 0x3d0)"
    unfolding read_u64_def by (rule read_le_cong) (rule same)
  show rdi: "a_reg t RDI = a_reg s RSP - 0x3a8" and "a_reg t RSP = a_reg s RSP - 0x3b0"
    by (simp_all add: t exec_simps captured_def sp add.commute [of q])
  have sp': "a_reg ?u RSP = q + 40" by (simp add: captured_def)
  have m: "a_mem t = write_block (q + 40 + 0x20) 8 (byte_of (q + 0x3d8))
      (write_block (q + 40 + 0x80) 8 (byte_of (read_u64 (a_mem s) (q + 0x3d0))) (a_mem ?u))"
    using ret by (simp add: t exec_simps sp' add.assoc)
  have "context_of ?c = (\<lambda>sp ip. (context_of s sp ip)\<lparr>c_rflags := flags (q + 0x3d0) (- 0x3a8)\<rparr>)"
    by (simp add: context_of_def fx_image_def fun_eq_iff)
  then have "context_at (a_mem ?u) (q + 40) =
      (context_of s (q + 40) ret)\<lparr>c_rflags := flags (q + 0x3d0) (- 0x3a8)\<rparr>"
    using context_at_written [of "q + 40" ?c "q + 40" ret] by (simp add: captured_def read_u64_pushed)
  moreover have "a_reg t RDI = q + 40" by (simp add: rdi sp add.commute [of q])
  ultimately show "context_at (a_mem t) (a_reg t RDI) =
      (context_of s (a_reg s RSP + 8) (read_u64 (a_mem s) (a_reg s RSP)))\<lparr>c_rflags := flags (a_reg s RSP) (- 0x3a8)\<rparr>"
    by (simp only: sp m context_at_store) (simp add: context_of_def add.commute [of q])
  assume "0x3d0 \<le> unat (x - (a_reg s RSP - 0x3d0))"
  then have x: "0x3d0 \<le> unat (x - q)" by (simp add: q_def)
  then show "a_mem t x = a_mem s x"
    using unat_beyond [of "0x48" x q] unat_beyond [of "0xa8" x q] above [OF x]
    by (auto simp: m write_block_def add.commute [of q])
qed

text \<open>A context depends on its bytes only.\<close>

lemma read_le_context:
  assumes "\<And>j. j < 0x3a0 \<Longrightarrow> m (p + of_nat j) = m' (p + of_nat j)" and "k + n \<le> 0x3a0"
  shows "read_le n m (p + of_nat k) = read_le n m' (p + of_nat k)"
proof (rule read_le_cong)
  fix j
  assume "j < n"
  then show "m (p + of_nat k + of_nat j) = m' (p + of_nat k + of_nat j)"
    using assms(1) [of "k + j"] assms(2) by (simp add: add.assoc)
qed

lemma context_at_cong:
  assumes "\<And>j. j < 0x3a0 \<Longrightarrow> m (p + of_nat j) = m' (p + of_nat j)"
  shows "context_at m p = context_at m' p"
proof -
  have "unat c + n \<le> 0x3a0 \<Longrightarrow> read_le n m (p + c) = read_le n m' (p + c)" for n c
    using read_le_context [of m p m' "unat c" n, OF assms] by simp
  then have r: "unat c \<le> 0x398 \<Longrightarrow> read_u64 m (p + c) = read_u64 m' (p + c)"
    "unat c \<le> 0x39c \<Longrightarrow> read_u32 m (p + c) = read_u32 m' (p + c)"
    "unat c \<le> 0x39e \<Longrightarrow> read_u16 m (p + c) = read_u16 m' (p + c)" for c
    by (simp_all add: read_u64_def read_u32_def read_u16_def)
  have x: "read_xmm m (p + 0x90 + of_nat i * 16) = read_xmm m' (p + 0x90 + of_nat i * 16)" if "i < 16" for i
    using read_le_context [of m p m' "0x90 + i * 16" 8, OF assms] read_le_context [of m p m' "0x90 + i * 16 + 8" 8, OF assms] that
    by (simp add: read_xmm_def read_u64_def add.assoc)
  have f: "m (p + 0x190 + of_nat j) = m' (p + 0x190 + of_nat j)" if "j < 464" for j
    using assms [of "0x190 + j"] that by (simp add: add.assoc)
  show ?thesis using r(1) [of 0] by (simp add: context_at_def r x f cong: if_cong)
qed

section \<open>Properties\<close>

text \<open>A state for examples: the context at \<open>0x10000\<close>, the stack below \<open>0x20000\<close>, where the return address is.\<close>

definition sample_state :: asm_state where
  "sample_state = \<lparr>a_reg = (\<lambda>_. 0)(RBX := 7, RDI := 0x10000, RSP := 0x20000), a_rip = 0x1000, a_rflags = 2,
     a_xmm = (\<lambda>_. (0, 0)), a_mxcsr = 0x1f80, a_fx = (\<lambda>_. 0), a_seg = (\<lambda>_. 0x10),
     a_mem = write_block 0x20000 8 (byte_of 0x1234) (\<lambda>_. 0)\<rparr>"

text \<open>C33: A context round trip.  Restoring a context that \<open>capture_context\<close> stored, from any later state whose stack
  does not overlap it, continues after the call of \<open>capture_context\<close> with the registers, the flags, the vector
  registers, \<open>mxcsr\<close>, the x87 state, \<open>cs\<close> and \<open>ss\<close> of that moment; \<open>ds\<close>, \<open>es\<close>, \<open>fs\<close> and \<open>gs\<close> are stored and not
  restored.\<close>

theorem context_round_trip:
  fixes flags flags' :: "u64 \<Rightarrow> u64 \<Rightarrow> u64"
  assumes "apart (a_reg s RDI) 0x3a0 (a_reg s RSP - 32) 40"
    and "a_reg s' RDI = a_reg s RDI" and "apart (a_reg s RDI) 0x3a0 (a_reg s' RSP - 48) 48"
    and "context_at (a_mem s') (a_reg s RDI) = context_at (a_mem (run flags capture_context s)) (a_reg s RDI)"
  shows "let t = run flags' restore_context s' in
    a_reg t = (a_reg s)(RSP := a_reg s RSP + 8) \<and> a_rip t = read_u64 (a_mem s) (a_reg s RSP) \<and>
    a_rflags t = a_rflags s \<and> (\<forall>i. i < 16 \<longrightarrow> a_xmm t i = a_xmm s i) \<and> a_mxcsr t = a_mxcsr s \<and>
    (\<forall>j. x87_byte j \<longrightarrow> a_fx t j = a_fx s j) \<and> a_seg t = (a_seg s')(CS := a_seg s CS, SS := a_seg s SS)"
proof -
  let ?p = "a_reg s RDI" and ?q = "a_reg s RSP - 32"
  let ?c = "context_of s (a_reg s RSP + 8) (read_u64 (a_mem s) (a_reg s RSP))"
  have "run flags capture_context s = captured flags ?p ?q s"
    by (rule capture_context_run [OF _ assms(1)]) simp
  then have c: "context_at (a_mem s') ?p = ?c"
    using assms(4) by (simp add: captured_def context_at_written add.commute)
  have "apart (a_reg s' RDI) 0x3a0 (a_reg s' RSP - 48) 48" using assms(2,3) by simp
  note r = restore_context_run [OF this, of flags', unfolded assms(2) c]
  have "context_reg ?c = (a_reg s)(RSP := a_reg s RSP + 8)"
  proof
    fix x show "context_reg ?c x = ((a_reg s)(RSP := a_reg s RSP + 8)) x" by (cases x) (simp_all add: context_of_def)
  qed
  moreover have "read_u32 (a_mem s') (?p + 0x1a8) = a_mxcsr s"
    by (rule context_at_mxcsr) (simp add: c context_of_def fx_image_def)
  ultimately show ?thesis by (simp add: r context_of_def fx_image_def x87_byte_def)
qed

theorem context_round_trip_witness:
  "let s' = (run (+) capture_context sample_state)\<lparr>a_reg := (\<lambda>_. 0)(RDI := 0x10000, RSP := 0x30000)\<rparr>;
       t = run (+) restore_context s'
   in a_reg t = (\<lambda>_. 0)(RBX := 7, RDI := 0x10000, RSP := 0x20008) \<and> a_rip t = 0x1234 \<and> a_rflags t = 2 \<and>
      a_mxcsr t = 0x1f80 \<and> a_seg t CS = 0x10"
proof -
  let ?s' = "(run (+) capture_context sample_state)\<lparr>a_reg := (\<lambda>_. 0)(RDI := 0x10000, RSP := 0x30000)\<rparr>"
  have "apart (a_reg sample_state RDI) 0x3a0 (a_reg sample_state RSP - 32) 40"
    "a_reg ?s' RDI = a_reg sample_state RDI" "apart (a_reg sample_state RDI) 0x3a0 (a_reg ?s' RSP - 48) 48"
    "context_at (a_mem ?s') (a_reg sample_state RDI) =
      context_at (a_mem (run (+) capture_context sample_state)) (a_reg sample_state RDI)"
    by (simp_all add: sample_state_def apart_def)
  from context_round_trip [OF this, of "(+)"] show ?thesis
    by (simp add: Let_def sample_state_def read_u64_pushed fun_upd_twist)
qed

text \<open>C34: The entry points hand over contexts.  \<open>_start\<close> calls \<open>zpp_hypervisor_main\<close> with a pointer to a context on
  its stack that holds the registers of its caller and returns to it: \<open>rip\<close> is the return address, \<open>rsp\<close> the
  stack pointer after the return, and only the flags are those after the first subtraction.
  \<open>vm_exit_entry\<close> stores the registers at the exit in the context the stack pointer of the host points to,
  and calls \<open>zpp_vm_exit\<close> with the address of the context that follows, whose contents it leaves alone.\<close>

theorem entry_points_pass_contexts:
  fixes flags
  shows "(let t = run flags (start_entry ret) s; sp = a_reg s RSP in
     a_reg t RDI = sp - 0x3a8 \<and> a_reg t RSP = sp - 0x3b0 \<and>
     context_at (a_mem t) (sp - 0x3a8) = (context_of s (sp + 8) (read_u64 (a_mem s) sp))\<lparr>c_rflags := flags sp (- 0x3a8)\<rparr>) \<and>
   (let t = run flags (vm_exit_entry ret) s; sp = a_reg s RSP in
     a_reg t RDI = sp + sizeof_context \<and> a_reg t RSP = sp - 8 \<and>
     context_at (a_mem t) sp = context_of s sp ret \<and>
     context_at (a_mem t) (sp + sizeof_context) = context_at (a_mem s) (sp + sizeof_context))"
proof -
  have "a_mem (run flags (vm_exit_entry ret) s) (a_reg s RSP + 0x3a0 + of_nat j) = a_mem s (a_reg s RSP + 0x3a0 + of_nat j)"
    if "j < 0x3a0" for j
  proof (rule vm_exit_entry_run(4))
    have "a_reg s RSP + 0x3a0 + of_nat j - (a_reg s RSP - 40) = of_nat (0x3a0 + 40 + j)" by simp
    also have "unat \<dots> = 0x3a0 + 40 + j" using that by (intro unat_of_nat_u64) simp
    finally show "0x3a0 + 40 \<le> unat (a_reg s RSP + 0x3a0 + of_nat j - (a_reg s RSP - 40))" by simp
  qed
  then have "context_at (a_mem (run flags (vm_exit_entry ret) s)) (a_reg s RSP + 0x3a0) =
      context_at (a_mem s) (a_reg s RSP + 0x3a0)"
    by (rule context_at_cong)
  then show ?thesis
    using start_entry_run(1-3) [where flags = flags and ret = ret and s = s]
      vm_exit_entry_run(1-3) [where flags = flags and ret = ret and s = s] by (simp add: Let_def sizeof_context_def)
qed

end
