(* ===== verification/Thunks.thy ===== *)
theory Thunks
  imports Context_Asm
begin

text \<open>
  The calling convention thunks of the loaders for Windows and UEFI (\<^verbatim>\<open>windows_loader/src/main.cpp\<close>,
  \<^verbatim>\<open>uefi_loader/src/main.cpp\<close>), as programs of the machine of \<open>Context_Asm\<close>.  A thunk calls a function
  that is code outside of it: a parameter, with what its convention promises as hypotheses.
\<close>

section \<open>The programs\<close>

text \<open>The instructions before the call, with the return address it pushes, and those after it.  The loader
  for UEFI has the same \<open>invoke_entry\<close>.\<close>

definition invoke_entry_call :: "u64 \<Rightarrow> instr list" where
  "invoke_entry_call ret = [Push RDI, Push RSI, Mov RDI RDX, Mov RSI R8, Sub RSP 0x8, Call ret]"

definition invoke_entry_return :: "instr list" where
  "invoke_entry_return = [Add RSP 0x8, Pop RSI, Pop RDI, Ret]"

definition invoke_entry ::
  "(u64 \<Rightarrow> u64 \<Rightarrow> u64) \<Rightarrow> u64 \<Rightarrow> (u64 \<Rightarrow> asm_state \<Rightarrow> asm_state) \<Rightarrow> asm_state \<Rightarrow> asm_state" where
  "invoke_entry flags ret callee s = run flags invoke_entry_return (callee (a_reg s RCX) (run flags (invoke_entry_call ret) s))"

definition uefi_invoke_entry ::
  "(u64 \<Rightarrow> u64 \<Rightarrow> u64) \<Rightarrow> u64 \<Rightarrow> (u64 \<Rightarrow> asm_state \<Rightarrow> asm_state) \<Rightarrow> asm_state \<Rightarrow> asm_state" where
  "uefi_invoke_entry flags ret callee s =
     run flags [Add RSP 0x8, Pop RSI, Pop RDI, Ret]
       (callee (a_reg s RCX) (run flags [Push RDI, Push RSI, Mov RDI RDX, Mov RSI R8, Sub RSP 0x8, Call ret] s))"

definition invoke_physical_to_virtual_call :: "u64 \<Rightarrow> instr list" where
  "invoke_physical_to_virtual_call ret = [Mov RCX RDI, Sub RSP 0x28, Call ret]"

definition invoke_physical_to_virtual_return :: "instr list" where
  "invoke_physical_to_virtual_return = [Add RSP 0x28, Ret]"

definition invoke_physical_to_virtual ::
  "(u64 \<Rightarrow> u64 \<Rightarrow> u64) \<Rightarrow> u64 \<Rightarrow> (asm_state \<Rightarrow> asm_state) \<Rightarrow> asm_state \<Rightarrow> asm_state" where
  "invoke_physical_to_virtual flags ret callee s =
     run flags invoke_physical_to_virtual_return (callee (run flags (invoke_physical_to_virtual_call ret) s))"

text \<open>The loader for UEFI runs the same instructions.\<close>

lemma uefi_invoke_entry_same: "uefi_invoke_entry flags ret callee s = invoke_entry flags ret callee s"
  by (simp add: uefi_invoke_entry_def invoke_entry_def invoke_entry_call_def invoke_entry_return_def)

section \<open>Conventions\<close>

text \<open>The general registers a function preserves, in the convention of the System V ABI and in that of Microsoft.\<close>

definition sysv_preserved :: "reg set" where
  "sysv_preserved = {RBX, RBP, R12, R13, R14, R15}"

definition microsoft_preserved :: "reg set" where
  "microsoft_preserved = {RBX, RBP, RDI, RSI, R12, R13, R14, R15}"

text \<open>A call returned: from the entry state, where the stack pointer is at the return address, to a state with the
  stack pointer above it, the preserved registers as they were and the caller's stack from \<open>k\<close> to \<open>n\<close> bytes
  above the return address intact.\<close>

definition call_returns :: "reg set \<Rightarrow> nat \<Rightarrow> nat \<Rightarrow> asm_state \<Rightarrow> asm_state \<Rightarrow> bool" where
  "call_returns keep k n s t \<longleftrightarrow>
     a_reg t RSP = a_reg s RSP + 8 \<and> (\<forall>r \<in> keep. a_reg t r = a_reg s r) \<and>
     (\<forall>j. k \<le> j \<and> j < n \<longrightarrow> a_mem t (a_reg s RSP + 8 + of_nat j) = a_mem s (a_reg s RSP + 8 + of_nat j))"

lemma call_returns_read:
  assumes "call_returns keep k n s t" and "k \<le> d" and "d + 8 \<le> n"
  shows "read_u64 (a_mem t) (a_reg s RSP + 8 + of_nat d) = read_u64 (a_mem s) (a_reg s RSP + 8 + of_nat d)"
  unfolding read_u64_def
proof (rule read_le_cong)
  fix j :: nat
  assume "j < 8"
  then show "a_mem t (a_reg s RSP + 8 + of_nat d + of_nat j) = a_mem s (a_reg s RSP + 8 + of_nat d + of_nat j)"
    using assms unfolding call_returns_def by (metis (no_types, lifting) add.assoc add_less_le_mono le_add1 le_trans nat_add_left_cancel_less of_nat_add less_le_trans)
qed

section \<open>The thunks\<close>

lemma invoke_entry_call_run:
  assumes "a_reg s RSP = q + 32"
  shows "run flags (invoke_entry_call ret) s =
    s\<lparr>a_reg := (a_reg s)(RDI := a_reg s RDX, RSI := a_reg s R8, RSP := q), a_rflags := flags (q + 16) (- 8),
      a_mem := write_block q 8 (byte_of ret) (write_block (q + 16) 8 (byte_of (a_reg s RSI))
        (write_block (q + 24) 8 (byte_of (a_reg s RDI)) (a_mem s)))\<rparr>"
  using assms by (intro asm_state.equality) (simp_all add: invoke_entry_call_def exec_simps add.commute [of q] fun_eq_iff)

lemma invoke_entry_frame:
  "read_u64 (write_block q 8 f (write_block (q + 16) 8 (byte_of v) (write_block (q + 24) 8 (byte_of w) m))) (q + 16) = v"
  "read_u64 (write_block q 8 f (write_block (q + 16) 8 (byte_of v) (write_block (q + 24) 8 (byte_of w) m))) (q + 24) = w"
  "read_u64 (write_block q 8 f (write_block (q + 16) 8 (byte_of v) (write_block (q + 24) 8 (byte_of w) m))) (q + 32) = read_u64 m (q + 32)"
  by (simp_all add: read_pushed_other read_u64_pushed apart_def)

lemma invoke_entry_contract:
  assumes "call_returns sysv_preserved 8 32 (run flags (invoke_entry_call ret) s) r"
    and "r = callee (a_reg s RCX) (run flags (invoke_entry_call ret) s)"
  shows "let e = run flags (invoke_entry_call ret) s; t = invoke_entry flags ret callee s in
    a_reg e RDI = a_reg s RDX \<and> a_reg e RSI = a_reg s R8 \<and> a_reg e RSP = a_reg s RSP - 32 \<and>
    a_rip t = read_u64 (a_mem s) (a_reg s RSP) \<and> a_reg t RSP = a_reg s RSP + 8 \<and>
    (\<forall>x \<in> microsoft_preserved. a_reg t x = a_reg s x) \<and> a_reg t RAX = a_reg r RAX \<and> a_xmm t = a_xmm r"
proof -
  define q where "q = a_reg s RSP - 32"
  have sp: "a_reg s RSP = q + 32" by (simp add: q_def)
  let ?e = "run flags (invoke_entry_call ret) s"
  note e = invoke_entry_call_run [OF sp, of flags ret]
  have esp: "a_reg ?e RSP = q" by (simp add: e)
  have r: "a_reg r RSP = q + 8" "\<And>x. x \<in> sysv_preserved \<Longrightarrow> a_reg r x = a_reg ?e x"
    using assms(1) esp by (simp_all add: call_returns_def)
  have m: "read_u64 (a_mem r) (q + 16) = a_reg s RSI" "read_u64 (a_mem r) (q + 24) = a_reg s RDI"
    "read_u64 (a_mem r) (q + 32) = read_u64 (a_mem s) (q + 32)"
    using call_returns_read [OF assms(1), of 8] call_returns_read [OF assms(1), of 16] call_returns_read [OF assms(1), of 24]
    by (simp_all add: esp e add.assoc invoke_entry_frame)
  have t: "invoke_entry flags ret callee s = run flags invoke_entry_return r" by (simp add: invoke_entry_def assms(2))
  show ?thesis
    using r(1) r(2) [unfolded e] m unfolding Let_def t e
    by (simp add: sp invoke_entry_return_def exec_simps add.commute [of q] sysv_preserved_def microsoft_preserved_def)
qed

text \<open>A function of Windows may use the 32 bytes above its return address.\<close>

lemma invoke_physical_to_virtual_contract:
  assumes "call_returns microsoft_preserved 0x28 0x30 (run flags (invoke_physical_to_virtual_call ret) s) r"
    and "r = callee (run flags (invoke_physical_to_virtual_call ret) s)"
  shows "let e = run flags (invoke_physical_to_virtual_call ret) s; t = invoke_physical_to_virtual flags ret callee s in
    a_reg e RCX = a_reg s RDI \<and> a_reg e RSP = a_reg s RSP - 0x30 \<and>
    a_rip t = read_u64 (a_mem s) (a_reg s RSP) \<and> a_reg t RSP = a_reg s RSP + 8 \<and>
    (\<forall>x \<in> sysv_preserved. a_reg t x = a_reg s x) \<and> a_reg t RAX = a_reg r RAX"
proof -
  define q where "q = a_reg s RSP - 0x30"
  have sp: "a_reg s RSP = q + 0x30" by (simp add: q_def)
  let ?e = "run flags (invoke_physical_to_virtual_call ret) s"
  have e: "?e = s\<lparr>a_reg := (a_reg s)(RCX := a_reg s RDI, RSP := q), a_rflags := flags (q + 0x30) (- 0x28),
      a_mem := write_block q 8 (byte_of ret) (a_mem s)\<rparr>"
    by (intro asm_state.equality)
      (simp_all add: sp invoke_physical_to_virtual_call_def exec_simps add.commute [of q] fun_eq_iff)
  have esp: "a_reg ?e RSP = q" by (simp add: e)
  have r: "a_reg r RSP = q + 8" "\<And>x. x \<in> microsoft_preserved \<Longrightarrow> a_reg r x = a_reg ?e x"
    using assms(1) esp by (simp_all add: call_returns_def)
  have m: "read_u64 (a_mem r) (q + 0x30) = read_u64 (a_mem s) (q + 0x30)"
    using call_returns_read [OF assms(1), of "0x28"] by (simp add: esp e add.assoc read_pushed_other apart_def)
  have t: "invoke_physical_to_virtual flags ret callee s = run flags invoke_physical_to_virtual_return r"
    by (simp add: invoke_physical_to_virtual_def assms(2))
  show ?thesis
    using r(1) r(2) [unfolded e] m unfolding Let_def t e
    by (simp add: sp invoke_physical_to_virtual_return_def exec_simps add.commute [of q] sysv_preserved_def microsoft_preserved_def)
qed

section \<open>A call of the hypervisor\<close>

text \<open>\<open>_start\<close> ends in a jump to compiled code, \<open>main\<close>, which calls \<open>restore_context\<close> when the launch is
  over (\<open>launch_on_cpu_private_stack\<close>).  What it has done to the memory is a parameter.\<close>

definition start_call :: "(u64 \<Rightarrow> u64 \<Rightarrow> u64) \<Rightarrow> u64 \<Rightarrow> (asm_state \<Rightarrow> asm_state) \<Rightarrow> asm_state \<Rightarrow> asm_state" where
  "start_call flags ret main s = run flags restore_context (main (run flags (start_entry ret) s))"

lemma restore_context_frame:
  assumes "48 \<le> unat (x - (a_reg s RSP - 48))"
  shows "a_mem (run flags restore_context s) x = a_mem s x"
proof -
  define q where "q = a_reg s RSP - 48"
  have sp: "a_reg (loaded s) RSP = q + 48" by (simp add: q_def loaded_def Let_def)
  have "a_mem (run flags restore_frame (loaded s)) x = a_mem (loaded s) x"
    using assms unat_beyond [of 8 x q] unat_beyond [of 16 x q] unat_beyond [of 24 x q] unat_beyond [of 32 x q] unat_beyond [of 40 x q]
    unfolding q_def [symmetric]
    by (auto simp: restore_frame_def exec_simps sp add.commute [of q] Let_def write_block_def)
  then show ?thesis by (simp add: restore_context_def run_append restore_registers_run loaded_def Let_def)
qed

text \<open>What the code between \<open>_start\<close> and \<open>restore_context\<close> does, seen from the stack: it restores the context it
  was given with a result in \<open>rax\<close>, leaves the context alone otherwise, and touches neither it nor the
  caller's stack (\<open>n\<close> bytes from \<open>sp\<close>) with the stack it ends on.\<close>

definition main_restores :: "u64 \<Rightarrow> u64 \<Rightarrow> nat \<Rightarrow> asm_state \<Rightarrow> asm_state \<Rightarrow> bool" where
  "main_restores v sp n e m \<longleftrightarrow>
     a_reg m RDI = a_reg e RDI \<and> context_at (a_mem m) (a_reg e RDI) = (context_at (a_mem e) (a_reg e RDI))\<lparr>c_rax := v\<rparr> \<and>
     apart (a_reg e RDI) 0x3a0 (a_reg m RSP - 48) 48 \<and>
     (\<forall>j < n. a_mem m (sp + of_nat j) = a_mem e (sp + of_nat j) \<and> 48 \<le> unat (sp + of_nat j - (a_reg m RSP - 48)))"

lemma start_call_returns:
  fixes flags ret s main
  defines "e \<equiv> run flags (start_entry ret) s" and "t \<equiv> start_call flags ret main s"
  assumes "main_restores v (a_reg s RSP) n e (main e)" and "n \<le> 2 ^ 32"
  shows "a_reg t = (a_reg s)(RAX := v, RSP := a_reg s RSP + 8)" and "a_rip t = read_u64 (a_mem s) (a_reg s RSP)"
    and "\<forall>i < 16. a_xmm t i = a_xmm s i"
    and "j < n \<Longrightarrow> a_mem t (a_reg s RSP + of_nat j) = a_mem s (a_reg s RSP + of_nat j)"
proof -
  let ?p = "a_reg e RDI" and ?m = "main e"
  have m: "a_reg ?m RDI = ?p" "context_at (a_mem ?m) ?p = (context_at (a_mem e) ?p)\<lparr>c_rax := v\<rparr>"
    "apart ?p 0x3a0 (a_reg ?m RSP - 48) 48"
    "\<And>j. j < n \<Longrightarrow> a_mem ?m (a_reg s RSP + of_nat j) = a_mem e (a_reg s RSP + of_nat j)"
    "\<And>j. j < n \<Longrightarrow> 48 \<le> unat (a_reg s RSP + of_nat j - (a_reg ?m RSP - 48))"
    using assms(3) by (simp_all add: main_restores_def)
  have t: "t = run flags restore_context ?m" by (simp add: t_def start_call_def e_def)
  have c: "context_at (a_mem ?m) (a_reg ?m RDI) =
      (context_of s (a_reg s RSP + 8) (read_u64 (a_mem s) (a_reg s RSP)))\<lparr>c_rflags := flags (a_reg s RSP) (- 0x3a8), c_rax := v\<rparr>"
    unfolding m(1,2) unfolding e_def start_entry_run(3) by simp
  have "apart (a_reg ?m RDI) 0x3a0 (a_reg ?m RSP - 48) 48" using m(1,3) by simp
  note r = restore_context_run [OF this, of flags, unfolded c, folded t]
  show "a_reg t = (a_reg s)(RAX := v, RSP := a_reg s RSP + 8)"
  proof
    fix x show "a_reg t x = ((a_reg s)(RAX := v, RSP := a_reg s RSP + 8)) x" by (cases x) (simp_all add: r context_of_def)
  qed
  show "a_rip t = read_u64 (a_mem s) (a_reg s RSP)" "\<forall>i < 16. a_xmm t i = a_xmm s i" by (simp_all add: r context_of_def)
  assume j: "j < n"
  have "a_reg s RSP + of_nat j - (a_reg s RSP - 0x3d0) = of_nat (0x3d0 + j)" by simp
  also have "unat \<dots> = 0x3d0 + j" using j assms(4) by (intro unat_of_nat_u64) simp
  finally have "0x3d0 \<le> unat (a_reg s RSP + of_nat j - (a_reg s RSP - 0x3d0))" by simp
  then have "a_mem e (a_reg s RSP + of_nat j) = a_mem s (a_reg s RSP + of_nat j)"
    unfolding e_def by (rule start_entry_run(4))
  then show "a_mem t (a_reg s RSP + of_nat j) = a_mem s (a_reg s RSP + of_nat j)"
    using restore_context_frame [OF m(5) [OF j], of flags] m(4) [OF j] by (simp add: t)
qed

section \<open>Properties\<close>

text \<open>C37: The loaders for Windows and UEFI call \<open>_start\<close> through \<open>invoke_entry\<close>.  \<open>_start\<close> saves a context with the two
  arguments where the convention of the hypervisor expects them (the second and third argument of the thunk in
  \<open>rdi\<close> and \<open>rsi\<close>), and once the launch restores that context with a result in \<open>rax\<close>, the thunk returns
  to its caller with that result, its own stack pointer, and every register a function of Windows has to
  preserve, \<open>xmm6\<close> to \<open>xmm15\<close> included, which the thunk itself does not save.\<close>

theorem entry_call_contract:
  fixes flags ret ret' s main
  defines "u \<equiv> run flags (invoke_entry_call ret) s"
  defines "e \<equiv> run flags (start_entry ret') u"
  assumes "main_restores v (a_reg u RSP) 40 e (main e)"
  shows "let t = invoke_entry flags ret (\<lambda>_. start_call flags ret' main) s; c = context_at (a_mem e) (a_reg e RDI) in
    c_rdi c = a_reg s RDX \<and> c_rsi c = a_reg s R8 \<and>
    a_rip t = read_u64 (a_mem s) (a_reg s RSP) \<and> a_reg t RSP = a_reg s RSP + 8 \<and> a_reg t RAX = v \<and>
    (\<forall>x \<in> microsoft_preserved. a_reg t x = a_reg s x) \<and> (\<forall>i < 16. a_xmm t i = a_xmm s i) \<and>
    uefi_invoke_entry flags ret (\<lambda>_. start_call flags ret' main) s = t"
proof -
  let ?r = "start_call flags ret' main u"
  note r = start_call_returns [where flags = flags and ret = ret' and s = u and main = main and v = v and n = 40,
      folded e_def, OF assms(3), simplified]
  have "call_returns sysv_preserved 8 32 u ?r"
    unfolding call_returns_def
  proof (intro conjI ballI allI impI)
    show "a_reg ?r RSP = a_reg u RSP + 8" by (simp add: r)
    fix x assume "x \<in> sysv_preserved" then show "a_reg ?r x = a_reg u x" by (auto simp: r sysv_preserved_def)
  next
    fix j :: nat assume "8 \<le> j \<and> j < 32"
    then show "a_mem ?r (a_reg u RSP + 8 + of_nat j) = a_mem u (a_reg u RSP + 8 + of_nat j)"
      using r(4) [of "8 + j"] by (simp add: add.assoc)
  qed
  note i = invoke_entry_contract [OF this [unfolded u_def], of "\<lambda>_. start_call flags ret' main", simplified, folded u_def]
  have x: "a_xmm u = a_xmm s" by (simp add: u_def invoke_entry_call_def exec_simps)
  have "context_at (a_mem e) (a_reg e RDI) =
      (context_of u (a_reg u RSP + 8) (read_u64 (a_mem u) (a_reg u RSP)))\<lparr>c_rflags := flags (a_reg u RSP) (- 0x3a8)\<rparr>"
    unfolding e_def by (rule start_entry_run(3))
  then show ?thesis using i r by (simp add: Let_def context_of_def x uefi_invoke_entry_same)
qed

theorem entry_call_contract_witness:
  "let t = invoke_entry (+) 0 (\<lambda>_. start_call (+) 0 (\<lambda>m. m\<lparr>a_mem := write_block (a_reg m RDI) 8 (byte_of 5) (a_mem m)\<rparr>)) sample_state
   in a_rip t = 0x1234 \<and> a_reg t RSP = 0x20008 \<and> a_reg t RAX = 5 \<and> a_reg t RBX = 7 \<and> a_reg t RDI = 0x10000"
proof -
  let ?main = "\<lambda>m. m\<lparr>a_mem := write_block (a_reg m RDI) 8 (byte_of 5) (a_mem m)\<rparr>"
  let ?u = "run (+) (invoke_entry_call 0) sample_state"
  let ?e = "run (+) (start_entry 0) ?u"
  have u: "a_reg ?u RSP = 0x1ffe0" by (simp add: invoke_entry_call_def exec_simps sample_state_def)
  have e: "a_reg ?e RDI = 0x1fc38" "a_reg ?e RSP = 0x1fc30" by (simp_all add: start_entry_run u)
  have "main_restores 5 (a_reg ?u RSP) 40 ?e (?main ?e)"
    unfolding main_restores_def
  proof (intro conjI allI impI)
    show "apart (a_reg ?e RDI) 0x3a0 (a_reg (?main ?e) RSP - 48) 48" by (simp add: e apart_def)
    show "context_at (a_mem (?main ?e)) (a_reg ?e RDI) = context_at (a_mem ?e) (a_reg ?e RDI)\<lparr>c_rax := 5\<rparr>"
      by (simp add: context_at_store)
    fix j :: nat
    assume j: "j < 40"
    have "unat (0x3a8 + of_nat j :: u64) = 0x3a8 + j" using j unat_of_nat_u64 [of "0x3a8 + j"] by simp
    then show "a_mem (?main ?e) (a_reg ?u RSP + of_nat j) = a_mem ?e (a_reg ?u RSP + of_nat j)"
      by (simp add: e u write_block_def)
    have "unat (0x3e0 + of_nat j :: u64) = 0x3e0 + j" using j unat_of_nat_u64 [of "0x3e0 + j"] by simp
    then show "48 \<le> unat (a_reg ?u RSP + of_nat j - (a_reg (?main ?e) RSP - 48))"
      by (simp add: e u)
  qed simp
  from entry_call_contract [where main = ?main, OF this] show ?thesis
    by (simp add: Let_def sample_state_def read_u64_pushed microsoft_preserved_def)
qed

end
