(* ===== verification/Errors.thy ===== *)
theory Errors
  imports Prelude
begin

text \<open>
  \<^verbatim>\<open>include/zpp/maybe.h\<close>: error categories, errors and the value-or-error type, with the two
  categories of the program (\<open>hypervisor::error\<close> of
  \<^verbatim>\<open>include/zpp/hypervisor/hypervisor.h\<close> and \<open>vmcs_error\<close> of
  \<^verbatim>\<open>include/zpp/x64/intel/vmcs.h\<close>).  A message is \<open>None\<close> where the \<open>switch\<close> of
  the category has no branch, so that control would run off the end of the function.
\<close>

section \<open>Categories and errors\<close>

record error_category =
  category_name :: string
  success_code :: int
  category_message :: "int \<Rightarrow> string option"

definition category_success :: "error_category \<Rightarrow> int \<Rightarrow> bool" where
  "category_success category code \<longleftrightarrow> code = success_code category"

definition make_error_category :: "string \<Rightarrow> int \<Rightarrow> (int \<Rightarrow> string option) \<Rightarrow> error_category" where
  "make_error_category name success messages =
     \<lparr>category_name = name, success_code = success, category_message = messages\<rparr>"

record zpp_error =
  error_category_of :: error_category
  error_code :: int

definition error_of :: "error_category \<Rightarrow> int \<Rightarrow> zpp_error" where
  "error_of category code = \<lparr>error_category_of = category, error_code = code\<rparr>"

definition error_message :: "zpp_error \<Rightarrow> string option" where
  "error_message e = category_message (error_category_of e) (error_code e)"

definition error_bool :: "zpp_error \<Rightarrow> bool" where
  "error_bool e \<longleftrightarrow> category_success (error_category_of e) (error_code e)"

definition no_error :: string where
  "no_error = ''''"

section \<open>Value or error\<close>

text \<open>A \<open>std::variant<Type, error>\<close>: the value is alternative 0, the error alternative 1;
  reading the alternative that is not held is undefined.\<close>

datatype 'a maybe = Maybe_value 'a | Maybe_error zpp_error

fun maybe_index :: "'a maybe \<Rightarrow> nat" where
  "maybe_index (Maybe_value _) = 0"
| "maybe_index (Maybe_error _) = 1"

definition maybe_bool :: "'a maybe \<Rightarrow> bool" where
  "maybe_bool m \<longleftrightarrow> 0 = maybe_index m"

fun maybe_value :: "'a maybe \<Rightarrow> 'a option" where
  "maybe_value (Maybe_value v) = Some v"
| "maybe_value (Maybe_error _) = None"

fun maybe_error :: "'a maybe \<Rightarrow> zpp_error option" where
  "maybe_error (Maybe_error e) = Some e"
| "maybe_error (Maybe_value _) = None"

section \<open>The errors of the hypervisor\<close>

datatype hv_error =
  success | vmxon_failed | vmclear_failed | vmptrld_failed
  | physical_to_virtual_capacity_error | out_of_ept_entries

fun hv_error_code :: "hv_error \<Rightarrow> int" where
  "hv_error_code success = 0"
| "hv_error_code vmxon_failed = 1"
| "hv_error_code vmclear_failed = 2"
| "hv_error_code vmptrld_failed = 3"
| "hv_error_code physical_to_virtual_capacity_error = 4"
| "hv_error_code out_of_ept_entries = 5"

definition hv_category :: error_category where
  "hv_category = make_error_category ''hypervisor::error'' (hv_error_code success)
     (\<lambda>code.
        if code = hv_error_code success then Some no_error
        else if code = hv_error_code vmxon_failed then Some ''vmxon failed''
        else if code = hv_error_code vmptrld_failed then Some ''vmptrld failed''
        else if code = hv_error_code vmclear_failed then Some ''vmclear failed''
        else if code = hv_error_code physical_to_virtual_capacity_error
        then Some ''Physical to virtual capacity error''
        else if code = hv_error_code out_of_ept_entries then Some ''Out of EPT entries''
        else None)"

definition hv_zpp_error :: "hv_error \<Rightarrow> zpp_error" where
  "hv_zpp_error e = error_of hv_category (hv_error_code e)"

section \<open>The errors of the VMCS accessors\<close>

datatype vmcs_error = vmcs_success | vmcs_fail

fun vmcs_error_code :: "vmcs_error \<Rightarrow> int" where
  "vmcs_error_code vmcs_success = 0"
| "vmcs_error_code vmcs_fail = 1"

definition vmcs_category :: error_category where
  "vmcs_category = make_error_category ''vmcs'' (vmcs_error_code vmcs_success)
     (\<lambda>code.
        if code = vmcs_error_code vmcs_success then Some no_error
        else if code = vmcs_error_code vmcs_fail then Some ''Fail.''
        else Some ''Unknown error.'')"

definition vmcs_zpp_error :: "vmcs_error \<Rightarrow> zpp_error" where
  "vmcs_zpp_error e = error_of vmcs_category (vmcs_error_code e)"

section \<open>The contract of an error enumeration\<close>

text \<open>What \<^verbatim>\<open>maybe.h\<close> asks of a category: distinct codes, success exactly for the success
  code, and a non-empty message for every other code.\<close>

locale error_enum =
  fixes code :: "'e \<Rightarrow> int" and category :: error_category and ok :: 'e
  assumes code_inj: "code e = code e' \<Longrightarrow> e = e'"
    and code_ok: "code ok = success_code category"
    and message: "e \<noteq> ok \<Longrightarrow> \<exists>s. category_message category (code e) = Some s \<and> s \<noteq> ''''"
begin

lemma bool_iff: "error_bool (error_of category (code e)) \<longleftrightarrow> e = ok"
  using code_inj code_ok by (auto simp: error_bool_def error_of_def category_success_def)

lemma message_nonempty:
  "\<not> error_bool (error_of category (code e)) \<Longrightarrow>
   \<exists>s. error_message (error_of category (code e)) = Some s \<and> s \<noteq> ''''"
  using message [of e] by (simp add: bool_iff error_message_def) (simp add: error_of_def)

end

interpretation hv_errors: error_enum hv_error_code hv_category success
proof unfold_locales
  fix e e' :: hv_error
  show "hv_error_code e = hv_error_code e' \<Longrightarrow> e = e'" by (cases e; cases e'; simp)
  show "hv_error_code success = success_code hv_category"
    by (simp add: hv_category_def make_error_category_def)
  show "e \<noteq> success \<Longrightarrow> \<exists>s. category_message hv_category (hv_error_code e) = Some s \<and> s \<noteq> ''''"
    by (cases e) (simp_all add: hv_category_def make_error_category_def)
qed

interpretation vmcs_errors: error_enum vmcs_error_code vmcs_category vmcs_success
proof unfold_locales
  fix e e' :: vmcs_error
  show "vmcs_error_code e = vmcs_error_code e' \<Longrightarrow> e = e'" by (cases e; cases e'; simp)
  show "vmcs_error_code vmcs_success = success_code vmcs_category"
    by (simp add: vmcs_category_def make_error_category_def)
  show "e \<noteq> vmcs_success \<Longrightarrow> \<exists>s. category_message vmcs_category (vmcs_error_code e) = Some s \<and> s \<noteq> ''''"
    by (cases e) (simp_all add: vmcs_category_def make_error_category_def)
qed

section \<open>Properties\<close>

text \<open>An error object converts to true exactly when it stands for success, in both error
  enumerations, and every error that is not success has a message of its own that is not empty.\<close>

theorem errors_tell_success:
  "(error_bool (hv_zpp_error e) \<longleftrightarrow> e = success) \<and> (error_bool (vmcs_zpp_error v) \<longleftrightarrow> v = vmcs_success) \<and>
   (error_message (hv_zpp_error e) = error_message (hv_zpp_error e') \<longleftrightarrow> e = e') \<and>
   (error_message (hv_zpp_error e) = Some '''' \<longleftrightarrow> e = success)"
proof -
  have msg: "error_message (hv_zpp_error x) = Some (case x of
      success \<Rightarrow> '''' | vmxon_failed \<Rightarrow> ''vmxon failed'' | vmclear_failed \<Rightarrow> ''vmclear failed''
    | vmptrld_failed \<Rightarrow> ''vmptrld failed''
    | physical_to_virtual_capacity_error \<Rightarrow> ''Physical to virtual capacity error''
    | out_of_ept_entries \<Rightarrow> ''Out of EPT entries'')" for x
    by (cases x) (simp_all add: error_message_def hv_zpp_error_def error_of_def hv_category_def
        make_error_category_def no_error_def)
  have "error_message (hv_zpp_error e) = error_message (hv_zpp_error e') \<longleftrightarrow> e = e'"
    unfolding msg by (cases e; cases e') simp_all
  moreover have "error_message (hv_zpp_error e) = Some '''' \<longleftrightarrow> e = success"
    unfolding msg by (cases e) simp_all
  ultimately show ?thesis
    using hv_errors.bool_iff [of e] vmcs_errors.bool_iff [of v] by (simp add: hv_zpp_error_def vmcs_zpp_error_def)
qed

end
