(* ===== verification/Vmcs.thy ===== *)
theory Vmcs
  imports Machine Errors
begin

text \<open>
  The VM control structure: the field encodings of \<^verbatim>\<open>include/zpp/x64/intel/vmcs_fields.h\<close> and
  the class \<open>vmcs\<close> of \<^verbatim>\<open>include/zpp/x64/intel/vmcs.h\<close>, whose accessors read and write the
  current control structure of the processor.
\<close>

section \<open>Reading and writing a field\<close>

definition vmcs_write :: "hardware \<Rightarrow> u64 \<Rightarrow> u64 \<Rightarrow> cpu \<Rightarrow> vmcs_error \<times> cpu" where
  "vmcs_write hw field v c =
     (let (failed, c) = vmwrite hw field v c in if failed then (vmcs_fail, c) else (vmcs_success, c))"

definition vmcs_read :: "hardware \<Rightarrow> u64 \<Rightarrow> cpu \<Rightarrow> u64 maybe" where
  "vmcs_read hw field c =
     (let (failed, v) = vmread hw field 0 c
      in if failed then Maybe_error (vmcs_zpp_error vmcs_fail) else Maybe_value v)"

section \<open>Field encodings\<close>

definition field_vpid :: u64 where "field_vpid = 0x0"
definition field_posted_interrupt_notification_vector :: u64 where "field_posted_interrupt_notification_vector = 0x2"
definition field_eptp_index :: u64 where "field_eptp_index = 0x4"
definition field_guest_es_selector :: u64 where "field_guest_es_selector = 0x800"
definition field_guest_cs_selector :: u64 where "field_guest_cs_selector = 0x802"
definition field_guest_ss_selector :: u64 where "field_guest_ss_selector = 0x804"
definition field_guest_ds_selector :: u64 where "field_guest_ds_selector = 0x806"
definition field_guest_fs_selector :: u64 where "field_guest_fs_selector = 0x808"
definition field_guest_gs_selector :: u64 where "field_guest_gs_selector = 0x80a"
definition field_guest_ldtr_selector :: u64 where "field_guest_ldtr_selector = 0x80c"
definition field_guest_tr_selector :: u64 where "field_guest_tr_selector = 0x80e"
definition field_guest_interrupt_status :: u64 where "field_guest_interrupt_status = 0x810"
definition field_pml_index :: u64 where "field_pml_index = 0x812"
definition field_host_es_selector :: u64 where "field_host_es_selector = 0xc00"
definition field_host_cs_selector :: u64 where "field_host_cs_selector = 0xc02"
definition field_host_ss_selector :: u64 where "field_host_ss_selector = 0xc04"
definition field_host_ds_selector :: u64 where "field_host_ds_selector = 0xc06"
definition field_host_fs_selector :: u64 where "field_host_fs_selector = 0xc08"
definition field_host_gs_selector :: u64 where "field_host_gs_selector = 0xc0a"
definition field_host_tr_selector :: u64 where "field_host_tr_selector = 0xc0c"
definition field_io_bitmap_a :: u64 where "field_io_bitmap_a = 0x2000"
definition field_io_bitmap_b :: u64 where "field_io_bitmap_b = 0x2002"
definition field_msr_bitmap :: u64 where "field_msr_bitmap = 0x2004"
definition field_vm_exit_msr_store_address :: u64 where "field_vm_exit_msr_store_address = 0x2006"
definition field_vm_exit_msr_load_address :: u64 where "field_vm_exit_msr_load_address = 0x2008"
definition field_vm_entry_msr_load_address :: u64 where "field_vm_entry_msr_load_address = 0x200a"
definition field_excecutive_vmcs_pointer :: u64 where "field_excecutive_vmcs_pointer = 0x200c"
definition field_pml_address :: u64 where "field_pml_address = 0x200e"
definition field_tsc_offset :: u64 where "field_tsc_offset = 0x2010"
definition field_virtual_apic_address :: u64 where "field_virtual_apic_address = 0x2012"
definition field_apic_access_address :: u64 where "field_apic_access_address = 0x2014"
definition field_posted_interrupt_descriptor_address :: u64 where "field_posted_interrupt_descriptor_address = 0x2016"
definition field_vm_function_controls :: u64 where "field_vm_function_controls = 0x2018"
definition field_ept_pointer :: u64 where "field_ept_pointer = 0x201a"
definition field_eio_exit_bitmap_0 :: u64 where "field_eio_exit_bitmap_0 = 0x201c"
definition field_eio_exit_bitmap_1 :: u64 where "field_eio_exit_bitmap_1 = 0x201e"
definition field_eio_exit_bitmap_2 :: u64 where "field_eio_exit_bitmap_2 = 0x2020"
definition field_eio_exit_bitmap_3 :: u64 where "field_eio_exit_bitmap_3 = 0x2022"
definition field_eptp_list_address :: u64 where "field_eptp_list_address = 0x2024"
definition field_vmread_bitmap_address :: u64 where "field_vmread_bitmap_address = 0x2026"
definition field_vmwrite_bitmap_address :: u64 where "field_vmwrite_bitmap_address = 0x2028"
definition field_virtualization_exception_information_address :: u64 where "field_virtualization_exception_information_address = 0x202a"
definition field_xss_exiting_bitmap :: u64 where "field_xss_exiting_bitmap = 0x202c"
definition field_encls_exiting_bitmap :: u64 where "field_encls_exiting_bitmap = 0x202e"
definition field_sub_page_permission_table_pointer :: u64 where "field_sub_page_permission_table_pointer = 0x2030"
definition field_tsc_multiplier :: u64 where "field_tsc_multiplier = 0x2032"
definition field_guest_physical_address :: u64 where "field_guest_physical_address = 0x2400"
definition field_vmcs_link_pointer :: u64 where "field_vmcs_link_pointer = 0x2800"
definition field_guest_ia32_debugctl :: u64 where "field_guest_ia32_debugctl = 0x2802"
definition field_guest_ia32_pat :: u64 where "field_guest_ia32_pat = 0x2804"
definition field_guest_ia32_efer :: u64 where "field_guest_ia32_efer = 0x2806"
definition field_guest_ia32_perf_global_ctrl :: u64 where "field_guest_ia32_perf_global_ctrl = 0x2808"
definition field_guest_pdpte_0 :: u64 where "field_guest_pdpte_0 = 0x280a"
definition field_guest_pdpte_1 :: u64 where "field_guest_pdpte_1 = 0x280c"
definition field_guest_pdpte_2 :: u64 where "field_guest_pdpte_2 = 0x280e"
definition field_guest_pdpte_3 :: u64 where "field_guest_pdpte_3 = 0x2810"
definition field_guest_ia32_bndcfgs :: u64 where "field_guest_ia32_bndcfgs = 0x2812"
definition field_host_ia32_pat :: u64 where "field_host_ia32_pat = 0x2c00"
definition field_host_ia32_efer :: u64 where "field_host_ia32_efer = 0x2c02"
definition field_host_ia32_perf_global_ctrl :: u64 where "field_host_ia32_perf_global_ctrl = 0x2c04"
definition field_pin_based_vm_execution_controls :: u64 where "field_pin_based_vm_execution_controls = 0x4000"
definition field_primary_processor_based_vm_execution_controls :: u64 where "field_primary_processor_based_vm_execution_controls = 0x4002"
definition field_exception_bitmap :: u64 where "field_exception_bitmap = 0x4004"
definition field_page_fault_error_code_mask :: u64 where "field_page_fault_error_code_mask = 0x4006"
definition field_page_fault_error_code_match :: u64 where "field_page_fault_error_code_match = 0x4008"
definition field_cr3_target_count :: u64 where "field_cr3_target_count = 0x400a"
definition field_vm_exit_controls :: u64 where "field_vm_exit_controls = 0x400c"
definition field_vm_exit_msr_store_count :: u64 where "field_vm_exit_msr_store_count = 0x400e"
definition field_vm_exit_msr_load_count :: u64 where "field_vm_exit_msr_load_count = 0x4010"
definition field_vm_entry_controls :: u64 where "field_vm_entry_controls = 0x4012"
definition field_vm_entry_msr_load_count :: u64 where "field_vm_entry_msr_load_count = 0x4014"
definition field_vm_entry_interruption_information_field :: u64 where "field_vm_entry_interruption_information_field = 0x4016"
definition field_vm_entry_exception_error_code :: u64 where "field_vm_entry_exception_error_code = 0x4018"
definition field_vm_entry_instruction_length :: u64 where "field_vm_entry_instruction_length = 0x401a"
definition field_trr_threshold :: u64 where "field_trr_threshold = 0x401c"
definition field_secondary_processor_based_vm_execution_controls :: u64 where "field_secondary_processor_based_vm_execution_controls = 0x401e"
definition field_ple_gap :: u64 where "field_ple_gap = 0x4020"
definition field_ple_window :: u64 where "field_ple_window = 0x4022"
definition field_vm_instruction_error :: u64 where "field_vm_instruction_error = 0x4400"
definition field_exit_reason :: u64 where "field_exit_reason = 0x4402"
definition field_vm_exit_interruption_information :: u64 where "field_vm_exit_interruption_information = 0x4404"
definition field_vm_exit_interruption_error_code :: u64 where "field_vm_exit_interruption_error_code = 0x4406"
definition field_idt_vectoring_information_field :: u64 where "field_idt_vectoring_information_field = 0x4408"
definition field_idt_vectoring_error_code :: u64 where "field_idt_vectoring_error_code = 0x440a"
definition field_vm_exit_instruction_length :: u64 where "field_vm_exit_instruction_length = 0x440c"
definition field_vm_exit_instruction_information :: u64 where "field_vm_exit_instruction_information = 0x440e"
definition field_guest_es_limit :: u64 where "field_guest_es_limit = 0x4800"
definition field_guest_cs_limit :: u64 where "field_guest_cs_limit = 0x4802"
definition field_guest_ss_limit :: u64 where "field_guest_ss_limit = 0x4804"
definition field_guest_ds_limit :: u64 where "field_guest_ds_limit = 0x4806"
definition field_guest_fs_limit :: u64 where "field_guest_fs_limit = 0x4808"
definition field_guest_gs_limit :: u64 where "field_guest_gs_limit = 0x480a"
definition field_guest_ldtr_limit :: u64 where "field_guest_ldtr_limit = 0x480c"
definition field_guest_tr_limit :: u64 where "field_guest_tr_limit = 0x480e"
definition field_guest_gdtr_limit :: u64 where "field_guest_gdtr_limit = 0x4810"
definition field_guest_idtr_limit :: u64 where "field_guest_idtr_limit = 0x4812"
definition field_guest_es_access_rights :: u64 where "field_guest_es_access_rights = 0x4814"
definition field_guest_cs_access_rights :: u64 where "field_guest_cs_access_rights = 0x4816"
definition field_guest_ss_access_rights :: u64 where "field_guest_ss_access_rights = 0x4818"
definition field_guest_ds_access_rights :: u64 where "field_guest_ds_access_rights = 0x481a"
definition field_guest_fs_access_rights :: u64 where "field_guest_fs_access_rights = 0x481c"
definition field_guest_gs_access_rights :: u64 where "field_guest_gs_access_rights = 0x481e"
definition field_guest_ldtr_access_rights :: u64 where "field_guest_ldtr_access_rights = 0x4820"
definition field_guest_tr_access_rights :: u64 where "field_guest_tr_access_rights = 0x4822"
definition field_guest_interruptibility_state :: u64 where "field_guest_interruptibility_state = 0x4824"
definition field_guest_activity_state :: u64 where "field_guest_activity_state = 0x4826"
definition field_guest_smbase :: u64 where "field_guest_smbase = 0x4828"
definition field_guest_ia32_sysenter_cs :: u64 where "field_guest_ia32_sysenter_cs = 0x482a"
definition field_vmx_preemption_timer_value :: u64 where "field_vmx_preemption_timer_value = 0x482e"
definition field_host_ia32_sysenter_cs :: u64 where "field_host_ia32_sysenter_cs = 0x4c00"
definition field_cr0_guest_host_mask :: u64 where "field_cr0_guest_host_mask = 0x6000"
definition field_cr4_guest_host_mask :: u64 where "field_cr4_guest_host_mask = 0x6002"
definition field_cr0_read_shadow :: u64 where "field_cr0_read_shadow = 0x6004"
definition field_cr4_read_shadow :: u64 where "field_cr4_read_shadow = 0x6006"
definition field_cr3_target_value_0 :: u64 where "field_cr3_target_value_0 = 0x6008"
definition field_cr3_target_value_1 :: u64 where "field_cr3_target_value_1 = 0x600a"
definition field_cr3_target_value_2 :: u64 where "field_cr3_target_value_2 = 0x600c"
definition field_cr3_target_value_3 :: u64 where "field_cr3_target_value_3 = 0x600e"
definition field_guest_cr0 :: u64 where "field_guest_cr0 = 0x6800"
definition field_guest_cr3 :: u64 where "field_guest_cr3 = 0x6802"
definition field_guest_cr4 :: u64 where "field_guest_cr4 = 0x6804"
definition field_guest_es_base :: u64 where "field_guest_es_base = 0x6806"
definition field_guest_cs_base :: u64 where "field_guest_cs_base = 0x6808"
definition field_guest_ss_base :: u64 where "field_guest_ss_base = 0x680a"
definition field_guest_ds_base :: u64 where "field_guest_ds_base = 0x680c"
definition field_guest_fs_base :: u64 where "field_guest_fs_base = 0x680e"
definition field_guest_gs_base :: u64 where "field_guest_gs_base = 0x6810"
definition field_guest_ldtr_base :: u64 where "field_guest_ldtr_base = 0x6812"
definition field_guest_tr_base :: u64 where "field_guest_tr_base = 0x6814"
definition field_guest_gdtr_base :: u64 where "field_guest_gdtr_base = 0x6816"
definition field_guest_idtr_base :: u64 where "field_guest_idtr_base = 0x6818"
definition field_guest_dr7 :: u64 where "field_guest_dr7 = 0x681a"
definition field_guest_rsp :: u64 where "field_guest_rsp = 0x681c"
definition field_guest_rip :: u64 where "field_guest_rip = 0x681e"
definition field_guest_rflags :: u64 where "field_guest_rflags = 0x6820"
definition field_guest_pending_debug_exceptions :: u64 where "field_guest_pending_debug_exceptions = 0x6822"
definition field_guest_ia32_sysenter_esp :: u64 where "field_guest_ia32_sysenter_esp = 0x6824"
definition field_guest_ia32_sysenter_eip :: u64 where "field_guest_ia32_sysenter_eip = 0x6826"
definition field_host_cr0 :: u64 where "field_host_cr0 = 0x6c00"
definition field_host_cr3 :: u64 where "field_host_cr3 = 0x6c02"
definition field_host_cr4 :: u64 where "field_host_cr4 = 0x6c04"
definition field_host_fs_base :: u64 where "field_host_fs_base = 0x6c06"
definition field_host_gs_base :: u64 where "field_host_gs_base = 0x6c08"
definition field_host_tr_base :: u64 where "field_host_tr_base = 0x6c0a"
definition field_host_gdtr_base :: u64 where "field_host_gdtr_base = 0x6c0c"
definition field_host_idtr_base :: u64 where "field_host_idtr_base = 0x6c0e"
definition field_host_ia32_sysenter_esp :: u64 where "field_host_ia32_sysenter_esp = 0x6c10"
definition field_host_ia32_sysenter_eip :: u64 where "field_host_ia32_sysenter_eip = 0x6c12"
definition field_host_rsp :: u64 where "field_host_rsp = 0x6c14"
definition field_host_rip :: u64 where "field_host_rip = 0x6c16"

section \<open>Accessors\<close>

definition vmcs_vpid :: "hardware \<Rightarrow> cpu \<Rightarrow> u64 maybe" where
  "vmcs_vpid hw c = vmcs_read hw field_vpid c"
definition vmcs_set_vpid :: "hardware \<Rightarrow> u64 \<Rightarrow> cpu \<Rightarrow> vmcs_error \<times> cpu" where
  "vmcs_set_vpid hw v c = vmcs_write hw field_vpid v c"
definition vmcs_posted_interrupt_notification_vector :: "hardware \<Rightarrow> cpu \<Rightarrow> u64 maybe" where
  "vmcs_posted_interrupt_notification_vector hw c = vmcs_read hw field_posted_interrupt_notification_vector c"
definition vmcs_set_posted_interrupt_notification_vector :: "hardware \<Rightarrow> u64 \<Rightarrow> cpu \<Rightarrow> vmcs_error \<times> cpu" where
  "vmcs_set_posted_interrupt_notification_vector hw v c = vmcs_write hw field_posted_interrupt_notification_vector v c"
definition vmcs_eptp_index :: "hardware \<Rightarrow> cpu \<Rightarrow> u64 maybe" where
  "vmcs_eptp_index hw c = vmcs_read hw field_eptp_index c"
definition vmcs_set_eptp_index :: "hardware \<Rightarrow> u64 \<Rightarrow> cpu \<Rightarrow> vmcs_error \<times> cpu" where
  "vmcs_set_eptp_index hw v c = vmcs_write hw field_eptp_index v c"
definition vmcs_guest_es_selector :: "hardware \<Rightarrow> cpu \<Rightarrow> u64 maybe" where
  "vmcs_guest_es_selector hw c = vmcs_read hw field_guest_es_selector c"
definition vmcs_set_guest_es_selector :: "hardware \<Rightarrow> u64 \<Rightarrow> cpu \<Rightarrow> vmcs_error \<times> cpu" where
  "vmcs_set_guest_es_selector hw v c = vmcs_write hw field_guest_es_selector v c"
definition vmcs_guest_cs_selector :: "hardware \<Rightarrow> cpu \<Rightarrow> u64 maybe" where
  "vmcs_guest_cs_selector hw c = vmcs_read hw field_guest_cs_selector c"
definition vmcs_set_guest_cs_selector :: "hardware \<Rightarrow> u64 \<Rightarrow> cpu \<Rightarrow> vmcs_error \<times> cpu" where
  "vmcs_set_guest_cs_selector hw v c = vmcs_write hw field_guest_cs_selector v c"
definition vmcs_guest_ss_selector :: "hardware \<Rightarrow> cpu \<Rightarrow> u64 maybe" where
  "vmcs_guest_ss_selector hw c = vmcs_read hw field_guest_ss_selector c"
definition vmcs_set_guest_ss_selector :: "hardware \<Rightarrow> u64 \<Rightarrow> cpu \<Rightarrow> vmcs_error \<times> cpu" where
  "vmcs_set_guest_ss_selector hw v c = vmcs_write hw field_guest_ss_selector v c"
definition vmcs_guest_ds_selector :: "hardware \<Rightarrow> cpu \<Rightarrow> u64 maybe" where
  "vmcs_guest_ds_selector hw c = vmcs_read hw field_guest_ds_selector c"
definition vmcs_set_guest_ds_selector :: "hardware \<Rightarrow> u64 \<Rightarrow> cpu \<Rightarrow> vmcs_error \<times> cpu" where
  "vmcs_set_guest_ds_selector hw v c = vmcs_write hw field_guest_ds_selector v c"
definition vmcs_guest_fs_selector :: "hardware \<Rightarrow> cpu \<Rightarrow> u64 maybe" where
  "vmcs_guest_fs_selector hw c = vmcs_read hw field_guest_fs_selector c"
definition vmcs_set_guest_fs_selector :: "hardware \<Rightarrow> u64 \<Rightarrow> cpu \<Rightarrow> vmcs_error \<times> cpu" where
  "vmcs_set_guest_fs_selector hw v c = vmcs_write hw field_guest_fs_selector v c"
definition vmcs_guest_gs_selector :: "hardware \<Rightarrow> cpu \<Rightarrow> u64 maybe" where
  "vmcs_guest_gs_selector hw c = vmcs_read hw field_guest_gs_selector c"
definition vmcs_set_guest_gs_selector :: "hardware \<Rightarrow> u64 \<Rightarrow> cpu \<Rightarrow> vmcs_error \<times> cpu" where
  "vmcs_set_guest_gs_selector hw v c = vmcs_write hw field_guest_gs_selector v c"
definition vmcs_guest_ldtr_selector :: "hardware \<Rightarrow> cpu \<Rightarrow> u64 maybe" where
  "vmcs_guest_ldtr_selector hw c = vmcs_read hw field_guest_ldtr_selector c"
definition vmcs_set_guest_ldtr_selector :: "hardware \<Rightarrow> u64 \<Rightarrow> cpu \<Rightarrow> vmcs_error \<times> cpu" where
  "vmcs_set_guest_ldtr_selector hw v c = vmcs_write hw field_guest_ldtr_selector v c"
definition vmcs_guest_tr_selector :: "hardware \<Rightarrow> cpu \<Rightarrow> u64 maybe" where
  "vmcs_guest_tr_selector hw c = vmcs_read hw field_guest_tr_selector c"
definition vmcs_set_guest_tr_selector :: "hardware \<Rightarrow> u64 \<Rightarrow> cpu \<Rightarrow> vmcs_error \<times> cpu" where
  "vmcs_set_guest_tr_selector hw v c = vmcs_write hw field_guest_tr_selector v c"
definition vmcs_guest_interrupt_status :: "hardware \<Rightarrow> cpu \<Rightarrow> u64 maybe" where
  "vmcs_guest_interrupt_status hw c = vmcs_read hw field_guest_interrupt_status c"
definition vmcs_set_guest_interrupt_status :: "hardware \<Rightarrow> u64 \<Rightarrow> cpu \<Rightarrow> vmcs_error \<times> cpu" where
  "vmcs_set_guest_interrupt_status hw v c = vmcs_write hw field_guest_interrupt_status v c"
definition vmcs_pml_index :: "hardware \<Rightarrow> cpu \<Rightarrow> u64 maybe" where
  "vmcs_pml_index hw c = vmcs_read hw field_pml_index c"
definition vmcs_set_pml_index :: "hardware \<Rightarrow> u64 \<Rightarrow> cpu \<Rightarrow> vmcs_error \<times> cpu" where
  "vmcs_set_pml_index hw v c = vmcs_write hw field_pml_index v c"
definition vmcs_host_es_selector :: "hardware \<Rightarrow> cpu \<Rightarrow> u64 maybe" where
  "vmcs_host_es_selector hw c = vmcs_read hw field_host_es_selector c"
definition vmcs_set_host_es_selector :: "hardware \<Rightarrow> u64 \<Rightarrow> cpu \<Rightarrow> vmcs_error \<times> cpu" where
  "vmcs_set_host_es_selector hw v c = vmcs_write hw field_host_es_selector v c"
definition vmcs_host_cs_selector :: "hardware \<Rightarrow> cpu \<Rightarrow> u64 maybe" where
  "vmcs_host_cs_selector hw c = vmcs_read hw field_host_cs_selector c"
definition vmcs_set_host_cs_selector :: "hardware \<Rightarrow> u64 \<Rightarrow> cpu \<Rightarrow> vmcs_error \<times> cpu" where
  "vmcs_set_host_cs_selector hw v c = vmcs_write hw field_host_cs_selector v c"
definition vmcs_host_ss_selector :: "hardware \<Rightarrow> cpu \<Rightarrow> u64 maybe" where
  "vmcs_host_ss_selector hw c = vmcs_read hw field_host_ss_selector c"
definition vmcs_set_host_ss_selector :: "hardware \<Rightarrow> u64 \<Rightarrow> cpu \<Rightarrow> vmcs_error \<times> cpu" where
  "vmcs_set_host_ss_selector hw v c = vmcs_write hw field_host_ss_selector v c"
definition vmcs_host_ds_selector :: "hardware \<Rightarrow> cpu \<Rightarrow> u64 maybe" where
  "vmcs_host_ds_selector hw c = vmcs_read hw field_host_ds_selector c"
definition vmcs_set_host_ds_selector :: "hardware \<Rightarrow> u64 \<Rightarrow> cpu \<Rightarrow> vmcs_error \<times> cpu" where
  "vmcs_set_host_ds_selector hw v c = vmcs_write hw field_host_ds_selector v c"
definition vmcs_host_fs_selector :: "hardware \<Rightarrow> cpu \<Rightarrow> u64 maybe" where
  "vmcs_host_fs_selector hw c = vmcs_read hw field_host_fs_selector c"
definition vmcs_set_host_fs_selector :: "hardware \<Rightarrow> u64 \<Rightarrow> cpu \<Rightarrow> vmcs_error \<times> cpu" where
  "vmcs_set_host_fs_selector hw v c = vmcs_write hw field_host_fs_selector v c"
definition vmcs_host_gs_selector :: "hardware \<Rightarrow> cpu \<Rightarrow> u64 maybe" where
  "vmcs_host_gs_selector hw c = vmcs_read hw field_host_gs_selector c"
definition vmcs_set_host_gs_selector :: "hardware \<Rightarrow> u64 \<Rightarrow> cpu \<Rightarrow> vmcs_error \<times> cpu" where
  "vmcs_set_host_gs_selector hw v c = vmcs_write hw field_host_gs_selector v c"
definition vmcs_host_tr_selector :: "hardware \<Rightarrow> cpu \<Rightarrow> u64 maybe" where
  "vmcs_host_tr_selector hw c = vmcs_read hw field_host_tr_selector c"
definition vmcs_set_host_tr_selector :: "hardware \<Rightarrow> u64 \<Rightarrow> cpu \<Rightarrow> vmcs_error \<times> cpu" where
  "vmcs_set_host_tr_selector hw v c = vmcs_write hw field_host_tr_selector v c"
definition vmcs_io_bitmap_a :: "hardware \<Rightarrow> cpu \<Rightarrow> u64 maybe" where
  "vmcs_io_bitmap_a hw c = vmcs_read hw field_io_bitmap_a c"
definition vmcs_set_io_bitmap_a :: "hardware \<Rightarrow> u64 \<Rightarrow> cpu \<Rightarrow> vmcs_error \<times> cpu" where
  "vmcs_set_io_bitmap_a hw v c = vmcs_write hw field_io_bitmap_a v c"
definition vmcs_io_bitmap_b :: "hardware \<Rightarrow> cpu \<Rightarrow> u64 maybe" where
  "vmcs_io_bitmap_b hw c = vmcs_read hw field_io_bitmap_b c"
definition vmcs_set_io_bitmap_b :: "hardware \<Rightarrow> u64 \<Rightarrow> cpu \<Rightarrow> vmcs_error \<times> cpu" where
  "vmcs_set_io_bitmap_b hw v c = vmcs_write hw field_io_bitmap_b v c"
definition vmcs_msr_bitmap :: "hardware \<Rightarrow> cpu \<Rightarrow> u64 maybe" where
  "vmcs_msr_bitmap hw c = vmcs_read hw field_msr_bitmap c"
definition vmcs_set_msr_bitmap :: "hardware \<Rightarrow> u64 \<Rightarrow> cpu \<Rightarrow> vmcs_error \<times> cpu" where
  "vmcs_set_msr_bitmap hw v c = vmcs_write hw field_msr_bitmap v c"
definition vmcs_vm_exit_msr_store_address :: "hardware \<Rightarrow> cpu \<Rightarrow> u64 maybe" where
  "vmcs_vm_exit_msr_store_address hw c = vmcs_read hw field_vm_exit_msr_store_address c"
definition vmcs_set_vm_exit_msr_store_address :: "hardware \<Rightarrow> u64 \<Rightarrow> cpu \<Rightarrow> vmcs_error \<times> cpu" where
  "vmcs_set_vm_exit_msr_store_address hw v c = vmcs_write hw field_vm_exit_msr_store_address v c"
definition vmcs_vm_exit_msr_load_address :: "hardware \<Rightarrow> cpu \<Rightarrow> u64 maybe" where
  "vmcs_vm_exit_msr_load_address hw c = vmcs_read hw field_vm_exit_msr_load_address c"
definition vmcs_set_vm_exit_msr_load_address :: "hardware \<Rightarrow> u64 \<Rightarrow> cpu \<Rightarrow> vmcs_error \<times> cpu" where
  "vmcs_set_vm_exit_msr_load_address hw v c = vmcs_write hw field_vm_exit_msr_load_address v c"
definition vmcs_vm_entry_msr_load_address :: "hardware \<Rightarrow> cpu \<Rightarrow> u64 maybe" where
  "vmcs_vm_entry_msr_load_address hw c = vmcs_read hw field_vm_entry_msr_load_address c"
definition vmcs_set_vm_entry_msr_load_address :: "hardware \<Rightarrow> u64 \<Rightarrow> cpu \<Rightarrow> vmcs_error \<times> cpu" where
  "vmcs_set_vm_entry_msr_load_address hw v c = vmcs_write hw field_vm_entry_msr_load_address v c"
definition vmcs_excecutive_vmcs_pointer :: "hardware \<Rightarrow> cpu \<Rightarrow> u64 maybe" where
  "vmcs_excecutive_vmcs_pointer hw c = vmcs_read hw field_excecutive_vmcs_pointer c"
definition vmcs_set_excecutive_vmcs_pointer :: "hardware \<Rightarrow> u64 \<Rightarrow> cpu \<Rightarrow> vmcs_error \<times> cpu" where
  "vmcs_set_excecutive_vmcs_pointer hw v c = vmcs_write hw field_excecutive_vmcs_pointer v c"
definition vmcs_pml_address :: "hardware \<Rightarrow> cpu \<Rightarrow> u64 maybe" where
  "vmcs_pml_address hw c = vmcs_read hw field_pml_address c"
definition vmcs_set_pml_address :: "hardware \<Rightarrow> u64 \<Rightarrow> cpu \<Rightarrow> vmcs_error \<times> cpu" where
  "vmcs_set_pml_address hw v c = vmcs_write hw field_pml_address v c"
definition vmcs_tsc_offset :: "hardware \<Rightarrow> cpu \<Rightarrow> u64 maybe" where
  "vmcs_tsc_offset hw c = vmcs_read hw field_tsc_offset c"
definition vmcs_set_tsc_offset :: "hardware \<Rightarrow> u64 \<Rightarrow> cpu \<Rightarrow> vmcs_error \<times> cpu" where
  "vmcs_set_tsc_offset hw v c = vmcs_write hw field_tsc_offset v c"
definition vmcs_virtual_apic_address :: "hardware \<Rightarrow> cpu \<Rightarrow> u64 maybe" where
  "vmcs_virtual_apic_address hw c = vmcs_read hw field_virtual_apic_address c"
definition vmcs_set_virtual_apic_address :: "hardware \<Rightarrow> u64 \<Rightarrow> cpu \<Rightarrow> vmcs_error \<times> cpu" where
  "vmcs_set_virtual_apic_address hw v c = vmcs_write hw field_virtual_apic_address v c"
definition vmcs_apic_access_address :: "hardware \<Rightarrow> cpu \<Rightarrow> u64 maybe" where
  "vmcs_apic_access_address hw c = vmcs_read hw field_apic_access_address c"
definition vmcs_set_apic_access_address :: "hardware \<Rightarrow> u64 \<Rightarrow> cpu \<Rightarrow> vmcs_error \<times> cpu" where
  "vmcs_set_apic_access_address hw v c = vmcs_write hw field_apic_access_address v c"
definition vmcs_posted_interrupt_descriptor_address :: "hardware \<Rightarrow> cpu \<Rightarrow> u64 maybe" where
  "vmcs_posted_interrupt_descriptor_address hw c = vmcs_read hw field_posted_interrupt_descriptor_address c"
definition vmcs_set_posted_interrupt_descriptor_address :: "hardware \<Rightarrow> u64 \<Rightarrow> cpu \<Rightarrow> vmcs_error \<times> cpu" where
  "vmcs_set_posted_interrupt_descriptor_address hw v c = vmcs_write hw field_posted_interrupt_descriptor_address v c"
definition vmcs_vm_function_controls :: "hardware \<Rightarrow> cpu \<Rightarrow> u64 maybe" where
  "vmcs_vm_function_controls hw c = vmcs_read hw field_vm_function_controls c"
definition vmcs_set_vm_function_controls :: "hardware \<Rightarrow> u64 \<Rightarrow> cpu \<Rightarrow> vmcs_error \<times> cpu" where
  "vmcs_set_vm_function_controls hw v c = vmcs_write hw field_vm_function_controls v c"
definition vmcs_ept_pointer :: "hardware \<Rightarrow> cpu \<Rightarrow> u64 maybe" where
  "vmcs_ept_pointer hw c = vmcs_read hw field_ept_pointer c"
definition vmcs_set_ept_pointer :: "hardware \<Rightarrow> u64 \<Rightarrow> cpu \<Rightarrow> vmcs_error \<times> cpu" where
  "vmcs_set_ept_pointer hw v c = vmcs_write hw field_ept_pointer v c"
definition vmcs_eio_exit_bitmap_0 :: "hardware \<Rightarrow> cpu \<Rightarrow> u64 maybe" where
  "vmcs_eio_exit_bitmap_0 hw c = vmcs_read hw field_eio_exit_bitmap_0 c"
definition vmcs_set_eio_exit_bitmap_0 :: "hardware \<Rightarrow> u64 \<Rightarrow> cpu \<Rightarrow> vmcs_error \<times> cpu" where
  "vmcs_set_eio_exit_bitmap_0 hw v c = vmcs_write hw field_eio_exit_bitmap_0 v c"
definition vmcs_eio_exit_bitmap_1 :: "hardware \<Rightarrow> cpu \<Rightarrow> u64 maybe" where
  "vmcs_eio_exit_bitmap_1 hw c = vmcs_read hw field_eio_exit_bitmap_1 c"
definition vmcs_set_eio_exit_bitmap_1 :: "hardware \<Rightarrow> u64 \<Rightarrow> cpu \<Rightarrow> vmcs_error \<times> cpu" where
  "vmcs_set_eio_exit_bitmap_1 hw v c = vmcs_write hw field_eio_exit_bitmap_1 v c"
definition vmcs_eio_exit_bitmap_2 :: "hardware \<Rightarrow> cpu \<Rightarrow> u64 maybe" where
  "vmcs_eio_exit_bitmap_2 hw c = vmcs_read hw field_eio_exit_bitmap_2 c"
definition vmcs_set_eio_exit_bitmap_2 :: "hardware \<Rightarrow> u64 \<Rightarrow> cpu \<Rightarrow> vmcs_error \<times> cpu" where
  "vmcs_set_eio_exit_bitmap_2 hw v c = vmcs_write hw field_eio_exit_bitmap_2 v c"
definition vmcs_eio_exit_bitmap_3 :: "hardware \<Rightarrow> cpu \<Rightarrow> u64 maybe" where
  "vmcs_eio_exit_bitmap_3 hw c = vmcs_read hw field_eio_exit_bitmap_3 c"
definition vmcs_set_eio_exit_bitmap_3 :: "hardware \<Rightarrow> u64 \<Rightarrow> cpu \<Rightarrow> vmcs_error \<times> cpu" where
  "vmcs_set_eio_exit_bitmap_3 hw v c = vmcs_write hw field_eio_exit_bitmap_3 v c"
definition vmcs_eptp_list_address :: "hardware \<Rightarrow> cpu \<Rightarrow> u64 maybe" where
  "vmcs_eptp_list_address hw c = vmcs_read hw field_eptp_list_address c"
definition vmcs_set_eptp_list_address :: "hardware \<Rightarrow> u64 \<Rightarrow> cpu \<Rightarrow> vmcs_error \<times> cpu" where
  "vmcs_set_eptp_list_address hw v c = vmcs_write hw field_eptp_list_address v c"
definition vmcs_vmread_bitmap_address :: "hardware \<Rightarrow> cpu \<Rightarrow> u64 maybe" where
  "vmcs_vmread_bitmap_address hw c = vmcs_read hw field_vmread_bitmap_address c"
definition vmcs_set_vmread_bitmap_address :: "hardware \<Rightarrow> u64 \<Rightarrow> cpu \<Rightarrow> vmcs_error \<times> cpu" where
  "vmcs_set_vmread_bitmap_address hw v c = vmcs_write hw field_vmread_bitmap_address v c"
definition vmcs_vmwrite_bitmap_address :: "hardware \<Rightarrow> cpu \<Rightarrow> u64 maybe" where
  "vmcs_vmwrite_bitmap_address hw c = vmcs_read hw field_vmwrite_bitmap_address c"
definition vmcs_set_vmwrite_bitmap_address :: "hardware \<Rightarrow> u64 \<Rightarrow> cpu \<Rightarrow> vmcs_error \<times> cpu" where
  "vmcs_set_vmwrite_bitmap_address hw v c = vmcs_write hw field_vmwrite_bitmap_address v c"
definition vmcs_virtualization_exception_information_address :: "hardware \<Rightarrow> cpu \<Rightarrow> u64 maybe" where
  "vmcs_virtualization_exception_information_address hw c = vmcs_read hw field_virtualization_exception_information_address c"
definition vmcs_set_virtualization_exception_information_address :: "hardware \<Rightarrow> u64 \<Rightarrow> cpu \<Rightarrow> vmcs_error \<times> cpu" where
  "vmcs_set_virtualization_exception_information_address hw v c = vmcs_write hw field_virtualization_exception_information_address v c"
definition vmcs_xss_exiting_bitmap :: "hardware \<Rightarrow> cpu \<Rightarrow> u64 maybe" where
  "vmcs_xss_exiting_bitmap hw c = vmcs_read hw field_xss_exiting_bitmap c"
definition vmcs_set_xss_exiting_bitmap :: "hardware \<Rightarrow> u64 \<Rightarrow> cpu \<Rightarrow> vmcs_error \<times> cpu" where
  "vmcs_set_xss_exiting_bitmap hw v c = vmcs_write hw field_xss_exiting_bitmap v c"
definition vmcs_encls_exiting_bitmap :: "hardware \<Rightarrow> cpu \<Rightarrow> u64 maybe" where
  "vmcs_encls_exiting_bitmap hw c = vmcs_read hw field_encls_exiting_bitmap c"
definition vmcs_set_encls_exiting_bitmap :: "hardware \<Rightarrow> u64 \<Rightarrow> cpu \<Rightarrow> vmcs_error \<times> cpu" where
  "vmcs_set_encls_exiting_bitmap hw v c = vmcs_write hw field_encls_exiting_bitmap v c"
definition vmcs_sub_page_permission_table_pointer :: "hardware \<Rightarrow> cpu \<Rightarrow> u64 maybe" where
  "vmcs_sub_page_permission_table_pointer hw c = vmcs_read hw field_sub_page_permission_table_pointer c"
definition vmcs_set_sub_page_permission_table_pointer :: "hardware \<Rightarrow> u64 \<Rightarrow> cpu \<Rightarrow> vmcs_error \<times> cpu" where
  "vmcs_set_sub_page_permission_table_pointer hw v c = vmcs_write hw field_sub_page_permission_table_pointer v c"
definition vmcs_tsc_multiplier :: "hardware \<Rightarrow> cpu \<Rightarrow> u64 maybe" where
  "vmcs_tsc_multiplier hw c = vmcs_read hw field_tsc_multiplier c"
definition vmcs_set_tsc_multiplier :: "hardware \<Rightarrow> u64 \<Rightarrow> cpu \<Rightarrow> vmcs_error \<times> cpu" where
  "vmcs_set_tsc_multiplier hw v c = vmcs_write hw field_tsc_multiplier v c"
definition vmcs_guest_physical_address :: "hardware \<Rightarrow> cpu \<Rightarrow> u64 maybe" where
  "vmcs_guest_physical_address hw c = vmcs_read hw field_guest_physical_address c"
definition vmcs_set_guest_physical_address :: "hardware \<Rightarrow> u64 \<Rightarrow> cpu \<Rightarrow> vmcs_error \<times> cpu" where
  "vmcs_set_guest_physical_address hw v c = vmcs_write hw field_guest_physical_address v c"
definition vmcs_vmcs_link_pointer :: "hardware \<Rightarrow> cpu \<Rightarrow> u64 maybe" where
  "vmcs_vmcs_link_pointer hw c = vmcs_read hw field_vmcs_link_pointer c"
definition vmcs_set_vmcs_link_pointer :: "hardware \<Rightarrow> u64 \<Rightarrow> cpu \<Rightarrow> vmcs_error \<times> cpu" where
  "vmcs_set_vmcs_link_pointer hw v c = vmcs_write hw field_vmcs_link_pointer v c"
definition vmcs_guest_ia32_debugctl :: "hardware \<Rightarrow> cpu \<Rightarrow> u64 maybe" where
  "vmcs_guest_ia32_debugctl hw c = vmcs_read hw field_guest_ia32_debugctl c"
definition vmcs_set_guest_ia32_debugctl :: "hardware \<Rightarrow> u64 \<Rightarrow> cpu \<Rightarrow> vmcs_error \<times> cpu" where
  "vmcs_set_guest_ia32_debugctl hw v c = vmcs_write hw field_guest_ia32_debugctl v c"
definition vmcs_guest_ia32_pat :: "hardware \<Rightarrow> cpu \<Rightarrow> u64 maybe" where
  "vmcs_guest_ia32_pat hw c = vmcs_read hw field_guest_ia32_pat c"
definition vmcs_set_guest_ia32_pat :: "hardware \<Rightarrow> u64 \<Rightarrow> cpu \<Rightarrow> vmcs_error \<times> cpu" where
  "vmcs_set_guest_ia32_pat hw v c = vmcs_write hw field_guest_ia32_pat v c"
definition vmcs_guest_ia32_efer :: "hardware \<Rightarrow> cpu \<Rightarrow> u64 maybe" where
  "vmcs_guest_ia32_efer hw c = vmcs_read hw field_guest_ia32_efer c"
definition vmcs_set_guest_ia32_efer :: "hardware \<Rightarrow> u64 \<Rightarrow> cpu \<Rightarrow> vmcs_error \<times> cpu" where
  "vmcs_set_guest_ia32_efer hw v c = vmcs_write hw field_guest_ia32_efer v c"
definition vmcs_guest_ia32_perf_global_ctrl :: "hardware \<Rightarrow> cpu \<Rightarrow> u64 maybe" where
  "vmcs_guest_ia32_perf_global_ctrl hw c = vmcs_read hw field_guest_ia32_perf_global_ctrl c"
definition vmcs_set_guest_ia32_perf_global_ctrl :: "hardware \<Rightarrow> u64 \<Rightarrow> cpu \<Rightarrow> vmcs_error \<times> cpu" where
  "vmcs_set_guest_ia32_perf_global_ctrl hw v c = vmcs_write hw field_guest_ia32_perf_global_ctrl v c"
definition vmcs_guest_pdpte_0 :: "hardware \<Rightarrow> cpu \<Rightarrow> u64 maybe" where
  "vmcs_guest_pdpte_0 hw c = vmcs_read hw field_guest_pdpte_0 c"
definition vmcs_set_guest_pdpte_0 :: "hardware \<Rightarrow> u64 \<Rightarrow> cpu \<Rightarrow> vmcs_error \<times> cpu" where
  "vmcs_set_guest_pdpte_0 hw v c = vmcs_write hw field_guest_pdpte_0 v c"
definition vmcs_guest_pdpte_1 :: "hardware \<Rightarrow> cpu \<Rightarrow> u64 maybe" where
  "vmcs_guest_pdpte_1 hw c = vmcs_read hw field_guest_pdpte_1 c"
definition vmcs_set_guest_pdpte_1 :: "hardware \<Rightarrow> u64 \<Rightarrow> cpu \<Rightarrow> vmcs_error \<times> cpu" where
  "vmcs_set_guest_pdpte_1 hw v c = vmcs_write hw field_guest_pdpte_1 v c"
definition vmcs_guest_pdpte_2 :: "hardware \<Rightarrow> cpu \<Rightarrow> u64 maybe" where
  "vmcs_guest_pdpte_2 hw c = vmcs_read hw field_guest_pdpte_2 c"
definition vmcs_set_guest_pdpte_2 :: "hardware \<Rightarrow> u64 \<Rightarrow> cpu \<Rightarrow> vmcs_error \<times> cpu" where
  "vmcs_set_guest_pdpte_2 hw v c = vmcs_write hw field_guest_pdpte_2 v c"
definition vmcs_guest_pdpte_3 :: "hardware \<Rightarrow> cpu \<Rightarrow> u64 maybe" where
  "vmcs_guest_pdpte_3 hw c = vmcs_read hw field_guest_pdpte_3 c"
definition vmcs_set_guest_pdpte_3 :: "hardware \<Rightarrow> u64 \<Rightarrow> cpu \<Rightarrow> vmcs_error \<times> cpu" where
  "vmcs_set_guest_pdpte_3 hw v c = vmcs_write hw field_guest_pdpte_3 v c"
definition vmcs_guest_ia32_bndcfgs :: "hardware \<Rightarrow> cpu \<Rightarrow> u64 maybe" where
  "vmcs_guest_ia32_bndcfgs hw c = vmcs_read hw field_guest_ia32_bndcfgs c"
definition vmcs_set_guest_ia32_bndcfgs :: "hardware \<Rightarrow> u64 \<Rightarrow> cpu \<Rightarrow> vmcs_error \<times> cpu" where
  "vmcs_set_guest_ia32_bndcfgs hw v c = vmcs_write hw field_guest_ia32_bndcfgs v c"
definition vmcs_host_ia32_pat :: "hardware \<Rightarrow> cpu \<Rightarrow> u64 maybe" where
  "vmcs_host_ia32_pat hw c = vmcs_read hw field_host_ia32_pat c"
definition vmcs_set_host_ia32_pat :: "hardware \<Rightarrow> u64 \<Rightarrow> cpu \<Rightarrow> vmcs_error \<times> cpu" where
  "vmcs_set_host_ia32_pat hw v c = vmcs_write hw field_host_ia32_pat v c"
definition vmcs_host_ia32_efer :: "hardware \<Rightarrow> cpu \<Rightarrow> u64 maybe" where
  "vmcs_host_ia32_efer hw c = vmcs_read hw field_host_ia32_efer c"
definition vmcs_set_host_ia32_efer :: "hardware \<Rightarrow> u64 \<Rightarrow> cpu \<Rightarrow> vmcs_error \<times> cpu" where
  "vmcs_set_host_ia32_efer hw v c = vmcs_write hw field_host_ia32_efer v c"
definition vmcs_host_ia32_perf_global_ctrl :: "hardware \<Rightarrow> cpu \<Rightarrow> u64 maybe" where
  "vmcs_host_ia32_perf_global_ctrl hw c = vmcs_read hw field_host_ia32_perf_global_ctrl c"
definition vmcs_set_host_ia32_perf_global_ctrl :: "hardware \<Rightarrow> u64 \<Rightarrow> cpu \<Rightarrow> vmcs_error \<times> cpu" where
  "vmcs_set_host_ia32_perf_global_ctrl hw v c = vmcs_write hw field_host_ia32_perf_global_ctrl v c"
definition vmcs_pin_based_vm_execution_controls :: "hardware \<Rightarrow> cpu \<Rightarrow> u64 maybe" where
  "vmcs_pin_based_vm_execution_controls hw c = vmcs_read hw field_pin_based_vm_execution_controls c"
definition vmcs_set_pin_based_vm_execution_controls :: "hardware \<Rightarrow> u64 \<Rightarrow> cpu \<Rightarrow> vmcs_error \<times> cpu" where
  "vmcs_set_pin_based_vm_execution_controls hw v c = vmcs_write hw field_pin_based_vm_execution_controls v c"
definition vmcs_primary_processor_based_vm_execution_controls :: "hardware \<Rightarrow> cpu \<Rightarrow> u64 maybe" where
  "vmcs_primary_processor_based_vm_execution_controls hw c = vmcs_read hw field_primary_processor_based_vm_execution_controls c"
definition vmcs_set_primary_processor_based_vm_execution_controls :: "hardware \<Rightarrow> u64 \<Rightarrow> cpu \<Rightarrow> vmcs_error \<times> cpu" where
  "vmcs_set_primary_processor_based_vm_execution_controls hw v c = vmcs_write hw field_primary_processor_based_vm_execution_controls v c"
definition vmcs_exception_bitmap :: "hardware \<Rightarrow> cpu \<Rightarrow> u64 maybe" where
  "vmcs_exception_bitmap hw c = vmcs_read hw field_exception_bitmap c"
definition vmcs_set_exception_bitmap :: "hardware \<Rightarrow> u64 \<Rightarrow> cpu \<Rightarrow> vmcs_error \<times> cpu" where
  "vmcs_set_exception_bitmap hw v c = vmcs_write hw field_exception_bitmap v c"
definition vmcs_page_fault_error_code_mask :: "hardware \<Rightarrow> cpu \<Rightarrow> u64 maybe" where
  "vmcs_page_fault_error_code_mask hw c = vmcs_read hw field_page_fault_error_code_mask c"
definition vmcs_set_page_fault_error_code_mask :: "hardware \<Rightarrow> u64 \<Rightarrow> cpu \<Rightarrow> vmcs_error \<times> cpu" where
  "vmcs_set_page_fault_error_code_mask hw v c = vmcs_write hw field_page_fault_error_code_mask v c"
definition vmcs_page_fault_error_code_match :: "hardware \<Rightarrow> cpu \<Rightarrow> u64 maybe" where
  "vmcs_page_fault_error_code_match hw c = vmcs_read hw field_page_fault_error_code_match c"
definition vmcs_set_page_fault_error_code_match :: "hardware \<Rightarrow> u64 \<Rightarrow> cpu \<Rightarrow> vmcs_error \<times> cpu" where
  "vmcs_set_page_fault_error_code_match hw v c = vmcs_write hw field_page_fault_error_code_match v c"
definition vmcs_cr3_target_count :: "hardware \<Rightarrow> cpu \<Rightarrow> u64 maybe" where
  "vmcs_cr3_target_count hw c = vmcs_read hw field_cr3_target_count c"
definition vmcs_set_cr3_target_count :: "hardware \<Rightarrow> u64 \<Rightarrow> cpu \<Rightarrow> vmcs_error \<times> cpu" where
  "vmcs_set_cr3_target_count hw v c = vmcs_write hw field_cr3_target_count v c"
definition vmcs_vm_exit_controls :: "hardware \<Rightarrow> cpu \<Rightarrow> u64 maybe" where
  "vmcs_vm_exit_controls hw c = vmcs_read hw field_vm_exit_controls c"
definition vmcs_set_vm_exit_controls :: "hardware \<Rightarrow> u64 \<Rightarrow> cpu \<Rightarrow> vmcs_error \<times> cpu" where
  "vmcs_set_vm_exit_controls hw v c = vmcs_write hw field_vm_exit_controls v c"
definition vmcs_vm_exit_msr_store_count :: "hardware \<Rightarrow> cpu \<Rightarrow> u64 maybe" where
  "vmcs_vm_exit_msr_store_count hw c = vmcs_read hw field_vm_exit_msr_store_count c"
definition vmcs_set_vm_exit_msr_store_count :: "hardware \<Rightarrow> u64 \<Rightarrow> cpu \<Rightarrow> vmcs_error \<times> cpu" where
  "vmcs_set_vm_exit_msr_store_count hw v c = vmcs_write hw field_vm_exit_msr_store_count v c"
definition vmcs_vm_exit_msr_load_count :: "hardware \<Rightarrow> cpu \<Rightarrow> u64 maybe" where
  "vmcs_vm_exit_msr_load_count hw c = vmcs_read hw field_vm_exit_msr_load_count c"
definition vmcs_set_vm_exit_msr_load_count :: "hardware \<Rightarrow> u64 \<Rightarrow> cpu \<Rightarrow> vmcs_error \<times> cpu" where
  "vmcs_set_vm_exit_msr_load_count hw v c = vmcs_write hw field_vm_exit_msr_load_count v c"
definition vmcs_vm_entry_controls :: "hardware \<Rightarrow> cpu \<Rightarrow> u64 maybe" where
  "vmcs_vm_entry_controls hw c = vmcs_read hw field_vm_entry_controls c"
definition vmcs_set_vm_entry_controls :: "hardware \<Rightarrow> u64 \<Rightarrow> cpu \<Rightarrow> vmcs_error \<times> cpu" where
  "vmcs_set_vm_entry_controls hw v c = vmcs_write hw field_vm_entry_controls v c"
definition vmcs_vm_entry_msr_load_count :: "hardware \<Rightarrow> cpu \<Rightarrow> u64 maybe" where
  "vmcs_vm_entry_msr_load_count hw c = vmcs_read hw field_vm_entry_msr_load_count c"
definition vmcs_set_vm_entry_msr_load_count :: "hardware \<Rightarrow> u64 \<Rightarrow> cpu \<Rightarrow> vmcs_error \<times> cpu" where
  "vmcs_set_vm_entry_msr_load_count hw v c = vmcs_write hw field_vm_entry_msr_load_count v c"
definition vmcs_vm_entry_interruption_information_field :: "hardware \<Rightarrow> cpu \<Rightarrow> u64 maybe" where
  "vmcs_vm_entry_interruption_information_field hw c = vmcs_read hw field_vm_entry_interruption_information_field c"
definition vmcs_set_vm_entry_interruption_information_field :: "hardware \<Rightarrow> u64 \<Rightarrow> cpu \<Rightarrow> vmcs_error \<times> cpu" where
  "vmcs_set_vm_entry_interruption_information_field hw v c = vmcs_write hw field_vm_entry_interruption_information_field v c"
definition vmcs_vm_entry_exception_error_code :: "hardware \<Rightarrow> cpu \<Rightarrow> u64 maybe" where
  "vmcs_vm_entry_exception_error_code hw c = vmcs_read hw field_vm_entry_exception_error_code c"
definition vmcs_set_vm_entry_exception_error_code :: "hardware \<Rightarrow> u64 \<Rightarrow> cpu \<Rightarrow> vmcs_error \<times> cpu" where
  "vmcs_set_vm_entry_exception_error_code hw v c = vmcs_write hw field_vm_entry_exception_error_code v c"
definition vmcs_vm_entry_instruction_length :: "hardware \<Rightarrow> cpu \<Rightarrow> u64 maybe" where
  "vmcs_vm_entry_instruction_length hw c = vmcs_read hw field_vm_entry_instruction_length c"
definition vmcs_set_vm_entry_instruction_length :: "hardware \<Rightarrow> u64 \<Rightarrow> cpu \<Rightarrow> vmcs_error \<times> cpu" where
  "vmcs_set_vm_entry_instruction_length hw v c = vmcs_write hw field_vm_entry_instruction_length v c"
definition vmcs_trr_threshold :: "hardware \<Rightarrow> cpu \<Rightarrow> u64 maybe" where
  "vmcs_trr_threshold hw c = vmcs_read hw field_trr_threshold c"
definition vmcs_set_trr_threshold :: "hardware \<Rightarrow> u64 \<Rightarrow> cpu \<Rightarrow> vmcs_error \<times> cpu" where
  "vmcs_set_trr_threshold hw v c = vmcs_write hw field_trr_threshold v c"
definition vmcs_secondary_processor_based_vm_execution_controls :: "hardware \<Rightarrow> cpu \<Rightarrow> u64 maybe" where
  "vmcs_secondary_processor_based_vm_execution_controls hw c = vmcs_read hw field_secondary_processor_based_vm_execution_controls c"
definition vmcs_set_secondary_processor_based_vm_execution_controls :: "hardware \<Rightarrow> u64 \<Rightarrow> cpu \<Rightarrow> vmcs_error \<times> cpu" where
  "vmcs_set_secondary_processor_based_vm_execution_controls hw v c = vmcs_write hw field_secondary_processor_based_vm_execution_controls v c"
definition vmcs_ple_gap :: "hardware \<Rightarrow> cpu \<Rightarrow> u64 maybe" where
  "vmcs_ple_gap hw c = vmcs_read hw field_ple_gap c"
definition vmcs_set_ple_gap :: "hardware \<Rightarrow> u64 \<Rightarrow> cpu \<Rightarrow> vmcs_error \<times> cpu" where
  "vmcs_set_ple_gap hw v c = vmcs_write hw field_ple_gap v c"
definition vmcs_ple_window :: "hardware \<Rightarrow> cpu \<Rightarrow> u64 maybe" where
  "vmcs_ple_window hw c = vmcs_read hw field_ple_window c"
definition vmcs_set_ple_window :: "hardware \<Rightarrow> u64 \<Rightarrow> cpu \<Rightarrow> vmcs_error \<times> cpu" where
  "vmcs_set_ple_window hw v c = vmcs_write hw field_ple_window v c"
definition vmcs_vm_instruction_error :: "hardware \<Rightarrow> cpu \<Rightarrow> u64 maybe" where
  "vmcs_vm_instruction_error hw c = vmcs_read hw field_vm_instruction_error c"
definition vmcs_set_vm_instruction_error :: "hardware \<Rightarrow> u64 \<Rightarrow> cpu \<Rightarrow> vmcs_error \<times> cpu" where
  "vmcs_set_vm_instruction_error hw v c = vmcs_write hw field_vm_instruction_error v c"
definition vmcs_exit_reason :: "hardware \<Rightarrow> cpu \<Rightarrow> u64 maybe" where
  "vmcs_exit_reason hw c = vmcs_read hw field_exit_reason c"
definition vmcs_set_exit_reason :: "hardware \<Rightarrow> u64 \<Rightarrow> cpu \<Rightarrow> vmcs_error \<times> cpu" where
  "vmcs_set_exit_reason hw v c = vmcs_write hw field_exit_reason v c"
definition vmcs_vm_exit_interruption_information :: "hardware \<Rightarrow> cpu \<Rightarrow> u64 maybe" where
  "vmcs_vm_exit_interruption_information hw c = vmcs_read hw field_vm_exit_interruption_information c"
definition vmcs_set_vm_exit_interruption_information :: "hardware \<Rightarrow> u64 \<Rightarrow> cpu \<Rightarrow> vmcs_error \<times> cpu" where
  "vmcs_set_vm_exit_interruption_information hw v c = vmcs_write hw field_vm_exit_interruption_information v c"
definition vmcs_vm_exit_interruption_error_code :: "hardware \<Rightarrow> cpu \<Rightarrow> u64 maybe" where
  "vmcs_vm_exit_interruption_error_code hw c = vmcs_read hw field_vm_exit_interruption_error_code c"
definition vmcs_set_vm_exit_interruption_error_code :: "hardware \<Rightarrow> u64 \<Rightarrow> cpu \<Rightarrow> vmcs_error \<times> cpu" where
  "vmcs_set_vm_exit_interruption_error_code hw v c = vmcs_write hw field_vm_exit_interruption_error_code v c"
definition vmcs_idt_vectoring_information_field :: "hardware \<Rightarrow> cpu \<Rightarrow> u64 maybe" where
  "vmcs_idt_vectoring_information_field hw c = vmcs_read hw field_idt_vectoring_information_field c"
definition vmcs_set_idt_vectoring_information_field :: "hardware \<Rightarrow> u64 \<Rightarrow> cpu \<Rightarrow> vmcs_error \<times> cpu" where
  "vmcs_set_idt_vectoring_information_field hw v c = vmcs_write hw field_idt_vectoring_information_field v c"
definition vmcs_idt_vectoring_error_code :: "hardware \<Rightarrow> cpu \<Rightarrow> u64 maybe" where
  "vmcs_idt_vectoring_error_code hw c = vmcs_read hw field_idt_vectoring_error_code c"
definition vmcs_set_idt_vectoring_error_code :: "hardware \<Rightarrow> u64 \<Rightarrow> cpu \<Rightarrow> vmcs_error \<times> cpu" where
  "vmcs_set_idt_vectoring_error_code hw v c = vmcs_write hw field_idt_vectoring_error_code v c"
definition vmcs_vm_exit_instruction_length :: "hardware \<Rightarrow> cpu \<Rightarrow> u64 maybe" where
  "vmcs_vm_exit_instruction_length hw c = vmcs_read hw field_vm_exit_instruction_length c"
definition vmcs_set_vm_exit_instruction_length :: "hardware \<Rightarrow> u64 \<Rightarrow> cpu \<Rightarrow> vmcs_error \<times> cpu" where
  "vmcs_set_vm_exit_instruction_length hw v c = vmcs_write hw field_vm_exit_instruction_length v c"
definition vmcs_vm_exit_instruction_information :: "hardware \<Rightarrow> cpu \<Rightarrow> u64 maybe" where
  "vmcs_vm_exit_instruction_information hw c = vmcs_read hw field_vm_exit_instruction_information c"
definition vmcs_set_vm_exit_instruction_information :: "hardware \<Rightarrow> u64 \<Rightarrow> cpu \<Rightarrow> vmcs_error \<times> cpu" where
  "vmcs_set_vm_exit_instruction_information hw v c = vmcs_write hw field_vm_exit_instruction_information v c"
definition vmcs_guest_es_limit :: "hardware \<Rightarrow> cpu \<Rightarrow> u64 maybe" where
  "vmcs_guest_es_limit hw c = vmcs_read hw field_guest_es_limit c"
definition vmcs_set_guest_es_limit :: "hardware \<Rightarrow> u64 \<Rightarrow> cpu \<Rightarrow> vmcs_error \<times> cpu" where
  "vmcs_set_guest_es_limit hw v c = vmcs_write hw field_guest_es_limit v c"
definition vmcs_guest_cs_limit :: "hardware \<Rightarrow> cpu \<Rightarrow> u64 maybe" where
  "vmcs_guest_cs_limit hw c = vmcs_read hw field_guest_cs_limit c"
definition vmcs_set_guest_cs_limit :: "hardware \<Rightarrow> u64 \<Rightarrow> cpu \<Rightarrow> vmcs_error \<times> cpu" where
  "vmcs_set_guest_cs_limit hw v c = vmcs_write hw field_guest_cs_limit v c"
definition vmcs_guest_ss_limit :: "hardware \<Rightarrow> cpu \<Rightarrow> u64 maybe" where
  "vmcs_guest_ss_limit hw c = vmcs_read hw field_guest_ss_limit c"
definition vmcs_set_guest_ss_limit :: "hardware \<Rightarrow> u64 \<Rightarrow> cpu \<Rightarrow> vmcs_error \<times> cpu" where
  "vmcs_set_guest_ss_limit hw v c = vmcs_write hw field_guest_ss_limit v c"
definition vmcs_guest_ds_limit :: "hardware \<Rightarrow> cpu \<Rightarrow> u64 maybe" where
  "vmcs_guest_ds_limit hw c = vmcs_read hw field_guest_ds_limit c"
definition vmcs_set_guest_ds_limit :: "hardware \<Rightarrow> u64 \<Rightarrow> cpu \<Rightarrow> vmcs_error \<times> cpu" where
  "vmcs_set_guest_ds_limit hw v c = vmcs_write hw field_guest_ds_limit v c"
definition vmcs_guest_fs_limit :: "hardware \<Rightarrow> cpu \<Rightarrow> u64 maybe" where
  "vmcs_guest_fs_limit hw c = vmcs_read hw field_guest_fs_limit c"
definition vmcs_set_guest_fs_limit :: "hardware \<Rightarrow> u64 \<Rightarrow> cpu \<Rightarrow> vmcs_error \<times> cpu" where
  "vmcs_set_guest_fs_limit hw v c = vmcs_write hw field_guest_fs_limit v c"
definition vmcs_guest_gs_limit :: "hardware \<Rightarrow> cpu \<Rightarrow> u64 maybe" where
  "vmcs_guest_gs_limit hw c = vmcs_read hw field_guest_gs_limit c"
definition vmcs_set_guest_gs_limit :: "hardware \<Rightarrow> u64 \<Rightarrow> cpu \<Rightarrow> vmcs_error \<times> cpu" where
  "vmcs_set_guest_gs_limit hw v c = vmcs_write hw field_guest_gs_limit v c"
definition vmcs_guest_ldtr_limit :: "hardware \<Rightarrow> cpu \<Rightarrow> u64 maybe" where
  "vmcs_guest_ldtr_limit hw c = vmcs_read hw field_guest_ldtr_limit c"
definition vmcs_set_guest_ldtr_limit :: "hardware \<Rightarrow> u64 \<Rightarrow> cpu \<Rightarrow> vmcs_error \<times> cpu" where
  "vmcs_set_guest_ldtr_limit hw v c = vmcs_write hw field_guest_ldtr_limit v c"
definition vmcs_guest_tr_limit :: "hardware \<Rightarrow> cpu \<Rightarrow> u64 maybe" where
  "vmcs_guest_tr_limit hw c = vmcs_read hw field_guest_tr_limit c"
definition vmcs_set_guest_tr_limit :: "hardware \<Rightarrow> u64 \<Rightarrow> cpu \<Rightarrow> vmcs_error \<times> cpu" where
  "vmcs_set_guest_tr_limit hw v c = vmcs_write hw field_guest_tr_limit v c"
definition vmcs_guest_gdtr_limit :: "hardware \<Rightarrow> cpu \<Rightarrow> u64 maybe" where
  "vmcs_guest_gdtr_limit hw c = vmcs_read hw field_guest_gdtr_limit c"
definition vmcs_set_guest_gdtr_limit :: "hardware \<Rightarrow> u64 \<Rightarrow> cpu \<Rightarrow> vmcs_error \<times> cpu" where
  "vmcs_set_guest_gdtr_limit hw v c = vmcs_write hw field_guest_gdtr_limit v c"
definition vmcs_guest_idtr_limit :: "hardware \<Rightarrow> cpu \<Rightarrow> u64 maybe" where
  "vmcs_guest_idtr_limit hw c = vmcs_read hw field_guest_idtr_limit c"
definition vmcs_set_guest_idtr_limit :: "hardware \<Rightarrow> u64 \<Rightarrow> cpu \<Rightarrow> vmcs_error \<times> cpu" where
  "vmcs_set_guest_idtr_limit hw v c = vmcs_write hw field_guest_idtr_limit v c"
definition vmcs_guest_es_access_rights :: "hardware \<Rightarrow> cpu \<Rightarrow> u64 maybe" where
  "vmcs_guest_es_access_rights hw c = vmcs_read hw field_guest_es_access_rights c"
definition vmcs_set_guest_es_access_rights :: "hardware \<Rightarrow> u64 \<Rightarrow> cpu \<Rightarrow> vmcs_error \<times> cpu" where
  "vmcs_set_guest_es_access_rights hw v c = vmcs_write hw field_guest_es_access_rights v c"
definition vmcs_guest_cs_access_rights :: "hardware \<Rightarrow> cpu \<Rightarrow> u64 maybe" where
  "vmcs_guest_cs_access_rights hw c = vmcs_read hw field_guest_cs_access_rights c"
definition vmcs_set_guest_cs_access_rights :: "hardware \<Rightarrow> u64 \<Rightarrow> cpu \<Rightarrow> vmcs_error \<times> cpu" where
  "vmcs_set_guest_cs_access_rights hw v c = vmcs_write hw field_guest_cs_access_rights v c"
definition vmcs_guest_ss_access_rights :: "hardware \<Rightarrow> cpu \<Rightarrow> u64 maybe" where
  "vmcs_guest_ss_access_rights hw c = vmcs_read hw field_guest_ss_access_rights c"
definition vmcs_set_guest_ss_access_rights :: "hardware \<Rightarrow> u64 \<Rightarrow> cpu \<Rightarrow> vmcs_error \<times> cpu" where
  "vmcs_set_guest_ss_access_rights hw v c = vmcs_write hw field_guest_ss_access_rights v c"
definition vmcs_guest_ds_access_rights :: "hardware \<Rightarrow> cpu \<Rightarrow> u64 maybe" where
  "vmcs_guest_ds_access_rights hw c = vmcs_read hw field_guest_ds_access_rights c"
definition vmcs_set_guest_ds_access_rights :: "hardware \<Rightarrow> u64 \<Rightarrow> cpu \<Rightarrow> vmcs_error \<times> cpu" where
  "vmcs_set_guest_ds_access_rights hw v c = vmcs_write hw field_guest_ds_access_rights v c"
definition vmcs_guest_fs_access_rights :: "hardware \<Rightarrow> cpu \<Rightarrow> u64 maybe" where
  "vmcs_guest_fs_access_rights hw c = vmcs_read hw field_guest_fs_access_rights c"
definition vmcs_set_guest_fs_access_rights :: "hardware \<Rightarrow> u64 \<Rightarrow> cpu \<Rightarrow> vmcs_error \<times> cpu" where
  "vmcs_set_guest_fs_access_rights hw v c = vmcs_write hw field_guest_fs_access_rights v c"
definition vmcs_guest_gs_access_rights :: "hardware \<Rightarrow> cpu \<Rightarrow> u64 maybe" where
  "vmcs_guest_gs_access_rights hw c = vmcs_read hw field_guest_gs_access_rights c"
definition vmcs_set_guest_gs_access_rights :: "hardware \<Rightarrow> u64 \<Rightarrow> cpu \<Rightarrow> vmcs_error \<times> cpu" where
  "vmcs_set_guest_gs_access_rights hw v c = vmcs_write hw field_guest_gs_access_rights v c"
definition vmcs_guest_ldtr_access_rights :: "hardware \<Rightarrow> cpu \<Rightarrow> u64 maybe" where
  "vmcs_guest_ldtr_access_rights hw c = vmcs_read hw field_guest_ldtr_access_rights c"
definition vmcs_set_guest_ldtr_access_rights :: "hardware \<Rightarrow> u64 \<Rightarrow> cpu \<Rightarrow> vmcs_error \<times> cpu" where
  "vmcs_set_guest_ldtr_access_rights hw v c = vmcs_write hw field_guest_ldtr_access_rights v c"
definition vmcs_guest_tr_access_rights :: "hardware \<Rightarrow> cpu \<Rightarrow> u64 maybe" where
  "vmcs_guest_tr_access_rights hw c = vmcs_read hw field_guest_tr_access_rights c"
definition vmcs_set_guest_tr_access_rights :: "hardware \<Rightarrow> u64 \<Rightarrow> cpu \<Rightarrow> vmcs_error \<times> cpu" where
  "vmcs_set_guest_tr_access_rights hw v c = vmcs_write hw field_guest_tr_access_rights v c"
definition vmcs_guest_interruptibility_state :: "hardware \<Rightarrow> cpu \<Rightarrow> u64 maybe" where
  "vmcs_guest_interruptibility_state hw c = vmcs_read hw field_guest_interruptibility_state c"
definition vmcs_set_guest_interruptibility_state :: "hardware \<Rightarrow> u64 \<Rightarrow> cpu \<Rightarrow> vmcs_error \<times> cpu" where
  "vmcs_set_guest_interruptibility_state hw v c = vmcs_write hw field_guest_interruptibility_state v c"
definition vmcs_guest_activity_state :: "hardware \<Rightarrow> cpu \<Rightarrow> u64 maybe" where
  "vmcs_guest_activity_state hw c = vmcs_read hw field_guest_activity_state c"
definition vmcs_set_guest_activity_state :: "hardware \<Rightarrow> u64 \<Rightarrow> cpu \<Rightarrow> vmcs_error \<times> cpu" where
  "vmcs_set_guest_activity_state hw v c = vmcs_write hw field_guest_activity_state v c"
definition vmcs_guest_smbase :: "hardware \<Rightarrow> cpu \<Rightarrow> u64 maybe" where
  "vmcs_guest_smbase hw c = vmcs_read hw field_guest_smbase c"
definition vmcs_set_guest_smbase :: "hardware \<Rightarrow> u64 \<Rightarrow> cpu \<Rightarrow> vmcs_error \<times> cpu" where
  "vmcs_set_guest_smbase hw v c = vmcs_write hw field_guest_smbase v c"
definition vmcs_guest_ia32_sysenter_cs :: "hardware \<Rightarrow> cpu \<Rightarrow> u64 maybe" where
  "vmcs_guest_ia32_sysenter_cs hw c = vmcs_read hw field_guest_ia32_sysenter_cs c"
definition vmcs_set_guest_ia32_sysenter_cs :: "hardware \<Rightarrow> u64 \<Rightarrow> cpu \<Rightarrow> vmcs_error \<times> cpu" where
  "vmcs_set_guest_ia32_sysenter_cs hw v c = vmcs_write hw field_guest_ia32_sysenter_cs v c"
definition vmcs_vmx_preemption_timer_value :: "hardware \<Rightarrow> cpu \<Rightarrow> u64 maybe" where
  "vmcs_vmx_preemption_timer_value hw c = vmcs_read hw field_vmx_preemption_timer_value c"
definition vmcs_set_vmx_preemption_timer_value :: "hardware \<Rightarrow> u64 \<Rightarrow> cpu \<Rightarrow> vmcs_error \<times> cpu" where
  "vmcs_set_vmx_preemption_timer_value hw v c = vmcs_write hw field_vmx_preemption_timer_value v c"
definition vmcs_host_ia32_sysenter_cs :: "hardware \<Rightarrow> cpu \<Rightarrow> u64 maybe" where
  "vmcs_host_ia32_sysenter_cs hw c = vmcs_read hw field_host_ia32_sysenter_cs c"
definition vmcs_set_host_ia32_sysenter_cs :: "hardware \<Rightarrow> u64 \<Rightarrow> cpu \<Rightarrow> vmcs_error \<times> cpu" where
  "vmcs_set_host_ia32_sysenter_cs hw v c = vmcs_write hw field_host_ia32_sysenter_cs v c"
definition vmcs_cr0_guest_host_mask :: "hardware \<Rightarrow> cpu \<Rightarrow> u64 maybe" where
  "vmcs_cr0_guest_host_mask hw c = vmcs_read hw field_cr0_guest_host_mask c"
definition vmcs_set_cr0_guest_host_mask :: "hardware \<Rightarrow> u64 \<Rightarrow> cpu \<Rightarrow> vmcs_error \<times> cpu" where
  "vmcs_set_cr0_guest_host_mask hw v c = vmcs_write hw field_cr0_guest_host_mask v c"
definition vmcs_cr4_guest_host_mask :: "hardware \<Rightarrow> cpu \<Rightarrow> u64 maybe" where
  "vmcs_cr4_guest_host_mask hw c = vmcs_read hw field_cr4_guest_host_mask c"
definition vmcs_set_cr4_guest_host_mask :: "hardware \<Rightarrow> u64 \<Rightarrow> cpu \<Rightarrow> vmcs_error \<times> cpu" where
  "vmcs_set_cr4_guest_host_mask hw v c = vmcs_write hw field_cr4_guest_host_mask v c"
definition vmcs_cr0_read_shadow :: "hardware \<Rightarrow> cpu \<Rightarrow> u64 maybe" where
  "vmcs_cr0_read_shadow hw c = vmcs_read hw field_cr0_read_shadow c"
definition vmcs_set_cr0_read_shadow :: "hardware \<Rightarrow> u64 \<Rightarrow> cpu \<Rightarrow> vmcs_error \<times> cpu" where
  "vmcs_set_cr0_read_shadow hw v c = vmcs_write hw field_cr0_read_shadow v c"
definition vmcs_cr4_read_shadow :: "hardware \<Rightarrow> cpu \<Rightarrow> u64 maybe" where
  "vmcs_cr4_read_shadow hw c = vmcs_read hw field_cr4_read_shadow c"
definition vmcs_set_cr4_read_shadow :: "hardware \<Rightarrow> u64 \<Rightarrow> cpu \<Rightarrow> vmcs_error \<times> cpu" where
  "vmcs_set_cr4_read_shadow hw v c = vmcs_write hw field_cr4_read_shadow v c"
definition vmcs_cr3_target_value_0 :: "hardware \<Rightarrow> cpu \<Rightarrow> u64 maybe" where
  "vmcs_cr3_target_value_0 hw c = vmcs_read hw field_cr3_target_value_0 c"
definition vmcs_set_cr3_target_value_0 :: "hardware \<Rightarrow> u64 \<Rightarrow> cpu \<Rightarrow> vmcs_error \<times> cpu" where
  "vmcs_set_cr3_target_value_0 hw v c = vmcs_write hw field_cr3_target_value_0 v c"
definition vmcs_cr3_target_value_1 :: "hardware \<Rightarrow> cpu \<Rightarrow> u64 maybe" where
  "vmcs_cr3_target_value_1 hw c = vmcs_read hw field_cr3_target_value_1 c"
definition vmcs_set_cr3_target_value_1 :: "hardware \<Rightarrow> u64 \<Rightarrow> cpu \<Rightarrow> vmcs_error \<times> cpu" where
  "vmcs_set_cr3_target_value_1 hw v c = vmcs_write hw field_cr3_target_value_1 v c"
definition vmcs_cr3_target_value_2 :: "hardware \<Rightarrow> cpu \<Rightarrow> u64 maybe" where
  "vmcs_cr3_target_value_2 hw c = vmcs_read hw field_cr3_target_value_2 c"
definition vmcs_set_cr3_target_value_2 :: "hardware \<Rightarrow> u64 \<Rightarrow> cpu \<Rightarrow> vmcs_error \<times> cpu" where
  "vmcs_set_cr3_target_value_2 hw v c = vmcs_write hw field_cr3_target_value_2 v c"
definition vmcs_cr3_target_value_3 :: "hardware \<Rightarrow> cpu \<Rightarrow> u64 maybe" where
  "vmcs_cr3_target_value_3 hw c = vmcs_read hw field_cr3_target_value_3 c"
definition vmcs_set_cr3_target_value_3 :: "hardware \<Rightarrow> u64 \<Rightarrow> cpu \<Rightarrow> vmcs_error \<times> cpu" where
  "vmcs_set_cr3_target_value_3 hw v c = vmcs_write hw field_cr3_target_value_3 v c"
definition vmcs_guest_cr0 :: "hardware \<Rightarrow> cpu \<Rightarrow> u64 maybe" where
  "vmcs_guest_cr0 hw c = vmcs_read hw field_guest_cr0 c"
definition vmcs_set_guest_cr0 :: "hardware \<Rightarrow> u64 \<Rightarrow> cpu \<Rightarrow> vmcs_error \<times> cpu" where
  "vmcs_set_guest_cr0 hw v c = vmcs_write hw field_guest_cr0 v c"
definition vmcs_guest_cr3 :: "hardware \<Rightarrow> cpu \<Rightarrow> u64 maybe" where
  "vmcs_guest_cr3 hw c = vmcs_read hw field_guest_cr3 c"
definition vmcs_set_guest_cr3 :: "hardware \<Rightarrow> u64 \<Rightarrow> cpu \<Rightarrow> vmcs_error \<times> cpu" where
  "vmcs_set_guest_cr3 hw v c = vmcs_write hw field_guest_cr3 v c"
definition vmcs_guest_cr4 :: "hardware \<Rightarrow> cpu \<Rightarrow> u64 maybe" where
  "vmcs_guest_cr4 hw c = vmcs_read hw field_guest_cr4 c"
definition vmcs_set_guest_cr4 :: "hardware \<Rightarrow> u64 \<Rightarrow> cpu \<Rightarrow> vmcs_error \<times> cpu" where
  "vmcs_set_guest_cr4 hw v c = vmcs_write hw field_guest_cr4 v c"
definition vmcs_guest_es_base :: "hardware \<Rightarrow> cpu \<Rightarrow> u64 maybe" where
  "vmcs_guest_es_base hw c = vmcs_read hw field_guest_es_base c"
definition vmcs_set_guest_es_base :: "hardware \<Rightarrow> u64 \<Rightarrow> cpu \<Rightarrow> vmcs_error \<times> cpu" where
  "vmcs_set_guest_es_base hw v c = vmcs_write hw field_guest_es_base v c"
definition vmcs_guest_cs_base :: "hardware \<Rightarrow> cpu \<Rightarrow> u64 maybe" where
  "vmcs_guest_cs_base hw c = vmcs_read hw field_guest_cs_base c"
definition vmcs_set_guest_cs_base :: "hardware \<Rightarrow> u64 \<Rightarrow> cpu \<Rightarrow> vmcs_error \<times> cpu" where
  "vmcs_set_guest_cs_base hw v c = vmcs_write hw field_guest_cs_base v c"
definition vmcs_guest_ss_base :: "hardware \<Rightarrow> cpu \<Rightarrow> u64 maybe" where
  "vmcs_guest_ss_base hw c = vmcs_read hw field_guest_ss_base c"
definition vmcs_set_guest_ss_base :: "hardware \<Rightarrow> u64 \<Rightarrow> cpu \<Rightarrow> vmcs_error \<times> cpu" where
  "vmcs_set_guest_ss_base hw v c = vmcs_write hw field_guest_ss_base v c"
definition vmcs_guest_ds_base :: "hardware \<Rightarrow> cpu \<Rightarrow> u64 maybe" where
  "vmcs_guest_ds_base hw c = vmcs_read hw field_guest_ds_base c"
definition vmcs_set_guest_ds_base :: "hardware \<Rightarrow> u64 \<Rightarrow> cpu \<Rightarrow> vmcs_error \<times> cpu" where
  "vmcs_set_guest_ds_base hw v c = vmcs_write hw field_guest_ds_base v c"
definition vmcs_guest_fs_base :: "hardware \<Rightarrow> cpu \<Rightarrow> u64 maybe" where
  "vmcs_guest_fs_base hw c = vmcs_read hw field_guest_fs_base c"
definition vmcs_set_guest_fs_base :: "hardware \<Rightarrow> u64 \<Rightarrow> cpu \<Rightarrow> vmcs_error \<times> cpu" where
  "vmcs_set_guest_fs_base hw v c = vmcs_write hw field_guest_fs_base v c"
definition vmcs_guest_gs_base :: "hardware \<Rightarrow> cpu \<Rightarrow> u64 maybe" where
  "vmcs_guest_gs_base hw c = vmcs_read hw field_guest_gs_base c"
definition vmcs_set_guest_gs_base :: "hardware \<Rightarrow> u64 \<Rightarrow> cpu \<Rightarrow> vmcs_error \<times> cpu" where
  "vmcs_set_guest_gs_base hw v c = vmcs_write hw field_guest_gs_base v c"
definition vmcs_guest_ldtr_base :: "hardware \<Rightarrow> cpu \<Rightarrow> u64 maybe" where
  "vmcs_guest_ldtr_base hw c = vmcs_read hw field_guest_ldtr_base c"
definition vmcs_set_guest_ldtr_base :: "hardware \<Rightarrow> u64 \<Rightarrow> cpu \<Rightarrow> vmcs_error \<times> cpu" where
  "vmcs_set_guest_ldtr_base hw v c = vmcs_write hw field_guest_ldtr_base v c"
definition vmcs_guest_tr_base :: "hardware \<Rightarrow> cpu \<Rightarrow> u64 maybe" where
  "vmcs_guest_tr_base hw c = vmcs_read hw field_guest_tr_base c"
definition vmcs_set_guest_tr_base :: "hardware \<Rightarrow> u64 \<Rightarrow> cpu \<Rightarrow> vmcs_error \<times> cpu" where
  "vmcs_set_guest_tr_base hw v c = vmcs_write hw field_guest_tr_base v c"
definition vmcs_guest_gdtr_base :: "hardware \<Rightarrow> cpu \<Rightarrow> u64 maybe" where
  "vmcs_guest_gdtr_base hw c = vmcs_read hw field_guest_gdtr_base c"
definition vmcs_set_guest_gdtr_base :: "hardware \<Rightarrow> u64 \<Rightarrow> cpu \<Rightarrow> vmcs_error \<times> cpu" where
  "vmcs_set_guest_gdtr_base hw v c = vmcs_write hw field_guest_gdtr_base v c"
definition vmcs_guest_idtr_base :: "hardware \<Rightarrow> cpu \<Rightarrow> u64 maybe" where
  "vmcs_guest_idtr_base hw c = vmcs_read hw field_guest_idtr_base c"
definition vmcs_set_guest_idtr_base :: "hardware \<Rightarrow> u64 \<Rightarrow> cpu \<Rightarrow> vmcs_error \<times> cpu" where
  "vmcs_set_guest_idtr_base hw v c = vmcs_write hw field_guest_idtr_base v c"
definition vmcs_guest_dr7 :: "hardware \<Rightarrow> cpu \<Rightarrow> u64 maybe" where
  "vmcs_guest_dr7 hw c = vmcs_read hw field_guest_dr7 c"
definition vmcs_set_guest_dr7 :: "hardware \<Rightarrow> u64 \<Rightarrow> cpu \<Rightarrow> vmcs_error \<times> cpu" where
  "vmcs_set_guest_dr7 hw v c = vmcs_write hw field_guest_dr7 v c"
definition vmcs_guest_rsp :: "hardware \<Rightarrow> cpu \<Rightarrow> u64 maybe" where
  "vmcs_guest_rsp hw c = vmcs_read hw field_guest_rsp c"
definition vmcs_set_guest_rsp :: "hardware \<Rightarrow> u64 \<Rightarrow> cpu \<Rightarrow> vmcs_error \<times> cpu" where
  "vmcs_set_guest_rsp hw v c = vmcs_write hw field_guest_rsp v c"
definition vmcs_guest_rip :: "hardware \<Rightarrow> cpu \<Rightarrow> u64 maybe" where
  "vmcs_guest_rip hw c = vmcs_read hw field_guest_rip c"
definition vmcs_set_guest_rip :: "hardware \<Rightarrow> u64 \<Rightarrow> cpu \<Rightarrow> vmcs_error \<times> cpu" where
  "vmcs_set_guest_rip hw v c = vmcs_write hw field_guest_rip v c"
definition vmcs_guest_rflags :: "hardware \<Rightarrow> cpu \<Rightarrow> u64 maybe" where
  "vmcs_guest_rflags hw c = vmcs_read hw field_guest_rflags c"
definition vmcs_set_guest_rflags :: "hardware \<Rightarrow> u64 \<Rightarrow> cpu \<Rightarrow> vmcs_error \<times> cpu" where
  "vmcs_set_guest_rflags hw v c = vmcs_write hw field_guest_rflags v c"
definition vmcs_guest_pending_debug_exceptions :: "hardware \<Rightarrow> cpu \<Rightarrow> u64 maybe" where
  "vmcs_guest_pending_debug_exceptions hw c = vmcs_read hw field_guest_pending_debug_exceptions c"
definition vmcs_set_guest_pending_debug_exceptions :: "hardware \<Rightarrow> u64 \<Rightarrow> cpu \<Rightarrow> vmcs_error \<times> cpu" where
  "vmcs_set_guest_pending_debug_exceptions hw v c = vmcs_write hw field_guest_pending_debug_exceptions v c"
definition vmcs_guest_ia32_sysenter_esp :: "hardware \<Rightarrow> cpu \<Rightarrow> u64 maybe" where
  "vmcs_guest_ia32_sysenter_esp hw c = vmcs_read hw field_guest_ia32_sysenter_esp c"
definition vmcs_set_guest_ia32_sysenter_esp :: "hardware \<Rightarrow> u64 \<Rightarrow> cpu \<Rightarrow> vmcs_error \<times> cpu" where
  "vmcs_set_guest_ia32_sysenter_esp hw v c = vmcs_write hw field_guest_ia32_sysenter_esp v c"
definition vmcs_guest_ia32_sysenter_eip :: "hardware \<Rightarrow> cpu \<Rightarrow> u64 maybe" where
  "vmcs_guest_ia32_sysenter_eip hw c = vmcs_read hw field_guest_ia32_sysenter_eip c"
definition vmcs_set_guest_ia32_sysenter_eip :: "hardware \<Rightarrow> u64 \<Rightarrow> cpu \<Rightarrow> vmcs_error \<times> cpu" where
  "vmcs_set_guest_ia32_sysenter_eip hw v c = vmcs_write hw field_guest_ia32_sysenter_eip v c"
definition vmcs_host_cr0 :: "hardware \<Rightarrow> cpu \<Rightarrow> u64 maybe" where
  "vmcs_host_cr0 hw c = vmcs_read hw field_host_cr0 c"
definition vmcs_set_host_cr0 :: "hardware \<Rightarrow> u64 \<Rightarrow> cpu \<Rightarrow> vmcs_error \<times> cpu" where
  "vmcs_set_host_cr0 hw v c = vmcs_write hw field_host_cr0 v c"
definition vmcs_host_cr3 :: "hardware \<Rightarrow> cpu \<Rightarrow> u64 maybe" where
  "vmcs_host_cr3 hw c = vmcs_read hw field_host_cr3 c"
definition vmcs_set_host_cr3 :: "hardware \<Rightarrow> u64 \<Rightarrow> cpu \<Rightarrow> vmcs_error \<times> cpu" where
  "vmcs_set_host_cr3 hw v c = vmcs_write hw field_host_cr3 v c"
definition vmcs_host_cr4 :: "hardware \<Rightarrow> cpu \<Rightarrow> u64 maybe" where
  "vmcs_host_cr4 hw c = vmcs_read hw field_host_cr4 c"
definition vmcs_set_host_cr4 :: "hardware \<Rightarrow> u64 \<Rightarrow> cpu \<Rightarrow> vmcs_error \<times> cpu" where
  "vmcs_set_host_cr4 hw v c = vmcs_write hw field_host_cr4 v c"
definition vmcs_host_fs_base :: "hardware \<Rightarrow> cpu \<Rightarrow> u64 maybe" where
  "vmcs_host_fs_base hw c = vmcs_read hw field_host_fs_base c"
definition vmcs_set_host_fs_base :: "hardware \<Rightarrow> u64 \<Rightarrow> cpu \<Rightarrow> vmcs_error \<times> cpu" where
  "vmcs_set_host_fs_base hw v c = vmcs_write hw field_host_fs_base v c"
definition vmcs_host_gs_base :: "hardware \<Rightarrow> cpu \<Rightarrow> u64 maybe" where
  "vmcs_host_gs_base hw c = vmcs_read hw field_host_gs_base c"
definition vmcs_set_host_gs_base :: "hardware \<Rightarrow> u64 \<Rightarrow> cpu \<Rightarrow> vmcs_error \<times> cpu" where
  "vmcs_set_host_gs_base hw v c = vmcs_write hw field_host_gs_base v c"
definition vmcs_host_tr_base :: "hardware \<Rightarrow> cpu \<Rightarrow> u64 maybe" where
  "vmcs_host_tr_base hw c = vmcs_read hw field_host_tr_base c"
definition vmcs_set_host_tr_base :: "hardware \<Rightarrow> u64 \<Rightarrow> cpu \<Rightarrow> vmcs_error \<times> cpu" where
  "vmcs_set_host_tr_base hw v c = vmcs_write hw field_host_tr_base v c"
definition vmcs_host_gdtr_base :: "hardware \<Rightarrow> cpu \<Rightarrow> u64 maybe" where
  "vmcs_host_gdtr_base hw c = vmcs_read hw field_host_gdtr_base c"
definition vmcs_set_host_gdtr_base :: "hardware \<Rightarrow> u64 \<Rightarrow> cpu \<Rightarrow> vmcs_error \<times> cpu" where
  "vmcs_set_host_gdtr_base hw v c = vmcs_write hw field_host_gdtr_base v c"
definition vmcs_host_idtr_base :: "hardware \<Rightarrow> cpu \<Rightarrow> u64 maybe" where
  "vmcs_host_idtr_base hw c = vmcs_read hw field_host_idtr_base c"
definition vmcs_set_host_idtr_base :: "hardware \<Rightarrow> u64 \<Rightarrow> cpu \<Rightarrow> vmcs_error \<times> cpu" where
  "vmcs_set_host_idtr_base hw v c = vmcs_write hw field_host_idtr_base v c"
definition vmcs_host_ia32_sysenter_esp :: "hardware \<Rightarrow> cpu \<Rightarrow> u64 maybe" where
  "vmcs_host_ia32_sysenter_esp hw c = vmcs_read hw field_host_ia32_sysenter_esp c"
definition vmcs_set_host_ia32_sysenter_esp :: "hardware \<Rightarrow> u64 \<Rightarrow> cpu \<Rightarrow> vmcs_error \<times> cpu" where
  "vmcs_set_host_ia32_sysenter_esp hw v c = vmcs_write hw field_host_ia32_sysenter_esp v c"
definition vmcs_host_ia32_sysenter_eip :: "hardware \<Rightarrow> cpu \<Rightarrow> u64 maybe" where
  "vmcs_host_ia32_sysenter_eip hw c = vmcs_read hw field_host_ia32_sysenter_eip c"
definition vmcs_set_host_ia32_sysenter_eip :: "hardware \<Rightarrow> u64 \<Rightarrow> cpu \<Rightarrow> vmcs_error \<times> cpu" where
  "vmcs_set_host_ia32_sysenter_eip hw v c = vmcs_write hw field_host_ia32_sysenter_eip v c"
definition vmcs_host_rsp :: "hardware \<Rightarrow> cpu \<Rightarrow> u64 maybe" where
  "vmcs_host_rsp hw c = vmcs_read hw field_host_rsp c"
definition vmcs_set_host_rsp :: "hardware \<Rightarrow> u64 \<Rightarrow> cpu \<Rightarrow> vmcs_error \<times> cpu" where
  "vmcs_set_host_rsp hw v c = vmcs_write hw field_host_rsp v c"
definition vmcs_host_rip :: "hardware \<Rightarrow> cpu \<Rightarrow> u64 maybe" where
  "vmcs_host_rip hw c = vmcs_read hw field_host_rip c"
definition vmcs_set_host_rip :: "hardware \<Rightarrow> u64 \<Rightarrow> cpu \<Rightarrow> vmcs_error \<times> cpu" where
  "vmcs_set_host_rip hw v c = vmcs_write hw field_host_rip v c"

section \<open>The accessors together\<close>

text \<open>Every field with its encoding, its reader and its writer.\<close>

definition vmcs_accessors ::
  "(u64 \<times> (hardware \<Rightarrow> cpu \<Rightarrow> u64 maybe) \<times> (hardware \<Rightarrow> u64 \<Rightarrow> cpu \<Rightarrow> vmcs_error \<times> cpu)) list" where
  "vmcs_accessors =
     [(0x0, vmcs_vpid, vmcs_set_vpid),
      (0x2, vmcs_posted_interrupt_notification_vector, vmcs_set_posted_interrupt_notification_vector),
      (0x4, vmcs_eptp_index, vmcs_set_eptp_index),
      (0x800, vmcs_guest_es_selector, vmcs_set_guest_es_selector),
      (0x802, vmcs_guest_cs_selector, vmcs_set_guest_cs_selector),
      (0x804, vmcs_guest_ss_selector, vmcs_set_guest_ss_selector),
      (0x806, vmcs_guest_ds_selector, vmcs_set_guest_ds_selector),
      (0x808, vmcs_guest_fs_selector, vmcs_set_guest_fs_selector),
      (0x80a, vmcs_guest_gs_selector, vmcs_set_guest_gs_selector),
      (0x80c, vmcs_guest_ldtr_selector, vmcs_set_guest_ldtr_selector),
      (0x80e, vmcs_guest_tr_selector, vmcs_set_guest_tr_selector),
      (0x810, vmcs_guest_interrupt_status, vmcs_set_guest_interrupt_status),
      (0x812, vmcs_pml_index, vmcs_set_pml_index),
      (0xc00, vmcs_host_es_selector, vmcs_set_host_es_selector),
      (0xc02, vmcs_host_cs_selector, vmcs_set_host_cs_selector),
      (0xc04, vmcs_host_ss_selector, vmcs_set_host_ss_selector),
      (0xc06, vmcs_host_ds_selector, vmcs_set_host_ds_selector),
      (0xc08, vmcs_host_fs_selector, vmcs_set_host_fs_selector),
      (0xc0a, vmcs_host_gs_selector, vmcs_set_host_gs_selector),
      (0xc0c, vmcs_host_tr_selector, vmcs_set_host_tr_selector),
      (0x2000, vmcs_io_bitmap_a, vmcs_set_io_bitmap_a),
      (0x2002, vmcs_io_bitmap_b, vmcs_set_io_bitmap_b),
      (0x2004, vmcs_msr_bitmap, vmcs_set_msr_bitmap),
      (0x2006, vmcs_vm_exit_msr_store_address, vmcs_set_vm_exit_msr_store_address),
      (0x2008, vmcs_vm_exit_msr_load_address, vmcs_set_vm_exit_msr_load_address),
      (0x200a, vmcs_vm_entry_msr_load_address, vmcs_set_vm_entry_msr_load_address),
      (0x200c, vmcs_excecutive_vmcs_pointer, vmcs_set_excecutive_vmcs_pointer),
      (0x200e, vmcs_pml_address, vmcs_set_pml_address),
      (0x2010, vmcs_tsc_offset, vmcs_set_tsc_offset),
      (0x2012, vmcs_virtual_apic_address, vmcs_set_virtual_apic_address),
      (0x2014, vmcs_apic_access_address, vmcs_set_apic_access_address),
      (0x2016, vmcs_posted_interrupt_descriptor_address, vmcs_set_posted_interrupt_descriptor_address),
      (0x2018, vmcs_vm_function_controls, vmcs_set_vm_function_controls),
      (0x201a, vmcs_ept_pointer, vmcs_set_ept_pointer),
      (0x201c, vmcs_eio_exit_bitmap_0, vmcs_set_eio_exit_bitmap_0),
      (0x201e, vmcs_eio_exit_bitmap_1, vmcs_set_eio_exit_bitmap_1),
      (0x2020, vmcs_eio_exit_bitmap_2, vmcs_set_eio_exit_bitmap_2),
      (0x2022, vmcs_eio_exit_bitmap_3, vmcs_set_eio_exit_bitmap_3),
      (0x2024, vmcs_eptp_list_address, vmcs_set_eptp_list_address),
      (0x2026, vmcs_vmread_bitmap_address, vmcs_set_vmread_bitmap_address),
      (0x2028, vmcs_vmwrite_bitmap_address, vmcs_set_vmwrite_bitmap_address),
      (0x202a, vmcs_virtualization_exception_information_address, vmcs_set_virtualization_exception_information_address),
      (0x202c, vmcs_xss_exiting_bitmap, vmcs_set_xss_exiting_bitmap),
      (0x202e, vmcs_encls_exiting_bitmap, vmcs_set_encls_exiting_bitmap),
      (0x2030, vmcs_sub_page_permission_table_pointer, vmcs_set_sub_page_permission_table_pointer),
      (0x2032, vmcs_tsc_multiplier, vmcs_set_tsc_multiplier),
      (0x2400, vmcs_guest_physical_address, vmcs_set_guest_physical_address),
      (0x2800, vmcs_vmcs_link_pointer, vmcs_set_vmcs_link_pointer),
      (0x2802, vmcs_guest_ia32_debugctl, vmcs_set_guest_ia32_debugctl),
      (0x2804, vmcs_guest_ia32_pat, vmcs_set_guest_ia32_pat),
      (0x2806, vmcs_guest_ia32_efer, vmcs_set_guest_ia32_efer),
      (0x2808, vmcs_guest_ia32_perf_global_ctrl, vmcs_set_guest_ia32_perf_global_ctrl),
      (0x280a, vmcs_guest_pdpte_0, vmcs_set_guest_pdpte_0),
      (0x280c, vmcs_guest_pdpte_1, vmcs_set_guest_pdpte_1),
      (0x280e, vmcs_guest_pdpte_2, vmcs_set_guest_pdpte_2),
      (0x2810, vmcs_guest_pdpte_3, vmcs_set_guest_pdpte_3),
      (0x2812, vmcs_guest_ia32_bndcfgs, vmcs_set_guest_ia32_bndcfgs),
      (0x2c00, vmcs_host_ia32_pat, vmcs_set_host_ia32_pat),
      (0x2c02, vmcs_host_ia32_efer, vmcs_set_host_ia32_efer),
      (0x2c04, vmcs_host_ia32_perf_global_ctrl, vmcs_set_host_ia32_perf_global_ctrl),
      (0x4000, vmcs_pin_based_vm_execution_controls, vmcs_set_pin_based_vm_execution_controls),
      (0x4002, vmcs_primary_processor_based_vm_execution_controls, vmcs_set_primary_processor_based_vm_execution_controls),
      (0x4004, vmcs_exception_bitmap, vmcs_set_exception_bitmap),
      (0x4006, vmcs_page_fault_error_code_mask, vmcs_set_page_fault_error_code_mask),
      (0x4008, vmcs_page_fault_error_code_match, vmcs_set_page_fault_error_code_match),
      (0x400a, vmcs_cr3_target_count, vmcs_set_cr3_target_count),
      (0x400c, vmcs_vm_exit_controls, vmcs_set_vm_exit_controls),
      (0x400e, vmcs_vm_exit_msr_store_count, vmcs_set_vm_exit_msr_store_count),
      (0x4010, vmcs_vm_exit_msr_load_count, vmcs_set_vm_exit_msr_load_count),
      (0x4012, vmcs_vm_entry_controls, vmcs_set_vm_entry_controls),
      (0x4014, vmcs_vm_entry_msr_load_count, vmcs_set_vm_entry_msr_load_count),
      (0x4016, vmcs_vm_entry_interruption_information_field, vmcs_set_vm_entry_interruption_information_field),
      (0x4018, vmcs_vm_entry_exception_error_code, vmcs_set_vm_entry_exception_error_code),
      (0x401a, vmcs_vm_entry_instruction_length, vmcs_set_vm_entry_instruction_length),
      (0x401c, vmcs_trr_threshold, vmcs_set_trr_threshold),
      (0x401e, vmcs_secondary_processor_based_vm_execution_controls, vmcs_set_secondary_processor_based_vm_execution_controls),
      (0x4020, vmcs_ple_gap, vmcs_set_ple_gap),
      (0x4022, vmcs_ple_window, vmcs_set_ple_window),
      (0x4400, vmcs_vm_instruction_error, vmcs_set_vm_instruction_error),
      (0x4402, vmcs_exit_reason, vmcs_set_exit_reason),
      (0x4404, vmcs_vm_exit_interruption_information, vmcs_set_vm_exit_interruption_information),
      (0x4406, vmcs_vm_exit_interruption_error_code, vmcs_set_vm_exit_interruption_error_code),
      (0x4408, vmcs_idt_vectoring_information_field, vmcs_set_idt_vectoring_information_field),
      (0x440a, vmcs_idt_vectoring_error_code, vmcs_set_idt_vectoring_error_code),
      (0x440c, vmcs_vm_exit_instruction_length, vmcs_set_vm_exit_instruction_length),
      (0x440e, vmcs_vm_exit_instruction_information, vmcs_set_vm_exit_instruction_information),
      (0x4800, vmcs_guest_es_limit, vmcs_set_guest_es_limit),
      (0x4802, vmcs_guest_cs_limit, vmcs_set_guest_cs_limit),
      (0x4804, vmcs_guest_ss_limit, vmcs_set_guest_ss_limit),
      (0x4806, vmcs_guest_ds_limit, vmcs_set_guest_ds_limit),
      (0x4808, vmcs_guest_fs_limit, vmcs_set_guest_fs_limit),
      (0x480a, vmcs_guest_gs_limit, vmcs_set_guest_gs_limit),
      (0x480c, vmcs_guest_ldtr_limit, vmcs_set_guest_ldtr_limit),
      (0x480e, vmcs_guest_tr_limit, vmcs_set_guest_tr_limit),
      (0x4810, vmcs_guest_gdtr_limit, vmcs_set_guest_gdtr_limit),
      (0x4812, vmcs_guest_idtr_limit, vmcs_set_guest_idtr_limit),
      (0x4814, vmcs_guest_es_access_rights, vmcs_set_guest_es_access_rights),
      (0x4816, vmcs_guest_cs_access_rights, vmcs_set_guest_cs_access_rights),
      (0x4818, vmcs_guest_ss_access_rights, vmcs_set_guest_ss_access_rights),
      (0x481a, vmcs_guest_ds_access_rights, vmcs_set_guest_ds_access_rights),
      (0x481c, vmcs_guest_fs_access_rights, vmcs_set_guest_fs_access_rights),
      (0x481e, vmcs_guest_gs_access_rights, vmcs_set_guest_gs_access_rights),
      (0x4820, vmcs_guest_ldtr_access_rights, vmcs_set_guest_ldtr_access_rights),
      (0x4822, vmcs_guest_tr_access_rights, vmcs_set_guest_tr_access_rights),
      (0x4824, vmcs_guest_interruptibility_state, vmcs_set_guest_interruptibility_state),
      (0x4826, vmcs_guest_activity_state, vmcs_set_guest_activity_state),
      (0x4828, vmcs_guest_smbase, vmcs_set_guest_smbase),
      (0x482a, vmcs_guest_ia32_sysenter_cs, vmcs_set_guest_ia32_sysenter_cs),
      (0x482e, vmcs_vmx_preemption_timer_value, vmcs_set_vmx_preemption_timer_value),
      (0x4c00, vmcs_host_ia32_sysenter_cs, vmcs_set_host_ia32_sysenter_cs),
      (0x6000, vmcs_cr0_guest_host_mask, vmcs_set_cr0_guest_host_mask),
      (0x6002, vmcs_cr4_guest_host_mask, vmcs_set_cr4_guest_host_mask),
      (0x6004, vmcs_cr0_read_shadow, vmcs_set_cr0_read_shadow),
      (0x6006, vmcs_cr4_read_shadow, vmcs_set_cr4_read_shadow),
      (0x6008, vmcs_cr3_target_value_0, vmcs_set_cr3_target_value_0),
      (0x600a, vmcs_cr3_target_value_1, vmcs_set_cr3_target_value_1),
      (0x600c, vmcs_cr3_target_value_2, vmcs_set_cr3_target_value_2),
      (0x600e, vmcs_cr3_target_value_3, vmcs_set_cr3_target_value_3),
      (0x6800, vmcs_guest_cr0, vmcs_set_guest_cr0),
      (0x6802, vmcs_guest_cr3, vmcs_set_guest_cr3),
      (0x6804, vmcs_guest_cr4, vmcs_set_guest_cr4),
      (0x6806, vmcs_guest_es_base, vmcs_set_guest_es_base),
      (0x6808, vmcs_guest_cs_base, vmcs_set_guest_cs_base),
      (0x680a, vmcs_guest_ss_base, vmcs_set_guest_ss_base),
      (0x680c, vmcs_guest_ds_base, vmcs_set_guest_ds_base),
      (0x680e, vmcs_guest_fs_base, vmcs_set_guest_fs_base),
      (0x6810, vmcs_guest_gs_base, vmcs_set_guest_gs_base),
      (0x6812, vmcs_guest_ldtr_base, vmcs_set_guest_ldtr_base),
      (0x6814, vmcs_guest_tr_base, vmcs_set_guest_tr_base),
      (0x6816, vmcs_guest_gdtr_base, vmcs_set_guest_gdtr_base),
      (0x6818, vmcs_guest_idtr_base, vmcs_set_guest_idtr_base),
      (0x681a, vmcs_guest_dr7, vmcs_set_guest_dr7),
      (0x681c, vmcs_guest_rsp, vmcs_set_guest_rsp),
      (0x681e, vmcs_guest_rip, vmcs_set_guest_rip),
      (0x6820, vmcs_guest_rflags, vmcs_set_guest_rflags),
      (0x6822, vmcs_guest_pending_debug_exceptions, vmcs_set_guest_pending_debug_exceptions),
      (0x6824, vmcs_guest_ia32_sysenter_esp, vmcs_set_guest_ia32_sysenter_esp),
      (0x6826, vmcs_guest_ia32_sysenter_eip, vmcs_set_guest_ia32_sysenter_eip),
      (0x6c00, vmcs_host_cr0, vmcs_set_host_cr0),
      (0x6c02, vmcs_host_cr3, vmcs_set_host_cr3),
      (0x6c04, vmcs_host_cr4, vmcs_set_host_cr4),
      (0x6c06, vmcs_host_fs_base, vmcs_set_host_fs_base),
      (0x6c08, vmcs_host_gs_base, vmcs_set_host_gs_base),
      (0x6c0a, vmcs_host_tr_base, vmcs_set_host_tr_base),
      (0x6c0c, vmcs_host_gdtr_base, vmcs_set_host_gdtr_base),
      (0x6c0e, vmcs_host_idtr_base, vmcs_set_host_idtr_base),
      (0x6c10, vmcs_host_ia32_sysenter_esp, vmcs_set_host_ia32_sysenter_esp),
      (0x6c12, vmcs_host_ia32_sysenter_eip, vmcs_set_host_ia32_sysenter_eip),
      (0x6c14, vmcs_host_rsp, vmcs_set_host_rsp),
      (0x6c16, vmcs_host_rip, vmcs_set_host_rip)]"

lemmas field_defs =
  field_vpid_def field_posted_interrupt_notification_vector_def field_eptp_index_def
  field_guest_es_selector_def field_guest_cs_selector_def field_guest_ss_selector_def
  field_guest_ds_selector_def field_guest_fs_selector_def field_guest_gs_selector_def
  field_guest_ldtr_selector_def field_guest_tr_selector_def field_guest_interrupt_status_def
  field_pml_index_def field_host_es_selector_def field_host_cs_selector_def
  field_host_ss_selector_def field_host_ds_selector_def field_host_fs_selector_def
  field_host_gs_selector_def field_host_tr_selector_def field_io_bitmap_a_def field_io_bitmap_b_def
  field_msr_bitmap_def field_vm_exit_msr_store_address_def field_vm_exit_msr_load_address_def
  field_vm_entry_msr_load_address_def field_excecutive_vmcs_pointer_def field_pml_address_def
  field_tsc_offset_def field_virtual_apic_address_def field_apic_access_address_def
  field_posted_interrupt_descriptor_address_def field_vm_function_controls_def
  field_ept_pointer_def field_eio_exit_bitmap_0_def field_eio_exit_bitmap_1_def
  field_eio_exit_bitmap_2_def field_eio_exit_bitmap_3_def field_eptp_list_address_def
  field_vmread_bitmap_address_def field_vmwrite_bitmap_address_def
  field_virtualization_exception_information_address_def field_xss_exiting_bitmap_def
  field_encls_exiting_bitmap_def field_sub_page_permission_table_pointer_def
  field_tsc_multiplier_def field_guest_physical_address_def field_vmcs_link_pointer_def
  field_guest_ia32_debugctl_def field_guest_ia32_pat_def field_guest_ia32_efer_def
  field_guest_ia32_perf_global_ctrl_def field_guest_pdpte_0_def field_guest_pdpte_1_def
  field_guest_pdpte_2_def field_guest_pdpte_3_def field_guest_ia32_bndcfgs_def
  field_host_ia32_pat_def field_host_ia32_efer_def field_host_ia32_perf_global_ctrl_def
  field_pin_based_vm_execution_controls_def field_primary_processor_based_vm_execution_controls_def
  field_exception_bitmap_def field_page_fault_error_code_mask_def
  field_page_fault_error_code_match_def field_cr3_target_count_def field_vm_exit_controls_def
  field_vm_exit_msr_store_count_def field_vm_exit_msr_load_count_def field_vm_entry_controls_def
  field_vm_entry_msr_load_count_def field_vm_entry_interruption_information_field_def
  field_vm_entry_exception_error_code_def field_vm_entry_instruction_length_def
  field_trr_threshold_def field_secondary_processor_based_vm_execution_controls_def
  field_ple_gap_def field_ple_window_def field_vm_instruction_error_def field_exit_reason_def
  field_vm_exit_interruption_information_def field_vm_exit_interruption_error_code_def
  field_idt_vectoring_information_field_def field_idt_vectoring_error_code_def
  field_vm_exit_instruction_length_def field_vm_exit_instruction_information_def
  field_guest_es_limit_def field_guest_cs_limit_def field_guest_ss_limit_def
  field_guest_ds_limit_def field_guest_fs_limit_def field_guest_gs_limit_def
  field_guest_ldtr_limit_def field_guest_tr_limit_def field_guest_gdtr_limit_def
  field_guest_idtr_limit_def field_guest_es_access_rights_def field_guest_cs_access_rights_def
  field_guest_ss_access_rights_def field_guest_ds_access_rights_def
  field_guest_fs_access_rights_def field_guest_gs_access_rights_def
  field_guest_ldtr_access_rights_def field_guest_tr_access_rights_def
  field_guest_interruptibility_state_def field_guest_activity_state_def field_guest_smbase_def
  field_guest_ia32_sysenter_cs_def field_vmx_preemption_timer_value_def
  field_host_ia32_sysenter_cs_def field_cr0_guest_host_mask_def field_cr4_guest_host_mask_def
  field_cr0_read_shadow_def field_cr4_read_shadow_def field_cr3_target_value_0_def
  field_cr3_target_value_1_def field_cr3_target_value_2_def field_cr3_target_value_3_def
  field_guest_cr0_def field_guest_cr3_def field_guest_cr4_def field_guest_es_base_def
  field_guest_cs_base_def field_guest_ss_base_def field_guest_ds_base_def field_guest_fs_base_def
  field_guest_gs_base_def field_guest_ldtr_base_def field_guest_tr_base_def
  field_guest_gdtr_base_def field_guest_idtr_base_def field_guest_dr7_def field_guest_rsp_def
  field_guest_rip_def field_guest_rflags_def field_guest_pending_debug_exceptions_def
  field_guest_ia32_sysenter_esp_def field_guest_ia32_sysenter_eip_def field_host_cr0_def
  field_host_cr3_def field_host_cr4_def field_host_fs_base_def field_host_gs_base_def
  field_host_tr_base_def field_host_gdtr_base_def field_host_idtr_base_def
  field_host_ia32_sysenter_esp_def field_host_ia32_sysenter_eip_def field_host_rsp_def
  field_host_rip_def

lemmas accessor_defs =
  vmcs_vpid_def vmcs_set_vpid_def vmcs_posted_interrupt_notification_vector_def
  vmcs_set_posted_interrupt_notification_vector_def vmcs_eptp_index_def vmcs_set_eptp_index_def
  vmcs_guest_es_selector_def vmcs_set_guest_es_selector_def vmcs_guest_cs_selector_def
  vmcs_set_guest_cs_selector_def vmcs_guest_ss_selector_def vmcs_set_guest_ss_selector_def
  vmcs_guest_ds_selector_def vmcs_set_guest_ds_selector_def vmcs_guest_fs_selector_def
  vmcs_set_guest_fs_selector_def vmcs_guest_gs_selector_def vmcs_set_guest_gs_selector_def
  vmcs_guest_ldtr_selector_def vmcs_set_guest_ldtr_selector_def vmcs_guest_tr_selector_def
  vmcs_set_guest_tr_selector_def vmcs_guest_interrupt_status_def
  vmcs_set_guest_interrupt_status_def vmcs_pml_index_def vmcs_set_pml_index_def
  vmcs_host_es_selector_def vmcs_set_host_es_selector_def vmcs_host_cs_selector_def
  vmcs_set_host_cs_selector_def vmcs_host_ss_selector_def vmcs_set_host_ss_selector_def
  vmcs_host_ds_selector_def vmcs_set_host_ds_selector_def vmcs_host_fs_selector_def
  vmcs_set_host_fs_selector_def vmcs_host_gs_selector_def vmcs_set_host_gs_selector_def
  vmcs_host_tr_selector_def vmcs_set_host_tr_selector_def vmcs_io_bitmap_a_def
  vmcs_set_io_bitmap_a_def vmcs_io_bitmap_b_def vmcs_set_io_bitmap_b_def vmcs_msr_bitmap_def
  vmcs_set_msr_bitmap_def vmcs_vm_exit_msr_store_address_def vmcs_set_vm_exit_msr_store_address_def
  vmcs_vm_exit_msr_load_address_def vmcs_set_vm_exit_msr_load_address_def
  vmcs_vm_entry_msr_load_address_def vmcs_set_vm_entry_msr_load_address_def
  vmcs_excecutive_vmcs_pointer_def vmcs_set_excecutive_vmcs_pointer_def vmcs_pml_address_def
  vmcs_set_pml_address_def vmcs_tsc_offset_def vmcs_set_tsc_offset_def
  vmcs_virtual_apic_address_def vmcs_set_virtual_apic_address_def vmcs_apic_access_address_def
  vmcs_set_apic_access_address_def vmcs_posted_interrupt_descriptor_address_def
  vmcs_set_posted_interrupt_descriptor_address_def vmcs_vm_function_controls_def
  vmcs_set_vm_function_controls_def vmcs_ept_pointer_def vmcs_set_ept_pointer_def
  vmcs_eio_exit_bitmap_0_def vmcs_set_eio_exit_bitmap_0_def vmcs_eio_exit_bitmap_1_def
  vmcs_set_eio_exit_bitmap_1_def vmcs_eio_exit_bitmap_2_def vmcs_set_eio_exit_bitmap_2_def
  vmcs_eio_exit_bitmap_3_def vmcs_set_eio_exit_bitmap_3_def vmcs_eptp_list_address_def
  vmcs_set_eptp_list_address_def vmcs_vmread_bitmap_address_def vmcs_set_vmread_bitmap_address_def
  vmcs_vmwrite_bitmap_address_def vmcs_set_vmwrite_bitmap_address_def
  vmcs_virtualization_exception_information_address_def
  vmcs_set_virtualization_exception_information_address_def vmcs_xss_exiting_bitmap_def
  vmcs_set_xss_exiting_bitmap_def vmcs_encls_exiting_bitmap_def vmcs_set_encls_exiting_bitmap_def
  vmcs_sub_page_permission_table_pointer_def vmcs_set_sub_page_permission_table_pointer_def
  vmcs_tsc_multiplier_def vmcs_set_tsc_multiplier_def vmcs_guest_physical_address_def
  vmcs_set_guest_physical_address_def vmcs_vmcs_link_pointer_def vmcs_set_vmcs_link_pointer_def
  vmcs_guest_ia32_debugctl_def vmcs_set_guest_ia32_debugctl_def vmcs_guest_ia32_pat_def
  vmcs_set_guest_ia32_pat_def vmcs_guest_ia32_efer_def vmcs_set_guest_ia32_efer_def
  vmcs_guest_ia32_perf_global_ctrl_def vmcs_set_guest_ia32_perf_global_ctrl_def
  vmcs_guest_pdpte_0_def vmcs_set_guest_pdpte_0_def vmcs_guest_pdpte_1_def
  vmcs_set_guest_pdpte_1_def vmcs_guest_pdpte_2_def vmcs_set_guest_pdpte_2_def
  vmcs_guest_pdpte_3_def vmcs_set_guest_pdpte_3_def vmcs_guest_ia32_bndcfgs_def
  vmcs_set_guest_ia32_bndcfgs_def vmcs_host_ia32_pat_def vmcs_set_host_ia32_pat_def
  vmcs_host_ia32_efer_def vmcs_set_host_ia32_efer_def vmcs_host_ia32_perf_global_ctrl_def
  vmcs_set_host_ia32_perf_global_ctrl_def vmcs_pin_based_vm_execution_controls_def
  vmcs_set_pin_based_vm_execution_controls_def
  vmcs_primary_processor_based_vm_execution_controls_def
  vmcs_set_primary_processor_based_vm_execution_controls_def vmcs_exception_bitmap_def
  vmcs_set_exception_bitmap_def vmcs_page_fault_error_code_mask_def
  vmcs_set_page_fault_error_code_mask_def vmcs_page_fault_error_code_match_def
  vmcs_set_page_fault_error_code_match_def vmcs_cr3_target_count_def vmcs_set_cr3_target_count_def
  vmcs_vm_exit_controls_def vmcs_set_vm_exit_controls_def vmcs_vm_exit_msr_store_count_def
  vmcs_set_vm_exit_msr_store_count_def vmcs_vm_exit_msr_load_count_def
  vmcs_set_vm_exit_msr_load_count_def vmcs_vm_entry_controls_def vmcs_set_vm_entry_controls_def
  vmcs_vm_entry_msr_load_count_def vmcs_set_vm_entry_msr_load_count_def
  vmcs_vm_entry_interruption_information_field_def
  vmcs_set_vm_entry_interruption_information_field_def vmcs_vm_entry_exception_error_code_def
  vmcs_set_vm_entry_exception_error_code_def vmcs_vm_entry_instruction_length_def
  vmcs_set_vm_entry_instruction_length_def vmcs_trr_threshold_def vmcs_set_trr_threshold_def
  vmcs_secondary_processor_based_vm_execution_controls_def
  vmcs_set_secondary_processor_based_vm_execution_controls_def vmcs_ple_gap_def
  vmcs_set_ple_gap_def vmcs_ple_window_def vmcs_set_ple_window_def vmcs_vm_instruction_error_def
  vmcs_set_vm_instruction_error_def vmcs_exit_reason_def vmcs_set_exit_reason_def
  vmcs_vm_exit_interruption_information_def vmcs_set_vm_exit_interruption_information_def
  vmcs_vm_exit_interruption_error_code_def vmcs_set_vm_exit_interruption_error_code_def
  vmcs_idt_vectoring_information_field_def vmcs_set_idt_vectoring_information_field_def
  vmcs_idt_vectoring_error_code_def vmcs_set_idt_vectoring_error_code_def
  vmcs_vm_exit_instruction_length_def vmcs_set_vm_exit_instruction_length_def
  vmcs_vm_exit_instruction_information_def vmcs_set_vm_exit_instruction_information_def
  vmcs_guest_es_limit_def vmcs_set_guest_es_limit_def vmcs_guest_cs_limit_def
  vmcs_set_guest_cs_limit_def vmcs_guest_ss_limit_def vmcs_set_guest_ss_limit_def
  vmcs_guest_ds_limit_def vmcs_set_guest_ds_limit_def vmcs_guest_fs_limit_def
  vmcs_set_guest_fs_limit_def vmcs_guest_gs_limit_def vmcs_set_guest_gs_limit_def
  vmcs_guest_ldtr_limit_def vmcs_set_guest_ldtr_limit_def vmcs_guest_tr_limit_def
  vmcs_set_guest_tr_limit_def vmcs_guest_gdtr_limit_def vmcs_set_guest_gdtr_limit_def
  vmcs_guest_idtr_limit_def vmcs_set_guest_idtr_limit_def vmcs_guest_es_access_rights_def
  vmcs_set_guest_es_access_rights_def vmcs_guest_cs_access_rights_def
  vmcs_set_guest_cs_access_rights_def vmcs_guest_ss_access_rights_def
  vmcs_set_guest_ss_access_rights_def vmcs_guest_ds_access_rights_def
  vmcs_set_guest_ds_access_rights_def vmcs_guest_fs_access_rights_def
  vmcs_set_guest_fs_access_rights_def vmcs_guest_gs_access_rights_def
  vmcs_set_guest_gs_access_rights_def vmcs_guest_ldtr_access_rights_def
  vmcs_set_guest_ldtr_access_rights_def vmcs_guest_tr_access_rights_def
  vmcs_set_guest_tr_access_rights_def vmcs_guest_interruptibility_state_def
  vmcs_set_guest_interruptibility_state_def vmcs_guest_activity_state_def
  vmcs_set_guest_activity_state_def vmcs_guest_smbase_def vmcs_set_guest_smbase_def
  vmcs_guest_ia32_sysenter_cs_def vmcs_set_guest_ia32_sysenter_cs_def
  vmcs_vmx_preemption_timer_value_def vmcs_set_vmx_preemption_timer_value_def
  vmcs_host_ia32_sysenter_cs_def vmcs_set_host_ia32_sysenter_cs_def vmcs_cr0_guest_host_mask_def
  vmcs_set_cr0_guest_host_mask_def vmcs_cr4_guest_host_mask_def vmcs_set_cr4_guest_host_mask_def
  vmcs_cr0_read_shadow_def vmcs_set_cr0_read_shadow_def vmcs_cr4_read_shadow_def
  vmcs_set_cr4_read_shadow_def vmcs_cr3_target_value_0_def vmcs_set_cr3_target_value_0_def
  vmcs_cr3_target_value_1_def vmcs_set_cr3_target_value_1_def vmcs_cr3_target_value_2_def
  vmcs_set_cr3_target_value_2_def vmcs_cr3_target_value_3_def vmcs_set_cr3_target_value_3_def
  vmcs_guest_cr0_def vmcs_set_guest_cr0_def vmcs_guest_cr3_def vmcs_set_guest_cr3_def
  vmcs_guest_cr4_def vmcs_set_guest_cr4_def vmcs_guest_es_base_def vmcs_set_guest_es_base_def
  vmcs_guest_cs_base_def vmcs_set_guest_cs_base_def vmcs_guest_ss_base_def
  vmcs_set_guest_ss_base_def vmcs_guest_ds_base_def vmcs_set_guest_ds_base_def
  vmcs_guest_fs_base_def vmcs_set_guest_fs_base_def vmcs_guest_gs_base_def
  vmcs_set_guest_gs_base_def vmcs_guest_ldtr_base_def vmcs_set_guest_ldtr_base_def
  vmcs_guest_tr_base_def vmcs_set_guest_tr_base_def vmcs_guest_gdtr_base_def
  vmcs_set_guest_gdtr_base_def vmcs_guest_idtr_base_def vmcs_set_guest_idtr_base_def
  vmcs_guest_dr7_def vmcs_set_guest_dr7_def vmcs_guest_rsp_def vmcs_set_guest_rsp_def
  vmcs_guest_rip_def vmcs_set_guest_rip_def vmcs_guest_rflags_def vmcs_set_guest_rflags_def
  vmcs_guest_pending_debug_exceptions_def vmcs_set_guest_pending_debug_exceptions_def
  vmcs_guest_ia32_sysenter_esp_def vmcs_set_guest_ia32_sysenter_esp_def
  vmcs_guest_ia32_sysenter_eip_def vmcs_set_guest_ia32_sysenter_eip_def vmcs_host_cr0_def
  vmcs_set_host_cr0_def vmcs_host_cr3_def vmcs_set_host_cr3_def vmcs_host_cr4_def
  vmcs_set_host_cr4_def vmcs_host_fs_base_def vmcs_set_host_fs_base_def vmcs_host_gs_base_def
  vmcs_set_host_gs_base_def vmcs_host_tr_base_def vmcs_set_host_tr_base_def vmcs_host_gdtr_base_def
  vmcs_set_host_gdtr_base_def vmcs_host_idtr_base_def vmcs_set_host_idtr_base_def
  vmcs_host_ia32_sysenter_esp_def vmcs_set_host_ia32_sysenter_esp_def
  vmcs_host_ia32_sysenter_eip_def vmcs_set_host_ia32_sysenter_eip_def vmcs_host_rsp_def
  vmcs_set_host_rsp_def vmcs_host_rip_def vmcs_set_host_rip_def

text \<open>An accessor pair of the table reads and writes the field it is listed with.\<close>

lemma vmcs_accessors_fields:
  "list_all (\<lambda>(f, get, put). (\<forall>hw c. get hw c = vmcs_read hw f c) \<and> (\<forall>hw v c. put hw v c = vmcs_write hw f v c)) vmcs_accessors"
  unfolding vmcs_accessors_def list.pred_inject split_conv accessor_defs field_defs by simp

text \<open>The encodings are listed in ascending order, so they differ.\<close>

lemma vmcs_accessors_ascending: "successively (<) (map fst vmcs_accessors)"
  unfolding vmcs_accessors_def by simp

lemma vmcs_accessors_distinct: "distinct (map fst vmcs_accessors)"
proof -
  have "sorted_wrt (<) (map fst vmcs_accessors)"
    using vmcs_accessors_ascending by (simp add: successively_conv_sorted_wrt transp_on_less)
  then show ?thesis by (simp add: strict_sorted_iff)
qed

section \<open>What was written is read back\<close>

text \<open>\<open>vmcs_ok\<close>: a current control structure is loaded and the processor accepts every access.\<close>

definition vmcs_ok :: "hardware \<Rightarrow> cpu \<Rightarrow> bool" where
  "vmcs_ok hw c \<longleftrightarrow> cpu_vmcs c \<noteq> None \<and> (\<forall>c f. hw_vmread hw c f = VMsucceed) \<and> (\<forall>c f v. hw_vmwrite hw c f v = VMsucceed)"

lemma vmcs_read_write:
  assumes "vmcs_ok hw c"
  shows "fst (vmcs_write hw f v c) = vmcs_success"
    and "vmcs_read hw f' (snd (vmcs_write hw f v c)) = (if f' = f then Maybe_value v else vmcs_read hw f' c)"
    and "vmcs_ok hw (snd (vmcs_write hw f v c))"
  using assms by (auto simp: vmcs_ok_def vmcs_write_def vmcs_read_def vmwrite_def vmread_def)

section \<open>Properties\<close>

text \<open>C38: The accessors of the control structure are independent: on a processor that accepts the
  accesses, writing a field through its setter succeeds, its getter reads the value back, and the
  getter of every other field reads what it read before; no two fields share an encoding.\<close>

theorem vmcs_fields_independent:
  assumes "vmcs_ok hw c" and "(f, get, put) \<in> set vmcs_accessors" and "(f', get', put') \<in> set vmcs_accessors"
  shows "fst (put hw v c) = vmcs_success \<and>
    get' hw (snd (put hw v c)) = (if f' = f then Maybe_value v else get' hw c) \<and>
    (f' = f \<longleftrightarrow> get' = get \<and> put' = put)"
proof -
  have acc: "get x y = vmcs_read x f y" "put x w y = vmcs_write x f w y"
    if "(f, get, put) \<in> set vmcs_accessors" for f get put x y w
    using vmcs_accessors_fields that by (auto simp: list_all_iff)
  have "f' = f" if "get' = get"
  proof (rule ccontr)
    assume ne: "f' \<noteq> f"
    have "vmcs_read hw f (snd (vmcs_write hw f v c)) = vmcs_read hw f' (snd (vmcs_write hw f v c))" for v
      using acc(1) [OF assms(2)] acc(1) [OF assms(3)] that by metis
    then have "Maybe_value v = vmcs_read hw f' c" for v
      using vmcs_read_write(2) [OF assms(1)] ne by simp
    from this [of 0] this [of 1] show False by (metis maybe.inject(1) zero_neq_one)
  qed
  moreover have "get' = get \<and> put' = put" if "f' = f"
    using eq_key_imp_eq_value [OF vmcs_accessors_distinct] assms(2,3) that by fast
  ultimately show ?thesis
    using vmcs_read_write [OF assms(1)] acc [OF assms(2)] acc [OF assms(3)] by auto
qed

theorem vmcs_fields_independent_witness:
  "vmcs_vpid accepting_hardware (snd (vmcs_set_eptp_index accepting_hardware 7 (reset_cpu\<lparr>cpu_vmcs := Some 0x1000\<rparr>))) = Maybe_value 0"
proof -
  let ?c = "reset_cpu\<lparr>cpu_vmcs := Some 0x1000\<rparr>"
  have ok: "vmcs_ok accepting_hardware ?c" by (simp add: vmcs_ok_def accepting_hardware_def)
  have "(4, vmcs_eptp_index, vmcs_set_eptp_index) \<in> set vmcs_accessors" "(0, vmcs_vpid, vmcs_set_vpid) \<in> set vmcs_accessors"
    unfolding vmcs_accessors_def by simp_all
  from vmcs_fields_independent [OF ok this, of 7] have
    "vmcs_vpid accepting_hardware (snd (vmcs_set_eptp_index accepting_hardware 7 ?c)) = vmcs_vpid accepting_hardware ?c"
    by simp
  then show ?thesis
    by (simp add: vmcs_vpid_def vmcs_read_def vmread_def accepting_hardware_def reset_cpu_def)
qed

end
