(* ===== verification/Vm_Exit.thy ===== *)
theory Vm_Exit
  imports Vmcs
begin

text \<open>
  The handler of VM exits: the function object \<open>main\<close> of
  \<^verbatim>\<open>src/hypervisor/hypervisor.cpp\<close> passes to \<open>vm_launch\<close>, with the exit reasons of
  \<^verbatim>\<open>include/zpp/x64/intel/vmx_exit_reason.h\<close>.
\<close>

section \<open>Exit reasons\<close>

definition exit_reason_basic :: "u64 \<Rightarrow> u32" where
  "exit_reason_basic m_value = ucast (drop_bit 0 m_value AND 0xff)"

definition reason_cpuid :: u32 where "reason_cpuid = 10"
definition reason_invd :: u32 where "reason_invd = 13"
definition reason_xsetbv :: u32 where "reason_xsetbv = 55"

lemmas reason_defs = reason_cpuid_def reason_invd_def reason_xsetbv_def

section \<open>The handler\<close>

text \<open>The instruction is executed with the low halves of \<open>rax\<close> and \<open>rcx\<close>; the two special
  leaves are recognised by the whole of \<open>rax\<close>.\<close>

definition handle_cpuid :: "hardware \<Rightarrow> cpu_context \<Rightarrow> cpu_context" where
  "handle_cpuid hw ctx =
     (let (r0, r1, r2, r3) = cpuid hw (ucast (c_rax ctx)) (ucast (c_rcx ctx));
          (r1, r2, r3) =
            (if 1 = c_rax ctx then (r1, r2 OR push_bit 31 1, r3)
             else if push_bit 30 1 = c_rax ctx then (0x5a70705a, 0x705a7070, 0x70705a70)
             else (r1, r2, r3))
      in ctx\<lparr>c_rax := ucast r0, c_rbx := ucast r1, c_rcx := ucast r2, c_rdx := ucast r3\<rparr>)"

definition handle_xsetbv :: "cpu_context \<Rightarrow> cpu \<Rightarrow> cpu" where
  "handle_xsetbv ctx c =
     (let cr4 = cpu_cr4 c;
          c = (if \<not> (cr4 AND push_bit 18 1 \<noteq> 0) then set_cr4 (cr4 OR push_bit 18 1) c else c)
      in xsetbv (ucast (c_rcx ctx)) (c_rax ctx OR push_bit 32 (c_rdx ctx)) c)"

definition handle_reason :: "hardware \<Rightarrow> u32 \<Rightarrow> cpu_context \<Rightarrow> cpu \<Rightarrow> cpu_context \<times> cpu" where
  "handle_reason hw reason ctx c =
     (if reason = reason_cpuid then (handle_cpuid hw ctx, c)
      else if reason = reason_xsetbv then (ctx, handle_xsetbv ctx c)
      else if reason = reason_invd then (ctx, invd c)
      else (ctx, c))"

text \<open>The handler either returns to \<open>vm_launch\<close>, which it is not meant to do, or restores a
  context that executes \<open>vmresume\<close>.  Reading the value of a \<open>maybe\<close> that holds an error is
  undefined.\<close>

datatype exit_result = Vmm_returned cpu_context cpu | Vmm_resume cpu_context cpu

definition vm_exit_handler :: "hardware \<Rightarrow> u64 \<Rightarrow> cpu_context \<Rightarrow> cpu \<Rightarrow> exit_result option" where
  "vm_exit_handler hw vmresume ctx c = do {
     vpid \<leftarrow> maybe_value (vmcs_vpid hw c);
     (if \<not> maybe_bool (vmcs_exit_reason hw c) then Some (Vmm_returned ctx c)
      else do {
        r \<leftarrow> maybe_value (vmcs_exit_reason hw c);
        let reason = exit_reason_basic r;
        rip \<leftarrow> maybe_value (vmcs_guest_rip hw c);
        let (ctx, c) = handle_reason hw reason (ctx\<lparr>c_rip := rip\<rparr>) c;
        len \<leftarrow> maybe_value (vmcs_vm_exit_instruction_length hw c);
        let ctx = ctx\<lparr>c_rip := c_rip ctx + len\<rparr>;
        let c = snd (vmcs_set_guest_rip hw (c_rip ctx) c);
        Some (Vmm_resume (ctx\<lparr>c_rip := vmresume\<rparr>) c)
      })
   }"

section \<open>What the handler does\<close>

lemma handle_reason_vmcs:
  "cpu_vmcs (snd (handle_reason hw reason ctx c)) = cpu_vmcs c"
  "cpu_vmcs_data (snd (handle_reason hw reason ctx c)) = cpu_vmcs_data c"
  "c_rip (fst (handle_reason hw reason ctx c)) = c_rip ctx"
  by (auto simp: handle_reason_def handle_cpuid_def handle_xsetbv_def xsetbv_def cpu_ops Let_def split: prod.splits)

lemma vmcs_ok_cong: "cpu_vmcs c' = cpu_vmcs c \<Longrightarrow> vmcs_ok hw c' = vmcs_ok hw c"
  by (simp add: vmcs_ok_def)

lemma vmcs_read_ok: "vmcs_ok hw c \<Longrightarrow> cpu_vmcs c = Some r \<Longrightarrow> vmcs_read hw f c = Maybe_value (cpu_vmcs_data c r f)"
  by (simp add: vmcs_ok_def vmcs_read_def vmread_def)

text \<open>With an accepting processor the handler resumes the guest behind the instruction.\<close>

lemma vm_exit_handler_resumes:
  fixes ctx :: cpu_context
  assumes ok: "vmcs_ok hw c" and r: "cpu_vmcs c = Some r"
  defines "data \<equiv> cpu_vmcs_data c r"
  defines "res \<equiv> handle_reason hw (exit_reason_basic (data field_exit_reason)) (ctx\<lparr>c_rip := data field_guest_rip\<rparr>) c"
  shows "vm_exit_handler hw vmresume ctx c =
    Some (Vmm_resume ((fst res)\<lparr>c_rip := vmresume\<rparr>)
      (snd (vmcs_set_guest_rip hw (data field_guest_rip + data field_vm_exit_instruction_length) (snd res))))"
proof -
  note rd = vmcs_read_ok [OF ok r, folded data_def]
  have ok': "vmcs_ok hw (snd res)" and r': "cpu_vmcs (snd res) = Some r" and d: "cpu_vmcs_data (snd res) r = data"
    using ok r vmcs_ok_cong [of "snd res" c] by (simp_all add: res_def handle_reason_vmcs data_def)
  have len: "vmcs_vm_exit_instruction_length hw (snd res) = Maybe_value (data field_vm_exit_instruction_length)"
    using vmcs_read_ok [OF ok' r'] d by (simp add: vmcs_vm_exit_instruction_length_def)
  obtain ctx' c' where res: "res = (ctx', c')" by (cases res)
  have hr: "handle_reason hw (exit_reason_basic (data field_exit_reason)) (ctx\<lparr>c_rip := data field_guest_rip\<rparr>) c = (ctx', c')"
    using res by (simp add: res_def)
  have rip: "c_rip ctx' = data field_guest_rip"
    using handle_reason_vmcs(3) [of hw "exit_reason_basic (data field_exit_reason)" "ctx\<lparr>c_rip := data field_guest_rip\<rparr>" c]
    by (simp add: hr)
  show ?thesis
    using len rip
    by (simp add: vm_exit_handler_def vmcs_vpid_def vmcs_exit_reason_def vmcs_guest_rip_def rd maybe_bool_def hr res)
qed

lemma bit_push_bit_one: "k < LENGTH('a) \<Longrightarrow> bit (push_bit k (1 :: 'a :: len word)) i \<longleftrightarrow> i = k"
  by (auto simp: push_bit_eq_mult bit_exp_iff)

section \<open>Properties\<close>

text \<open>On a processor that accepts the accesses to the control structure, every VM exit ends in
  \<open>vmresume\<close>: the guest continues behind the instruction that exited (\<open>guest_rip\<close> advanced by
  the instruction length), no other field of the control structure changes, and an exit that is not
  \<open>cpuid\<close>, \<open>xsetbv\<close> or \<open>invd\<close> changes no register of the guest.\<close>

theorem vm_exit_resumes:
  assumes "vmcs_ok hw c" and "cpu_vmcs c = Some r"
  shows "\<exists>ctx' c'. vm_exit_handler hw vmresume ctx c = Some (Vmm_resume ctx' c') \<and> c_rip ctx' = vmresume \<and>
    (\<forall>f. vmcs_read hw f c' =
      (if f = field_guest_rip
       then Maybe_value (cpu_vmcs_data c r field_guest_rip + cpu_vmcs_data c r field_vm_exit_instruction_length)
       else vmcs_read hw f c)) \<and>
    (exit_reason_basic (cpu_vmcs_data c r field_exit_reason) \<notin> {reason_cpuid, reason_xsetbv, reason_invd} \<longrightarrow>
       ctx' = ctx\<lparr>c_rip := vmresume\<rparr> \<and>
       c' = snd (vmcs_set_guest_rip hw (cpu_vmcs_data c r field_guest_rip + cpu_vmcs_data c r field_vm_exit_instruction_length) c))"
proof -
  let ?d = "cpu_vmcs_data c r"
  let ?res = "handle_reason hw (exit_reason_basic (?d field_exit_reason)) (ctx\<lparr>c_rip := ?d field_guest_rip\<rparr>) c"
  let ?c' = "snd (vmcs_set_guest_rip hw (?d field_guest_rip + ?d field_vm_exit_instruction_length) (snd ?res))"
  note run = vm_exit_handler_resumes [OF assms, where ctx = ctx and vmresume = vmresume]
  have ok: "vmcs_ok hw (snd ?res)" and r: "cpu_vmcs (snd ?res) = Some r"
    using assms vmcs_ok_cong [of "snd ?res" c] by (simp_all add: handle_reason_vmcs)
  have same: "vmcs_read hw f (snd ?res) = vmcs_read hw f c" for f
    using vmcs_read_ok [OF ok r] vmcs_read_ok [OF assms] by (simp add: handle_reason_vmcs)
  have "vmcs_read hw f ?c' = (if f = field_guest_rip
      then Maybe_value (?d field_guest_rip + ?d field_vm_exit_instruction_length) else vmcs_read hw f c)" for f
    using vmcs_read_write(2) [OF ok] same by (simp add: vmcs_set_guest_rip_def)
  moreover have "?res = (ctx\<lparr>c_rip := ?d field_guest_rip\<rparr>, c)"
    if "exit_reason_basic (?d field_exit_reason) \<notin> {reason_cpuid, reason_xsetbv, reason_invd}"
    using that by (simp add: handle_reason_def)
  ultimately show ?thesis using run by auto
qed

text \<open>A processor with a current control structure whose guest exited at address \<open>0x7000\<close>.\<close>

definition exited_cpu :: "u64 \<Rightarrow> cpu" where
  "exited_cpu reason = reset_cpu\<lparr>cpu_vmcs := Some 0x1000,
     cpu_vmcs_data := (\<lambda>_. (\<lambda>_. 0)(field_exit_reason := reason, field_guest_rip := 0x7000, field_vm_exit_instruction_length := 2))\<rparr>"

lemma exited_cpu_ok:
  "vmcs_ok accepting_hardware (exited_cpu reason)" "cpu_vmcs (exited_cpu reason) = Some 0x1000"
  "cpu_vmcs_data (exited_cpu reason) 0x1000 field_guest_rip = 0x7000"
  "cpu_vmcs_data (exited_cpu reason) 0x1000 field_vm_exit_instruction_length = 2"
  "cpu_vmcs_data (exited_cpu reason) 0x1000 field_exit_reason = reason"
  by (simp_all add: exited_cpu_def vmcs_ok_def accepting_hardware_def field_guest_rip_def
      field_vm_exit_instruction_length_def field_exit_reason_def)

theorem vm_exit_resumes_witness:
  "\<exists>ctx' c'. vm_exit_handler accepting_hardware 0x9000 zero_context (exited_cpu 18) = Some (Vmm_resume ctx' c') \<and>
     c_rip ctx' = 0x9000 \<and> vmcs_guest_rip accepting_hardware c' = Maybe_value 0x7002"
  using vm_exit_resumes [OF exited_cpu_ok(1,2) [of 18], where ctx = zero_context and vmresume = "0x9000"]
  by (auto simp: vmcs_guest_rip_def exited_cpu_ok)

text \<open>The bytes of a 32-bit register, lowest first, and of a string.\<close>

definition register_bytes :: "u64 \<Rightarrow> u8 list" where
  "register_bytes w = map (\<lambda>i. ucast (drop_bit (8 * i) w)) [0..<4]"

definition string_bytes :: "string \<Rightarrow> u8 list" where
  "string_bytes s = map of_char s"



text \<open>An \<open>xsetbv\<close> exit writes the guest's value into the extended control register \<open>ecx\<close>
  selects: \<open>edx:eax\<close> when the upper half of \<open>rax\<close> is zero, as after a 32-bit move; otherwise
  that half is mixed into \<open>edx\<close>.  \<open>OSXSAVE\<close> is switched on in \<open>cr4\<close>, and nothing else
  changes.\<close>

theorem xsetbv_writes_guest_value:
  "let c' = handle_xsetbv ctx c in
   c' = c\<lparr>cpu_cr4 := cpu_cr4 c', cpu_xcr := (cpu_xcr c)(ucast (c_rcx ctx) := cpu_xcr c' (ucast (c_rcx ctx)))\<rparr> \<and>
   cpu_cr4 c' = cpu_cr4 c OR push_bit 18 1 \<and>
   drop_bit 32 (cpu_xcr c' (ucast (c_rcx ctx))) = drop_bit 32 (c_rax ctx) OR take_bit 32 (c_rdx ctx) \<and>
   take_bit 32 (cpu_xcr c' (ucast (c_rcx ctx))) = take_bit 32 (c_rax ctx)"
proof -
  have flag: "bit (push_bit 18 (1 :: u64)) i \<longleftrightarrow> i = 18" for i by (rule bit_push_bit_one) simp
  have cr4: "(if w AND push_bit 18 1 = 0 then w OR push_bit 18 1 else w) = w OR push_bit 18 1" for w :: u64
  proof (cases "w AND push_bit 18 1 = 0")
    case False
    then have "bit w 18" by (simp add: bit_iff_and_push_bit_not_eq_0)
    then have "w OR push_bit 18 1 = w"
      by (intro bit_eqI) (auto simp only: bit_or_iff flag)
    with False show ?thesis by simp
  qed simp
  let ?v = "c_rax ctx OR push_bit 32 (c_rdx ctx)" and ?x = "ucast (c_rcx ctx) :: u32"
  have high: "drop_bit 32 ?v = drop_bit 32 (c_rax ctx) OR take_bit 32 (c_rdx ctx)"
    by (rule bit_eqI) (auto simp: bit_simps dest: u64_bit_bound)
  have low: "take_bit 32 ?v = take_bit 32 (c_rax ctx)"
    by (rule bit_eqI) (auto simp: bit_simps)
  have eq: "handle_xsetbv ctx c = xsetbv ?x ?v (c\<lparr>cpu_cr4 := cpu_cr4 c OR push_bit 18 1\<rparr>)"
    unfolding handle_xsetbv_def Let_def set_cr4_def
    using cr4 [of "cpu_cr4 c"] by (cases "cpu_cr4 c AND push_bit 18 1 = 0") simp_all
  have "handle_xsetbv ctx c = c\<lparr>cpu_cr4 := cpu_cr4 c OR push_bit 18 1, cpu_xcr := (cpu_xcr c)(?x := ?v)\<rparr>"
    unfolding eq using xsetbv_value [of ?x ?v c] by (simp add: xsetbv_def Let_def)
  then show ?thesis using high low by (simp add: Let_def)
qed

end
