(* ===== verification/Exit_Path.thy ===== *)
theory Exit_Path
  imports Thunks Vm_Exit
begin

text \<open>
  The path of a VM exit through the assembly and the compiled code: the processor enters
  \<open>vm_exit_entry\<close> (\<^verbatim>\<open>x64/vm_exit_entry.cpp\<close>), which stores the registers of the guest and calls
  \<open>zpp_vm_exit\<close>; that restores the context of the host, which continues in \<open>vm_launch\<close> behind
  \<open>capture_context\<close> and calls the handler with the context of the guest; and the handler restores
  this one with \<open>rip\<close> at \<open>vmresume\<close>.
\<close>

section \<open>The path\<close>

text \<open>The compiled code between the assembly functions is a parameter: \<open>prologue\<close> is \<open>zpp_vm_exit\<close> up to its
  call of \<open>restore_context\<close>, \<open>vmm\<close> is \<open>vm_launch\<close> with the handler up to its call.\<close>

definition zpp_vm_exit ::
  "(u64 \<Rightarrow> u64 \<Rightarrow> u64) \<Rightarrow> (asm_state \<Rightarrow> asm_state) \<Rightarrow> asm_state \<Rightarrow> asm_state" where
  "zpp_vm_exit flags prologue s = run flags restore_context (prologue s)"

definition host_continues ::
  "(u64 \<Rightarrow> u64 \<Rightarrow> u64) \<Rightarrow> u64 \<Rightarrow> (asm_state \<Rightarrow> asm_state) \<Rightarrow> asm_state \<Rightarrow> asm_state" where
  "host_continues flags ret prologue s = zpp_vm_exit flags prologue (run flags (vm_exit_entry ret) s)"

definition vm_exit_path ::
  "(u64 \<Rightarrow> u64 \<Rightarrow> u64) \<Rightarrow> u64 \<Rightarrow> (asm_state \<Rightarrow> asm_state) \<Rightarrow> (asm_state \<Rightarrow> asm_state) \<Rightarrow> asm_state \<Rightarrow> asm_state" where
  "vm_exit_path flags ret prologue vmm s = run flags restore_context (vmm (host_continues flags ret prologue s))"

text \<open>What the code calls \<open>restore_context\<close> with: the argument and a stack that does not overlap \<open>n\<close>
  bytes from \<open>a\<close>, which it leaves alone.\<close>

definition passes_on :: "u64 \<Rightarrow> nat \<Rightarrow> asm_state \<Rightarrow> asm_state \<Rightarrow> bool" where
  "passes_on a n e m \<longleftrightarrow> a_reg m RDI = a_reg e RDI \<and> apart (a_reg e RDI) 0x3a0 (a_reg m RSP - 48) 48 \<and>
     (\<forall>j < n. a_mem m (a + of_nat j) = a_mem e (a + of_nat j) \<and> 48 \<le> unat (a + of_nat j - (a_reg m RSP - 48)))"

text \<open>The compiled \<open>vm_launch\<close> and handler do what \<open>vm_exit_handler\<close> does to the context at \<open>p\<close>.\<close>

definition handles_exit :: "hardware \<Rightarrow> u64 \<Rightarrow> cpu \<Rightarrow> u64 \<Rightarrow> asm_state \<Rightarrow> asm_state \<Rightarrow> bool" where
  "handles_exit hw vmresume c p e m \<longleftrightarrow>
     (\<forall>ctx' c'. vm_exit_handler hw vmresume (context_at (a_mem e) p) c = Some (Vmm_resume ctx' c') \<longrightarrow>
        a_reg m RDI = p \<and> context_at (a_mem m) p = ctx' \<and> apart p 0x3a0 (a_reg m RSP - 48) 48)"

section \<open>The host continues\<close>

lemma unat_offset_small: "j < 2 ^ 32 \<Longrightarrow> unat (a + of_nat j - a :: u64) = j"
  using unat_of_nat_u64 [of j] by simp

lemma vm_exit_entry_keeps:
  assumes "j < 0x3a0"
  shows "a_mem (run flags (vm_exit_entry ret) s) (a_reg s RSP + 0x3a0 + of_nat j) = a_mem s (a_reg s RSP + 0x3a0 + of_nat j)"
proof (rule vm_exit_entry_run(4))
  have "a_reg s RSP + 0x3a0 + of_nat j - (a_reg s RSP - 40) = of_nat (0x3a0 + 40 + j)" by simp
  also have "unat \<dots> = 0x3a0 + 40 + j" using assms by (intro unat_of_nat_u64) simp
  finally show "0x3a0 + 40 \<le> unat (a_reg s RSP + 0x3a0 + of_nat j - (a_reg s RSP - 40))" by simp
qed

lemma host_continues_run:
  fixes flags ret s prologue
  defines "e \<equiv> run flags (vm_exit_entry ret) s" and "sp \<equiv> a_reg s RSP"
  defines "h \<equiv> host_continues flags ret prologue s" and "host \<equiv> context_at (a_mem s) (a_reg s RSP + 0x3a0)"
  assumes "passes_on sp 0x740 e (prologue e)"
  shows "a_reg h = context_reg host" and "a_rip h = c_rip host" and "a_rflags h = c_rflags host"
    and "context_at (a_mem h) sp = context_of s sp ret"
proof -
  let ?m = "prologue e"
  have rdi: "a_reg ?m RDI = sp + 0x3a0"
    using assms(5) vm_exit_entry_run(1) [where flags = flags and ret = ret and s = s] by (simp add: passes_on_def e_def sp_def)
  have apart: "apart (a_reg ?m RDI) 0x3a0 (a_reg ?m RSP - 48) 48" using assms(5) by (simp add: passes_on_def)
  have same: "a_mem ?m (sp + of_nat j) = a_mem e (sp + of_nat j)" "48 \<le> unat (sp + of_nat j - (a_reg ?m RSP - 48))"
    if "j < 0x740" for j using assms(5) that by (simp_all add: passes_on_def)
  have "context_at (a_mem ?m) (sp + 0x3a0) = context_at (a_mem s) (sp + 0x3a0)"
  proof (rule context_at_cong)
    fix j :: nat assume j: "j < 0x3a0"
    then show "a_mem ?m (sp + 0x3a0 + of_nat j) = a_mem s (sp + 0x3a0 + of_nat j)"
      using same(1) [of "0x3a0 + j"] vm_exit_entry_keeps [OF j, of flags ret s] by (simp add: e_def sp_def add.assoc)
  qed
  then have host: "context_at (a_mem ?m) (a_reg ?m RDI) = host" by (simp add: rdi host_def sp_def)
  note r = restore_context_run [OF apart, of flags, unfolded host]
  have h: "h = run flags restore_context ?m" by (simp add: h_def host_continues_def zpp_vm_exit_def e_def)
  show "a_reg h = context_reg host" "a_rip h = c_rip host" "a_rflags h = c_rflags host" unfolding h by (rule r)+
  have "context_at (a_mem h) sp = context_at (a_mem e) sp"
    unfolding h by (rule context_at_cong) (use same restore_context_frame in simp)
  then show "context_at (a_mem h) sp = context_of s sp ret" unfolding e_def sp_def vm_exit_entry_run(3) .
qed

section \<open>The guest resumes\<close>

lemma handle_cpuid_context:
  "handle_cpuid hw (ctx\<lparr>c_rip := ip\<rparr>) = (handle_cpuid hw ctx)\<lparr>c_rip := ip\<rparr>"
  "c_rflags (handle_cpuid hw ctx) = c_rflags ctx" "c_xmm (handle_cpuid hw ctx) = c_xmm ctx"
  "c_fxsave (handle_cpuid hw ctx) = c_fxsave ctx"
  by (simp_all add: handle_cpuid_def Let_def split: prod.splits)

lemma handle_cpuid_reg:
  "x \<notin> {RAX, RBX, RCX, RDX} \<Longrightarrow> context_reg (handle_cpuid hw ctx) x = context_reg ctx x"
  by (cases x) (simp_all add: handle_cpuid_def Let_def split: prod.splits)

text \<open>The context the handler leaves.\<close>

lemma handler_context:
  assumes "vmcs_ok hw c" and "cpu_vmcs c = Some r"
  shows "\<exists>c'. vm_exit_handler hw vmresume ctx c = Some (Vmm_resume
    ((if exit_reason_basic (cpu_vmcs_data c r field_exit_reason) = reason_cpuid then handle_cpuid hw ctx else ctx)\<lparr>c_rip := vmresume\<rparr>) c')"
  unfolding vm_exit_handler_resumes [OF assms]
  by (auto simp: handle_reason_def handle_cpuid_context(1))

lemma context_reg_of:
  "context_reg (context_of s (a_reg s RSP) ip) x = a_reg s x"
  "context_reg (ctx\<lparr>c_rip := ip\<rparr>) x = context_reg ctx x"
  by (cases x; simp add: context_of_def)+

section \<open>The whole path\<close>

text \<open>The host continues behind its \<open>capture_context\<close> with the registers it had saved, and from there the
  processor gets to \<open>vmresume\<close> with the registers the handler left.\<close>

lemma exit_path_run:
  fixes flags ret s prologue vmm
  defines "h \<equiv> host_continues flags ret prologue s" and "t \<equiv> vm_exit_path flags ret prologue vmm s"
  assumes "vmcs_ok hw c" and "cpu_vmcs c = Some r"
    and "passes_on (a_reg s RSP) 0x740 (run flags (vm_exit_entry ret) s) (prologue (run flags (vm_exit_entry ret) s))"
    and "handles_exit hw vmresume c (a_reg s RSP) h (vmm h)"
  shows "let host = context_at (a_mem s) (a_reg s RSP + sizeof_context); guest = context_of s (a_reg s RSP) ret;
      reason = exit_reason_basic (cpu_vmcs_data c r field_exit_reason) in
    a_rip h = c_rip host \<and> a_reg h = context_reg host \<and>
    a_rip t = vmresume \<and> a_rflags t = a_rflags s \<and> (\<forall>i < 16. a_xmm t i = a_xmm s i) \<and> a_mxcsr t = a_mxcsr s \<and>
    (\<forall>j. x87_byte j \<longrightarrow> a_fx t j = a_fx s j) \<and> (\<forall>x. x \<notin> {RAX, RBX, RCX, RDX} \<longrightarrow> a_reg t x = a_reg s x) \<and>
    a_reg t = (if reason = reason_cpuid then context_reg (handle_cpuid hw guest) else a_reg s) \<and>
    read_u64 (a_mem t) (a_reg s RSP) = a_reg t RAX"
proof -
  let ?sp = "a_reg s RSP"
  let ?guest = "context_of s ?sp ret" and ?reason = "exit_reason_basic (cpu_vmcs_data c r field_exit_reason)"
  let ?ctx = "(if ?reason = reason_cpuid then handle_cpuid hw ?guest else ?guest)\<lparr>c_rip := vmresume\<rparr>"
  note host = host_continues_run [where flags = flags and ret = ret and s = s and prologue = prologue, OF assms(5), folded h_def]
  have m: "a_reg (vmm h) RDI = ?sp" "context_at (a_mem (vmm h)) ?sp = ?ctx" "apart (a_reg (vmm h) RDI) 0x3a0 (a_reg (vmm h) RSP - 48) 48"
    using assms(6) handler_context [OF assms(3,4), of vmresume ?guest] unfolding handles_exit_def host(4) by auto
  have t: "t = run flags restore_context (vmm h)" by (simp add: t_def vm_exit_path_def h_def)
  note res = restore_context_run [OF m(3), of flags, unfolded m(1,2), folded t]
  have "apart (a_reg (vmm h) RSP - 48) 48 ?sp 8" using apart_sym_part [OF m(3) [unfolded m(1)], of 0 8 0 48] by simp
  then have "read_u64 (a_mem t) ?sp = read_u64 (a_mem (vmm h)) ?sp"
    unfolding t read_u64_def by (intro read_le_cong restore_context_frame apart_offset)
  also have "\<dots> = c_rax (context_at (a_mem (vmm h)) ?sp)" by (simp add: context_at_def)
  also have "\<dots> = a_reg t RAX" by (simp add: m(2) res(1))
  finally have "read_u64 (a_mem t) ?sp = a_reg t RAX" .
  moreover have "a_mxcsr t = a_mxcsr s"
    unfolding res(6) by (rule context_at_mxcsr) (simp add: m(2) handle_cpuid_context context_of_def fx_image_def)
  moreover have "a_reg t x = a_reg s x" if "x \<notin> {RAX, RBX, RCX, RDX}" for x
    using that by (simp add: res(1) context_reg_of handle_cpuid_reg)
  moreover have "a_reg t = (if ?reason = reason_cpuid then context_reg (handle_cpuid hw ?guest) else a_reg s)"
    by (simp add: res(1) context_reg_of fun_eq_iff)
  ultimately show ?thesis
    by (simp add: host res(2-5,7) handle_cpuid_context Let_def sizeof_context_def)
      (simp add: context_of_def fx_image_def x87_byte_def)
qed

end
