(* ===== verification/Ept_Entry.thy ===== *)
theory Ept_Entry
  imports Prelude
begin

text \<open>
  The enumeration \<open>memory_type\<close> of \<^verbatim>\<open>include/zpp/x64/memory_type.h\<close>, the class
  \<open>epte\<close> of \<^verbatim>\<open>include/zpp/x64/intel/ept.h\<close> (an entry of the extended page tables)
  and the class \<open>ept_pointer\<close> of \<^verbatim>\<open>include/zpp/x64/intel/ept_pointer.h\<close>.  An
  \<open>enum class\<close> over \<open>int\<close> may hold any \<open>int\<close> (the source casts register
  contents to it), so a memory type is a 32-bit word and the enumerators are constants.
\<close>

section \<open>Memory types\<close>

type_synonym memory_type = u32

definition uncachable :: memory_type where "uncachable = 0"
definition write_combining :: memory_type where "write_combining = 1"
definition write_through :: memory_type where "write_through = 4"
definition write_protected :: memory_type where "write_protected = 5"
definition write_back :: memory_type where "write_back = 6"

lemmas memory_type_defs = uncachable_def write_combining_def write_through_def
  write_protected_def write_back_def

section \<open>Entries of the extended page tables\<close>

definition epte_read :: "u64 \<Rightarrow> bool" where
  "epte_read m_value \<longleftrightarrow> m_value AND 1 \<noteq> 0"

definition epte_set_read :: "bool \<Rightarrow> u64 \<Rightarrow> u64" where
  "epte_set_read value m_value = (m_value AND NOT 1) OR of_bool value"

interpretation epte_read: bit_flag epte_read epte_set_read 0
  by unfold_locales (simp_all add: epte_read_def epte_set_read_def flag_eval)

definition epte_write :: "u64 \<Rightarrow> bool" where
  "epte_write m_value \<longleftrightarrow> m_value AND push_bit 1 1 \<noteq> 0"

definition epte_set_write :: "bool \<Rightarrow> u64 \<Rightarrow> u64" where
  "epte_set_write value m_value = (m_value AND NOT (push_bit 1 1)) OR push_bit 1 (of_bool value)"

interpretation epte_write: bit_flag epte_write epte_set_write 1
  by unfold_locales (simp_all add: epte_write_def epte_set_write_def flag_eval)

definition epte_execute :: "u64 \<Rightarrow> bool" where
  "epte_execute m_value \<longleftrightarrow> m_value AND push_bit 2 1 \<noteq> 0"

definition epte_set_execute :: "bool \<Rightarrow> u64 \<Rightarrow> u64" where
  "epte_set_execute value m_value = (m_value AND NOT (push_bit 2 1)) OR push_bit 2 (of_bool value)"

interpretation epte_execute: bit_flag epte_execute epte_set_execute 2
  by unfold_locales (simp_all add: epte_execute_def epte_set_execute_def flag_eval)

text \<open>The memory type: the getter reads and the setter clears three bits, the setter stores
  four.\<close>

definition epte_type :: "u64 \<Rightarrow> memory_type" where
  "epte_type m_value = ucast (drop_bit 3 m_value AND 0x7)"

definition epte_set_type :: "memory_type \<Rightarrow> u64 \<Rightarrow> u64" where
  "epte_set_type value m_value =
     (m_value AND NOT (push_bit 3 0x7)) OR push_bit 3 (scast value AND 0xf)"

definition epte_large :: "u64 \<Rightarrow> bool" where
  "epte_large m_value \<longleftrightarrow> m_value AND push_bit 7 1 \<noteq> 0"

definition epte_set_large :: "bool \<Rightarrow> u64 \<Rightarrow> u64" where
  "epte_set_large value m_value = (m_value AND NOT (push_bit 7 1)) OR push_bit 7 (of_bool value)"

interpretation epte_large: bit_flag epte_large epte_set_large 7
  by unfold_locales (simp_all add: epte_large_def epte_set_large_def flag_eval)

definition epte_accessed :: "u64 \<Rightarrow> bool" where
  "epte_accessed m_value \<longleftrightarrow> m_value AND push_bit 8 1 \<noteq> 0"

definition epte_set_accessed :: "bool \<Rightarrow> u64 \<Rightarrow> u64" where
  "epte_set_accessed value m_value = (m_value AND NOT (push_bit 8 1)) OR push_bit 8 (of_bool value)"

interpretation epte_accessed: bit_flag epte_accessed epte_set_accessed 8
  by unfold_locales (simp_all add: epte_accessed_def epte_set_accessed_def flag_eval)

definition epte_execute_user :: "u64 \<Rightarrow> bool" where
  "epte_execute_user m_value \<longleftrightarrow> m_value AND push_bit 10 1 \<noteq> 0"

definition epte_set_execute_user :: "bool \<Rightarrow> u64 \<Rightarrow> u64" where
  "epte_set_execute_user value m_value = (m_value AND NOT (push_bit 10 1)) OR push_bit 10 (of_bool value)"

interpretation epte_execute_user: bit_flag epte_execute_user epte_set_execute_user 10
  by unfold_locales (simp_all add: epte_execute_user_def epte_set_execute_user_def flag_eval)

definition epte_page_number :: "u64 \<Rightarrow> u64" where
  "epte_page_number m_value = drop_bit 12 m_value AND 0xffffffffff"

definition epte_set_page_number :: "u64 \<Rightarrow> u64 \<Rightarrow> u64" where
  "epte_set_page_number value m_value = (m_value AND NOT 0xffffffffff000) OR push_bit 12 (value AND 0xffffffffff)"

interpretation epte_page_number: bit_field epte_page_number epte_set_page_number 12 40
  by unfold_locales (simp_all add: epte_page_number_def epte_set_page_number_def field_eval)

definition epte_large_page_number :: "u64 \<Rightarrow> u64" where
  "epte_large_page_number m_value = drop_bit 21 m_value AND 0x7fffffff"

definition epte_set_large_page_number :: "u64 \<Rightarrow> u64 \<Rightarrow> u64" where
  "epte_set_large_page_number value m_value = (m_value AND NOT (push_bit 21 0x7fffffff)) OR push_bit 21 (value AND 0x7fffffff)"

interpretation epte_large_page_number: bit_field epte_large_page_number epte_set_large_page_number 21 31
  by unfold_locales (simp_all add: epte_large_page_number_def epte_set_large_page_number_def field_eval)

definition epte_suppress_ve :: "u64 \<Rightarrow> bool" where
  "epte_suppress_ve m_value \<longleftrightarrow> m_value AND push_bit 63 1 \<noteq> 0"

definition epte_set_suppress_ve :: "bool \<Rightarrow> u64 \<Rightarrow> u64" where
  "epte_set_suppress_ve value m_value = (m_value AND NOT (push_bit 63 1)) OR push_bit 63 (of_bool value)"

interpretation epte_suppress_ve: bit_flag epte_suppress_ve epte_set_suppress_ve 63
  by unfold_locales (simp_all add: epte_suppress_ve_def epte_set_suppress_ve_def flag_eval)


definition epte_fields :: "(nat \<times> nat \<times> (u64 \<Rightarrow> u64) \<times> (u64 \<Rightarrow> u64 \<Rightarrow> u64)) list" where
  "epte_fields =
     [(0, 1, \<lambda>w. of_bool (epte_read w), \<lambda>v. epte_set_read (odd v)),
      (1, 1, \<lambda>w. of_bool (epte_write w), \<lambda>v. epte_set_write (odd v)),
      (2, 1, \<lambda>w. of_bool (epte_execute w), \<lambda>v. epte_set_execute (odd v)),
      (7, 1, \<lambda>w. of_bool (epte_large w), \<lambda>v. epte_set_large (odd v)),
      (8, 1, \<lambda>w. of_bool (epte_accessed w), \<lambda>v. epte_set_accessed (odd v)),
      (10, 1, \<lambda>w. of_bool (epte_execute_user w), \<lambda>v. epte_set_execute_user (odd v)),
      (63, 1, \<lambda>w. of_bool (epte_suppress_ve w), \<lambda>v. epte_set_suppress_ve (odd v)),
      (12, 40, epte_page_number, epte_set_page_number),
      (21, 31, epte_large_page_number, epte_set_large_page_number)]"

lemmas epte_fields_accessors =
  epte_read.fld.ok epte_write.fld.ok epte_execute.fld.ok epte_large.fld.ok
  epte_accessed.fld.ok epte_execute_user.fld.ok epte_suppress_ve.fld.ok
  epte_page_number.ok epte_large_page_number.ok

lemma epte_fields_ok: "list_all (\<lambda>(off, n, get, put). accessor_ok off n get put) epte_fields"
  using epte_fields_accessors by (simp add: epte_fields_def)

text \<open>The memory type: reading back a stored type gives its low three bits; the setter leaves
  every other field alone but for bit 6, which receives bit 3 of the type.\<close>

lemma bit_epte_set_type:
  "bit (epte_set_type ty m) i \<longleftrightarrow>
     (if 3 \<le> i \<and> i < 6 then bit ty (i - 3) else if i = 6 then bit m i \<or> bit ty 3 else bit m i)"
proof -
  have mask: "(0x7 :: u64) = mask 3" "(0xf :: u64) = mask 4"
    by (simp_all add: mask_eq_exp_minus_1)
  have num: "bit (scast ty :: u64) k = bit ty k" if "k < 4" for k
    using that by (simp add: bit_signed_iff)
  have split: "i < 3 \<or> i = 3 \<or> i = 4 \<or> i = 5 \<or> i = 6 \<or> 7 \<le> i" by linarith
  show ?thesis
    unfolding epte_set_type_def mask using split num
    by (auto simp: bit_simps dest: u64_bit_bound)
qed

lemma epte_type_set_type: "epte_type (epte_set_type ty m) = take_bit 3 ty"
proof (rule bit_eqI)
  fix i :: nat
  have mask: "(0x7 :: u64) = mask 3" by (simp add: mask_eq_exp_minus_1)
  show "bit (epte_type (epte_set_type ty m)) i \<longleftrightarrow> bit (take_bit 3 ty) i"
    unfolding epte_type_def mask
    by (auto simp: bit_simps bit_epte_set_type)
qed

lemma epte_type_eq: "epte_type m = ucast (bits 3 3 m)"
  by (simp add: epte_type_def field_eval)

lemmas epte_bits = epte_page_number.get_eq epte_large_page_number.get_eq epte_read.flag_get_eq
  epte_write.flag_get_eq epte_execute.flag_get_eq epte_execute_user.flag_get_eq
  epte_large.flag_get_eq epte_page_number.put_eq epte_large_page_number.put_eq
  epte_read.flag_put_eq epte_write.flag_put_eq epte_execute.flag_put_eq
  epte_execute_user.flag_put_eq epte_large.flag_put_eq

text \<open>How each getter sees each setter.\<close>

lemma epte_read_put [simp]:
  "epte_read (epte_set_read b m) = b"
  "epte_read (epte_set_write b m) = epte_read m"
  "epte_read (epte_set_execute b m) = epte_read m"
  "epte_read (epte_set_large b m) = epte_read m"
  "epte_read (epte_set_execute_user b m) = epte_read m"
  "epte_read (epte_set_type ty m) = epte_read m"
  "epte_read (epte_set_page_number v m) = epte_read m"
  "epte_read (epte_set_large_page_number v m) = epte_read m"
  by (simp_all add: epte_bits bit_put_bits bit_epte_set_type)

lemma epte_write_put [simp]:
  "epte_write (epte_set_read b m) = epte_write m"
  "epte_write (epte_set_write b m) = b"
  "epte_write (epte_set_execute b m) = epte_write m"
  "epte_write (epte_set_large b m) = epte_write m"
  "epte_write (epte_set_execute_user b m) = epte_write m"
  "epte_write (epte_set_type ty m) = epte_write m"
  "epte_write (epte_set_page_number v m) = epte_write m"
  "epte_write (epte_set_large_page_number v m) = epte_write m"
  by (simp_all add: epte_bits bit_put_bits bit_epte_set_type)

lemma epte_execute_put [simp]:
  "epte_execute (epte_set_read b m) = epte_execute m"
  "epte_execute (epte_set_write b m) = epte_execute m"
  "epte_execute (epte_set_execute b m) = b"
  "epte_execute (epte_set_large b m) = epte_execute m"
  "epte_execute (epte_set_execute_user b m) = epte_execute m"
  "epte_execute (epte_set_type ty m) = epte_execute m"
  "epte_execute (epte_set_page_number v m) = epte_execute m"
  "epte_execute (epte_set_large_page_number v m) = epte_execute m"
  by (simp_all add: epte_bits bit_put_bits bit_epte_set_type)

lemma epte_large_put [simp]:
  "epte_large (epte_set_read b m) = epte_large m"
  "epte_large (epte_set_write b m) = epte_large m"
  "epte_large (epte_set_execute b m) = epte_large m"
  "epte_large (epte_set_large b m) = b"
  "epte_large (epte_set_execute_user b m) = epte_large m"
  "epte_large (epte_set_type ty m) = epte_large m"
  "epte_large (epte_set_page_number v m) = epte_large m"
  "epte_large (epte_set_large_page_number v m) = epte_large m"
  by (simp_all add: epte_bits bit_put_bits bit_epte_set_type)

lemma epte_execute_user_put [simp]:
  "epte_execute_user (epte_set_read b m) = epte_execute_user m"
  "epte_execute_user (epte_set_write b m) = epte_execute_user m"
  "epte_execute_user (epte_set_execute b m) = epte_execute_user m"
  "epte_execute_user (epte_set_large b m) = epte_execute_user m"
  "epte_execute_user (epte_set_execute_user b m) = b"
  "epte_execute_user (epte_set_type ty m) = epte_execute_user m"
  "epte_execute_user (epte_set_page_number v m) = epte_execute_user m"
  "epte_execute_user (epte_set_large_page_number v m) = epte_execute_user m"
  by (simp_all add: epte_bits bit_put_bits bit_epte_set_type)

lemma bits_epte_set_type:
  "7 \<le> off \<Longrightarrow> bits off n (epte_set_type ty m) = bits off n m"
  by (rule bit_eqI) (auto simp: bit_bits bit_epte_set_type)

lemma epte_page_number_put [simp]:
  "epte_page_number (epte_set_read b m) = epte_page_number m"
  "epte_page_number (epte_set_write b m) = epte_page_number m"
  "epte_page_number (epte_set_execute b m) = epte_page_number m"
  "epte_page_number (epte_set_large b m) = epte_page_number m"
  "epte_page_number (epte_set_execute_user b m) = epte_page_number m"
  "epte_page_number (epte_set_type ty m) = epte_page_number m"
  "epte_page_number (epte_set_page_number v m) = take_bit 40 v"
  by (simp_all add: epte_page_number.get_put)
    (simp_all add: epte_bits bits_put_bits_disjoint bits_epte_set_type)

lemma epte_large_page_number_put [simp]:
  "epte_large_page_number (epte_set_read b m) = epte_large_page_number m"
  "epte_large_page_number (epte_set_write b m) = epte_large_page_number m"
  "epte_large_page_number (epte_set_execute b m) = epte_large_page_number m"
  "epte_large_page_number (epte_set_large b m) = epte_large_page_number m"
  "epte_large_page_number (epte_set_execute_user b m) = epte_large_page_number m"
  "epte_large_page_number (epte_set_type ty m) = epte_large_page_number m"
  "epte_large_page_number (epte_set_large_page_number v m) = take_bit 31 v"
  by (simp_all add: epte_large_page_number.get_put)
    (simp_all add: epte_bits bits_put_bits_disjoint bits_epte_set_type)

lemma epte_type_put [simp]:
  "epte_type (epte_set_read b m) = epte_type m"
  "epte_type (epte_set_write b m) = epte_type m"
  "epte_type (epte_set_execute b m) = epte_type m"
  "epte_type (epte_set_large b m) = epte_type m"
  "epte_type (epte_set_execute_user b m) = epte_type m"
  "epte_type (epte_set_type ty m) = take_bit 3 ty"
  "epte_type (epte_set_page_number v m) = epte_type m"
  "epte_type (epte_set_large_page_number v m) = epte_type m"
  by (simp_all add: epte_type_set_type)
    (simp_all add: epte_type_eq epte_bits bits_put_bits_disjoint)

lemma epte_page_number_large:
  "epte_page_number (epte_set_large_page_number v m) =
     put_bits 9 31 v (epte_page_number m)"
  by (rule bit_eqI) (auto simp: epte_bits bit_bits bit_put_bits dest: u64_bit_bound)

section \<open>The EPT pointer\<close>

definition ept_pointer_memory_type :: "u64 \<Rightarrow> memory_type" where
  "ept_pointer_memory_type m_value = ucast (drop_bit 0 m_value AND 0x7)"

definition ept_pointer_set_memory_type :: "memory_type \<Rightarrow> u64 \<Rightarrow> u64" where
  "ept_pointer_set_memory_type value m_value =
     (m_value AND NOT 0x7) OR push_bit 0 (scast (value AND 0x7))"

definition ept_pointer_page_walk_length :: "u64 \<Rightarrow> u64" where
  "ept_pointer_page_walk_length m_value = (drop_bit 3 m_value AND 0x7) + 1"

definition ept_pointer_set_page_walk_length :: "u64 \<Rightarrow> u64 \<Rightarrow> u64" where
  "ept_pointer_set_page_walk_length value m_value =
     (m_value AND NOT (push_bit 3 0x7)) OR push_bit 3 ((value - 1) AND 0x7)"

definition ept_pointer_access_and_dirty :: "u64 \<Rightarrow> bool" where
  "ept_pointer_access_and_dirty m_value \<longleftrightarrow> m_value AND push_bit 8 1 \<noteq> 0"

definition ept_pointer_set_access_and_dirty :: "bool \<Rightarrow> u64 \<Rightarrow> u64" where
  "ept_pointer_set_access_and_dirty value m_value =
     (m_value AND NOT (push_bit 8 0x7)) OR push_bit 8 ((of_bool value - 1) AND 0x7)"

definition ept_pointer_page_number :: "u64 \<Rightarrow> u64" where
  "ept_pointer_page_number m_value = drop_bit 12 m_value AND 0xffffffffff"

definition ept_pointer_set_page_number :: "u64 \<Rightarrow> u64 \<Rightarrow> u64" where
  "ept_pointer_set_page_number value m_value = (m_value AND NOT 0xffffffffff000) OR push_bit 12 (value AND 0xffffffffff)"

interpretation ept_pointer_page_number: bit_field ept_pointer_page_number ept_pointer_set_page_number 12 40
  by unfold_locales (simp_all add: ept_pointer_page_number_def ept_pointer_set_page_number_def field_eval)

lemma ept_pointer_access_and_dirty_eq: "ept_pointer_access_and_dirty m \<longleftrightarrow> bit m 8"
  by (simp add: ept_pointer_access_and_dirty_def flag_eval)

lemma ept_pointer_set_access_and_dirty_eq:
  "ept_pointer_set_access_and_dirty b m = put_bits 8 3 (of_bool b - 1) m"
  by (cases b) (simp_all add: ept_pointer_set_access_and_dirty_def field_eval)

lemma ept_pointer_set_page_walk_length_eq:
  "ept_pointer_set_page_walk_length v m = put_bits 3 3 (v - 1) m"
  by (simp add: ept_pointer_set_page_walk_length_def field_eval)

lemma ept_pointer_page_walk_length_eq: "ept_pointer_page_walk_length m = bits 3 3 m + 1"
  by (simp add: ept_pointer_page_walk_length_def field_eval)

lemma ept_pointer_set_memory_type_eq:
  "ept_pointer_set_memory_type ty m = put_bits 0 3 (ucast ty) m"
proof (rule bit_eqI)
  fix i :: nat
  have mask: "(0x7 :: u64) = mask 3" "(0x7 :: u32) = mask 3"
    by (simp_all add: mask_eq_exp_minus_1)
  show "bit (ept_pointer_set_memory_type ty m) i \<longleftrightarrow> bit (put_bits 0 3 (ucast ty) m) i"
    unfolding ept_pointer_set_memory_type_def mask
    by (auto simp: bit_put_bits bit_simps dest: u64_bit_bound)
qed

lemma ept_pointer_memory_type_eq: "ept_pointer_memory_type m = ucast (bits 0 3 m)"
  by (simp add: ept_pointer_memory_type_def field_eval)

lemmas ept_pointer_bits = ept_pointer_access_and_dirty_eq ept_pointer_set_access_and_dirty_eq
  ept_pointer_set_page_walk_length_eq ept_pointer_page_walk_length_eq
  ept_pointer_set_memory_type_eq ept_pointer_memory_type_eq
  ept_pointer_page_number.get_eq ept_pointer_page_number.put_eq

section \<open>Properties\<close>

text \<open>Two setters store more than their field.  Setting the memory type of an entry stores its low
  three bits, which the getter reads back, but a type with bit 3 set also sets bit 6 of the entry;
  setting the accessed-and-dirty flag of the EPT pointer stores the negation of its argument and
  overwrites the two reserved bits above the flag with it.  No other bit changes.\<close>

theorem ept_setters_exceed_fields:
  "epte_type (epte_set_type ty m) = take_bit 3 ty \<and>
   (bit (epte_set_type ty m) i \<longleftrightarrow>
     (if 3 \<le> i \<and> i < 6 then bit ty (i - 3) else if i = 6 then bit m i \<or> bit ty 3 else bit m i)) \<and>
   ept_pointer_access_and_dirty (ept_pointer_set_access_and_dirty b m) = (\<not> b) \<and>
   bits 9 2 (ept_pointer_set_access_and_dirty b m) = (if b then 0 else 3) \<and>
   (bit (ept_pointer_set_access_and_dirty b m) i \<longleftrightarrow> (if 8 \<le> i \<and> i < 11 then \<not> b else bit m i))"
proof -
  have "bits 9 2 (put_bits 8 3 v m) = bits 1 2 v" for v
    by (rule bit_eqI) (auto simp: bit_bits bit_put_bits)
  then have "bits 9 2 (ept_pointer_set_access_and_dirty b m) = (if b then 0 else 3)"
    by (cases b) (simp_all add: ept_pointer_bits, simp_all add: field_eval)
  moreover have "bit (ept_pointer_set_access_and_dirty b m) i \<longleftrightarrow> (if 8 \<le> i \<and> i < 11 then \<not> b else bit m i)"
    by (cases b) (auto simp: ept_pointer_bits bit_put_bits dest: u64_bit_bound)
  ultimately show ?thesis
    using epte_type_set_type bit_epte_set_type by (cases b) (simp_all add: ept_pointer_bits bit_put_bits)
qed

end
