(* ===== verification/Mtrr.thy ===== *)
theory Mtrr
  imports Ept_Entry
begin

text \<open>
  \<^verbatim>\<open>include/zpp/x64/intel/mtrr.h\<close>: the structure \<open>mtrr\<close> in which the
  hypervisor keeps one memory type range register, and the classes that decode the capability
  register and the base and mask registers of a variable range.
\<close>

record mtrr =
  physical_base :: u64
  mtrr_size :: u64
  mtrr_type :: memory_type
  mtrr_valid :: bool

section \<open>Capabilities\<close>

definition mtrr_capabilities_variable_range_register_count :: "u64 \<Rightarrow> u64" where
  "mtrr_capabilities_variable_range_register_count m_value = m_value AND 0xff"

definition mtrr_capabilities_set_variable_range_register_count :: "u64 \<Rightarrow> u64 \<Rightarrow> u64" where
  "mtrr_capabilities_set_variable_range_register_count value m_value = (m_value AND NOT 0xff) OR (value AND 0xff)"

interpretation mtrr_capabilities_variable_range_register_count: bit_field mtrr_capabilities_variable_range_register_count mtrr_capabilities_set_variable_range_register_count 0 8
  by unfold_locales (simp_all add: mtrr_capabilities_variable_range_register_count_def mtrr_capabilities_set_variable_range_register_count_def field_eval)

definition mtrr_capabilities_fixed_range_registers_supported :: "u64 \<Rightarrow> bool" where
  "mtrr_capabilities_fixed_range_registers_supported m_value \<longleftrightarrow> m_value AND push_bit 8 1 \<noteq> 0"

definition mtrr_capabilities_set_fixed_range_registers_supported :: "bool \<Rightarrow> u64 \<Rightarrow> u64" where
  "mtrr_capabilities_set_fixed_range_registers_supported value m_value = (m_value AND NOT (push_bit 8 1)) OR push_bit 8 (of_bool value)"

interpretation mtrr_capabilities_fixed_range_registers_supported: bit_flag mtrr_capabilities_fixed_range_registers_supported mtrr_capabilities_set_fixed_range_registers_supported 8
  by unfold_locales (simp_all add: mtrr_capabilities_fixed_range_registers_supported_def mtrr_capabilities_set_fixed_range_registers_supported_def flag_eval)

definition mtrr_capabilities_write_combining :: "u64 \<Rightarrow> bool" where
  "mtrr_capabilities_write_combining m_value \<longleftrightarrow> m_value AND push_bit 10 1 \<noteq> 0"

definition mtrr_capabilities_set_write_combining :: "bool \<Rightarrow> u64 \<Rightarrow> u64" where
  "mtrr_capabilities_set_write_combining value m_value = (m_value AND NOT (push_bit 10 1)) OR push_bit 10 (of_bool value)"

interpretation mtrr_capabilities_write_combining: bit_flag mtrr_capabilities_write_combining mtrr_capabilities_set_write_combining 10
  by unfold_locales (simp_all add: mtrr_capabilities_write_combining_def mtrr_capabilities_set_write_combining_def flag_eval)

definition mtrr_capabilities_system_management_range_register :: "u64 \<Rightarrow> bool" where
  "mtrr_capabilities_system_management_range_register m_value \<longleftrightarrow> m_value AND push_bit 11 1 \<noteq> 0"

definition mtrr_capabilities_set_system_management_range_register :: "bool \<Rightarrow> u64 \<Rightarrow> u64" where
  "mtrr_capabilities_set_system_management_range_register value m_value = (m_value AND NOT (push_bit 11 1)) OR push_bit 11 (of_bool value)"

interpretation mtrr_capabilities_system_management_range_register: bit_flag mtrr_capabilities_system_management_range_register mtrr_capabilities_set_system_management_range_register 11
  by unfold_locales (simp_all add: mtrr_capabilities_system_management_range_register_def mtrr_capabilities_set_system_management_range_register_def flag_eval)

section \<open>Base register of a variable range\<close>

definition mtrr_variable_base_memory_type :: "u64 \<Rightarrow> memory_type" where
  "mtrr_variable_base_memory_type m_value = ucast (m_value AND 0xff)"

definition mtrr_variable_base_set_memory_type :: "u64 \<Rightarrow> u64 \<Rightarrow> u64" where
  "mtrr_variable_base_set_memory_type value m_value = (m_value AND NOT 0xff) OR (value AND 0xff)"

text \<open>The overload on the enumeration passes its value as an integer.\<close>

definition mtrr_variable_base_set_memory_type_enum :: "memory_type \<Rightarrow> u64 \<Rightarrow> u64" where
  "mtrr_variable_base_set_memory_type_enum value m_value =
     mtrr_variable_base_set_memory_type (scast value) m_value"

interpretation mtrr_variable_base_memory_type:
  bit_field "\<lambda>w. ucast (mtrr_variable_base_memory_type w)" mtrr_variable_base_set_memory_type 0 8
proof unfold_locales
  fix v w :: u64
  show "ucast (mtrr_variable_base_memory_type w) = bits 0 8 w"
  proof (rule bit_eqI)
    fix i :: nat
    have mask: "(0xff :: u64) = mask 8" by (simp add: mask_eq_exp_minus_1)
    show "bit (ucast (mtrr_variable_base_memory_type w) :: u64) i \<longleftrightarrow> bit (bits 0 8 w) i"
      unfolding mtrr_variable_base_memory_type_def mask
      by (auto simp: bit_bits bit_simps)
  qed
  show "mtrr_variable_base_set_memory_type v w = put_bits 0 8 v w"
    by (simp add: mtrr_variable_base_set_memory_type_def field_eval)
qed simp

definition mtrr_variable_base_page_number :: "u64 \<Rightarrow> u64" where
  "mtrr_variable_base_page_number m_value = drop_bit 12 m_value AND 0xffffffffff"

definition mtrr_variable_base_set_page_number :: "u64 \<Rightarrow> u64 \<Rightarrow> u64" where
  "mtrr_variable_base_set_page_number value m_value = (m_value AND NOT 0xffffffffff000) OR push_bit 12 (value AND 0xffffffffff)"

interpretation mtrr_variable_base_page_number: bit_field mtrr_variable_base_page_number mtrr_variable_base_set_page_number 12 40
  by unfold_locales (simp_all add: mtrr_variable_base_page_number_def mtrr_variable_base_set_page_number_def field_eval)

section \<open>Mask register of a variable range\<close>

definition mtrr_variable_mask_valid :: "u64 \<Rightarrow> bool" where
  "mtrr_variable_mask_valid m_value \<longleftrightarrow> m_value AND push_bit 11 1 \<noteq> 0"

definition mtrr_variable_mask_set_valid :: "bool \<Rightarrow> u64 \<Rightarrow> u64" where
  "mtrr_variable_mask_set_valid value m_value = (m_value AND NOT (push_bit 11 1)) OR push_bit 11 (of_bool value)"

interpretation mtrr_variable_mask_valid: bit_flag mtrr_variable_mask_valid mtrr_variable_mask_set_valid 11
  by unfold_locales (simp_all add: mtrr_variable_mask_valid_def mtrr_variable_mask_set_valid_def flag_eval)

definition mtrr_variable_mask_physical_mask :: "u64 \<Rightarrow> u64" where
  "mtrr_variable_mask_physical_mask m_value = drop_bit 12 m_value AND 0xffffffffff"

definition mtrr_variable_mask_set_physical_mask :: "u64 \<Rightarrow> u64 \<Rightarrow> u64" where
  "mtrr_variable_mask_set_physical_mask value m_value = (m_value AND NOT 0xffffffffff000) OR push_bit 12 (value AND 0xffffffffff)"

interpretation mtrr_variable_mask_physical_mask: bit_field mtrr_variable_mask_physical_mask mtrr_variable_mask_set_physical_mask 12 40
  by unfold_locales (simp_all add: mtrr_variable_mask_physical_mask_def mtrr_variable_mask_set_physical_mask_def field_eval)

section \<open>The fields together\<close>

definition mtrr_fields :: "(nat \<times> nat \<times> (u64 \<Rightarrow> u64) \<times> (u64 \<Rightarrow> u64 \<Rightarrow> u64)) list" where
  "mtrr_fields =
     [(0, 8, mtrr_capabilities_variable_range_register_count,
         mtrr_capabilities_set_variable_range_register_count),
      (8, 1, \<lambda>w. of_bool (mtrr_capabilities_fixed_range_registers_supported w),
         \<lambda>v. mtrr_capabilities_set_fixed_range_registers_supported (odd v)),
      (10, 1, \<lambda>w. of_bool (mtrr_capabilities_write_combining w),
         \<lambda>v. mtrr_capabilities_set_write_combining (odd v)),
      (11, 1, \<lambda>w. of_bool (mtrr_capabilities_system_management_range_register w),
         \<lambda>v. mtrr_capabilities_set_system_management_range_register (odd v)),
      (0, 8, \<lambda>w. ucast (mtrr_variable_base_memory_type w), mtrr_variable_base_set_memory_type),
      (12, 40, mtrr_variable_base_page_number, mtrr_variable_base_set_page_number),
      (11, 1, \<lambda>w. of_bool (mtrr_variable_mask_valid w),
         \<lambda>v. mtrr_variable_mask_set_valid (odd v)),
      (12, 40, mtrr_variable_mask_physical_mask, mtrr_variable_mask_set_physical_mask)]"

lemmas mtrr_fields_accessors =
  mtrr_capabilities_variable_range_register_count.ok
  mtrr_capabilities_fixed_range_registers_supported.fld.ok
  mtrr_capabilities_write_combining.fld.ok
  mtrr_capabilities_system_management_range_register.fld.ok
  mtrr_variable_base_memory_type.ok mtrr_variable_base_page_number.ok
  mtrr_variable_mask_valid.fld.ok mtrr_variable_mask_physical_mask.ok

lemma mtrr_fields_ok: "list_all (\<lambda>(off, n, get, put). accessor_ok off n get put) mtrr_fields"
  using mtrr_fields_accessors by (simp add: mtrr_fields_def)

end
