(* ===== verification/Small_Map.thy ===== *)
theory Small_Map
  imports Prelude
begin

text \<open>
  The class template \<open>small_map\<close> of \<^verbatim>\<open>include/zpp/small_map.h\<close>: a map kept as an
  array of pairs sorted by key, of a capacity fixed at compile time.  \<open>m_storage\<close> is the
  whole array (its length is the template parameter \<open>Size\<close>), of which the first
  \<open>m_size\<close> slots hold values.  An iterator is an offset into the array: \<open>begin()\<close>
  is 0 and \<open>end()\<close>, the address of the last value plus one, is \<open>m_size\<close> (for the
  empty map the two steps cancel).  Keys are compared with \<open>std::less<>\<close>, the default
  of the template.  \<open>None\<close> is undefined behaviour: a slot outside the array, or a binary
  search that does not return.
\<close>

record ('k, 'v) small_map =
  m_storage :: "('k \<times> 'v) list"
  m_size :: nat

section \<open>Observers\<close>

definition small_map_value :: "('k, 'v) small_map \<Rightarrow> nat \<Rightarrow> ('k \<times> 'v) option" where
  "small_map_value m index = (if index < length (m_storage m) then Some (m_storage m ! index) else None)"

definition small_map_begin :: "('k, 'v) small_map \<Rightarrow> nat" where
  "small_map_begin m = 0"

definition small_map_end :: "('k, 'v) small_map \<Rightarrow> nat" where
  "small_map_end m = m_size m"

definition small_map_size :: "('k, 'v) small_map \<Rightarrow> nat" where
  "small_map_size m = m_size m"

definition small_map_capacity :: "('k, 'v) small_map \<Rightarrow> nat" where
  "small_map_capacity m = length (m_storage m)"

definition small_map_is_empty :: "('k, 'v) small_map \<Rightarrow> bool" where
  "small_map_is_empty m \<longleftrightarrow> m_size m = 0"

definition small_map_front :: "('k, 'v) small_map \<Rightarrow> ('k \<times> 'v) option" where
  "small_map_front m = small_map_value m (small_map_begin m)"

definition small_map_back :: "('k, 'v) small_map \<Rightarrow> ('k \<times> 'v) option" where
  "small_map_back m =
     (if small_map_end m = 0 then None else small_map_value m (small_map_end m - 1))"

section \<open>Binary search\<close>

text \<open>The loop of \<open>find_index\<close> and the three comparisons that follow it.  The guard of
  the loop is \<open>first != last\<close>, so that it returns is a theorem, not part of the
  definition.\<close>

partial_function (option) find_index_loop ::
  "('k :: linorder, 'v) small_map \<Rightarrow> 'k \<Rightarrow> nat \<Rightarrow> nat \<Rightarrow> (bool \<times> nat) option" where
  "find_index_loop m key first lst =
     (if first \<noteq> lst then
        (case small_map_value m ((first + lst) div 2) of
           None \<Rightarrow> None
         | Some middle_value \<Rightarrow>
             (if key < fst middle_value then find_index_loop m key first ((first + lst) div 2)
              else if fst middle_value < key then find_index_loop m key ((first + lst) div 2 + 1) lst
              else Some (True, (first + lst) div 2)))
      else
        (case small_map_value m first of
           None \<Rightarrow> None
         | Some first_value \<Rightarrow>
             (if key < fst first_value then Some (False, first)
              else if fst first_value < key then Some (False, first + 1)
              else Some (True, first))))"

definition find_index :: "('k :: linorder, 'v) small_map \<Rightarrow> 'k \<Rightarrow> (bool \<times> nat) option" where
  "find_index m key = (if m_size m = 0 then Some (False, 0) else find_index_loop m key 0 (m_size m - 1))"

definition small_map_find :: "('k :: linorder, 'v) small_map \<Rightarrow> 'k \<Rightarrow> nat option" where
  "small_map_find m key = do {
     (found, index) \<leftarrow> find_index m key;
     if found then Some (small_map_begin m + index) else Some (small_map_end m)
   }"

section \<open>Insertion\<close>

text \<open>Assignment to a slot of the array.\<close>

definition store :: "nat \<Rightarrow> 'k \<times> 'v \<Rightarrow> ('k, 'v) small_map \<Rightarrow> ('k, 'v) small_map option" where
  "store i x m = (if i < length (m_storage m) then Some (m\<lparr>m_storage := (m_storage m)[i := x]\<rparr>) else None)"

text \<open>\<open>for (last = end() - 1; last != slot; --last) *last = std::move(*(last - 1))\<close>\<close>

fun move_right :: "nat \<Rightarrow> nat \<Rightarrow> ('k, 'v) small_map \<Rightarrow> ('k, 'v) small_map option" where
  "move_right lst slot m =
     (if lst = slot then Some m
      else (case lst of
              0 \<Rightarrow> None
            | Suc before \<Rightarrow> do {
                x \<leftarrow> small_map_value m before;
                m' \<leftarrow> store lst x m;
                move_right before slot m'
              }))"

declare move_right.simps [simp del]

definition emplace :: "'k :: linorder \<Rightarrow> 'v \<Rightarrow> ('k, 'v) small_map \<Rightarrow> ('k, 'v) small_map option" where
  "emplace key v m =
     (if m_size m = 0 then do {
        m' \<leftarrow> store 0 (key, v) m;
        Some (m'\<lparr>m_size := m_size m' + 1\<rparr>)
      } else do {
        (found, index) \<leftarrow> find_index m key;
        if found then store (small_map_begin m + index) (key, v) m
        else if index = m_size m then do {
          m' \<leftarrow> store (m_size m) (key, v) m;
          Some (m'\<lparr>m_size := m_size m' + 1\<rparr>)
        } else do {
          last_value \<leftarrow> small_map_back m;
          m1 \<leftarrow> store (m_size m) last_value m;
          m2 \<leftarrow> move_right (small_map_end m1 - 1) (small_map_begin m1 + index) m1;
          m3 \<leftarrow> store (small_map_begin m1 + index) (key, v) m2;
          Some (m3\<lparr>m_size := m_size m3 + 1\<rparr>)
        }
      })"

definition small_map_insert :: "'k :: linorder \<times> 'v \<Rightarrow> ('k, 'v) small_map \<Rightarrow> ('k, 'v) small_map option" where
  "small_map_insert x m = emplace (fst x) (snd x) m"

fun small_map_insert_range ::
  "('k :: linorder \<times> 'v) list \<Rightarrow> ('k, 'v) small_map \<Rightarrow> ('k, 'v) small_map option" where
  "small_map_insert_range [] m = Some m"
| "small_map_insert_range (x # xs) m = do { m' \<leftarrow> small_map_insert x m; small_map_insert_range xs m' }"

section \<open>Removal\<close>

text \<open>\<open>for (last = end() - 1; to_erase != last; ++to_erase) *to_erase = std::move(*(to_erase + 1))\<close>;
  the recursion counts the steps that are left, \<open>last - to_erase\<close>, down.\<close>

fun move_left :: "nat \<Rightarrow> nat \<Rightarrow> ('k, 'v) small_map \<Rightarrow> ('k, 'v) small_map option" where
  "move_left 0 to_erase m = Some m"
| "move_left (Suc n) to_erase m = do {
     x \<leftarrow> small_map_value m (to_erase + 1);
     m' \<leftarrow> store to_erase x m;
     move_left n (to_erase + 1) m'
   }"

definition erase :: "nat \<Rightarrow> ('k, 'v) small_map \<Rightarrow> (nat \<times> ('k, 'v) small_map) option" where
  "erase position m =
     (if position < small_map_end m then do {
        m' \<leftarrow> move_left (small_map_end m - 1 - position) position m;
        Some (position, m'\<lparr>m_size := m_size m' - 1\<rparr>)
      } else None)"

text \<open>\<open>for (; last != first; --last) erase(last - 1)\<close>\<close>

fun erase_range_loop :: "nat \<Rightarrow> nat \<Rightarrow> ('k, 'v) small_map \<Rightarrow> ('k, 'v) small_map option" where
  "erase_range_loop first lst m =
     (if lst = first then Some m
      else (case lst of
              0 \<Rightarrow> None
            | Suc before \<Rightarrow> do { (_, m') \<leftarrow> erase before m; erase_range_loop first before m' }))"

declare erase_range_loop.simps [simp del]

definition erase_range :: "nat \<Rightarrow> nat \<Rightarrow> ('k, 'v) small_map \<Rightarrow> (nat \<times> ('k, 'v) small_map) option" where
  "erase_range first lst m = do { m' \<leftarrow> erase_range_loop first lst m; Some (first, m') }"

definition clear :: "('k, 'v) small_map \<Rightarrow> ('k, 'v) small_map" where
  "clear m = m\<lparr>m_size := 0\<rparr>"

section \<open>Construction, copying and moving\<close>

text \<open>The default constructor: a fresh array and size 0.\<close>

definition default_map :: "('k \<times> 'v) list \<Rightarrow> ('k, 'v) small_map" where
  "default_map storage = \<lparr>m_storage = storage, m_size = 0\<rparr>"

definition small_map_of_range :: "('k \<times> 'v) list \<Rightarrow> ('k :: linorder \<times> 'v) list \<Rightarrow> ('k, 'v) small_map option" where
  "small_map_of_range storage xs = small_map_insert_range xs (default_map storage)"

text \<open>The move constructor: returns the new map and what is left of the other one.\<close>

definition move_construct ::
  "('k \<times> 'v) list \<Rightarrow> ('k, 'v) small_map \<Rightarrow> (('k, 'v) small_map \<times> ('k, 'v) small_map) option" where
  "move_construct storage other = do {
     m \<leftarrow> loop_opt (m_size other)
            (\<lambda>i m. do { x \<leftarrow> small_map_value other i; store i x m })
            \<lparr>m_storage = storage, m_size = m_size other\<rparr>;
     Some (m, other\<lparr>m_size := 0\<rparr>)
   }"

text \<open>The copy constructor: its loop is bounded by the size of the map under construction,
  which the loop itself increments, not by the size of \<open>other\<close>.\<close>

partial_function (option) copy_loop ::
  "('k, 'v) small_map \<Rightarrow> nat \<Rightarrow> ('k, 'v) small_map \<Rightarrow> ('k, 'v) small_map option" where
  "copy_loop other i m =
     (if i < m_size m then
        Option.bind (small_map_value other i)
          (\<lambda>x. Option.bind (store i x m)
             (\<lambda>m'. copy_loop other (i + 1) (m'\<lparr>m_size := m_size m' + 1\<rparr>)))
      else Some m)"

definition copy_construct :: "('k \<times> 'v) list \<Rightarrow> ('k, 'v) small_map \<Rightarrow> ('k, 'v) small_map option" where
  "copy_construct storage other = copy_loop other 0 (default_map storage)"

section \<open>The sorted array\<close>

definition entries :: "('k, 'v) small_map \<Rightarrow> ('k \<times> 'v) list" where
  "entries m = take (m_size m) (m_storage m)"

definition small_map_inv :: "('k :: linorder, 'v) small_map \<Rightarrow> bool" where
  "small_map_inv m \<longleftrightarrow> m_size m \<le> length (m_storage m) \<and> sorted_wrt (<) (map fst (entries m))"

definition small_map_lookup :: "('k :: linorder, 'v) small_map \<Rightarrow> 'k \<Rightarrow> 'v option" where
  "small_map_lookup m = map_of (entries m)"

lemma length_entries [simp]: "m_size m \<le> length (m_storage m) \<Longrightarrow> length (entries m) = m_size m"
  by (simp add: entries_def)

lemma nth_entries [simp]: "i < m_size m \<Longrightarrow> entries m ! i = m_storage m ! i"
  by (simp add: entries_def)

lemma small_map_keys_less:
  assumes "small_map_inv m" and "i < j" and "j < m_size m"
  shows "fst (m_storage m ! i) < fst (m_storage m ! j)"
proof -
  have "map fst (entries m) ! i < map fst (entries m) ! j"
    using assms by (intro sorted_wrt_nth_less [where P = "(<)"]) (auto simp: small_map_inv_def)
  then show ?thesis using assms by (simp add: small_map_inv_def)
qed

lemma small_map_keys_distinct: "small_map_inv m \<Longrightarrow> distinct (map fst (entries m))"
  unfolding small_map_inv_def by (metis strict_sorted_iff)

section \<open>Binary search returns and is right\<close>

lemma small_map_value_in: "small_map_inv m \<Longrightarrow> i < m_size m \<Longrightarrow> small_map_value m i = Some (m_storage m ! i)"
  by (simp add: small_map_value_def small_map_inv_def)

text \<open>What the search promises: the index of the key, or the index it would be inserted at.\<close>

definition found_at :: "('k :: linorder, 'v) small_map \<Rightarrow> 'k \<Rightarrow> bool \<times> nat \<Rightarrow> bool" where
  "found_at m key r \<longleftrightarrow>
     (if fst r then snd r < m_size m \<and> fst (m_storage m ! snd r) = key
      else snd r \<le> m_size m \<and> (\<forall>i < snd r. fst (m_storage m ! i) < key) \<and>
        (\<forall>i. snd r \<le> i \<longrightarrow> i < m_size m \<longrightarrow> key < fst (m_storage m ! i)))"

lemma find_index_loop_correct:
  assumes inv: "small_map_inv m"
  shows "first \<le> lst \<Longrightarrow> lst < m_size m \<Longrightarrow>
    (\<And>i. i < first \<Longrightarrow> fst (m_storage m ! i) < key) \<Longrightarrow>
    (\<And>i. lst < i \<Longrightarrow> i < m_size m \<Longrightarrow> key < fst (m_storage m ! i)) \<Longrightarrow>
    \<exists>r. find_index_loop m key first lst = Some r \<and> found_at m key r"
proof (induction "lst - first" arbitrary: first lst rule: less_induct)
  case less
  note val = small_map_value_in [OF inv] and ord = small_map_keys_less [OF inv]
  show ?case
  proof (cases "first = lst")
    case True
    have after: "key < fst (m_storage m ! lst) \<Longrightarrow> lst \<le> i \<Longrightarrow> i < m_size m \<Longrightarrow>
        key < fst (m_storage m ! i)" for i
      using less.prems(4) [of i] by (cases "i = lst") auto
    have before: "fst (m_storage m ! lst) < key \<Longrightarrow> i < lst + 1 \<Longrightarrow> fst (m_storage m ! i) < key" for i
      using less.prems(3) [of i] True by (cases "i = lst") auto
    show ?thesis
      using True less.prems val [of lst] after before
      by (subst find_index_loop.simps) (auto simp: found_at_def)
  next
    case False
    let ?mid = "(first + lst) div 2"
    have mid: "first \<le> ?mid" "?mid < lst" using False less.prems(1) by auto
    then have v: "small_map_value m ?mid = Some (m_storage m ! ?mid)"
      using less.prems(2) by (intro val) simp
    consider "key < fst (m_storage m ! ?mid)" | "fst (m_storage m ! ?mid) < key"
      | "fst (m_storage m ! ?mid) = key" by fastforce
    then show ?thesis
    proof cases
      case 1
      have "\<exists>r. find_index_loop m key first ?mid = Some r \<and> found_at m key r"
      proof (rule less.hyps)
        fix i assume "?mid < i" "i < m_size m"
        then have "fst (m_storage m ! ?mid) < fst (m_storage m ! i)" by (rule ord)
        with 1 show "key < fst (m_storage m ! i)" by simp
      qed (use mid less.prems in auto)
      with 1 v False show ?thesis by (subst find_index_loop.simps) simp
    next
      case 2
      have "\<exists>r. find_index_loop m key (?mid + 1) lst = Some r \<and> found_at m key r"
      proof (rule less.hyps)
        fix i assume "i < ?mid + 1"
        then have "i = ?mid \<or> fst (m_storage m ! i) < fst (m_storage m ! ?mid)"
          using ord [of i ?mid] mid less.prems(2) by (cases "i = ?mid") auto
        with 2 show "fst (m_storage m ! i) < key" by auto
      qed (use mid less.prems in auto)
      with 2 v False show ?thesis by (subst find_index_loop.simps) auto
    next
      case 3
      with v False mid less.prems(2) show ?thesis
        by (subst find_index_loop.simps) (auto simp: found_at_def)
    qed
  qed
qed

lemma find_index_correct:
  assumes "small_map_inv m"
  shows "\<exists>r. find_index m key = Some r \<and> found_at m key r"
proof (cases "m_size m = 0")
  case True
  then show ?thesis by (simp add: find_index_def found_at_def)
next
  case False
  then have "\<exists>r. find_index_loop m key 0 (m_size m - 1) = Some r \<and> found_at m key r"
    using assms by (intro find_index_loop_correct) auto
  with False show ?thesis by (simp add: find_index_def)
qed

lemma found_at_lookup:
  assumes "small_map_inv m" and "found_at m key (found, index)"
  shows "small_map_lookup m key = (if found then Some (snd (m_storage m ! index)) else None)"
proof (cases found)
  case True
  then have "(key, snd (m_storage m ! index)) = entries m ! index" and "index < length (entries m)"
    using assms by (auto simp: found_at_def small_map_inv_def)
  then have "(key, snd (m_storage m ! index)) \<in> set (entries m)"
    by (metis nth_mem)
  with True show ?thesis
    using small_map_keys_distinct [OF assms(1)] by (simp add: small_map_lookup_def)
next
  case False
  have "key \<notin> fst ` set (entries m)"
  proof
    assume "key \<in> fst ` set (entries m)"
    then obtain i where i: "i < m_size m" "fst (m_storage m ! i) = key"
      using assms(1) by (auto simp: in_set_conv_nth small_map_inv_def)
    have "fst (m_storage m ! i) < key \<or> key < fst (m_storage m ! i)"
      using False assms(2) i(1) by (cases "i < index") (auto simp: found_at_def)
    with i(2) show False by auto
  qed
  with False show ?thesis
    by (simp add: small_map_lookup_def map_of_eq_None_iff)
qed

section \<open>Insertion\<close>

lemma store_Some: "store i x m = Some m' \<longleftrightarrow>
    i < length (m_storage m) \<and> m' = m\<lparr>m_storage := (m_storage m)[i := x]\<rparr>"
  by (auto simp: store_def)

text \<open>Shifting right copies each value of the range from the slot before it.\<close>

lemma move_right_correct:
  "slot \<le> lst \<Longrightarrow> lst < length (m_storage m) \<Longrightarrow>
   \<exists>m'. move_right lst slot m = Some m' \<and> m_size m' = m_size m \<and>
     length (m_storage m') = length (m_storage m) \<and>
     (\<forall>i < length (m_storage m). m_storage m' ! i =
        (if slot < i \<and> i \<le> lst then m_storage m ! (i - 1) else m_storage m ! i))"
proof (induction lst arbitrary: m)
  case 0
  then show ?case by (subst move_right.simps) auto
next
  case (Suc before)
  show ?case
  proof (cases "Suc before = slot")
    case True
    then show ?thesis by (subst move_right.simps) auto
  next
    case False
    let ?m = "m\<lparr>m_storage := (m_storage m)[Suc before := m_storage m ! before]\<rparr>"
    have "\<exists>m'. move_right before slot ?m = Some m' \<and> m_size m' = m_size ?m \<and>
        length (m_storage m') = length (m_storage ?m) \<and>
        (\<forall>i < length (m_storage ?m). m_storage m' ! i =
           (if slot < i \<and> i \<le> before then m_storage ?m ! (i - 1) else m_storage ?m ! i))"
      using Suc.prems False by (intro Suc.IH) auto
    then obtain m' where m': "move_right before slot ?m = Some m'" "m_size m' = m_size m"
      "length (m_storage m') = length (m_storage m)"
      "\<And>i. i < length (m_storage m) \<Longrightarrow> m_storage m' ! i =
           (if slot < i \<and> i \<le> before then m_storage ?m ! (i - 1) else m_storage ?m ! i)"
      by auto
    have "move_right (Suc before) slot m = Some m'"
      using Suc.prems False m'(1)
      by (subst move_right.simps) (simp add: small_map_value_def store_def)
    moreover have "m_storage m' ! i =
        (if slot < i \<and> i \<le> Suc before then m_storage m ! (i - 1) else m_storage m ! i)"
      if "i < length (m_storage m)" for i
      using m'(4) [OF that] that False Suc.prems by (auto simp: nth_list_update)
    ultimately show ?thesis using m'(2,3) by auto
  qed
qed

text \<open>The array after an insertion at \<open>index\<close>.\<close>

lemma take_insert_at:
  assumes "index \<le> n" and "n < length st" and "length st' = length st"
    and "\<And>i. i \<le> n \<Longrightarrow> st' ! i = (if i < index then st ! i else if i = index then x else st ! (i - 1))"
  shows "take (Suc n) st' = take index (take n st) @ x # drop index (take n st)"
proof (rule nth_equalityI)
  show "length (take (Suc n) st') = length (take index (take n st) @ x # drop index (take n st))"
    using assms(1-3) by auto
next
  fix i assume "i < length (take (Suc n) st')"
  then have i: "i \<le> n" by simp
  then show "take (Suc n) st' ! i = (take index (take n st) @ x # drop index (take n st)) ! i"
    using assms(1-3) assms(4) [OF i]
    by (auto simp: nth_append nth_Cons' min_def)
qed

lemma entries_grow:
  assumes "length (m_storage m') = length (m_storage m)" and "m_size m < length (m_storage m)"
    and "m_size m' = Suc (m_size m)" and "index \<le> m_size m"
    and "\<And>i. i \<le> m_size m \<Longrightarrow> m_storage m' ! i =
       (if i < index then m_storage m ! i else if i = index then x else m_storage m ! (i - 1))"
  shows "entries m' = take index (entries m) @ x # drop index (entries m)"
  unfolding entries_def assms(3) using assms by (intro take_insert_at) auto

lemma emplace_new:
  assumes inv: "small_map_inv m" and room: "m_size m < length (m_storage m)"
    and fi: "find_index m key = Some (False, index)" "found_at m key (False, index)"
  shows "\<exists>m'. emplace key v m = Some m' \<and> length (m_storage m') = length (m_storage m) \<and>
    m_size m' = Suc (m_size m) \<and>
    entries m' = take index (entries m) @ (key, v) # drop index (entries m)"
proof -
  have le: "index \<le> m_size m" using fi(2) by (simp add: found_at_def)
  consider "index = m_size m" | "m_size m > 0" "index < m_size m"
    using le by linarith
  then show ?thesis
  proof cases
    case 1
    let ?m' = "m\<lparr>m_storage := (m_storage m)[m_size m := (key, v)], m_size := Suc (m_size m)\<rparr>"
    have "emplace key v m = Some ?m'" using 1 room fi(1) by (auto simp: emplace_def store_def)
    moreover have "entries ?m' = take index (entries m) @ (key, v) # drop index (entries m)"
      using 1 room le by (intro entries_grow) auto
    ultimately show ?thesis by simp
  next
    case 2
    let ?m1 = "m\<lparr>m_storage := (m_storage m)[m_size m := m_storage m ! (m_size m - 1)]\<rparr>"
    have "\<exists>m2. move_right (m_size ?m1 - 1) index ?m1 = Some m2 \<and> m_size m2 = m_size ?m1 \<and>
        length (m_storage m2) = length (m_storage ?m1) \<and>
        (\<forall>i < length (m_storage ?m1). m_storage m2 ! i =
          (if index < i \<and> i \<le> m_size ?m1 - 1 then m_storage ?m1 ! (i - 1) else m_storage ?m1 ! i))"
      using 2 room by (intro move_right_correct) auto
    then obtain m2 where m2: "move_right (m_size m - 1) index ?m1 = Some m2" "m_size m2 = m_size m"
      "length (m_storage m2) = length (m_storage m)"
      "\<And>i. i < length (m_storage m) \<Longrightarrow> m_storage m2 ! i =
         (if index < i \<and> i \<le> m_size m - 1 then m_storage ?m1 ! (i - 1) else m_storage ?m1 ! i)"
      by auto
    let ?m3 = "m2\<lparr>m_storage := (m_storage m2)[index := (key, v)], m_size := Suc (m_size m)\<rparr>"
    have nth: "m_storage ?m3 ! i =
        (if i < index then m_storage m ! i else if i = index then (key, v) else m_storage m ! (i - 1))"
      if "i \<le> m_size m" for i
      using m2(4) [of i] that 2 room m2(3) by (auto simp: nth_list_update)
    have "emplace key v m = Some ?m3"
      using 2 room fi(1) m2(1-3)
      by (simp add: emplace_def small_map_back_def small_map_end_def small_map_begin_def
          small_map_value_def store_def)
    moreover have "entries ?m3 = take index (entries m) @ (key, v) # drop index (entries m)"
      using m2(3) room le nth by (intro entries_grow) auto
    ultimately show ?thesis using m2(3) by auto
  qed
qed

lemma emplace_old:
  assumes "small_map_inv m" and "find_index m key = Some (True, index)" "found_at m key (True, index)"
  shows "emplace key v m = Some (m\<lparr>m_storage := (m_storage m)[index := (key, v)]\<rparr>)"
  using assms
  by (auto simp: emplace_def found_at_def small_map_begin_def store_def small_map_inv_def)

text \<open>Inserting a key at the index the search returned keeps the keys sorted, and the map of
  the entries is the old one updated at the key.\<close>

lemma sorted_insert_at:
  assumes "small_map_inv m" and "found_at m key (False, index)"
  shows "sorted_wrt (<) (map fst (take index (entries m) @ (key, v) # drop index (entries m)))"
proof -
  have "fst x < key" if "x \<in> set (take index (entries m))" for x
    using that assms by (auto simp: in_set_conv_nth found_at_def small_map_inv_def)
  moreover have "key < fst x" if "x \<in> set (drop index (entries m))" for x
    using that assms by (auto simp: in_set_conv_nth found_at_def small_map_inv_def entries_def)
  moreover have "sorted_wrt (<) (map fst (take index (entries m) @ drop index (entries m)))"
    using assms(1) by (simp add: small_map_inv_def)
  ultimately show ?thesis
    unfolding map_append sorted_wrt_append list.map by auto
qed

lemma map_of_insert_at:
  assumes "key \<notin> fst ` set xs"
  shows "map_of (xs @ (key, v) # ys) = (map_of (xs @ ys))(key \<mapsto> v)"
  using assms by (simp add: map_add_upd_left dom_map_of_conv_image_fst)

lemma entries_replace:
  assumes "small_map_inv m" and "index < m_size m" and "fst (m_storage m ! index) = key"
  shows "map_of (entries (m\<lparr>m_storage := (m_storage m)[index := (key, v)]\<rparr>)) =
           (map_of (entries m))(key \<mapsto> v)"
    and "map fst (entries (m\<lparr>m_storage := (m_storage m)[index := (key, v)]\<rparr>)) = map fst (entries m)"
proof -
  let ?xs = "take index (entries m)" and ?ys = "drop (Suc index) (entries m)"
  have len: "index < length (entries m)" using assms by (simp add: small_map_inv_def)
  have "entries m ! index = (key, snd (m_storage m ! index))"
    using assms(2,3) by (simp add: prod_eq_iff)
  then have old: "entries m = ?xs @ (key, snd (m_storage m ! index)) # ?ys"
    using id_take_nth_drop [OF len] by simp
  have new: "entries (m\<lparr>m_storage := (m_storage m)[index := (key, v)]\<rparr>) = ?xs @ (key, v) # ?ys"
    using assms(2) upd_conv_take_nth_drop [OF len, of "(key, v)"] by (simp add: entries_def take_update_swap)
  have "distinct (map fst (entries m))" using assms(1) by (rule small_map_keys_distinct)
  then have "key \<notin> fst ` set ?xs"
    using old by (metis (no_types, lifting) distinct_append image_set list.simps(9) fst_conv
        map_append not_distinct_conv_prefix)
  then show "map_of (entries (m\<lparr>m_storage := (m_storage m)[index := (key, v)]\<rparr>)) =
           (map_of (entries m))(key \<mapsto> v)"
    unfolding new by (metis fun_upd_upd map_of_insert_at old)
  show "map fst (entries (m\<lparr>m_storage := (m_storage m)[index := (key, v)]\<rparr>)) = map fst (entries m)"
    unfolding new by (subst old) simp
qed

theorem emplace_correct:
  assumes inv: "small_map_inv m"
    and room: "m_size m < length (m_storage m) \<or> small_map_lookup m key \<noteq> None"
  shows "\<exists>m'. emplace key v m = Some m' \<and> small_map_inv m' \<and>
    small_map_lookup m' = (small_map_lookup m)(key \<mapsto> v) \<and>
    length (m_storage m') = length (m_storage m) \<and>
    m_size m' = (if small_map_lookup m key = None then Suc (m_size m) else m_size m)"
proof -
  obtain found index where fi: "find_index m key = Some (found, index)" "found_at m key (found, index)"
    using find_index_correct [OF inv, of key] by auto
  note lk = found_at_lookup [OF inv fi(2)]
  show ?thesis
  proof (cases found)
    case True
    then have in_range: "index < m_size m" "fst (m_storage m ! index) = key"
      using fi(2) by (auto simp: found_at_def)
    note rep = entries_replace [OF inv in_range, of v]
    have "small_map_inv (m\<lparr>m_storage := (m_storage m)[index := (key, v)]\<rparr>)"
      using inv rep(2) by (simp add: small_map_inv_def)
    with True show ?thesis
      using emplace_old [OF inv] fi rep(1) lk by (simp add: small_map_lookup_def)
  next
    case False
    then obtain m' where m': "emplace key v m = Some m'"
      "length (m_storage m') = length (m_storage m)" "m_size m' = Suc (m_size m)"
      "entries m' = take index (entries m) @ (key, v) # drop index (entries m)"
      using emplace_new [OF inv, of key index v] fi room lk by auto
    have "small_map_inv m'"
      using m' room lk False sorted_insert_at [OF inv, of key index v] fi(2)
      by (simp add: small_map_inv_def)
    moreover have "key \<notin> fst ` set (take index (entries m))"
      using lk False by (auto simp: small_map_lookup_def map_of_eq_None_iff dest: in_set_takeD)
    then have "small_map_lookup m' = (small_map_lookup m)(key \<mapsto> v)"
      unfolding small_map_lookup_def m'(4) by (metis append_take_drop_id map_of_insert_at)
    ultimately show ?thesis using m' lk False by simp
  qed
qed

text \<open>\<open>find\<close>: the offset of the pair with the key, or the end iterator.\<close>

theorem small_map_find_correct:
  assumes "small_map_inv m"
  shows "\<exists>p. small_map_find m key = Some p \<and>
    (case small_map_lookup m key of
       Some v \<Rightarrow> p < small_map_end m \<and> small_map_value m p = Some (key, v)
     | None \<Rightarrow> p = small_map_end m)"
proof -
  obtain found index where fi: "find_index m key = Some (found, index)" "found_at m key (found, index)"
    using find_index_correct [OF assms, of key] by auto
  note lk = found_at_lookup [OF assms fi(2)]
  show ?thesis
    using fi lk small_map_value_in [OF assms, of index]
    by (cases found; cases "m_storage m ! index")
      (auto simp: small_map_find_def small_map_begin_def small_map_end_def found_at_def)
qed

section \<open>Removal\<close>

lemma move_left_correct:
  "pos + n < length (m_storage m) \<Longrightarrow>
   \<exists>m'. move_left n pos m = Some m' \<and> m_size m' = m_size m \<and>
     length (m_storage m') = length (m_storage m) \<and>
     (\<forall>i < length (m_storage m). m_storage m' ! i =
        (if pos \<le> i \<and> i < pos + n then m_storage m ! Suc i else m_storage m ! i))"
proof (induction n arbitrary: pos m)
  case 0
  then show ?case by auto
next
  case (Suc n)
  let ?m = "m\<lparr>m_storage := (m_storage m)[pos := m_storage m ! Suc pos]\<rparr>"
  have "\<exists>m'. move_left n (Suc pos) ?m = Some m' \<and> m_size m' = m_size ?m \<and>
      length (m_storage m') = length (m_storage ?m) \<and>
      (\<forall>i < length (m_storage ?m). m_storage m' ! i =
        (if Suc pos \<le> i \<and> i < Suc pos + n then m_storage ?m ! Suc i else m_storage ?m ! i))"
    using Suc.prems by (intro Suc.IH) simp
  then obtain m' where m': "move_left n (Suc pos) ?m = Some m'" "m_size m' = m_size m"
    "length (m_storage m') = length (m_storage m)"
    "\<And>i. i < length (m_storage m) \<Longrightarrow> m_storage m' ! i =
        (if Suc pos \<le> i \<and> i < Suc pos + n then m_storage ?m ! Suc i else m_storage ?m ! i)"
    by auto
  have "move_left (Suc n) pos m = Some m'"
    using Suc.prems m'(1) by (simp add: small_map_value_def store_def)
  moreover have "m_storage m' ! i =
      (if pos \<le> i \<and> i < pos + Suc n then m_storage m ! Suc i else m_storage m ! i)"
    if "i < length (m_storage m)" for i
    using m'(4) [OF that] that Suc.prems by (auto simp: nth_list_update not_le less_Suc_eq_le)
  ultimately show ?case using m'(2,3) by auto
qed

lemma erase_entries:
  assumes "m_size m \<le> length (m_storage m)" and "pos < m_size m"
  shows "\<exists>m'. erase pos m = Some (pos, m') \<and> m_size m' = m_size m - 1 \<and>
    length (m_storage m') = length (m_storage m) \<and>
    entries m' = take pos (entries m) @ drop (Suc pos) (entries m)"
proof -
  have "pos + (m_size m - 1 - pos) < length (m_storage m)"
    and "pos + (m_size m - 1 - pos) = m_size m - 1"
    using assms by auto
  then obtain m' where m': "move_left (m_size m - 1 - pos) pos m = Some m'" "m_size m' = m_size m"
    "length (m_storage m') = length (m_storage m)"
    "\<And>i. i < length (m_storage m) \<Longrightarrow> m_storage m' ! i =
       (if pos \<le> i \<and> i < m_size m - 1 then m_storage m ! Suc i else m_storage m ! i)"
    using move_left_correct [of pos "m_size m - 1 - pos" m] by metis
  let ?m' = "m'\<lparr>m_size := m_size m - 1\<rparr>"
  have "entries ?m' = take pos (entries m) @ drop (Suc pos) (entries m)"
  proof (rule nth_equalityI)
    show "length (entries ?m') = length (take pos (entries m) @ drop (Suc pos) (entries m))"
      using assms m'(3) by (auto simp: entries_def)
  next
    fix i assume "i < length (entries ?m')"
    then have "i < m_size m - 1" by (simp add: entries_def)
    then show "entries ?m' ! i = (take pos (entries m) @ drop (Suc pos) (entries m)) ! i"
      using assms m'(4) [of i] by (auto simp: entries_def nth_append min_def)
  qed
  then show ?thesis
    using m' assms(2) by (auto simp: erase_def small_map_end_def)
qed

lemma map_of_remove_at:
  assumes "distinct (map fst (xs @ x # ys))"
  shows "map_of (xs @ ys) = (map_of (xs @ x # ys))(fst x := None)"
proof -
  obtain k v where x: "x = (k, v)" by (cases x)
  have "map_of (xs @ x # ys) = (map_of (xs @ ys))(k \<mapsto> v)"
    unfolding x by (rule map_of_insert_at) (use assms x in auto)
  moreover have "map_of (xs @ ys) k = None"
    using assms x by (auto simp: map_of_eq_None_iff)
  ultimately show ?thesis
    using x by (metis fst_conv fun_upd_triv fun_upd_upd)
qed

theorem erase_correct:
  assumes inv: "small_map_inv m" and pos: "pos < m_size m"
  shows "\<exists>m'. erase pos m = Some (pos, m') \<and> small_map_inv m' \<and> m_size m' = m_size m - 1 \<and>
    length (m_storage m') = length (m_storage m) \<and>
    small_map_lookup m' = (small_map_lookup m)(fst (m_storage m ! pos) := None)"
proof -
  obtain m' where m': "erase pos m = Some (pos, m')" "m_size m' = m_size m - 1"
    "length (m_storage m') = length (m_storage m)"
    "entries m' = take pos (entries m) @ drop (Suc pos) (entries m)"
    using erase_entries [of m pos] inv pos by (auto simp: small_map_inv_def)
  have old: "entries m = take pos (entries m) @ m_storage m ! pos # drop (Suc pos) (entries m)"
    using id_take_nth_drop [of pos "entries m"] inv pos by (simp add: small_map_inv_def)
  have "sorted_wrt (<) (map fst (take pos (entries m) @ m_storage m ! pos # drop (Suc pos) (entries m)))"
    using inv old by (simp add: small_map_inv_def)
  then have "sorted_wrt (<) (map fst (take pos (entries m) @ drop (Suc pos) (entries m)))"
    unfolding map_append sorted_wrt_append list.map by auto
  then have "small_map_inv m'"
    using m' inv by (auto simp: small_map_inv_def)
  moreover have "small_map_lookup m' = (small_map_lookup m)(fst (m_storage m ! pos) := None)"
    unfolding small_map_lookup_def m'(4) using map_of_remove_at small_map_keys_distinct [OF inv] old
    by metis
  ultimately show ?thesis using m' by auto
qed

lemma erase_range_entries:
  "first \<le> lst \<Longrightarrow> lst \<le> m_size m \<Longrightarrow> m_size m \<le> length (m_storage m) \<Longrightarrow>
   \<exists>m'. erase_range_loop first lst m = Some m' \<and> m_size m' = m_size m - (lst - first) \<and>
     length (m_storage m') = length (m_storage m) \<and>
     entries m' = take first (entries m) @ drop lst (entries m)"
proof (induction lst arbitrary: m)
  case 0
  then show ?case by (subst erase_range_loop.simps) simp
next
  case (Suc n)
  show ?case
  proof (cases "Suc n = first")
    case True
    then show ?thesis by (subst erase_range_loop.simps) auto
  next
    case False
    obtain m1 where m1: "erase n m = Some (n, m1)" "m_size m1 = m_size m - 1"
      "length (m_storage m1) = length (m_storage m)"
      "entries m1 = take n (entries m) @ drop (Suc n) (entries m)"
      using erase_entries [of m n] Suc.prems by auto
    have "first \<le> n" "n \<le> m_size m1" "m_size m1 \<le> length (m_storage m1)"
      using Suc.prems False m1(2,3) by auto
    from Suc.IH [OF this] obtain m' where m': "erase_range_loop first n m1 = Some m'"
      "m_size m' = m_size m1 - (n - first)" "length (m_storage m') = length (m_storage m1)"
      "entries m' = take first (entries m1) @ drop n (entries m1)"
      by auto
    have "erase_range_loop first (Suc n) m = Some m'"
      using False m1(1) m'(1) by (subst erase_range_loop.simps) simp
    moreover have "entries m' = take first (entries m) @ drop (Suc n) (entries m)"
      using m'(4) m1(4) Suc.prems False by (simp add: min_def)
    ultimately show ?thesis using m' m1 Suc.prems False by auto
  qed
qed

section \<open>Copying and moving\<close>

lemma copy_construct_empty: "copy_construct storage other = Some (default_map storage)"
  unfolding copy_construct_def by (subst copy_loop.simps) (simp add: default_map_def)

lemma move_construct_entries:
  assumes "m_size other \<le> length (m_storage other)" and "m_size other \<le> length storage"
  shows "\<exists>m. move_construct storage other = Some (m, other\<lparr>m_size := 0\<rparr>) \<and>
    m_size m = m_size other \<and> length (m_storage m) = length storage \<and> entries m = entries other"
proof -
  let ?I = "\<lambda>n m. m_size m = m_size other \<and> length (m_storage m) = length storage \<and>
    (\<forall>i < n. m_storage m ! i = m_storage other ! i)"
  have "\<exists>m. loop_opt (m_size other) (\<lambda>i m. do { x \<leftarrow> small_map_value other i; store i x m })
      \<lparr>m_storage = storage, m_size = m_size other\<rparr> = Some m \<and> ?I (m_size other) m"
    using assms
    by (intro loop_opt_inv) (auto simp: small_map_value_def store_def nth_list_update less_Suc_eq)
  then obtain m where m: "loop_opt (m_size other) (\<lambda>i m. do { x \<leftarrow> small_map_value other i; store i x m })
      \<lparr>m_storage = storage, m_size = m_size other\<rparr> = Some m" "?I (m_size other) m"
    by blast
  have "entries m = entries other"
    using m(2) assms by (intro nth_equalityI) auto
  with m show ?thesis by (auto simp: move_construct_def)
qed

section \<open>The map as an interface\<close>

text \<open>What a client of a bounded map relies on: inserting succeeds while there is room (or the
  key is there already), and acts on the abstract map as an update.\<close>

locale bounded_map =
  fixes put :: "'k \<Rightarrow> 'v \<Rightarrow> 'm \<Rightarrow> 'm option"
    and lookup :: "'m \<Rightarrow> 'k \<Rightarrow> 'v option"
    and used capacity :: "'m \<Rightarrow> nat"
    and invar :: "'m \<Rightarrow> bool"
  assumes put_ok: "invar m \<Longrightarrow> used m < capacity m \<or> lookup m k \<noteq> None \<Longrightarrow>
      \<exists>m'. put k v m = Some m' \<and> invar m' \<and> lookup m' = (lookup m)(k \<mapsto> v) \<and>
        capacity m' = capacity m \<and> used m' = (if lookup m k = None then Suc (used m) else used m)"
begin

text \<open>Filling a map in a counted loop: with distinct keys every pair is found afterwards, and
  nothing else was added.\<close>

lemma fill:
  assumes "invar m" and "used m + n \<le> capacity m" and "inj_on key {..<n}"
  shows "\<exists>m'. loop_opt n (\<lambda>i. put (key i) (val i)) m = Some m' \<and> invar m' \<and>
    capacity m' = capacity m \<and> used m' \<le> used m + n \<and>
    (\<forall>i < n. lookup m' (key i) = Some (val i)) \<and>
    (\<forall>k. k \<notin> key ` {..<n} \<longrightarrow> lookup m' k = lookup m k)"
proof -
  let ?I = "\<lambda>j t. invar t \<and> capacity t = capacity m \<and> used t \<le> used m + j \<and>
    (\<forall>i < j. lookup t (key i) = Some (val i)) \<and>
    (\<forall>k. k \<notin> key ` {..<j} \<longrightarrow> lookup t k = lookup m k)"
  have step: "\<exists>t'. put (key j) (val j) t = Some t' \<and> ?I (Suc j) t'" if "j < n" "?I j t" for j t
  proof -
    from that assms(2) obtain t' where t': "put (key j) (val j) t = Some t'" "invar t'"
      "lookup t' = (lookup t)(key j \<mapsto> val j)" "capacity t' = capacity t" "used t' \<le> Suc (used t)"
      using put_ok [of t "key j" "val j"] by (auto split: if_splits)
    have "key i \<noteq> key j" if "i < j" for i
      using assms(3) that \<open>j < n\<close> by (auto dest!: inj_onD)
    with t' that(2) show ?thesis by (auto simp: less_Suc_eq lessThan_Suc)
  qed
  show ?thesis
    using loop_opt_inv [where I = ?I and f = "\<lambda>i. put (key i) (val i)" and n = n and s = m]
      assms(1) step by auto
qed

end

interpretation sm: bounded_map emplace small_map_lookup m_size "\<lambda>m. length (m_storage m)" small_map_inv
  using emplace_correct by unfold_locales

section \<open>The array implements a map\<close>

text \<open>The operations a client performs: insertion, removal of a key (the pair that \<open>find\<close>
  returns is erased, if there is one) and clearing; on the array, and on the abstract map.\<close>

datatype ('k, 'v) map_op = Emplace 'k 'v | Erase 'k | Clear

definition erase_key :: "'k :: linorder \<Rightarrow> ('k, 'v) small_map \<Rightarrow> ('k, 'v) small_map option" where
  "erase_key key m = do {
     position \<leftarrow> small_map_find m key;
     (if position = small_map_end m then Some m else map_option snd (erase position m))
   }"

fun run_op :: "('k :: linorder, 'v) map_op \<Rightarrow> ('k, 'v) small_map \<Rightarrow> ('k, 'v) small_map option" where
  "run_op (Emplace key v) m = emplace key v m"
| "run_op (Erase key) m = erase_key key m"
| "run_op Clear m = Some (clear m)"

fun spec_op :: "('k, 'v) map_op \<Rightarrow> ('k \<rightharpoonup> 'v) \<Rightarrow> ('k \<rightharpoonup> 'v)" where
  "spec_op (Emplace key v) f = f(key \<mapsto> v)"
| "spec_op (Erase key) f = f(key := None)"
| "spec_op Clear f = Map.empty"

fun run_ops :: "('k :: linorder, 'v) map_op list \<Rightarrow> ('k, 'v) small_map \<Rightarrow> ('k, 'v) small_map option" where
  "run_ops [] m = Some m"
| "run_ops (x # xs) m = do { m' \<leftarrow> run_op x m; run_ops xs m' }"

text \<open>The abstract map never holds more keys than \<open>capacity\<close>.\<close>

fun fits_ops :: "nat \<Rightarrow> ('k, 'v) map_op list \<Rightarrow> ('k \<rightharpoonup> 'v) \<Rightarrow> bool" where
  "fits_ops capacity [] f \<longleftrightarrow> True"
| "fits_ops capacity (x # xs) f \<longleftrightarrow> card (dom (spec_op x f)) \<le> capacity \<and> fits_ops capacity xs (spec_op x f)"

lemma small_map_card: "small_map_inv m \<Longrightarrow> card (dom (small_map_lookup m)) = m_size m"
  using distinct_card [OF small_map_keys_distinct, of m]
  by (simp add: small_map_lookup_def dom_map_of_conv_image_fst small_map_inv_def)

lemma small_map_finite: "finite (dom (small_map_lookup m))"
  by (simp add: small_map_lookup_def finite_dom_map_of)

lemma erase_key_correct:
  assumes "small_map_inv m"
  shows "\<exists>m'. erase_key key m = Some m' \<and> small_map_inv m' \<and>
    small_map_lookup m' = (small_map_lookup m)(key := None) \<and> length (m_storage m') = length (m_storage m)"
proof -
  obtain p where p: "small_map_find m key = Some p"
    "case small_map_lookup m key of
       Some v \<Rightarrow> p < small_map_end m \<and> small_map_value m p = Some (key, v)
     | None \<Rightarrow> p = small_map_end m"
    using small_map_find_correct [OF assms] by blast
  show ?thesis
  proof (cases "small_map_lookup m key")
    case None
    then have "(small_map_lookup m)(key := None) = small_map_lookup m" by (simp add: fun_upd_idem)
    with p None assms show ?thesis by (simp add: erase_key_def)
  next
    case (Some v)
    then have "p < m_size m" and "fst (m_storage m ! p) = key"
      using p(2) by (auto simp: small_map_end_def small_map_value_def split: if_splits)
    then show ?thesis
      using erase_correct [OF assms, of p] p Some by (auto simp: erase_key_def)
  qed
qed

lemma run_op_correct:
  assumes inv: "small_map_inv m" and room: "card (dom (spec_op x (small_map_lookup m))) \<le> length (m_storage m)"
  shows "\<exists>m'. run_op x m = Some m' \<and> small_map_inv m' \<and>
    small_map_lookup m' = spec_op x (small_map_lookup m) \<and> length (m_storage m') = length (m_storage m)"
proof (cases x)
  case (Emplace key v)
  have "m_size m < length (m_storage m) \<or> small_map_lookup m key \<noteq> None"
    using room Emplace small_map_card [OF inv] small_map_finite [of m]
    by (cases "small_map_lookup m key") (auto simp: domIff)
  then show ?thesis using emplace_correct [OF inv, of key v] Emplace by auto
next
  case (Erase key)
  then show ?thesis using erase_key_correct [OF inv, of key] by simp
next
  case Clear
  then show ?thesis by (simp add: clear_def small_map_inv_def small_map_lookup_def entries_def)
qed

lemma run_ops_correct:
  assumes "small_map_inv m" and "fits_ops (length (m_storage m)) xs (small_map_lookup m)"
  shows "\<exists>m'. run_ops xs m = Some m' \<and> small_map_inv m' \<and>
    small_map_lookup m' = fold spec_op xs (small_map_lookup m) \<and> length (m_storage m') = length (m_storage m)"
  using assms
proof (induction xs arbitrary: m)
  case Nil
  then show ?case by simp
next
  case (Cons x xs)
  then obtain m1 where m1: "run_op x m = Some m1" "small_map_inv m1"
    "small_map_lookup m1 = spec_op x (small_map_lookup m)" "length (m_storage m1) = length (m_storage m)"
    using run_op_correct [of m x] by auto
  with Cons.IH [of m1] Cons.prems(2) show ?case by simp
qed

lemma default_map_correct:
  "small_map_inv (default_map storage)" "small_map_lookup (default_map storage) = Map.empty"
  "length (m_storage (default_map storage)) = length storage"
  by (simp_all add: default_map_def small_map_inv_def small_map_lookup_def entries_def)

section \<open>Properties\<close>



text \<open>\<open>find\<close> returns on every well-formed map: the position of the pair with the key when the
  key is in the map, and the end iterator when it is not.\<close>

theorem small_map_find_returns:
  assumes "small_map_inv m"
  shows "\<exists>p. small_map_find m key = Some p \<and>
    (case small_map_lookup m key of
       Some v \<Rightarrow> p < small_map_end m \<and> small_map_value m p = Some (key, v)
     | None \<Rightarrow> p = small_map_end m)"
  by (rule small_map_find_correct [OF assms])

theorem small_map_find_returns_witness:
  "\<exists>p. small_map_find \<lparr>m_storage = [(1, 10), (4, 40), (9, 90 :: nat)], m_size = 2\<rparr> (4 :: nat) = Some p \<and>
     p < 2 \<and> small_map_value \<lparr>m_storage = [(1 :: nat, 10), (4, 40), (9, 90 :: nat)], m_size = 2\<rparr> p = Some (4, 40)"
proof -
  let ?m = "\<lparr>m_storage = [(1 :: nat, 10), (4, 40), (9, 90 :: nat)], m_size = 2\<rparr>"
  have "small_map_inv ?m" by (simp add: small_map_inv_def entries_def numeral_2_eq_2)
  moreover have "small_map_lookup ?m 4 = Some 40" by (simp add: small_map_lookup_def entries_def numeral_2_eq_2)
  ultimately show ?thesis using small_map_find_returns [of ?m 4] by (simp add: small_map_end_def)
qed

text \<open>\<open>erase(first, last)\<close> removes exactly the pairs of the range, keeps the rest in order, and
  returns the position it started at.\<close>

theorem erase_range_removes:
  assumes "small_map_inv m" and "first \<le> lst" and "lst \<le> m_size m"
  shows "\<exists>m'. erase_range first lst m = Some (first, m') \<and> small_map_inv m' \<and>
    entries m' = take first (entries m) @ drop lst (entries m)"
proof -
  obtain m' where m': "erase_range_loop first lst m = Some m'" "m_size m' = m_size m - (lst - first)"
    "length (m_storage m') = length (m_storage m)" "entries m' = take first (entries m) @ drop lst (entries m)"
    using erase_range_entries [of first lst m] assms by (auto simp: small_map_inv_def)
  have "sorted_wrt (<) (map fst (take first (entries m) @ drop first (entries m)))"
    using assms(1) by (simp add: small_map_inv_def)
  then have "sorted_wrt (<) (map fst (take first (entries m) @ drop lst (entries m)))"
    using assms(2) set_drop_subset_set_drop [of first lst "entries m"] sorted_wrt_drop [of "(<)" "map fst (entries m)" lst] assms(1)
    unfolding map_append sorted_wrt_append by (auto simp: small_map_inv_def drop_map)
  with m' assms show ?thesis by (auto simp: erase_range_def small_map_inv_def)
qed

theorem erase_range_removes_witness:
  "\<exists>m'. erase_range 1 2 \<lparr>m_storage = [(1 :: nat, 10 :: nat), (4, 40), (9, 90)], m_size = 3\<rparr> = Some (1, m') \<and>
     entries m' = [(1, 10), (9, 90)]"
proof -
  have "small_map_inv \<lparr>m_storage = [(1 :: nat, 10 :: nat), (4, 40), (9, 90)], m_size = 3\<rparr>"
    by (simp add: small_map_inv_def entries_def numeral_3_eq_3)
  from erase_range_removes [OF this, of 1 2] show ?thesis
    by (auto simp: entries_def numeral_3_eq_3 numeral_2_eq_2)
qed

text \<open>The move constructor transfers the whole map and leaves the other one empty; the copy
  constructor yields an empty map whatever it copies, because its loop is bounded by the size of the
  map under construction.\<close>

theorem move_keeps_copy_loses:
  assumes "small_map_inv other" and "length storage = length (m_storage other)"
  shows "(\<exists>m. move_construct storage other = Some (m, clear other) \<and>
      small_map_inv m \<and> small_map_lookup m = small_map_lookup other) \<and>
    (\<exists>m. copy_construct storage other = Some m \<and> small_map_lookup m = Map.empty)"
proof
  show "\<exists>m. move_construct storage other = Some (m, clear other) \<and>
      small_map_inv m \<and> small_map_lookup m = small_map_lookup other"
    using move_construct_entries [of other storage] assms
    by (auto simp: small_map_inv_def small_map_lookup_def clear_def)
  show "\<exists>m. copy_construct storage other = Some m \<and> small_map_lookup m = Map.empty"
    by (simp add: copy_construct_empty default_map_correct)
qed

theorem move_keeps_copy_loses_witness:
  "\<exists>m. copy_construct [(0, 0)] \<lparr>m_storage = [(4 :: nat, 40 :: nat)], m_size = 1\<rparr> = Some m \<and> small_map_lookup m 4 = None"
  using move_keeps_copy_loses [of "\<lparr>m_storage = [(4 :: nat, 40 :: nat)], m_size = 1\<rparr>" "[(0, 0)]"]
  by (auto simp: small_map_inv_def entries_def)

end
