(* ===== verification/Virtual_Address.thy ===== *)
theory Virtual_Address
  imports Prelude
begin

text \<open>
  The class \<open>virtual_address\<close> of \<^verbatim>\<open>include/zpp/x64/virtual_address.h\<close>: the fields
  of a 48-bit linear address.  Its only member \<open>m_value\<close> is a \<open>uint64_t\<close>, so an
  object is the word itself; a getter is a function of the word, a setter returns the new word.
\<close>

section \<open>Offsets inside a page, a large page, a huge page\<close>

text \<open>The clearing masks of the setters, as the simplifier normalises them.\<close>

lemma va_masks:
  "(0xfffffffffffff000 :: u64) = - 4096"
  "(0xffffffffffe00000 :: u64) = - 2097152"
  "(0xffffffffc0000000 :: u64) = - 1073741824"
  "(0xffffffffffe00fff :: u64) = - 2093057"
  "(0xffffffffc01fffff :: u64) = - 1071644673"
  "(0xffffff803fffffff :: u64) = - 548682072065"
  "(0xffff007fffffffff :: u64) = - 280925220896769"
  by simp_all

definition va_offset :: "u64 \<Rightarrow> u64" where
  "va_offset m_value = m_value AND 0xfff"

definition va_set_offset :: "u64 \<Rightarrow> u64 \<Rightarrow> u64" where
  "va_set_offset value m_value = (m_value AND 0xfffffffffffff000) OR (value AND 0xfff)"

interpretation va_offset: bit_field va_offset va_set_offset 0 12
  by unfold_locales (simp_all add: va_offset_def va_set_offset_def field_eval va_masks)

definition va_large_offset :: "u64 \<Rightarrow> u64" where
  "va_large_offset m_value = m_value AND 0x1fffff"

definition va_set_large_offset :: "u64 \<Rightarrow> u64 \<Rightarrow> u64" where
  "va_set_large_offset value m_value = (m_value AND 0xffffffffffe00000) OR (value AND 0x1fffff)"

interpretation va_large_offset: bit_field va_large_offset va_set_large_offset 0 21
  by unfold_locales (simp_all add: va_large_offset_def va_set_large_offset_def field_eval va_masks)

definition va_huge_offset :: "u64 \<Rightarrow> u64" where
  "va_huge_offset m_value = m_value AND 0x3fffffff"

definition va_set_huge_offset :: "u64 \<Rightarrow> u64 \<Rightarrow> u64" where
  "va_set_huge_offset value m_value = (m_value AND 0xffffffffc0000000) OR (value AND 0x3fffffff)"

interpretation va_huge_offset: bit_field va_huge_offset va_set_huge_offset 0 30
  by unfold_locales (simp_all add: va_huge_offset_def va_set_huge_offset_def field_eval va_masks)

section \<open>Indices of the four levels of page tables\<close>

definition va_pte :: "u64 \<Rightarrow> u64" where
  "va_pte m_value = drop_bit 12 m_value AND 0x1ff"

definition va_set_pte :: "u64 \<Rightarrow> u64 \<Rightarrow> u64" where
  "va_set_pte value m_value = (m_value AND 0xffffffffffe00fff) OR push_bit 12 (value AND 0x1ff)"

interpretation va_pte: bit_field va_pte va_set_pte 12 9
  by unfold_locales (simp_all add: va_pte_def va_set_pte_def field_eval va_masks)

definition va_pde :: "u64 \<Rightarrow> u64" where
  "va_pde m_value = drop_bit (12 + 9) m_value AND 0x1ff"

definition va_set_pde :: "u64 \<Rightarrow> u64 \<Rightarrow> u64" where
  "va_set_pde value m_value = (m_value AND 0xffffffffc01fffff) OR push_bit (12 + 9) (value AND 0x1ff)"

interpretation va_pde: bit_field va_pde va_set_pde 21 9
  by unfold_locales (simp_all add: va_pde_def va_set_pde_def field_eval va_masks)

definition va_pdpte :: "u64 \<Rightarrow> u64" where
  "va_pdpte m_value = drop_bit (12 + 9 * 2) m_value AND 0x1ff"

definition va_set_pdpte :: "u64 \<Rightarrow> u64 \<Rightarrow> u64" where
  "va_set_pdpte value m_value = (m_value AND 0xffffff803fffffff) OR push_bit (12 + 9 * 2) (value AND 0x1ff)"

interpretation va_pdpte: bit_field va_pdpte va_set_pdpte 30 9
  by unfold_locales (simp_all add: va_pdpte_def va_set_pdpte_def field_eval va_masks)

definition va_pml4e :: "u64 \<Rightarrow> u64" where
  "va_pml4e m_value = drop_bit (12 + 9 * 3) m_value AND 0x1ff"

definition va_set_pml4e :: "u64 \<Rightarrow> u64 \<Rightarrow> u64" where
  "va_set_pml4e value m_value = (m_value AND 0xffff007fffffffff) OR push_bit (12 + 9 * 3) (value AND 0x1ff)"

interpretation va_pml4e: bit_field va_pml4e va_set_pml4e 39 9
  by unfold_locales (simp_all add: va_pml4e_def va_set_pml4e_def field_eval va_masks)

section \<open>The fields together\<close>

text \<open>The accessor table of the class: offset, width, getter, setter.\<close>

definition va_fields :: "(nat \<times> nat \<times> (u64 \<Rightarrow> u64) \<times> (u64 \<Rightarrow> u64 \<Rightarrow> u64)) list" where
  "va_fields =
     [(0, 12, va_offset, va_set_offset),
      (0, 21, va_large_offset, va_set_large_offset),
      (0, 30, va_huge_offset, va_set_huge_offset),
      (12, 9, va_pte, va_set_pte),
      (21, 9, va_pde, va_set_pde),
      (30, 9, va_pdpte, va_set_pdpte),
      (39, 9, va_pml4e, va_set_pml4e)]"

lemma va_fields_ok: "list_all (\<lambda>(off, n, get, put). accessor_ok off n get put) va_fields"
  by (simp add: va_fields_def va_offset.ok va_large_offset.ok va_huge_offset.ok va_pte.ok va_pde.ok
      va_pdpte.ok va_pml4e.ok)

lemmas va_bits = va_offset.get_eq va_large_offset.get_eq va_huge_offset.get_eq va_pte.get_eq
  va_pde.get_eq va_pdpte.get_eq va_pml4e.get_eq

text \<open>Every index selects one of the 512 entries of a table.\<close>

lemma va_index_less:
  "unat (va_pte a) < 512" "unat (va_pde a) < 512" "unat (va_pdpte a) < 512" "unat (va_pml4e a) < 512"
  using bits_less [of 9] by (simp_all add: va_bits)

text \<open>The indices and the page offset determine the 48 translated bits of an address.\<close>

lemma va_decompose:
  "take_bit 48 a = push_bit 39 (va_pml4e a) OR push_bit 30 (va_pdpte a) OR push_bit 21 (va_pde a) OR
     push_bit 12 (va_pte a) OR va_offset a"
proof (rule bit_eqI)
  fix i :: nat
  consider "i < 12" | "12 \<le> i" "i < 21" | "21 \<le> i" "i < 30" | "30 \<le> i" "i < 39"
    | "39 \<le> i" "i < 48" | "48 \<le> i" by linarith
  then show "bit (take_bit 48 a) i \<longleftrightarrow>
      bit (push_bit 39 (va_pml4e a) OR push_bit 30 (va_pdpte a) OR push_bit 21 (va_pde a) OR
        push_bit 12 (va_pte a) OR va_offset a) i"
    by cases (auto simp: va_bits bit_bits bit_simps dest: u64_bit_bound)
qed

lemma va_eqI:
  assumes "va_pml4e a = va_pml4e b" and "va_pdpte a = va_pdpte b" and "va_pde a = va_pde b"
    and "va_pte a = va_pte b" and "va_offset a = va_offset b"
  shows "take_bit 48 a = take_bit 48 b"
  by (simp add: va_decompose assms)

end
