(* ===== verification/Page_Entry.thy ===== *)
theory Page_Entry
  imports Prelude
begin

text \<open>
  The class \<open>pte\<close> of \<^verbatim>\<open>include/zpp/x64/pte.h\<close>: one entry of an x86-64 page
  table.  An object is its 64-bit member \<open>m_value\<close>.
\<close>

section \<open>Flags\<close>

definition pte_present :: "u64 \<Rightarrow> bool" where
  "pte_present m_value \<longleftrightarrow> m_value AND 1 \<noteq> 0"

definition pte_set_present :: "bool \<Rightarrow> u64 \<Rightarrow> u64" where
  "pte_set_present value m_value = (m_value AND NOT 1) OR of_bool value"

interpretation pte_present: bit_flag pte_present pte_set_present 0
  by unfold_locales (simp_all add: pte_present_def pte_set_present_def flag_eval)

definition pte_write :: "u64 \<Rightarrow> bool" where
  "pte_write m_value \<longleftrightarrow> m_value AND push_bit 1 1 \<noteq> 0"

definition pte_set_write :: "bool \<Rightarrow> u64 \<Rightarrow> u64" where
  "pte_set_write value m_value = (m_value AND NOT (push_bit 1 1)) OR push_bit 1 (of_bool value)"

interpretation pte_write: bit_flag pte_write pte_set_write 1
  by unfold_locales (simp_all add: pte_write_def pte_set_write_def flag_eval)

definition pte_user :: "u64 \<Rightarrow> bool" where
  "pte_user m_value \<longleftrightarrow> m_value AND push_bit 2 1 \<noteq> 0"

definition pte_set_user :: "bool \<Rightarrow> u64 \<Rightarrow> u64" where
  "pte_set_user value m_value = (m_value AND NOT (push_bit 2 1)) OR push_bit 2 (of_bool value)"

interpretation pte_user: bit_flag pte_user pte_set_user 2
  by unfold_locales (simp_all add: pte_user_def pte_set_user_def flag_eval)

definition pte_write_through :: "u64 \<Rightarrow> bool" where
  "pte_write_through m_value \<longleftrightarrow> m_value AND push_bit 3 1 \<noteq> 0"

definition pte_set_write_through :: "bool \<Rightarrow> u64 \<Rightarrow> u64" where
  "pte_set_write_through value m_value = (m_value AND NOT (push_bit 3 1)) OR push_bit 3 (of_bool value)"

interpretation pte_write_through: bit_flag pte_write_through pte_set_write_through 3
  by unfold_locales (simp_all add: pte_write_through_def pte_set_write_through_def flag_eval)

definition pte_page_level_cache_disable :: "u64 \<Rightarrow> bool" where
  "pte_page_level_cache_disable m_value \<longleftrightarrow> m_value AND push_bit 4 1 \<noteq> 0"

definition pte_set_page_level_cache_disable :: "bool \<Rightarrow> u64 \<Rightarrow> u64" where
  "pte_set_page_level_cache_disable value m_value = (m_value AND NOT (push_bit 4 1)) OR push_bit 4 (of_bool value)"

interpretation pte_page_level_cache_disable: bit_flag pte_page_level_cache_disable pte_set_page_level_cache_disable 4
  by unfold_locales (simp_all add: pte_page_level_cache_disable_def pte_set_page_level_cache_disable_def flag_eval)

definition pte_access :: "u64 \<Rightarrow> bool" where
  "pte_access m_value \<longleftrightarrow> m_value AND push_bit 5 1 \<noteq> 0"

definition pte_set_access :: "bool \<Rightarrow> u64 \<Rightarrow> u64" where
  "pte_set_access value m_value = (m_value AND NOT (push_bit 5 1)) OR push_bit 5 (of_bool value)"

interpretation pte_access: bit_flag pte_access pte_set_access 5
  by unfold_locales (simp_all add: pte_access_def pte_set_access_def flag_eval)

definition pte_dirty :: "u64 \<Rightarrow> bool" where
  "pte_dirty m_value \<longleftrightarrow> m_value AND push_bit 6 1 \<noteq> 0"

definition pte_set_dirty :: "bool \<Rightarrow> u64 \<Rightarrow> u64" where
  "pte_set_dirty value m_value = (m_value AND NOT (push_bit 6 1)) OR push_bit 6 (of_bool value)"

interpretation pte_dirty: bit_flag pte_dirty pte_set_dirty 6
  by unfold_locales (simp_all add: pte_dirty_def pte_set_dirty_def flag_eval)

definition pte_pat :: "u64 \<Rightarrow> bool" where
  "pte_pat m_value \<longleftrightarrow> m_value AND push_bit 7 1 \<noteq> 0"

definition pte_set_pat :: "bool \<Rightarrow> u64 \<Rightarrow> u64" where
  "pte_set_pat value m_value = (m_value AND NOT (push_bit 7 1)) OR push_bit 7 (of_bool value)"

interpretation pte_pat: bit_flag pte_pat pte_set_pat 7
  by unfold_locales (simp_all add: pte_pat_def pte_set_pat_def flag_eval)

definition pte_large :: "u64 \<Rightarrow> bool" where
  "pte_large m_value \<longleftrightarrow> m_value AND push_bit 7 1 \<noteq> 0"

definition pte_set_large :: "bool \<Rightarrow> u64 \<Rightarrow> u64" where
  "pte_set_large value m_value = (m_value AND NOT (push_bit 7 1)) OR push_bit 7 (of_bool value)"

interpretation pte_large: bit_flag pte_large pte_set_large 7
  by unfold_locales (simp_all add: pte_large_def pte_set_large_def flag_eval)

definition pte_global :: "u64 \<Rightarrow> bool" where
  "pte_global m_value \<longleftrightarrow> m_value AND push_bit 8 1 \<noteq> 0"

definition pte_set_global :: "bool \<Rightarrow> u64 \<Rightarrow> u64" where
  "pte_set_global value m_value = (m_value AND NOT (push_bit 8 1)) OR push_bit 8 (of_bool value)"

interpretation pte_global: bit_flag pte_global pte_set_global 8
  by unfold_locales (simp_all add: pte_global_def pte_set_global_def flag_eval)

section \<open>Page number, protection key, execute disable\<close>

definition pte_page_number :: "u64 \<Rightarrow> u64" where
  "pte_page_number m_value = drop_bit 12 m_value AND 0xffffffffff"

definition pte_set_page_number :: "u64 \<Rightarrow> u64 \<Rightarrow> u64" where
  "pte_set_page_number value m_value = (m_value AND NOT 0xffffffffff000) OR push_bit 12 (value AND 0xffffffffff)"

interpretation pte_page_number: bit_field pte_page_number pte_set_page_number 12 40
  by unfold_locales (simp_all add: pte_page_number_def pte_set_page_number_def field_eval)

definition pte_protection_key :: "u64 \<Rightarrow> u64" where
  "pte_protection_key m_value = drop_bit 58 m_value AND 0xf"

definition pte_set_protection_key :: "u64 \<Rightarrow> u64 \<Rightarrow> u64" where
  "pte_set_protection_key value m_value = (m_value AND NOT 0x3c00000000000000) OR push_bit 58 (value AND 0xf)"

interpretation pte_protection_key: bit_field pte_protection_key pte_set_protection_key 58 4
  by unfold_locales (simp_all add: pte_protection_key_def pte_set_protection_key_def field_eval)

definition pte_execute_disable :: "u64 \<Rightarrow> bool" where
  "pte_execute_disable m_value \<longleftrightarrow> m_value AND push_bit 63 1 \<noteq> 0"

definition pte_set_execute_disable :: "bool \<Rightarrow> u64 \<Rightarrow> u64" where
  "pte_set_execute_disable value m_value = (m_value AND NOT (push_bit 63 1)) OR push_bit 63 (of_bool value)"

interpretation pte_execute_disable: bit_flag pte_execute_disable pte_set_execute_disable 63
  by unfold_locales (simp_all add: pte_execute_disable_def pte_set_execute_disable_def flag_eval)


section \<open>The fields together\<close>

definition pte_fields :: "(nat \<times> nat \<times> (u64 \<Rightarrow> u64) \<times> (u64 \<Rightarrow> u64 \<Rightarrow> u64)) list" where
  "pte_fields =
     [(0, 1, \<lambda>w. of_bool (pte_present w), \<lambda>v. pte_set_present (odd v)),
      (1, 1, \<lambda>w. of_bool (pte_write w), \<lambda>v. pte_set_write (odd v)),
      (2, 1, \<lambda>w. of_bool (pte_user w), \<lambda>v. pte_set_user (odd v)),
      (3, 1, \<lambda>w. of_bool (pte_write_through w), \<lambda>v. pte_set_write_through (odd v)),
      (4, 1, \<lambda>w. of_bool (pte_page_level_cache_disable w), \<lambda>v. pte_set_page_level_cache_disable (odd v)),
      (5, 1, \<lambda>w. of_bool (pte_access w), \<lambda>v. pte_set_access (odd v)),
      (6, 1, \<lambda>w. of_bool (pte_dirty w), \<lambda>v. pte_set_dirty (odd v)),
      (7, 1, \<lambda>w. of_bool (pte_pat w), \<lambda>v. pte_set_pat (odd v)),
      (7, 1, \<lambda>w. of_bool (pte_large w), \<lambda>v. pte_set_large (odd v)),
      (8, 1, \<lambda>w. of_bool (pte_global w), \<lambda>v. pte_set_global (odd v)),
      (63, 1, \<lambda>w. of_bool (pte_execute_disable w), \<lambda>v. pte_set_execute_disable (odd v)),
      (12, 40, pte_page_number, pte_set_page_number),
      (58, 4, pte_protection_key, pte_set_protection_key)]"

lemmas pte_fields_accessors =
  pte_present.fld.ok pte_write.fld.ok pte_user.fld.ok pte_write_through.fld.ok
  pte_page_level_cache_disable.fld.ok pte_access.fld.ok pte_dirty.fld.ok pte_pat.fld.ok
  pte_large.fld.ok pte_global.fld.ok pte_execute_disable.fld.ok pte_page_number.ok
  pte_protection_key.ok

lemma pte_fields_ok: "list_all (\<lambda>(off, n, get, put). accessor_ok off n get put) pte_fields"
  using pte_fields_accessors by (simp add: pte_fields_def)

text \<open>How the setters used by the page tables act on the fields the translation reads.\<close>

lemmas pte_bits = pte_page_number.get_eq pte_large.flag_get_eq pte_present.flag_get_eq
  pte_write.flag_get_eq pte_execute_disable.flag_get_eq pte_page_number.put_eq
  pte_present.flag_put_eq pte_write.flag_put_eq pte_execute_disable.flag_put_eq

lemma pte_large_put [simp]:
  "pte_large (pte_set_page_number v m) = pte_large m"
  "pte_large (pte_set_write b m) = pte_large m"
  "pte_large (pte_set_present b m) = pte_large m"
  "pte_large (pte_set_execute_disable b m) = pte_large m"
  by (simp_all add: pte_bits bit_put_bits)

lemma pte_present_put [simp]:
  "pte_present (pte_set_present b m) = b"
  "pte_present (pte_set_page_number v m) = pte_present m"
  "pte_present (pte_set_write b m) = pte_present m"
  "pte_present (pte_set_execute_disable b m) = pte_present m"
  by (simp_all add: pte_bits bit_put_bits)

lemma pte_write_put [simp]:
  "pte_write (pte_set_write b m) = b"
  "pte_write (pte_set_page_number v m) = pte_write m"
  "pte_write (pte_set_present b m) = pte_write m"
  "pte_write (pte_set_execute_disable b m) = pte_write m"
  by (simp_all add: pte_bits bit_put_bits)

lemma pte_execute_disable_put [simp]:
  "pte_execute_disable (pte_set_execute_disable b m) = b"
  "pte_execute_disable (pte_set_page_number v m) = pte_execute_disable m"
  "pte_execute_disable (pte_set_present b m) = pte_execute_disable m"
  "pte_execute_disable (pte_set_write b m) = pte_execute_disable m"
  by (simp_all add: pte_bits bit_put_bits)

lemma pte_page_number_put [simp]:
  "pte_page_number (pte_set_page_number v m) = take_bit 40 v"
  "pte_page_number (pte_set_write b m) = pte_page_number m"
  "pte_page_number (pte_set_present b m) = pte_page_number m"
  "pte_page_number (pte_set_execute_disable b m) = pte_page_number m"
  by (simp_all add: pte_page_number.get_put)
    (simp_all add: pte_bits bits_put_bits_disjoint)

end
