(* ===== verification/Page_Table.thy ===== *)
theory Page_Table
  imports Virtual_Address Page_Entry
begin

text \<open>
  The two page tables of the hypervisor: \<open>page_table\<close>
  (\<^verbatim>\<open>include/zpp/x64/page_table.h\<close>, \<^verbatim>\<open>include/zpp/x64/detail/page_table.h\<close>,
  \<^verbatim>\<open>src/x64/page_table.cpp\<close>), the table the processor uses in hypervisor mode, kept
  inside the module, and \<open>os_page_table\<close> (\<^verbatim>\<open>src/x64/os_page_table.cpp\<close>), a walk
  of the tables of the operating system through a conversion function it provides.
\<close>

section \<open>The host page table\<close>

text \<open>The arrays are indexed by words masked to nine bits, so every access is in range; the
  address of an array inside the object is fixed by the class layout, given the address
  \<open>pt_this\<close> of the object.\<close>

record page_table =
  pt_this :: u64
  pml4 :: "nat \<Rightarrow> u64"
  pdpt :: "nat \<Rightarrow> u64"
  pds :: "nat \<Rightarrow> nat \<Rightarrow> u64"
  pts :: "nat \<Rightarrow> nat \<Rightarrow> nat \<Rightarrow> u64"

definition pml4_address :: "u64 \<Rightarrow> u64" where
  "pml4_address this = this"

definition pdpt_address :: "u64 \<Rightarrow> u64" where
  "pdpt_address this = this + 0x1000"

definition pd_address :: "u64 \<Rightarrow> nat \<Rightarrow> u64" where
  "pd_address this i = this + 0x2000 + of_nat i * 0x1000"

definition pt_address :: "u64 \<Rightarrow> nat \<Rightarrow> nat \<Rightarrow> u64" where
  "pt_address this i j = this + 0x4000 + of_nat (i * 512 + j) * 0x1000"

lemmas table_address_defs = pml4_address_def pdpt_address_def pd_address_def pt_address_def

text \<open>The enumeration \<open>protection\<close> over \<open>int\<close>, with its operators.\<close>

type_synonym protection = u32

definition protection_read :: protection where "protection_read = push_bit 0 1"
definition protection_write :: protection where "protection_write = push_bit 1 1"
definition protection_execute :: protection where "protection_execute = push_bit 2 1"

definition protection_or :: "protection \<Rightarrow> protection \<Rightarrow> protection" where
  "protection_or left right = left OR right"

definition protection_and :: "protection \<Rightarrow> protection \<Rightarrow> bool" where
  "protection_and left right \<longleftrightarrow> left AND right \<noteq> 0"

text \<open>\<open>pdpte / (extent(pdpt) / extent(pds))\<close>\<close>

definition pd_index :: "u64 \<Rightarrow> nat" where
  "pd_index address = unat (va_pdpte address) div (512 div 2)"

definition virtual_to_physical :: "page_table \<Rightarrow> u64 \<Rightarrow> u64" where
  "virtual_to_physical t value =
     (let pdpte = pdpt t (unat (va_pdpte value)) in
      if pte_large pdpte then push_bit 30 (pte_page_number pdpte) + va_huge_offset value
      else
        (let pde = pds t (pd_index value) (unat (va_pde value)) in
         if pte_large pde then push_bit 21 (pte_page_number pde) + va_large_offset value
         else
           push_bit 12 (pte_page_number (pts t (pd_index value) (unat (va_pde value)) (unat (va_pte value)))) +
           va_offset value))"

text \<open>A reference to an entry of one of the tables.\<close>

datatype pte_ref = Pdpt_entry nat | Pd_entry nat nat | Pt_entry nat nat nat

definition page_table_entry :: "page_table \<Rightarrow> u64 \<Rightarrow> pte_ref" where
  "page_table_entry t address =
     (if pte_large (pdpt t (unat (va_pdpte address))) then Pdpt_entry (unat (va_pdpte address))
      else if pte_large (pds t (pd_index address) (unat (va_pde address)))
      then Pd_entry (pd_index address) (unat (va_pde address))
      else Pt_entry (pd_index address) (unat (va_pde address)) (unat (va_pte address)))"

text \<open>\<open>head()\<close> is a reference to the first entry of the level 4 table; the client takes its
  address.\<close>

definition head_address :: "page_table \<Rightarrow> u64" where
  "head_address t = pml4_address (pt_this t)"

text \<open>\<open>map_page_from\<close>: the template parameter \<open>PageTable\<close> enters only through its
  member \<open>virtual_to_physical\<close>; \<open>map_page\<close> passes the table itself, which is being
  written, so the translation is a function of the current table.\<close>

definition link_entry :: "u64 \<Rightarrow> u64 \<Rightarrow> u64" where
  "link_entry physical e = pte_set_present True (pte_set_write True (pte_set_page_number (drop_bit 12 physical) e))"

definition leaf_entry :: "u64 \<Rightarrow> protection \<Rightarrow> u64 \<Rightarrow> u64" where
  "leaf_entry physical prot e =
     pte_set_present True
       (pte_set_execute_disable (\<not> protection_and prot protection_execute)
         (pte_set_write (protection_and prot protection_write)
           (pte_set_page_number (drop_bit 12 physical) e)))"

definition map_page_from ::
  "(page_table \<Rightarrow> u64 \<Rightarrow> u64) \<Rightarrow> u64 \<Rightarrow> u64 \<Rightarrow> protection \<Rightarrow> page_table \<Rightarrow> page_table" where
  "map_page_from other address physical_address prot t =
     (let i4 = unat (va_pml4e address); i3 = unat (va_pdpte address); k = pd_index address;
          i2 = unat (va_pde address); i1 = unat (va_pte address);
          t = t\<lparr>pml4 := (pml4 t)(i4 := link_entry (other t (pdpt_address (pt_this t))) (pml4 t i4))\<rparr>;
          t = t\<lparr>pdpt := (pdpt t)(i3 := link_entry (other t (pd_address (pt_this t) k)) (pdpt t i3))\<rparr>;
          t = t\<lparr>pds := (pds t)(k := (pds t k)(i2 :=
                 link_entry (other t (pt_address (pt_this t) k i2)) (pds t k i2)))\<rparr>
      in t\<lparr>pts := (pts t)(k := (pts t k)(i2 := (pts t k i2)(i1 :=
             leaf_entry physical_address prot (pts t k i2 i1))))\<rparr>)"

definition map_page :: "u64 \<Rightarrow> u64 \<Rightarrow> protection \<Rightarrow> page_table \<Rightarrow> page_table" where
  "map_page address physical_address prot t =
     map_page_from virtual_to_physical address physical_address prot t"

definition number_of_pages :: "u64 \<Rightarrow> u64" where
  "number_of_pages bytes = (bytes + (0x1000 - 1)) div 0x1000"

definition map_from :: "u64 \<Rightarrow> u64 \<Rightarrow> protection \<Rightarrow> (u64 \<Rightarrow> u64) \<Rightarrow> page_table \<Rightarrow> page_table" where
  "map_from base_address bytes prot other t =
     loop (unat (number_of_pages bytes))
       (\<lambda>i t. let address = base_address + of_nat i * 0x1000
               in map_page address (other address) prot t) t"

definition self_map_from :: "u64 \<Rightarrow> u64 \<Rightarrow> protection \<Rightarrow> (u64 \<Rightarrow> u64) \<Rightarrow> page_table \<Rightarrow> page_table" where
  "self_map_from base_address bytes prot other t =
     loop (unat (number_of_pages bytes))
       (\<lambda>i t. let address = base_address + of_nat i * 0x1000
               in map_page_from (\<lambda>_. other) address (other address) prot t) t"

text \<open>The overloads for pointers convert the address.\<close>

definition map_from_pointer :: "u64 \<Rightarrow> u64 \<Rightarrow> protection \<Rightarrow> (u64 \<Rightarrow> u64) \<Rightarrow> page_table \<Rightarrow> page_table" where
  "map_from_pointer base_address bytes prot other t = map_from base_address bytes prot other t"

definition self_map_from_pointer :: "u64 \<Rightarrow> u64 \<Rightarrow> protection \<Rightarrow> (u64 \<Rightarrow> u64) \<Rightarrow> page_table \<Rightarrow> page_table" where
  "self_map_from_pointer base_address bytes prot other t = self_map_from base_address bytes prot other t"

lemma map_from_pointers [simp]: "map_from_pointer = map_from" "self_map_from_pointer = self_map_from"
  by (simp_all add: map_from_pointer_def self_map_from_pointer_def fun_eq_iff)

definition map_self :: "(u64 \<Rightarrow> u64) \<Rightarrow> page_table \<Rightarrow> page_table" where
  "map_self other t =
     (let rw = protection_or protection_read protection_write;
          t = self_map_from_pointer (pml4_address (pt_this t)) 0x1000 rw other t;
          t = self_map_from_pointer (pdpt_address (pt_this t)) 0x1000 rw other t;
          t = self_map_from_pointer (pd_address (pt_this t) 0) 0x2000 rw other t
      in self_map_from_pointer (pt_address (pt_this t) 0 0) 0x400000 rw other t)"

section \<open>The page table of the operating system\<close>

text \<open>\<open>mem\<close> is the memory the walk reads: eight bytes at a virtual address.
  \<open>physical_to_virtual\<close> is the function the loader passes, \<open>None\<close> for the null
  pointer.\<close>

record os_page_table =
  os_pml4 :: u64
  physical_to_virtual :: "(u64 \<Rightarrow> u64) option"

definition os_page_table_of :: "u64 \<Rightarrow> (u64 \<Rightarrow> u64) option \<Rightarrow> os_page_table" where
  "os_page_table_of cr3 p2v =
     \<lparr>os_pml4 = (case p2v of Some f \<Rightarrow> f (cr3 AND 0xfffffffffffff000) | None \<Rightarrow> 0),
      physical_to_virtual = p2v\<rparr>"

definition os_virtual_to_physical :: "(u64 \<Rightarrow> u64) \<Rightarrow> os_page_table \<Rightarrow> u64 \<Rightarrow> u64" where
  "os_virtual_to_physical mem os value =
     (case physical_to_virtual os of
        None \<Rightarrow> value
      | Some p2v \<Rightarrow>
          (let pml4e = mem (os_pml4 os + 8 * va_pml4e value);
               pdpt_ptr = p2v (push_bit 12 (pte_page_number pml4e));
               pdpte = mem (pdpt_ptr + 8 * va_pdpte value)
           in if pte_large pdpte then push_bit 30 (pte_page_number pdpte) + va_huge_offset value
           else
             (let pd = p2v (push_bit 12 (pte_page_number pdpte));
                  pde = mem (pd + 8 * va_pde value)
              in if pte_large pde then push_bit 21 (pte_page_number pde) + va_large_offset value
              else
                (let pt = p2v (push_bit 12 (pte_page_number pde))
                 in push_bit 12 (pte_page_number (mem (pt + 8 * va_pte value))) + va_offset value))))"

definition os_page_table_bool :: "os_page_table \<Rightarrow> bool" where
  "os_page_table_bool os \<longleftrightarrow> os_pml4 os \<noteq> 0"

section \<open>Translation without large pages\<close>

text \<open>The host table never sets a large bit, so a translation reads one entry of the last
  level: the one in the slot of the address.\<close>

definition no_large :: "page_table \<Rightarrow> bool" where
  "no_large t \<longleftrightarrow> (\<forall>i. \<not> pte_large (pdpt t i)) \<and> (\<forall>k i. \<not> pte_large (pds t k i))"

definition slot :: "u64 \<Rightarrow> nat \<times> nat \<times> nat" where
  "slot a = (pd_index a, unat (va_pde a), unat (va_pte a))"

definition frame :: "page_table \<Rightarrow> u64 \<Rightarrow> u64" where
  "frame t a = pte_page_number (pts t (pd_index a) (unat (va_pde a)) (unat (va_pte a)))"

lemma virtual_to_physical_frame:
  "no_large t \<Longrightarrow> virtual_to_physical t a = push_bit 12 (frame t a) + va_offset a"
  by (simp add: virtual_to_physical_def no_large_def frame_def Let_def)

lemma pte_large_link [simp]: "pte_large (link_entry p e) = pte_large e"
  by (simp add: link_entry_def)

lemma link_entry_fields [simp]:
  "pte_present (link_entry p e)" "pte_page_number (link_entry p e) = take_bit 40 (drop_bit 12 p)"
  by (simp_all add: link_entry_def)

lemma leaf_entry_fields [simp]:
  "pte_present (leaf_entry p prot e)"
  "pte_page_number (leaf_entry p prot e) = take_bit 40 (drop_bit 12 p)"
  "pte_write (leaf_entry p prot e) = protection_and prot protection_write"
  "pte_execute_disable (leaf_entry p prot e) = (\<not> protection_and prot protection_execute)"
  by (simp_all add: leaf_entry_def)

lemma map_page_from_this [simp]: "pt_this (map_page_from other a p prot t) = pt_this t"
  by (simp add: map_page_from_def Let_def)

lemma map_page_from_no_large: "no_large t \<Longrightarrow> no_large (map_page_from other a p prot t)"
  by (simp add: no_large_def map_page_from_def Let_def)

lemma map_page_from_pts:
  "pts (map_page_from other a p prot t) =
     (\<lambda>k i j. if (k, i, j) = slot a then leaf_entry p prot (pts t k i j) else pts t k i j)"
  by (auto simp: map_page_from_def slot_def Let_def fun_eq_iff)

lemma map_page_from_frame:
  "frame (map_page_from other a p prot t) b =
     (if slot b = slot a then take_bit 40 (drop_bit 12 p) else frame t b)"
  by (simp add: frame_def map_page_from_pts) (auto simp: slot_def)

lemma map_page_from_translates:
  assumes "no_large t"
  shows "virtual_to_physical (map_page_from other a p prot t) b =
    (if slot b = slot a then push_bit 12 (take_bit 40 (drop_bit 12 p)) + va_offset b
     else virtual_to_physical t b)"
  using assms by (simp add: virtual_to_physical_frame map_page_from_no_large map_page_from_frame)

section \<open>The links between the tables\<close>

text \<open>\<open>fr\<close> gives the physical frame of a table from its virtual address.\<close>

definition links_ok :: "(u64 \<Rightarrow> u64) \<Rightarrow> page_table \<Rightarrow> bool" where
  "links_ok fr t \<longleftrightarrow>
     (\<forall>i. pte_present (pml4 t i) \<longrightarrow> pte_page_number (pml4 t i) = fr (pdpt_address (pt_this t))) \<and>
     (\<forall>i. pte_present (pdpt t i) \<longrightarrow> pte_page_number (pdpt t i) = fr (pd_address (pt_this t) (i div 256))) \<and>
     (\<forall>k i. pte_present (pds t k i) \<longrightarrow> pte_page_number (pds t k i) = fr (pt_address (pt_this t) k i))"

definition mapped :: "page_table \<Rightarrow> u64 \<Rightarrow> bool" where
  "mapped t a \<longleftrightarrow>
     pte_present (pml4 t (unat (va_pml4e a))) \<and> pte_present (pdpt t (unat (va_pdpte a))) \<and>
     pte_present (pds t (pd_index a) (unat (va_pde a))) \<and>
     pte_present (pts t (pd_index a) (unat (va_pde a)) (unat (va_pte a)))"

text \<open>The tables an address is translated with, as virtual addresses inside the object.\<close>

definition table_addresses :: "u64 \<Rightarrow> u64 set" where
  "table_addresses this =
     {pml4_address this, pdpt_address this} \<union> {pd_address this k | k. k < 2} \<union>
     {pt_address this k i | k i. k < 2 \<and> i < 512}"

lemma pd_index_less: "pd_index a < 2"
  using va_index_less(3) [of a] by (simp add: pd_index_def)

lemma table_addressesI:
  "pdpt_address this \<in> table_addresses this"
  "pd_address this (pd_index a) \<in> table_addresses this"
  "pt_address this (pd_index a) (unat (va_pde a)) \<in> table_addresses this"
  using pd_index_less [of a] va_index_less(2) [of a] by (auto simp: table_addresses_def)

lemma map_page_from_links:
  assumes "links_ok fr t" and "no_large t"
    and other: "\<And>t' x. no_large t' \<Longrightarrow> pts t' = pts t \<Longrightarrow> x \<in> table_addresses (pt_this t) \<Longrightarrow>
      take_bit 40 (drop_bit 12 (other t' x)) = fr x"
  shows "links_ok fr (map_page_from other a p prot t)"
proof -
  have nl: "no_large t \<Longrightarrow> no_large (t\<lparr>pml4 := f\<rparr>)"
    "no_large t \<Longrightarrow> (\<forall>i. \<not> pte_large (g i)) \<Longrightarrow> no_large (t\<lparr>pml4 := f, pdpt := g\<rparr>)" for f g
    by (auto simp: no_large_def)
  have k: "unat (va_pdpte a) div 256 = pd_index a" by (simp add: pd_index_def)
  show ?thesis
    using assms(1,2) nl k
    by (auto simp: links_ok_def map_page_from_def Let_def other no_large_def table_addressesI)
qed

lemma mapped_map_page_from: "mapped t b \<Longrightarrow> mapped (map_page_from other a p prot t) b"
  by (auto simp: mapped_def map_page_from_def Let_def)

text \<open>Two addresses of the same page use the same entries.\<close>

lemma same_page:
  assumes "drop_bit 12 b = drop_bit 12 (a :: u64)"
  shows "va_pml4e b = va_pml4e a" "va_pdpte b = va_pdpte a" "va_pde b = va_pde a" "va_pte b = va_pte a"
    "pd_index b = pd_index a" "slot b = slot a"
proof -
  have "bits (12 + n) 9 b = bits (12 + n) 9 a" for n
  proof -
    have "drop_bit (12 + n) c = drop_bit n (drop_bit 12 c)" for c :: u64
      by (simp add: add.commute)
    then show ?thesis using assms by (simp only: bits_def)
  qed
  from this [of 0] this [of 9] this [of 18] this [of 27]
  show *: "va_pml4e b = va_pml4e a" "va_pdpte b = va_pdpte a" "va_pde b = va_pde a" "va_pte b = va_pte a"
    by (simp_all add: va_bits)
  show "pd_index b = pd_index a" "slot b = slot a" by (simp_all add: pd_index_def slot_def *)
qed

lemma map_page_from_mapped:
  assumes "drop_bit 12 b = drop_bit 12 a"
  shows "mapped (map_page_from other a p prot t) b"
  using same_page [OF assms] by (simp add: mapped_def map_page_from_def Let_def)

section \<open>The walk the processor makes\<close>

text \<open>Four-level paging as the architecture defines it, on physical memory \<open>pmem\<close> (eight
  bytes at a physical address): every entry on the path must be present; a large entry ends the
  walk with the address bits above the offset taken from the entry.\<close>

definition hw_walk :: "(u64 \<Rightarrow> u64) \<Rightarrow> u64 \<Rightarrow> u64 \<Rightarrow> u64 option" where
  "hw_walk pmem cr3 a =
     (let e4 = pmem (push_bit 12 (bits 12 40 cr3) + 8 * va_pml4e a);
          e3 = pmem (push_bit 12 (bits 12 40 e4) + 8 * va_pdpte a);
          e2 = pmem (push_bit 12 (bits 12 40 e3) + 8 * va_pde a);
          e1 = pmem (push_bit 12 (bits 12 40 e2) + 8 * va_pte a)
      in if \<not> bit e4 0 \<or> \<not> bit e3 0 then None
         else if bit e3 7 then Some (push_bit 30 (bits 30 22 e3) + bits 0 30 a)
         else if \<not> bit e2 0 then None
         else if bit e2 7 then Some (push_bit 21 (bits 21 31 e2) + bits 0 21 a)
         else if \<not> bit e1 0 then None
         else Some (push_bit 12 (bits 12 40 e1) + bits 0 12 a))"

text \<open>The object lies in physical memory at the frames \<open>fr\<close>.\<close>

definition in_memory :: "(u64 \<Rightarrow> u64) \<Rightarrow> (u64 \<Rightarrow> u64) \<Rightarrow> page_table \<Rightarrow> bool" where
  "in_memory fr pmem t \<longleftrightarrow>
     (\<forall>i < 512. pmem (push_bit 12 (fr (pml4_address (pt_this t))) + 8 * of_nat i) = pml4 t i \<and>
        pmem (push_bit 12 (fr (pdpt_address (pt_this t))) + 8 * of_nat i) = pdpt t i \<and>
        (\<forall>k < 2. pmem (push_bit 12 (fr (pd_address (pt_this t) k)) + 8 * of_nat i) = pds t k i \<and>
          (\<forall>j < 512. pmem (push_bit 12 (fr (pt_address (pt_this t) k j)) + 8 * of_nat i) = pts t k j i)))"

lemma in_memoryD:
  assumes "in_memory fr pmem t"
  shows "pmem (push_bit 12 (fr (pml4_address (pt_this t))) + 8 * va_pml4e a) = pml4 t (unat (va_pml4e a))"
    "pmem (push_bit 12 (fr (pdpt_address (pt_this t))) + 8 * va_pdpte a) = pdpt t (unat (va_pdpte a))"
    "pmem (push_bit 12 (fr (pd_address (pt_this t) (pd_index a))) + 8 * va_pde a) =
       pds t (pd_index a) (unat (va_pde a))"
    "pmem (push_bit 12 (fr (pt_address (pt_this t) (pd_index a) (unat (va_pde a)))) + 8 * va_pte a) =
       pts t (pd_index a) (unat (va_pde a)) (unat (va_pte a))"
  using assms [unfolded in_memory_def, rule_format, OF va_index_less(4) [of a]]
    assms [unfolded in_memory_def, rule_format, OF va_index_less(3) [of a]]
    assms [unfolded in_memory_def, rule_format, OF va_index_less(2) [of a]]
    assms [unfolded in_memory_def, rule_format, OF va_index_less(1) [of a]]
    pd_index_less [of a] va_index_less(2) [of a]
  by simp_all

lemma pte_as_bits:
  "bits 12 40 e = pte_page_number e" "bit e 0 = pte_present e" "bit e 7 = pte_large e"
  by (simp_all add: pte_bits)

lemma hw_walk_host:
  assumes "links_ok fr t" and "no_large t" and "in_memory fr pmem t"
    and "bits 12 40 cr3 = fr (pml4_address (pt_this t))"
  shows "hw_walk pmem cr3 a = (if mapped t a then Some (virtual_to_physical t a) else None)"
proof -
  let ?e4 = "pml4 t (unat (va_pml4e a))" and ?e3 = "pdpt t (unat (va_pdpte a))"
    and ?e2 = "pds t (pd_index a) (unat (va_pde a))"
  have k: "unat (va_pdpte a) div 256 = pd_index a" by (simp add: pd_index_def)
  have l: "pte_present ?e4 \<Longrightarrow> pte_page_number ?e4 = fr (pdpt_address (pt_this t))"
    "pte_present ?e3 \<Longrightarrow> pte_page_number ?e3 = fr (pd_address (pt_this t) (pd_index a))"
    "pte_present ?e2 \<Longrightarrow> pte_page_number ?e2 = fr (pt_address (pt_this t) (pd_index a) (unat (va_pde a)))"
    using assms(1) k by (auto simp: links_ok_def)
  have "pte_page_number cr3 = fr (pml4_address (pt_this t))"
    using assms(4) by (simp add: pte_as_bits)
  then show ?thesis
    using assms(2) va_offset.get_eq [of a]
    by (cases "pte_present ?e4"; cases "pte_present ?e3"; cases "pte_present ?e2")
      (simp_all add: hw_walk_def Let_def in_memoryD [OF assms(3)] pte_as_bits l
        virtual_to_physical_frame frame_def no_large_def mapped_def)
qed

section \<open>Frames and offsets\<close>

lemma va_offset_less: "va_offset a < 2 ^ 12"
  using bits_less [of 12 0 a] by (simp add: va_bits word_less_nat_alt)

lemma page_plus_offset_or: "push_bit 12 f + va_offset b = push_bit 12 f OR (va_offset b :: u64)"
  by (rule disjunctive_add) (auto simp: bit_simps va_bits bit_bits)

lemma frame_of_page: "take_bit 40 f = f \<Longrightarrow> bits 12 40 (push_bit 12 f + va_offset b) = f"
proof (rule bit_eqI)
  fix i assume f: "take_bit 40 f = f"
  have "bit f i \<Longrightarrow> i < 40" by (subst (asm) f [symmetric]) (simp add: bit_take_bit_iff)
  then show "bit (bits 12 40 (push_bit 12 f + va_offset b)) i \<longleftrightarrow> bit f i"
    unfolding page_plus_offset_or by (auto simp: bit_simps va_bits bit_bits)
qed

lemma frame_bits: "take_bit 40 (frame t a) = frame t a"
  by (simp add: frame_def pte_page_number.get_eq bits_take_bit)

lemma bits_eq: "take_bit 40 (drop_bit 12 w) = bits 12 40 w"
  by (simp add: bits_def)

section \<open>Pages of a range have their own slots\<close>

definition page_at :: "u64 \<Rightarrow> nat \<Rightarrow> u64" where
  "page_at base i = base + of_nat i * 0x1000"

lemma unat_bits: "unat (bits off n a) = unat a div 2 ^ off mod 2 ^ n"
proof -
  have "unat a < 2 ^ LENGTH(64)" by (rule unsigned_less)
  then show ?thesis
    unfolding bits_def unsigned_take_bit_eq unsigned_drop_bit_eq
    by (simp add: take_bit_eq_mod drop_bit_eq_div)
qed

lemma unat_page_at:
  assumes "k \<le> 52" and "i < 2 ^ 52"
  shows "unat (page_at base i) div 2 ^ 12 mod 2 ^ k = (unat base div 2 ^ 12 + i) mod 2 ^ k"
proof -
  have "i * 2 ^ 12 < 2 ^ 64" using assms(2) by simp
  then have "unat (of_nat i * 0x1000 :: u64) = i * 2 ^ 12"
    by (simp add: unat_word_ariths unat_of_nat take_bit_eq_mod)
  then have "unat (page_at base i) = (unat base + i * 2 ^ 12) mod 2 ^ 64"
    by (simp add: page_at_def unat_word_ariths)
  moreover have "x mod 2 ^ 64 div 2 ^ 12 = x div 2 ^ 12 mod 2 ^ 52" for x :: nat
    using mod_mult2_eq [of x "2 ^ 12" "2 ^ 52"] by simp
  moreover have "(2 :: nat) ^ k dvd 2 ^ 52" using assms(1) by (rule le_imp_power_dvd)
  ultimately show ?thesis by (simp add: mod_mod_cancel add.commute)
qed

lemma slot_bits: "slot a = slot b \<Longrightarrow> bits 12 18 a = bits 12 18 b"
proof (rule bit_eqI)
  fix i assume "slot a = slot b"
  then have "bits 21 9 a = bits 21 9 b" "bits 12 9 a = bits 12 9 b"
    by (auto simp: slot_def va_bits intro: unsigned_word_eqI)
  then have "bit (bits 21 9 a) (i - 9) = bit (bits 21 9 b) (i - 9)" "bit (bits 12 9 a) i = bit (bits 12 9 b) i"
    by simp_all
  then show "bit (bits 12 18 a) i \<longleftrightarrow> bit (bits 12 18 b) i"
    by (cases "i < 9") (auto simp: bit_bits)
qed

lemma mod_shift_inj:
  assumes "(c + i) mod m = (c + j) mod (m :: nat)" and "i < m" and "j < m"
  shows "i = j"
proof -
  have "j' = i'" if eq: "(c + j') mod m = (c + i') mod m" and le: "i' \<le> j'" and lt: "j' < m" for i' j'
  proof -
    have "m dvd (c + j') - (c + i')"
      using eq le by (subst mod_eq_dvd_iff_nat [symmetric]) simp_all
    then have "m dvd j' - i'" by simp
    with le lt show ?thesis by (metis diff_is_0_eq dvd_imp_le le_antisym less_imp_diff_less neq0_conv not_le)
  qed
  from this [of i j] this [of j i] assms show ?thesis by (cases "i \<le> j") simp_all
qed

lemma slot_page_at_inj:
  assumes "slot (page_at base i) = slot (page_at base j)" and "i < 2 ^ 18" and "j < 2 ^ 18"
  shows "i = j"
proof (rule mod_shift_inj)
  show "(unat base div 2 ^ 12 + i) mod 2 ^ 18 = (unat base div 2 ^ 12 + j) mod 2 ^ 18"
    using slot_bits [OF assms(1)] assms(2,3) unat_page_at [of 18 i base] unat_page_at [of 18 j base]
      unat_bits [of 12 18 "page_at base i"] unat_bits [of 12 18 "page_at base j"]
    by simp
qed (use assms in auto)

lemma page_at_inj:
  assumes "i < 2 ^ 18" and "j < 2 ^ 18" and "page_at base i = page_at base j"
  shows "i = j"
  using slot_page_at_inj [OF _ assms(1,2), of base] assms(3) by simp

section \<open>Physical memories\<close>

text \<open>Given a frame for each of \<open>n\<close> pages, different for different pages, there is a physical
  memory that holds any given contents of the pages.\<close>

lemma physical_memory_exists:
  assumes inj: "inj_on fr {..<n}" and fr: "\<And>i. i < n \<Longrightarrow> take_bit 40 (fr i) = fr i"
  shows "\<exists>pmem :: u64 \<Rightarrow> u64. \<forall>i < n. \<forall>j < 512. pmem (push_bit 12 (fr i) + 8 * of_nat j) = val i j"
proof -
  let ?pmem = "\<lambda>x. val (inv_into {..<n} fr (bits 12 40 x)) (unat (bits 3 9 x))"
  have "?pmem (push_bit 12 (fr i) + 8 * of_nat j) = val i j" if "i < n" "j < 512" for i j
  proof -
    define w :: u64 where "w = of_nat j"
    have u: "unat w = j" using that by (simp add: w_def unat_of_nat_u64)
    have "take_bit 9 w = w" by (rule take_bit_self_u64) (use that u in simp)
    then have j: "bit w k \<Longrightarrow> k < 9" for k by (metis bit_take_bit_iff)
    have f: "bit (fr i) k \<Longrightarrow> k < 40" for k using fr [OF that(1)] by (metis bit_take_bit_iff)
    have "push_bit 12 (fr i) + 8 * w = push_bit 12 (fr i) + push_bit 3 w"
      by (simp add: push_bit_eq_mult)
    also have "\<dots> = push_bit 12 (fr i) OR push_bit 3 w"
      by (rule disjunctive_add) (auto simp: bit_simps dest: j)
    finally have eq: "push_bit 12 (fr i) + 8 * w = push_bit 12 (fr i) OR push_bit 3 w" .
    have "bits 12 40 (push_bit 12 (fr i) + 8 * w) = fr i"
      unfolding eq by (rule bit_eqI) (auto simp: bit_bits bit_simps dest: j f)
    moreover have "bits 3 9 (push_bit 12 (fr i) + 8 * w) = w"
      unfolding eq by (rule bit_eqI) (auto simp: bit_bits bit_simps dest: j f)
    ultimately show ?thesis using that inj u by (simp add: inv_into_f_f flip: w_def)
  qed
  then show ?thesis by (intro exI [of _ ?pmem] allI impI)
qed

end
