(* ===== verification/Host_Mapping.thy ===== *)
theory Host_Mapping
  imports Page_Table
begin

text \<open>
  What mapping a range of pages achieves.  The template parameter \<open>PageTable\<close> of
  \<open>map_from\<close> and \<open>map_self\<close> is an interface (locale \<open>page_translation\<close>) that
  both page tables of the program implement; the result for the host table is proved once
  against it.  The contract is per address, because a table of the operating system may translate
  some addresses through large pages.
\<close>

section \<open>The interface of a page table\<close>

locale page_translation =
  fixes trans :: "'t \<Rightarrow> u64 \<Rightarrow> u64" and small :: "'t \<Rightarrow> u64 \<Rightarrow> bool"
  assumes small_page: "small p a \<Longrightarrow> drop_bit 12 b = drop_bit 12 a \<Longrightarrow> small p b"
    and trans_page: "small p a \<Longrightarrow> drop_bit 12 b = drop_bit 12 a \<Longrightarrow>
      trans p b = push_bit 12 (bits 12 40 (trans p a)) + va_offset b"

text \<open>The host table implements it wherever no large bit is set.\<close>

lemma host_translation_page:
  assumes "no_large t" and "drop_bit 12 b = drop_bit 12 a"
  shows "virtual_to_physical t b = push_bit 12 (bits 12 40 (virtual_to_physical t a)) + va_offset b"
proof -
  have "frame t b = frame t a" using same_page [OF assms(2)] by (simp add: frame_def)
  then show ?thesis
    using assms(1) by (simp add: virtual_to_physical_frame frame_of_page frame_bits)
qed

interpretation host: page_translation virtual_to_physical "\<lambda>t _. no_large t"
  by unfold_locales (assumption, rule host_translation_page)

text \<open>The table of the operating system implements it for the addresses it maps with 4 KB pages,
  and, when there is no conversion function, for the addresses below \<open>2 ^ 52\<close>.\<close>

definition os_pdpte :: "(u64 \<Rightarrow> u64) \<Rightarrow> os_page_table \<Rightarrow> (u64 \<Rightarrow> u64) \<Rightarrow> u64 \<Rightarrow> u64" where
  "os_pdpte mem os p2v a =
     mem (p2v (push_bit 12 (pte_page_number (mem (os_pml4 os + 8 * va_pml4e a)))) + 8 * va_pdpte a)"

definition os_pde :: "(u64 \<Rightarrow> u64) \<Rightarrow> os_page_table \<Rightarrow> (u64 \<Rightarrow> u64) \<Rightarrow> u64 \<Rightarrow> u64" where
  "os_pde mem os p2v a =
     mem (p2v (push_bit 12 (pte_page_number (os_pdpte mem os p2v a))) + 8 * va_pde a)"

definition os_pte :: "(u64 \<Rightarrow> u64) \<Rightarrow> os_page_table \<Rightarrow> (u64 \<Rightarrow> u64) \<Rightarrow> u64 \<Rightarrow> u64" where
  "os_pte mem os p2v a =
     mem (p2v (push_bit 12 (pte_page_number (os_pde mem os p2v a))) + 8 * va_pte a)"

definition os_small :: "(u64 \<Rightarrow> u64) \<times> os_page_table \<Rightarrow> u64 \<Rightarrow> bool" where
  "os_small p a =
     (case physical_to_virtual (snd p) of
        None \<Rightarrow> take_bit 52 a = a
      | Some p2v \<Rightarrow> \<not> pte_large (os_pdpte (fst p) (snd p) p2v a) \<and> \<not> pte_large (os_pde (fst p) (snd p) p2v a))"

lemma os_virtual_to_physical_small:
  assumes "physical_to_virtual os = Some p2v" and "os_small (mem, os) a"
  shows "os_virtual_to_physical mem os a =
    push_bit 12 (pte_page_number (os_pte mem os p2v a)) + va_offset a"
  using assms
  by (simp add: os_virtual_to_physical_def os_small_def os_pdpte_def os_pde_def os_pte_def Let_def)

lemma identity_page:
  assumes "take_bit 52 a = (a :: u64)" and "drop_bit 12 b = drop_bit 12 a"
  shows "take_bit 52 b = b" "b = push_bit 12 (bits 12 40 a) + va_offset b"
proof -
  have eq: "bit b (12 + i) = bit a (12 + i)" for i
    using assms(2) by (metis bit_drop_bit_eq comp_apply)
  have a52: "bit a i \<Longrightarrow> i < 52" for i
    using assms(1) by (metis bit_take_bit_iff)
  have b52: "bit b i \<Longrightarrow> i < 52" for i
    using eq [of "i - 12"] a52 [of i] by (cases "12 \<le> i") auto
  show "take_bit 52 b = b"
    by (rule bit_eqI) (auto simp: bit_take_bit_iff dest: b52)
  show "b = push_bit 12 (bits 12 40 a) + va_offset b"
    unfolding page_plus_offset_or
  proof (rule bit_eqI)
    fix i
    show "bit b i \<longleftrightarrow> bit (push_bit 12 (bits 12 40 a) OR va_offset b) i"
      using eq [of "i - 12"] b52 [of i] u64_bit_bound [of b i]
      by (cases "12 \<le> i") (auto simp: bit_simps va_bits bit_bits)
  qed
qed

lemma os_translation_page:
  assumes "os_small p a" and "drop_bit 12 b = drop_bit 12 a"
  shows "os_small p b"
    "(\<lambda>(mem, os). os_virtual_to_physical mem os) p b =
       push_bit 12 (bits 12 40 ((\<lambda>(mem, os). os_virtual_to_physical mem os) p a)) + va_offset b"
proof -
  obtain mem os where p: "p = (mem, os)" by (cases p)
  note sp = same_page [OF assms(2)]
  show small: "os_small p b"
    using assms(1) sp identity_page(1) [OF _ assms(2)]
    by (auto simp: os_small_def os_pdpte_def os_pde_def split: option.splits)
  show "(\<lambda>(mem, os). os_virtual_to_physical mem os) p b =
      push_bit 12 (bits 12 40 ((\<lambda>(mem, os). os_virtual_to_physical mem os) p a)) + va_offset b"
  proof (cases "physical_to_virtual os")
    case None
    then show ?thesis
      using assms(1) identity_page(2) [OF _ assms(2)]
      by (auto simp: p os_small_def os_virtual_to_physical_def)
  next
    case (Some p2v)
    have "os_pte mem os p2v b = os_pte mem os p2v a"
      using sp by (simp add: os_pte_def os_pde_def os_pdpte_def)
    moreover have "take_bit 40 (pte_page_number (os_pte mem os p2v a)) = pte_page_number (os_pte mem os p2v a)"
      by (simp add: pte_page_number.get_eq bits_take_bit)
    ultimately show ?thesis
      using os_virtual_to_physical_small [OF Some] assms(1) small
      by (simp add: p frame_of_page)
  qed
qed

interpretation os: page_translation "\<lambda>(mem, os). os_virtual_to_physical mem os" os_small
  using os_translation_page by unfold_locales

section \<open>Mapping one page\<close>

text \<open>\<open>W\<close> is a set of addresses in which slots tell pages apart; \<open>fr\<close> gives the frame
  each of them is to be mapped to.  \<open>host_ok\<close> collects what every mapping step keeps: no
  large entries, links that lead to the tables, and no entry of \<open>W\<close> that disagrees with
  \<open>fr\<close>, nor any entry for a slot outside \<open>W\<close>.\<close>

definition leaf_present :: "page_table \<Rightarrow> u64 \<Rightarrow> bool" where
  "leaf_present t a \<longleftrightarrow> pte_present (pts t (pd_index a) (unat (va_pde a)) (unat (va_pte a)))"

definition separated :: "u64 set \<Rightarrow> (u64 \<Rightarrow> u64) \<Rightarrow> bool" where
  "separated W fr \<longleftrightarrow>
     (\<forall>x\<in>W. \<forall>y\<in>W. slot x = slot y \<longrightarrow> drop_bit 12 x = drop_bit 12 y) \<and>
     (\<forall>x\<in>W. \<forall>y\<in>W. drop_bit 12 x = drop_bit 12 y \<longrightarrow> fr x = fr y)"

definition host_ok :: "u64 set \<Rightarrow> (u64 \<Rightarrow> u64) \<Rightarrow> page_table \<Rightarrow> bool" where
  "host_ok W fr t \<longleftrightarrow> no_large t \<and> links_ok fr t \<and>
     (\<forall>x\<in>W. leaf_present t x \<longrightarrow> frame t x = fr x) \<and>
     (\<forall>x. leaf_present t x \<longrightarrow> slot x \<in> slot ` W)"

lemma leaf_present_map:
  "leaf_present (map_page_from other a p prot t) b \<longleftrightarrow> slot b = slot a \<or> leaf_present t b"
  by (simp add: leaf_present_def map_page_from_pts) (auto simp: slot_def)

lemma map_page_from_ok:
  assumes ok: "host_ok W fr t" and sep: "separated W fr" and a: "a \<in> W" and p: "bits 12 40 p = fr a"
    and other: "\<And>t' x. no_large t' \<Longrightarrow> pts t' = pts t \<Longrightarrow> x \<in> table_addresses (pt_this t) \<Longrightarrow>
      bits 12 40 (other t' x) = fr x"
  shows "host_ok W fr (map_page_from other a p prot t)"
    (is "host_ok W fr ?t")
proof -
  have "links_ok fr (map_page_from other a p prot t)"
    using ok other by (intro map_page_from_links) (auto simp: host_ok_def bits_eq)
  moreover have "fr x = fr a" if "x \<in> W" "slot x = slot a" for x
    using sep a that unfolding separated_def by blast
  then have "\<forall>x\<in>W. leaf_present ?t x \<longrightarrow> frame ?t x = fr x"
    using ok p by (simp add: host_ok_def leaf_present_map map_page_from_frame bits_eq)
  moreover have "\<forall>x. leaf_present ?t x \<longrightarrow> slot x \<in> slot ` W"
    using ok a by (auto simp: host_ok_def leaf_present_map)
  ultimately show ?thesis
    using ok by (simp add: host_ok_def map_page_from_no_large)
qed

section \<open>Mapping a range of pages\<close>

text \<open>The addresses of the first \<open>n\<close> pages from \<open>base\<close> on.\<close>

definition range_of :: "u64 \<Rightarrow> nat \<Rightarrow> u64 set" where
  "range_of base n = {x. \<exists>i < n. drop_bit 12 x = drop_bit 12 (page_at base i)}"

definition map_pages ::
  "(page_table \<Rightarrow> u64 \<Rightarrow> u64) \<Rightarrow> u64 \<Rightarrow> nat \<Rightarrow> protection \<Rightarrow> (u64 \<Rightarrow> u64) \<Rightarrow> page_table \<Rightarrow> page_table" where
  "map_pages tr base n prot other =
     loop n (\<lambda>i. map_page_from tr (page_at base i) (other (page_at base i)) prot)"

lemma map_from_pages:
  "map_from base bytes prot other t =
     map_pages virtual_to_physical base (unat (number_of_pages bytes)) prot other t"
  by (simp add: map_from_def map_pages_def page_at_def map_page_def Let_def)

lemma self_map_from_pages:
  "self_map_from base bytes prot other t =
     map_pages (\<lambda>_. other) base (unat (number_of_pages bytes)) prot other t"
  by (simp add: self_map_from_def map_pages_def page_at_def Let_def)

lemma page_at_in_range: "i < n \<Longrightarrow> page_at base i \<in> range_of base n"
  by (auto simp: range_of_def)

lemma map_pages_ok:
  assumes ok: "host_ok W fr t" and sep: "separated W fr" and sub: "range_of base n \<subseteq> W"
    and fr: "\<And>x. x \<in> W \<Longrightarrow> bits 12 40 (other x) = fr x"
    and tr: "\<And>t' x. no_large t' \<Longrightarrow> host_ok W fr t' \<Longrightarrow> (\<forall>y. leaf_present t y \<longrightarrow> leaf_present t' y) \<Longrightarrow>
      pt_this t' = pt_this t \<Longrightarrow> (\<forall>t''. no_large t'' \<longrightarrow> pts t'' = pts t' \<longrightarrow>
        (\<forall>x \<in> table_addresses (pt_this t). bits 12 40 (tr t'' x) = fr x))"
  shows "host_ok W fr (map_pages tr base n prot other t)" (is ?ok)
    and "pt_this (map_pages tr base n prot other t) = pt_this t"
    and "x \<in> range_of base n \<Longrightarrow> mapped (map_pages tr base n prot other t) x"
    and "mapped t x \<Longrightarrow> mapped (map_pages tr base n prot other t) x"
    and "leaf_present t x \<Longrightarrow> leaf_present (map_pages tr base n prot other t) x"
proof -
  let ?I = "\<lambda>i t'. host_ok W fr t' \<and> pt_this t' = pt_this t \<and> (\<forall>x \<in> range_of base i. mapped t' x) \<and>
    (\<forall>x. mapped t x \<longrightarrow> mapped t' x) \<and> (\<forall>x. leaf_present t x \<longrightarrow> leaf_present t' x)"
  have "?I n (map_pages tr base n prot other t)"
    unfolding map_pages_def
  proof (rule loop_inv)
    show "?I 0 t" using ok by (simp add: range_of_def)
  next
    fix i t' assume i: "i < n" and I: "?I i t'"
    let ?t = "map_page_from tr (page_at base i) (other (page_at base i)) prot t'"
    have inW: "page_at base i \<in> W" using i sub page_at_in_range by blast
    have "host_ok W fr ?t"
      using I sep inW fr tr [of t'] by (intro map_page_from_ok) (auto simp: host_ok_def)
    moreover have "mapped ?t x" if "x \<in> range_of base (Suc i)" for x
      using that I map_page_from_mapped [of x "page_at base i"] mapped_map_page_from
      by (auto simp: range_of_def less_Suc_eq)
    ultimately show "?I (Suc i) ?t"
      using I mapped_map_page_from by (simp add: leaf_present_map)
  qed
  then show ?ok and "pt_this (map_pages tr base n prot other t) = pt_this t"
    and "x \<in> range_of base n \<Longrightarrow> mapped (map_pages tr base n prot other t) x"
    and "mapped t x \<Longrightarrow> mapped (map_pages tr base n prot other t) x"
    and "leaf_present t x \<Longrightarrow> leaf_present (map_pages tr base n prot other t) x"
    by auto
qed

section \<open>The table maps itself, then the module\<close>

definition empty_table :: "u64 \<Rightarrow> page_table" where
  "empty_table this = \<lparr>pt_this = this, pml4 = (\<lambda>_. 0), pdpt = (\<lambda>_. 0), pds = (\<lambda>_ _. 0), pts = (\<lambda>_ _ _. 0)\<rparr>"

lemma empty_table_ok: "host_ok W fr (empty_table this)"
  by (simp add: host_ok_def no_large_def links_ok_def leaf_present_def empty_table_def pte_bits)

lemma page_at_page_at: "page_at (page_at b i) j = page_at b (i + j)"
  by (simp add: page_at_def algebra_simps)

lemma range_of_shift: "i + m \<le> n \<Longrightarrow> range_of (page_at b i) m \<subseteq> range_of b n"
proof
  fix x assume "i + m \<le> n" and "x \<in> range_of (page_at b i) m"
  then obtain j where "j < m" and "drop_bit 12 x = drop_bit 12 (page_at b (i + j))"
    unfolding range_of_def page_at_page_at by blast
  moreover from \<open>j < m\<close> \<open>i + m \<le> n\<close> have "i + j < n" by simp
  ultimately show "x \<in> range_of b n" unfolding range_of_def by blast
qed

lemma page_at_in_shifted: "k \<le> i \<Longrightarrow> i < k + n \<Longrightarrow> page_at b i \<in> range_of (page_at b k) n"
  using page_at_in_range [of "i - k" n "page_at b k"] by (simp add: page_at_page_at)

lemma table_address_pages:
  "pml4_address this = page_at this 0" "pdpt_address this = page_at this 1"
  "pd_address this k = page_at this (2 + k)" "pt_address this k i = page_at this (4 + k * 512 + i)"
  by (simp_all add: table_address_defs page_at_def algebra_simps)

text \<open>The object occupies 1028 pages, one per table.\<close>

lemma table_addresses_pages: "table_addresses this \<subseteq> page_at this ` {..<1028}"
  unfolding table_addresses_def table_address_pages by (auto intro!: imageI)

lemma table_addresses_range: "table_addresses this \<subseteq> range_of this 1028"
  using table_addresses_pages page_at_in_range by blast

lemma number_of_pages_numerals [simp]:
  "number_of_pages 0x1000 = 1" "number_of_pages 0x2000 = 2" "number_of_pages 0x400000 = 1024"
  by (simp_all add: number_of_pages_def)

lemma map_self_ok:
  assumes sep: "separated W fr" and sub: "range_of this 1028 \<subseteq> W"
    and fr: "\<And>x. x \<in> W \<Longrightarrow> bits 12 40 (other x) = fr x"
  shows "host_ok W fr (map_self other (empty_table this))"
    and "pt_this (map_self other (empty_table this)) = this"
    and "x \<in> table_addresses this \<Longrightarrow> leaf_present (map_self other (empty_table this)) x"
proof -
  let ?rw = "protection_or protection_read protection_write"
  let ?map = "\<lambda>i n. map_pages (\<lambda>_. other) (page_at this i) n ?rw other"
  note mo = map_pages_ok [where tr = "\<lambda>_. other" and other = other and W = W and fr = fr, OF _ sep _ fr]
  have tr: "\<forall>t''. no_large t'' \<longrightarrow> pts t'' = pts t' \<longrightarrow>
      (\<forall>x \<in> table_addresses this. bits 12 40 (other x) = fr x)" for t' :: page_table
    using table_addresses_range sub fr by blast
  have step: "host_ok W fr (?map i n t) \<and> pt_this (?map i n t) = this \<and>
      (\<forall>x. leaf_present t x \<or> x \<in> range_of (page_at this i) n \<longrightarrow> leaf_present (?map i n t) x)"
    if "host_ok W fr t" "pt_this t = this" "i + n \<le> 1028" for t i n
  proof -
    have sub': "range_of (page_at this i) n \<subseteq> W" using that(3) range_of_shift sub by blast
    note m = mo [OF that(1) sub', where prot = ?rw]
    show ?thesis
      using m(1-3) m(5) tr that(2) by (auto simp: mapped_def leaf_present_def)
  qed
  let ?t1 = "?map 0 1 (empty_table this)"
  let ?t2 = "?map 1 1 ?t1"
  let ?t3 = "?map 2 2 ?t2"
  let ?t4 = "?map 4 1024 ?t3"
  have t0: "host_ok W fr (empty_table this)" "pt_this (empty_table this) = this"
    by (rule empty_table_ok) (simp add: empty_table_def)
  note s1 = step [OF t0, of 0 1]
  have s2: "host_ok W fr ?t2 \<and> pt_this ?t2 = this \<and>
      (\<forall>x. leaf_present ?t1 x \<or> x \<in> range_of (page_at this 1) 1 \<longrightarrow> leaf_present ?t2 x)"
    by (rule step) (use s1 in auto)
  have s3: "host_ok W fr ?t3 \<and> pt_this ?t3 = this \<and>
      (\<forall>x. leaf_present ?t2 x \<or> x \<in> range_of (page_at this 2) 2 \<longrightarrow> leaf_present ?t3 x)"
    by (rule step) (use s2 in auto)
  have s4: "host_ok W fr ?t4 \<and> pt_this ?t4 = this \<and>
      (\<forall>x. leaf_present ?t3 x \<or> x \<in> range_of (page_at this 4) 1024 \<longrightarrow> leaf_present ?t4 x)"
    by (rule step) (use s3 in auto)
  have eq: "map_self other (empty_table this) = ?t4"
    using s1 s2 s3 t0(2)
    by (simp add: map_self_def Let_def self_map_from_pages table_address_pages del: One_nat_def)
  show "host_ok W fr (map_self other (empty_table this))"
    and "pt_this (map_self other (empty_table this)) = this"
    using s4 eq by simp_all
  show "leaf_present (map_self other (empty_table this)) x" if "x \<in> table_addresses this"
  proof -
    obtain i where i: "i < 1028" "x = page_at this i"
      using \<open>x \<in> table_addresses this\<close> table_addresses_pages by blast
    then consider "i = 0" | "i = 1" | "2 \<le> i" "i < 4" | "4 \<le> i" by linarith
    then have "x \<in> range_of (page_at this 0) 1 \<or> x \<in> range_of (page_at this 1) 1 \<or>
        x \<in> range_of (page_at this 2) 2 \<or> x \<in> range_of (page_at this 4) 1024"
      using i by cases (auto intro: page_at_in_shifted)
    then show ?thesis using s1 s2 s3 s4 eq by auto
  qed
qed

definition host_table :: "u64 \<Rightarrow> u64 \<Rightarrow> u64 \<Rightarrow> protection \<Rightarrow> (u64 \<Rightarrow> u64) \<Rightarrow> page_table" where
  "host_table this base bytes prot other = map_from base bytes prot other (map_self other (empty_table this))"

lemma host_table_ok:
  assumes n_def: "n = unat (number_of_pages bytes)" and sep: "separated (range_of base n) fr" and sub: "range_of this 1028 \<subseteq> range_of base n"
    and fr: "\<And>x. bits 12 40 (other x) = fr x"
  shows "host_ok (range_of base n) fr (host_table this base bytes prot other)"
    and "pt_this (host_table this base bytes prot other) = this"
    and "x \<in> range_of base n \<Longrightarrow> mapped (host_table this base bytes prot other) x"
proof -
  let ?W = "range_of base n" and ?t = "map_self other (empty_table this)"
  note ms = map_self_ok [OF sep sub fr]
  have "bits 12 40 (virtual_to_physical t' x) = fr x"
    if "no_large t'" "pts t' = pts t''" "host_ok ?W fr t''" "\<forall>y. leaf_present ?t y \<longrightarrow> leaf_present t'' y"
      "x \<in> table_addresses this" for t' t'' x
  proof -
    have "frame t' x = frame t'' x" using that(2) by (simp add: frame_def)
    moreover have "x \<in> ?W" using that(5) table_addresses_range sub by blast
    ultimately have "frame t' x = fr x" using ms(3) that by (simp add: host_ok_def)
    with that(1) show ?thesis by (metis frame_bits frame_of_page virtual_to_physical_frame)
  qed
  then show "host_ok ?W fr (host_table this base bytes prot other)"
    and "pt_this (host_table this base bytes prot other) = this"
    and "x \<in> ?W \<Longrightarrow> mapped (host_table this base bytes prot other) x"
    unfolding host_table_def map_from_pages n_def [symmetric]
    using map_pages_ok [where tr = virtual_to_physical, OF ms(1) sep subset_refl fr] ms(2)
    by (auto simp: host_ok_def)
qed

context page_translation
begin

lemma separated_range:
  assumes "n \<le> 2 ^ 18" and "\<forall>x \<in> range_of base n. small p x"
  shows "separated (range_of base n) (\<lambda>x. bits 12 40 (trans p x))"
proof -
  have "drop_bit 12 x = drop_bit 12 y"
    if x: "x \<in> range_of base n" and y: "y \<in> range_of base n" and eq: "slot x = slot y" for x y
  proof -
    obtain i j where i: "i < n" "drop_bit 12 x = drop_bit 12 (page_at base i)"
      and j: "j < n" "drop_bit 12 y = drop_bit 12 (page_at base j)"
      using x y by (auto simp: range_of_def)
    have "slot (page_at base i) = slot (page_at base j)"
      using eq same_page(6) [OF i(2)] same_page(6) [OF j(2)] by simp
    then have "i = j" by (rule slot_page_at_inj) (use i j assms(1) in auto)
    with i j show ?thesis by simp
  qed
  moreover have "bits 12 40 (trans p x) = bits 12 40 (trans p y)"
    if "x \<in> range_of base n" "drop_bit 12 x = drop_bit 12 y" for x y
    using trans_page [of p x y] assms(2) that
    by (simp add: frame_of_page bits_take_bit)
  ultimately show ?thesis unfolding separated_def by blast
qed

lemma trans_small: "small p x \<Longrightarrow> trans p x = push_bit 12 (bits 12 40 (trans p x)) + va_offset x"
  by (rule trans_page) simp_all

lemma host_table_from:
  assumes n_def: "n = unat (number_of_pages bytes)" and n: "n \<le> 2 ^ 18"
    and small: "\<forall>x \<in> range_of base n. small p x"
    and sub: "range_of this 1028 \<subseteq> range_of base n"
  shows "host_ok (range_of base n) (\<lambda>x. bits 12 40 (trans p x)) (host_table this base bytes prot (trans p))"
    and "pt_this (host_table this base bytes prot (trans p)) = this"
    and "x \<in> range_of base n \<Longrightarrow> mapped (host_table this base bytes prot (trans p)) x"
  using host_table_ok [OF n_def separated_range [where p = p, OF n small] sub, where other = "trans p" and prot = prot] by auto

text \<open>Inside the mapped range the host table translates as the other table does, the processor
  that walks it gets the same address, and no entry leads out of the range.\<close>

lemma host_table_translates:
  assumes n_def: "n = unat (number_of_pages bytes)" and n: "n \<le> 2 ^ 18" and small: "\<forall>x \<in> range_of base n. small p x"
    and sub: "range_of this 1028 \<subseteq> range_of base n" and x: "x \<in> range_of base n"
  shows "virtual_to_physical (host_table this base bytes prot (trans p)) x = trans p x"
proof -
  let ?t = "host_table this base bytes prot (trans p)"
  note ok = host_table_from [OF n_def n small sub, where prot = prot]
  have "leaf_present ?t x" using ok(3) [OF x] by (simp add: mapped_def leaf_present_def)
  then have "frame ?t x = bits 12 40 (trans p x)" using ok(1) x by (simp add: host_ok_def)
  then show ?thesis
    using ok(1) trans_small [OF bspec [OF small x]] by (simp add: host_ok_def virtual_to_physical_frame)
qed

lemma host_table_confined:
  assumes n_def: "n = unat (number_of_pages bytes)" and n: "n \<le> 2 ^ 18" and small: "\<forall>x \<in> range_of base n. small p x"
    and sub: "range_of this 1028 \<subseteq> range_of base n"
    and y: "leaf_present (host_table this base bytes prot (trans p)) y"
  shows "\<exists>x \<in> range_of base n. virtual_to_physical (host_table this base bytes prot (trans p)) y =
    push_bit 12 (bits 12 40 (trans p x)) + va_offset y"
proof -
  let ?t = "host_table this base bytes prot (trans p)"
  note ok = host_table_from [OF n_def n small sub, where prot = prot]
  obtain x where x: "x \<in> range_of base n" "slot y = slot x"
    using ok(1) y by (auto simp: host_ok_def)
  have eq: "frame ?t y = frame ?t x" "leaf_present ?t x"
    using x(2) y by (auto simp: frame_def slot_def leaf_present_def)
  then have "frame ?t y = bits 12 40 (trans p x)" using ok(1) x(1) by (simp add: host_ok_def)
  then show ?thesis
    using ok(1) x(1) by (auto simp: host_ok_def virtual_to_physical_frame)
qed

lemma host_table_walk:
  assumes n_def: "n = unat (number_of_pages bytes)" and n: "n \<le> 2 ^ 18" and small: "\<forall>x \<in> range_of base n. small p x"
    and sub: "range_of this 1028 \<subseteq> range_of base n"
    and mem: "in_memory (\<lambda>x. bits 12 40 (trans p x)) pmem (host_table this base bytes prot (trans p))"
    and cr3: "bits 12 40 cr3 = bits 12 40 (trans p this)"
  shows "x \<in> range_of base n \<Longrightarrow> hw_walk pmem cr3 x = Some (trans p x)"
    and "hw_walk pmem cr3 y = Some q \<Longrightarrow>
      \<exists>x \<in> range_of base n. q = push_bit 12 (bits 12 40 (trans p x)) + va_offset y"
proof -
  let ?t = "host_table this base bytes prot (trans p)"
  note ok = host_table_from [OF n_def n small sub, where prot = prot]
  have walk: "hw_walk pmem cr3 y = (if mapped ?t y then Some (virtual_to_physical ?t y) else None)" for y
  proof (rule hw_walk_host [OF _ _ mem])
    show "links_ok (\<lambda>x. bits 12 40 (trans p x)) ?t" and "no_large ?t"
      using ok(1) by (simp_all add: host_ok_def)
    show "bits 12 40 cr3 = bits 12 40 (trans p (pml4_address (pt_this ?t)))"
      using cr3 ok(2) by (simp add: pml4_address_def)
  qed
  show "hw_walk pmem cr3 x = Some (trans p x)" if "x \<in> range_of base n"
    using walk [of x] host_table_translates [OF n_def n small sub that] ok(3) [OF that] by simp
  show "\<exists>x \<in> range_of base n. q = push_bit 12 (bits 12 40 (trans p x)) + va_offset y"
    if "hw_walk pmem cr3 y = Some q"
    using that walk [of y] host_table_confined [OF n_def n small sub, of prot y]
    by (auto simp: mapped_def leaf_present_def split: if_splits)
qed

end

end
