(* ===== verification/Hypervisor_State.thy ===== *)
theory Hypervisor_State
  imports Machine Errors Mtrr Small_Map Host_Mapping
begin

text \<open>
  The data members of the class \<open>hypervisor\<close> of
  \<^verbatim>\<open>include/zpp/hypervisor/hypervisor.h\<close>, in the order of the header, their addresses inside
  the object, and the object as \<open>state::create_once\<close> (\<^verbatim>\<open>src/hypervisor/state.cpp\<close>) leaves
  it.  Arrays indexed by the code are functions; every definition that indexes one checks the
  bound itself.  Of the arrays whose contents the code never reads or writes (\<open>host_idt\<close>,
  \<open>fs_data\<close>, \<open>gs_data\<close>, the task segments, \<open>msr_bitmap\<close>) only the address matters;
  the member \<open>vmcs\<close> has no state of its own.
\<close>

section \<open>Constants\<close>

definition max_cpus :: nat where "max_cpus = 16"
definition max_module_size :: nat where "max_module_size = 50 * 1024 * 1024"
definition module_capacity :: nat where "module_capacity = max_module_size div 0x1000"

lemma module_capacity_eq: "module_capacity = 12800"
  by (simp add: module_capacity_def max_module_size_def)

section \<open>Data members\<close>

text \<open>\<open>hv_this\<close> is the address of the object.  The stacks are kept through what the code
  places on them: the copy of the context of the caller at the top.  The intermediate descriptor
  tables are kept as their bytes, because the code copies and reads them as bytes.\<close>

record hypervisor_module =
  hv_this :: u64
  hv_available_stack_index :: nat
  hv_stack :: "nat \<Rightarrow> cpu_context option"
  hv_physical_to_virtual :: "(u64 \<Rightarrow> u64) option"
  hv_os_page_table :: os_page_table
  hv_host_page_table :: page_table
  hv_next_virtual_processor :: nat
  hv_module_base :: u64
  hv_module_size :: u64

record hypervisor_registers = hypervisor_module +
  hv_guest_cr0 :: u64
  hv_guest_cr3 :: u64
  hv_guest_cr4 :: u64
  hv_guest_dr7 :: u64
  hv_host_cr0 :: u64
  hv_host_cr3 :: u64
  hv_host_cr4 :: u64
  hv_idtr :: table_register
  hv_gdtr :: table_register
  hv_guest_ldtr :: u16
  hv_guest_tr :: u16
  hv_os_tr :: u16
  hv_host_cs :: u16
  hv_host_tr :: u16

record hypervisor_tables = hypervisor_registers +
  hv_module_physical_to_virtual :: "(u64, u64) small_map"
  hv_host_gdt :: "nat \<Rightarrow> u64"
  hv_intermediate_gdt :: "nat \<Rightarrow> nat \<Rightarrow> u8"
  hv_guest_gdt_pointer :: u64
  hv_guest_gdt_limit :: u64
  hv_intermediate_gdt_limit :: u64
  hv_ia32_debug_control :: u64
  hv_ia32_fs_base :: u64
  hv_ia32_gs_base :: u64

record hypervisor = hypervisor_tables +
  hv_vmx_msrs :: "nat \<Rightarrow> u64"
  hv_mtrrs :: "mtrr list"
  hv_mtrr_capabilities :: u64
  hv_epml4 :: "nat \<Rightarrow> u64"
  hv_epdpt :: "nat \<Rightarrow> u64"
  hv_epd :: "nat \<Rightarrow> nat \<Rightarrow> u64"
  hv_ept :: "nat \<Rightarrow> nat \<Rightarrow> u64"
  hv_vmx_revision_id :: "nat \<Rightarrow> u32"
  hv_vmcs_revision_id :: "nat \<Rightarrow> u32"
  hv_vmx_physical :: u64
  hv_vmcs_physical :: u64
  hv_epml4_physical :: u64
  hv_msr_bitmap_physical :: u64

section \<open>Layout\<close>

text \<open>The offsets the declarations give: members in declaration order, each at the next multiple
  of its alignment.\<close>

definition host_page_table_address :: "u64 \<Rightarrow> u64" where "host_page_table_address this = this + 0x802000"
definition host_gdt_address :: "u64 \<Rightarrow> u64" where "host_gdt_address this = this + 0xc39000"
definition host_idt_address :: "u64 \<Rightarrow> u64" where "host_idt_address this = this + 0xc49000"
definition fs_data_address :: "u64 \<Rightarrow> u64" where "fs_data_address this = this + 0xc59000"
definition gs_data_address :: "u64 \<Rightarrow> u64" where "gs_data_address this = this + 0xc5a000"
definition host_tss_address :: "u64 \<Rightarrow> u64" where "host_tss_address this = this + 0xc5b000"
definition unprotected_memory_address :: "u64 \<Rightarrow> u64" where
  "unprotected_memory_address this = this + 0xc5c000"
definition intermediate_gdt_address :: "u64 \<Rightarrow> nat \<Rightarrow> u64" where
  "intermediate_gdt_address this i = unprotected_memory_address this + of_nat i * 0x10000"
definition guest_tss_address :: "u64 \<Rightarrow> nat \<Rightarrow> u64" where
  "guest_tss_address this i = unprotected_memory_address this + 0x100000 + of_nat i * 104"
definition epml4_address :: "u64 \<Rightarrow> u64" where "epml4_address this = this + 0xd5e000"
definition epdpt_address :: "u64 \<Rightarrow> u64" where "epdpt_address this = this + 0xd5f000"
definition epd_address :: "u64 \<Rightarrow> nat \<Rightarrow> u64" where "epd_address this i = this + 0xd60000 + of_nat i * 0x1000"
definition ept_address :: "u64 \<Rightarrow> nat \<Rightarrow> u64" where "ept_address this i = this + 0xf60000 + of_nat i * 0x1000"
definition vmx_address :: "u64 \<Rightarrow> nat \<Rightarrow> u64" where "vmx_address this i = this + 0x1360000 + of_nat i * 0x1000"
definition vmx_vmcs_address :: "u64 \<Rightarrow> nat \<Rightarrow> u64" where
  "vmx_vmcs_address this i = this + 0x1370000 + of_nat i * 0x1000"
definition msr_bitmap_address :: "u64 \<Rightarrow> u64" where "msr_bitmap_address this = this + 0x1380000"
definition stack_address :: "u64 \<Rightarrow> nat \<Rightarrow> u64" where "stack_address this i = this + 0x1000 + of_nat i * 0x80000"

definition sizeof_unprotected_memory :: u64 where "sizeof_unprotected_memory = 0x101000"
definition sizeof_hypervisor :: u64 where "sizeof_hypervisor = 0x1382000"

lemmas member_address_defs = host_page_table_address_def host_gdt_address_def host_idt_address_def
  fs_data_address_def gs_data_address_def host_tss_address_def unprotected_memory_address_def
  intermediate_gdt_address_def guest_tss_address_def epml4_address_def epdpt_address_def
  epd_address_def ept_address_def vmx_address_def vmx_vmcs_address_def msr_bitmap_address_def
  stack_address_def

text \<open>The page-sized members as pages of the object.\<close>

lemma member_pages:
  "host_page_table_address this = page_at this 0x802"
  "unprotected_memory_address this = page_at this 0xc5c"
  "epml4_address this = page_at this 0xd5e" "epdpt_address this = page_at this 0xd5f"
  "epd_address this i = page_at this (0xd60 + i)" "ept_address this i = page_at this (0xf60 + i)"
  "vmx_address this i = page_at this (0x1360 + i)" "vmx_vmcs_address this i = page_at this (0x1370 + i)"
  "msr_bitmap_address this = page_at this 0x1380"
  by (simp_all add: member_address_defs page_at_def algebra_simps)

section \<open>The object after construction\<close>

definition empty_register :: table_register where
  "empty_register = \<lparr>tr_base = 0, tr_limit = 0\<rparr>"

definition create_once :: "u64 \<Rightarrow> hypervisor" where
  "create_once this =
     \<lparr>hv_this = this, hv_available_stack_index = 0, hv_stack = (\<lambda>_. None), hv_physical_to_virtual = None,
      hv_os_page_table = \<lparr>os_pml4 = 0, physical_to_virtual = None\<rparr>,
      hv_host_page_table = empty_table (host_page_table_address this),
      hv_next_virtual_processor = 1, hv_module_base = 0, hv_module_size = 0,
      hv_guest_cr0 = 0, hv_guest_cr3 = 0, hv_guest_cr4 = 0, hv_guest_dr7 = 0,
      hv_host_cr0 = 0, hv_host_cr3 = 0, hv_host_cr4 = 0,
      hv_idtr = empty_register, hv_gdtr = empty_register,
      hv_guest_ldtr = 0, hv_guest_tr = 0, hv_os_tr = 0, hv_host_cs = 0, hv_host_tr = 0,
      hv_module_physical_to_virtual = default_map (replicate module_capacity (0, 0)),
      hv_host_gdt = (\<lambda>_. 0), hv_intermediate_gdt = (\<lambda>_ _. 0),
      hv_guest_gdt_pointer = 0, hv_guest_gdt_limit = 0, hv_intermediate_gdt_limit = 0,
      hv_ia32_debug_control = 0, hv_ia32_fs_base = 0, hv_ia32_gs_base = 0,
      hv_vmx_msrs = (\<lambda>_. 0),
      hv_mtrrs = replicate 8 \<lparr>physical_base = 0, mtrr_size = 0, mtrr_type = 0, mtrr_valid = False\<rparr>,
      hv_mtrr_capabilities = 0, hv_epml4 = (\<lambda>_. 0), hv_epdpt = (\<lambda>_. 0), hv_epd = (\<lambda>_ _. 0),
      hv_ept = (\<lambda>_ _. 0), hv_vmx_revision_id = (\<lambda>_. 0), hv_vmcs_revision_id = (\<lambda>_. 0),
      hv_vmx_physical = 0, hv_vmcs_physical = 0, hv_epml4_physical = 0, hv_msr_bitmap_physical = 0\<rparr>"

end
