(* ===== verification/Ept_Setup.thy ===== *)
theory Ept_Setup
  imports Hypervisor_State
begin

text \<open>
  The part of \<^verbatim>\<open>src/hypervisor/hypervisor.cpp\<close> that builds the extended page tables:
  \<open>initialize_module_physical_to_virtual\<close>, \<open>initialize_mtrrs\<close>, \<open>initialize_ept\<close>,
  \<open>protect_module\<close> and \<open>unprotect_guest_memory\<close>.
\<close>

section \<open>Physical to virtual map of the module\<close>

definition module_pages :: "hypervisor \<Rightarrow> nat" where
  "module_pages hv = unat (hv_module_size hv div page_size)"

definition initialize_module_physical_to_virtual :: "hypervisor \<Rightarrow> (hypervisor \<times> hv_error) option" where
  "initialize_module_physical_to_virtual hv =
     (if module_pages hv \<ge> small_map_capacity (hv_module_physical_to_virtual hv)
      then Some (hv, physical_to_virtual_capacity_error)
      else do {
        hv' \<leftarrow> loop_opt (module_pages hv)
          (\<lambda>i hv. let address = hv_module_base hv + page_size * of_nat i;
                     physical_address = virtual_to_physical (hv_host_page_table hv) address
                 in do {
                   m \<leftarrow> emplace physical_address address (hv_module_physical_to_virtual hv);
                   Some (hv\<lparr>hv_module_physical_to_virtual := m\<rparr>)
                 }) hv;
        Some (hv', success)
      })"

section \<open>Memory type range registers\<close>

text \<open>\<open>for (i = mask; !(i & 1); i >>= 1) size <<= 1\<close>; on a zero mask it would not end.\<close>

partial_function (option) mtrr_size_loop :: "u64 \<Rightarrow> u64 \<Rightarrow> u64 option" where
  "mtrr_size_loop i bytes =
     (if \<not> (i AND 1 \<noteq> 0) then mtrr_size_loop (drop_bit 1 i) (push_bit 1 bytes) else Some bytes)"

definition read_mtrr :: "cpu \<Rightarrow> nat \<Rightarrow> mtrr option" where
  "read_mtrr c i =
     (let mtrr_base = rdmsr (of_nat (mtrr_physbase_0 + i * 2)) c;
          mtrr_mask = rdmsr (of_nat (mtrr_physmask_0 + i * 2)) c
      in do {
        bytes \<leftarrow> (if mtrr_variable_mask_physical_mask mtrr_mask = 0 then Some 0
                  else mtrr_size_loop (mtrr_variable_mask_physical_mask mtrr_mask) page_size);
        Some \<lparr>physical_base = push_bit 12 (mtrr_variable_base_page_number mtrr_base),
              mtrr_size = bytes,
              mtrr_type = mtrr_variable_base_memory_type mtrr_base,
              mtrr_valid = mtrr_variable_mask_valid mtrr_mask\<rparr>
      })"

definition initialize_mtrrs :: "cpu \<Rightarrow> hypervisor \<Rightarrow> hypervisor option" where
  "initialize_mtrrs c hv =
     (let capabilities = rdmsr ia32_mtrr_capability c;
          hv = hv\<lparr>hv_mtrr_capabilities := capabilities\<rparr>
      in loop_opt (unat (mtrr_capabilities_variable_range_register_count capabilities))
           (\<lambda>i hv. if i < length (hv_mtrrs hv) then do {
                      m \<leftarrow> read_mtrr c i;
                      Some (hv\<lparr>hv_mtrrs := (hv_mtrrs hv)[i := m]\<rparr>)
                    } else None) hv)"

section \<open>The identity map\<close>

text \<open>\<open>read(b); write(b); execute(b); execute_user(b);\<close>\<close>

definition rwx :: "bool \<Rightarrow> u64 \<Rightarrow> u64" where
  "rwx b e = epte_set_execute_user b (epte_set_execute b (epte_set_write b (epte_set_read b e)))"

definition mtrr_covers :: "u64 \<Rightarrow> mtrr \<Rightarrow> bool" where
  "mtrr_covers physical_address m \<longleftrightarrow>
     (if \<not> mtrr_valid m then False
      else if physical_address + (push_bit 21 1 - 1) < physical_base m then False
      else if physical_address \<ge> physical_base m + mtrr_size m then False
      else True)"

definition large_page_type :: "mtrr list \<Rightarrow> u64 \<Rightarrow> memory_type" where
  "large_page_type ms physical_address =
     (case find (mtrr_covers physical_address) ms of None \<Rightarrow> write_back | Some m \<Rightarrow> mtrr_type m)"

text \<open>The body of the two nested loops over the page directories.\<close>

definition fill_epde :: "nat \<Rightarrow> nat \<Rightarrow> hypervisor \<times> u64 \<Rightarrow> hypervisor \<times> u64" where
  "fill_epde i j = (\<lambda>(hv, large_page_number).
     let rwx_pde = epte_set_large True (rwx True 0);
         physical_address = push_bit 21 large_page_number;
         epde = epte_set_large_page_number large_page_number rwx_pde;
         epde = epte_set_type (large_page_type (hv_mtrrs hv) physical_address) epde
     in (hv\<lparr>hv_epd := (hv_epd hv)(i := (hv_epd hv i)(j := epde))\<rparr>, large_page_number + 1))"

definition initialize_ept :: "hypervisor \<Rightarrow> hypervisor" where
  "initialize_ept hv =
     (let trans = virtual_to_physical (hv_host_page_table hv); this = hv_this hv;
          hv = hv\<lparr>hv_epml4 := (hv_epml4 hv)(0 :=
                 epte_set_page_number (drop_bit 12 (trans (epdpt_address this))) (rwx True (hv_epml4 hv 0)))\<rparr>;
          rwx_pdpte = rwx True 0;
          hv = loop 512 (\<lambda>i hv. hv\<lparr>hv_epdpt := (hv_epdpt hv)(i :=
                 epte_set_page_number (drop_bit 12 (trans (epd_address this i))) rwx_pdpte)\<rparr>) hv
      in fst (loop 512 (\<lambda>i. loop 512 (fill_epde i)) (hv, 0)))"

section \<open>Taking the module away from the guest\<close>

text \<open>\<open>find(key)->second\<close>: dereferencing \<open>end()\<close> is undefined.\<close>

definition map_second :: "(u64, u64) small_map \<Rightarrow> u64 \<Rightarrow> u64 option" where
  "map_second m key = do {
     p \<leftarrow> small_map_find m key;
     if p = small_map_end m then None else map_option snd (small_map_value m p)
   }"

text \<open>The row of \<open>ept\<close> that a pointer designates.\<close>

definition ept_row :: "u64 \<Rightarrow> u64 \<Rightarrow> nat option" where
  "ept_row this p =
     (let d = p - ept_address this 0
      in if d AND 0xfff = 0 \<and> d < 0x400000 then Some (unat (drop_bit 12 d)) else None)"

definition set_ept :: "nat \<Rightarrow> nat \<Rightarrow> u64 \<Rightarrow> hypervisor \<Rightarrow> hypervisor" where
  "set_ept row i e hv = hv\<lparr>hv_ept := (hv_ept hv)(row := (hv_ept hv row)(i := e))\<rparr>"

definition set_epd :: "nat \<Rightarrow> nat \<Rightarrow> u64 \<Rightarrow> hypervisor \<Rightarrow> hypervisor" where
  "set_epd row i e hv = hv\<lparr>hv_epd := (hv_epd hv)(row := (hv_epd hv row)(i := e))\<rparr>"

text \<open>The conversion of a large entry into a table of 512 entries.\<close>

definition split_large_page :: "nat \<Rightarrow> nat \<Rightarrow> nat \<Rightarrow> hypervisor \<Rightarrow> hypervisor" where
  "split_large_page ept_index r c hv =
     (let epde = hv_epd hv r c;
          memory_type = epte_type epde;
          page_number = push_bit (21 - 12) (epte_large_page_number epde);
          hv = loop 512 (\<lambda>j hv. set_ept ept_index j
                 (epte_set_type memory_type
                   (epte_set_page_number (page_number + of_nat j) (rwx True (hv_ept hv ept_index j)))) hv) hv;
          epde = epte_set_type 0 (epte_set_large False epde);
          epde = epte_set_page_number
                   (drop_bit 12 (virtual_to_physical (hv_host_page_table hv) (ept_address (hv_this hv) ept_index))) epde
      in set_epd r c epde hv)"

definition protect_page ::
  "nat \<Rightarrow> hypervisor \<times> nat \<Rightarrow> ((hypervisor \<times> nat) \<times> hv_error option) option" where
  "protect_page i = (\<lambda>(hv, ept_index).
     let address = hv_module_base hv + of_nat i * page_size;
         physical_address = virtual_to_physical (hv_host_page_table hv) address;
         r = unat (drop_bit 30 physical_address);
         c = unat (drop_bit 21 physical_address AND 0x1ff);
         p = unat (drop_bit 12 physical_address AND 0x1ff)
     in if 512 \<le> r then None
        else if \<not> epte_large (hv_epd hv r c) then do {
          v \<leftarrow> map_second (hv_module_physical_to_virtual hv) (push_bit 12 (epte_page_number (hv_epd hv r c)));
          row \<leftarrow> ept_row (hv_this hv) v;
          Some ((set_ept row p (rwx False (hv_ept hv row p)) hv, ept_index), None)
        }
        else if 1024 \<le> ept_index then None
        else
          (let hv = split_large_page ept_index r c hv
           in if ept_index + 1 = 1024 then Some ((hv, ept_index + 1), Some out_of_ept_entries)
              else Some ((set_ept ept_index p (rwx False (hv_ept hv ept_index p)) hv, ept_index + 1), None)))"

definition protect_module :: "hypervisor \<Rightarrow> (hypervisor \<times> hv_error) option" where
  "protect_module hv = do {
     ((hv', _), r) \<leftarrow> loop_ret (module_pages hv) protect_page (hv, 0);
     Some (hv', case r of Some e \<Rightarrow> e | None \<Rightarrow> success)
   }"

definition unprotect_page :: "nat \<Rightarrow> hypervisor \<Rightarrow> hypervisor option" where
  "unprotect_page i hv =
     (let address = unprotected_memory_address (hv_this hv) + of_nat i * page_size;
          physical_address = virtual_to_physical (hv_host_page_table hv) address;
          r = unat (drop_bit 30 physical_address);
          c = unat (drop_bit 21 physical_address AND 0x1ff);
          p = unat (drop_bit 12 physical_address AND 0x1ff)
      in if 512 \<le> r then None
         else do {
           v \<leftarrow> map_second (hv_module_physical_to_virtual hv) (push_bit 12 (epte_page_number (hv_epd hv r c)));
           row \<leftarrow> ept_row (hv_this hv) v;
           Some (set_ept row p (rwx True (hv_ept hv row p)) hv)
         })"

definition unprotect_guest_memory :: "hypervisor \<Rightarrow> hypervisor option" where
  "unprotect_guest_memory hv = loop_opt (unat (sizeof_unprotected_memory div page_size)) unprotect_page hv"

end
