(* ===== verification/Ept_Identity.thy ===== *)
theory Ept_Identity
  imports Ept_Setup
begin

text \<open>
  What \<open>initialize_ept\<close> builds: 512 GB of guest-physical memory mapped onto itself by large
  pages, all access rights granted, each with the type its memory type range gives; and what the
  processor makes of the extended page tables (\<open>ept_walk\<close>, the architecture's walk).
\<close>

section \<open>Access rights of an entry\<close>

lemma rwx_fields [simp]:
  "epte_read (rwx b e) = b" "epte_write (rwx b e) = b" "epte_execute (rwx b e) = b"
  "epte_execute_user (rwx b e) = b" "epte_large (rwx b e) = epte_large e"
  "epte_page_number (rwx b e) = epte_page_number e"
  "epte_large_page_number (rwx b e) = epte_large_page_number e"
  "epte_type (rwx b e) = epte_type e"
  by (simp_all add: rwx_def)

text \<open>\<open>rights b e\<close>: the four rights of an entry all equal \<open>b\<close>.\<close>

definition rights :: "bool \<Rightarrow> u64 \<Rightarrow> bool" where
  "rights b e \<longleftrightarrow> epte_read e = b \<and> epte_write e = b \<and> epte_execute e = b \<and> epte_execute_user e = b"

lemma rights_simps [simp]:
  "rights b (rwx b' e) \<longleftrightarrow> b = b'"
  "rights b (epte_set_large l e) \<longleftrightarrow> rights b e" "rights b (epte_set_type ty e) \<longleftrightarrow> rights b e"
  "rights b (epte_set_page_number v e) \<longleftrightarrow> rights b e"
  "rights b (epte_set_large_page_number v e) \<longleftrightarrow> rights b e"
  by (auto simp: rights_def)

section \<open>Page numbers\<close>

lemma take_bit_of_nat_u64: "g < 2 ^ n \<Longrightarrow> take_bit n (of_nat g :: u64) = of_nat g"
proof (rule unsigned_word_eqI)
  assume "g < 2 ^ n"
  then have "take_bit n g = g" by (simp add: take_bit_nat_eq_self_iff)
  then have "take_bit n (take_bit 64 g) = take_bit 64 g"
    by (metis min.commute take_bit_take_bit)
  then show "unat (take_bit n (of_nat g :: u64)) = unat (of_nat g :: u64)"
    by (simp add: unsigned_take_bit_eq unsigned_of_nat)
qed

definition page_of :: "u64 \<Rightarrow> nat" where
  "page_of a = unat (drop_bit 12 a)"

lemma page_of_div: "page_of a = unat a div 2 ^ 12"
  by (simp add: page_of_def unat_drop_bit)

lemma ept_indices:
  "unat (drop_bit 30 pa) = page_of pa div 512 div 512"
  "unat (drop_bit 21 pa AND 0x1ff) = page_of pa div 512 mod 512"
  "unat (drop_bit 12 pa AND 0x1ff) = page_of pa mod 512"
proof -
  have mask: "drop_bit n (pa :: u64) AND 0x1ff = bits n 9 pa" for n
    by (simp add: bits_def take_bit_eq_mask mask_eq_exp_minus_1)
  show "unat (drop_bit 30 pa) = page_of pa div 512 div 512"
    by (simp add: page_of_div unat_drop_bit div_mult2_eq [symmetric])
  show "unat (drop_bit 21 pa AND 0x1ff) = page_of pa div 512 mod 512"
    "unat (drop_bit 12 pa AND 0x1ff) = page_of pa mod 512"
    unfolding mask unat_bits page_of_div by (simp_all add: div_mult2_eq [symmetric])
qed

section \<open>The tables after initialisation\<close>

definition large_entry :: "mtrr list \<Rightarrow> u64 \<Rightarrow> u64" where
  "large_entry ms n =
     epte_set_type (large_page_type ms (push_bit 21 n))
       (epte_set_large_page_number n (epte_set_large True (rwx True 0)))"

text \<open>Equality of updated states, by the contents of the updated arrays.\<close>

lemma epd_update_eqI: "(\<And>i j. f i j = g i j) \<Longrightarrow> hv\<lparr>hv_epd := f\<rparr> = hv\<lparr>hv_epd := g\<rparr>"
  by (rule arg_cong [where f = "\<lambda>f. hv\<lparr>hv_epd := f\<rparr>"]) (simp add: fun_eq_iff)

lemma tables_update_eqI:
  "(\<And>i. f i = f' i) \<Longrightarrow> (\<And>i j. g i j = g' i j) \<Longrightarrow> hv\<lparr>hv_epdpt := f, hv_epd := g\<rparr> = hv\<lparr>hv_epdpt := f', hv_epd := g'\<rparr>"
  by (rule arg_cong2 [where f = "\<lambda>f g. hv\<lparr>hv_epdpt := f, hv_epd := g\<rparr>"]) (simp_all add: fun_eq_iff)

lemma fill_row:
  "loop n (fill_epde i) (hv, k) =
   (hv\<lparr>hv_epd := (hv_epd hv)(i := (\<lambda>j. if j < n then large_entry (hv_mtrrs hv) (k + of_nat j) else hv_epd hv i j))\<rparr>,
    k + of_nat n)"
proof (induction n)
  case 0
  then show ?case by simp
next
  case (Suc n)
  show ?case
    unfolding loop.simps Suc.IH
    unfolding fill_epde_def split_conv Let_def large_entry_def [symmetric]
    by (auto simp: algebra_simps less_Suc_eq intro!: epd_update_eqI)
qed

lemma fill_rows:
  "loop n (\<lambda>i. loop 512 (fill_epde i)) (hv, 0) =
   (hv\<lparr>hv_epd := (\<lambda>i j. if i < n \<and> j < 512 then large_entry (hv_mtrrs hv) (of_nat (512 * i + j)) else hv_epd hv i j)\<rparr>,
    of_nat (512 * n))"
proof (induction n)
  case 0
  then show ?case by simp
next
  case (Suc n)
  show ?case
    unfolding loop.simps Suc.IH fill_row
    by (auto simp: algebra_simps less_Suc_eq intro!: epd_update_eqI)
qed

lemma fill_epdpt:
  "loop n (\<lambda>i hv. hv\<lparr>hv_epdpt := (hv_epdpt hv)(i := f i)\<rparr>) hv =
   (hv :: hypervisor)\<lparr>hv_epdpt := (\<lambda>i. if i < n then f i else hv_epdpt hv i)\<rparr>"
proof (induction n)
  case 0
  then show ?case by simp
next
  case (Suc n)
  have "(\<lambda>i. if i < n then f i else hv_epdpt hv i)(n := f n) = (\<lambda>i. if i < Suc n then f i else hv_epdpt hv i)"
    by (auto simp: fun_eq_iff less_Suc_eq)
  then show ?case by (simp only: loop.simps Suc.IH) simp
qed

lemma initialize_ept_eq:
  "initialize_ept hv =
     hv\<lparr>hv_epml4 := (hv_epml4 hv)(0 :=
          epte_set_page_number (drop_bit 12 (virtual_to_physical (hv_host_page_table hv) (epdpt_address (hv_this hv))))
            (rwx True (hv_epml4 hv 0))),
        hv_epdpt := (\<lambda>i. if i < 512
          then epte_set_page_number (drop_bit 12 (virtual_to_physical (hv_host_page_table hv) (epd_address (hv_this hv) i))) (rwx True 0)
          else hv_epdpt hv i),
        hv_epd := (\<lambda>i j. if i < 512 \<and> j < 512 then large_entry (hv_mtrrs hv) (of_nat (512 * i + j)) else hv_epd hv i j)\<rparr>"
  unfolding initialize_ept_def Let_def by (auto simp: fill_epdpt fill_rows intro!: tables_update_eqI)

text \<open>The entry of a 2 MB region, by the number of the region.\<close>

definition epde :: "hypervisor \<Rightarrow> nat \<Rightarrow> u64" where
  "epde hv g = hv_epd hv (g div 512) (g mod 512)"

definition identity_region :: "mtrr list \<Rightarrow> nat \<Rightarrow> u64 \<Rightarrow> bool" where
  "identity_region ms g e \<longleftrightarrow> epte_large e \<and> rights True e \<and> epte_large_page_number e = of_nat g \<and>
     epte_type e = take_bit 3 (large_page_type ms (of_nat (g * 2 ^ 21)))"

lemma initialize_ept_epde:
  assumes "g < 2 ^ 18"
  shows "identity_region (hv_mtrrs hv) g (epde (initialize_ept hv) g)"
proof -
  have "g div 512 < 512" and "512 * (g div 512) + g mod 512 = g" using assms by simp_all
  then have "epde (initialize_ept hv) g = large_entry (hv_mtrrs hv) (of_nat g)"
    by (simp add: epde_def initialize_ept_eq)
  moreover have "push_bit 21 (of_nat g :: u64) = of_nat (g * 2 ^ 21)"
    by (simp add: push_bit_eq_mult)
  moreover have "take_bit 31 (of_nat g :: u64) = of_nat g"
    using assms by (intro take_bit_of_nat_u64) simp
  ultimately show ?thesis
    by (simp add: identity_region_def large_entry_def)
qed

end
