(* ===== verification/Ept_Protection.thy ===== *)
theory Ept_Protection
  imports Ept_Identity
begin

text \<open>
  What \<open>protect_module\<close> and \<open>unprotect_guest_memory\<close> achieve.  The invariant
  \<open>ept_inv\<close> describes the tables after any number of pages: the set \<open>C\<close> of 2 MB regions
  whose large entry was replaced by a table, the row \<open>\<rho> g\<close> of \<open>ept\<close> that serves region
  \<open>g\<close>, and the set \<open>D\<close> of pages the guest has no access to.
\<close>

section \<open>Rows and pointers\<close>

lemma ept_row_address:
  assumes "row < 1024"
  shows "ept_row this (ept_address this row) = Some row"
proof -
  have d: "ept_address this row - ept_address this 0 = push_bit 12 (of_nat row)"
    by (simp add: ept_address_def push_bit_eq_mult)
  have "push_bit 12 (of_nat row :: u64) AND 0xfff = 0"
  proof (rule bit_eqI)
    fix i
    have mask: "(0xfff :: u64) = mask 12" by (simp add: mask_eq_exp_minus_1)
    show "bit (push_bit 12 (of_nat row :: u64) AND 0xfff) i \<longleftrightarrow> bit (0 :: u64) i"
      unfolding mask by (simp add: bit_simps)
  qed
  moreover have un: "unat (push_bit 12 (of_nat row :: u64)) = row * 4096"
    using assms by (simp add: push_bit_eq_mult unat_word_ariths unat_of_nat)
  then have "push_bit 12 (of_nat row :: u64) < 0x400000"
    using assms by (simp add: word_less_nat_alt)
  moreover have "unat (drop_bit 12 (push_bit 12 (of_nat row :: u64))) = row"
    unfolding unat_drop_bit un by simp
  ultimately show ?thesis by (simp add: ept_row_def d)
qed

section \<open>The invariant\<close>

text \<open>\<open>row_frame\<close>: the frame the host table gives for a row of \<open>ept\<close>.\<close>

definition row_frame :: "hypervisor \<Rightarrow> nat \<Rightarrow> u64" where
  "row_frame hv row = bits 12 40 (virtual_to_physical (hv_host_page_table hv) (ept_address (hv_this hv) row))"

definition split_region :: "hypervisor \<Rightarrow> nat \<Rightarrow> nat \<Rightarrow> u64 \<Rightarrow> bool" where
  "split_region hv g row e \<longleftrightarrow> \<not> epte_large e \<and> rights True e \<and> epte_page_number e = row_frame hv row"

definition page_entry :: "hypervisor \<Rightarrow> nat set \<Rightarrow> nat \<Rightarrow> nat \<Rightarrow> u64 \<Rightarrow> bool" where
  "page_entry hv D g p e \<longleftrightarrow> rights (512 * g + p \<notin> D) e \<and> epte_page_number e = of_nat (512 * g + p) \<and>
     epte_type e = epte_type (epde hv g)"

text \<open>Only the two arrays differ.\<close>

definition tables_differ :: "hypervisor \<Rightarrow> hypervisor \<Rightarrow> bool" where
  "tables_differ hv0 hv \<longleftrightarrow> (\<exists>e t. hv = hv0\<lparr>hv_epd := e, hv_ept := t\<rparr>)"

lemma tables_differ_refl: "tables_differ hv hv"
proof -
  have "hv = hv\<lparr>hv_epd := hv_epd hv, hv_ept := hv_ept hv\<rparr>" by simp
  then show ?thesis unfolding tables_differ_def by blast
qed

definition ept_inv :: "hypervisor \<Rightarrow> (nat \<Rightarrow> nat) \<Rightarrow> nat set \<Rightarrow> nat set \<Rightarrow> hypervisor \<Rightarrow> bool" where
  "ept_inv hv0 \<rho> C D hv \<longleftrightarrow>
     inj_on \<rho> C \<and> C \<subseteq> {..<2 ^ 18} \<and> \<rho> ` C \<subseteq> {..<1024} \<and> (\<lambda>q. q div 512) ` D \<subseteq> C \<and>
     (\<forall>g < 2 ^ 18. if g \<in> C then split_region hv0 g (\<rho> g) (epde hv g) else epde hv g = epde hv0 g) \<and>
     (\<forall>g \<in> C. \<forall>p < 512. page_entry hv0 D g p (hv_ept hv (\<rho> g) p)) \<and>
     tables_differ hv0 hv"

text \<open>What the invariant needs of the state before: identity entries, and a map that leads from
  the frame of a row of \<open>ept\<close> back to the row.\<close>

definition rows_reachable :: "hypervisor \<Rightarrow> bool" where
  "rows_reachable hv \<longleftrightarrow>
     (\<forall>row < 1024. map_second (hv_module_physical_to_virtual hv) (push_bit 12 (row_frame hv row)) =
        Some (ept_address (hv_this hv) row))"

definition identity_tables :: "hypervisor \<Rightarrow> bool" where
  "identity_tables hv \<longleftrightarrow>
     (\<forall>g < 2 ^ 18. epte_large (epde hv g) \<and> rights True (epde hv g) \<and> epte_large_page_number (epde hv g) = of_nat g)"

lemma ept_inv_start: "ept_inv hv \<rho> {} {} hv"
  by (simp add: ept_inv_def tables_differ_refl)

lemma ept_inv_frame:
  assumes "ept_inv hv0 \<rho> C D hv"
  shows "hv_this hv = hv_this hv0" "hv_host_page_table hv = hv_host_page_table hv0"
    "hv_module_physical_to_virtual hv = hv_module_physical_to_virtual hv0"
    "hv_module_base hv = hv_module_base hv0"
    "hv_epml4 hv = hv_epml4 hv0" "hv_epdpt hv = hv_epdpt hv0"
  using assms by (auto simp: ept_inv_def tables_differ_def)

lemma ept_inv_split:
  "ept_inv hv0 \<rho> C D hv \<Longrightarrow> g \<in> C \<Longrightarrow> split_region hv0 g (\<rho> g) (epde hv g) \<and> \<rho> g < 1024 \<and> g < 2 ^ 18"
  by (auto simp: ept_inv_def)

lemma map_second_row:
  assumes "ept_inv hv0 \<rho> C D hv" and "rows_reachable hv0" and "g \<in> C"
  shows "map_second (hv_module_physical_to_virtual hv) (push_bit 12 (epte_page_number (epde hv g))) =
    Some (ept_address (hv_this hv) (\<rho> g))"
    and "ept_row (hv_this hv) (ept_address (hv_this hv) (\<rho> g)) = Some (\<rho> g)"
  using assms(2) ept_inv_split [OF assms(1,3)] ept_inv_frame [OF assms(1)]
  by (simp_all add: rows_reachable_def split_region_def ept_row_address)

section \<open>Changing the rights of a page\<close>

lemma set_ept_simps [simp]:
  "epde (set_ept row p e hv) g = epde hv g"
  "hv_ept (set_ept row p e hv) r q = (if r = row \<and> q = p then e else hv_ept hv r q)"
  "hv_this (set_ept row p e hv) = hv_this hv"
  "hv_host_page_table (set_ept row p e hv) = hv_host_page_table hv"
  "hv_epd (set_ept row p e hv) = hv_epd hv"
  by (simp_all add: epde_def set_ept_def)

lemma set_ept_frame: "tables_differ hv0 hv \<Longrightarrow> tables_differ hv0 (set_ept row p e hv)"
  unfolding tables_differ_def set_ept_def by (elim exE, hypsubst, intro exI) simp

lemma set_epd_frame: "tables_differ hv0 hv \<Longrightarrow> tables_differ hv0 (set_epd row p e hv)"
proof -
  assume "tables_differ hv0 hv"
  then obtain e' t where "hv = hv0\<lparr>hv_epd := e', hv_ept := t\<rparr>" unfolding tables_differ_def by blast
  then have "set_epd row p e hv = hv0\<lparr>hv_epd := e'(row := (e' row)(p := e)), hv_ept := t\<rparr>"
    by (simp add: set_epd_def)
  then show ?thesis unfolding tables_differ_def by blast
qed

lemma page_entry_other: "512 * g + p \<noteq> q \<Longrightarrow>
    page_entry hv (insert q D) g p e = page_entry hv D g p e \<and>
    page_entry hv (D - {q}) g p e = page_entry hv D g p e"
  by (auto simp: page_entry_def)

lemma page_of_parts: "p < 512 \<Longrightarrow> 512 * g + p = q \<longleftrightarrow> g = q div 512 \<and> p = q mod (512 :: nat)"
  by auto

lemma set_rights_inv:
  assumes inv: "ept_inv hv0 \<rho> C D hv" and g: "q div 512 \<in> C"
  shows "ept_inv hv0 \<rho> C (if b then D - {q} else insert q D)
    (set_ept (\<rho> (q div 512)) (q mod 512) (rwx b (hv_ept hv (\<rho> (q div 512)) (q mod 512))) hv)"
proof -
  let ?D = "if b then D - {q} else insert q D" and ?g = "q div 512" and ?p = "q mod 512"
  let ?hv = "set_ept (\<rho> ?g) ?p (rwx b (hv_ept hv (\<rho> ?g) ?p)) hv"
  have "page_entry hv0 ?D g p (hv_ept ?hv (\<rho> g) p)" if "g \<in> C" "p < 512" for g p
  proof -
    have old: "page_entry hv0 D g p (hv_ept hv (\<rho> g) p)"
      using inv that by (simp add: ept_inv_def)
    have same: "\<rho> g = \<rho> ?g \<longleftrightarrow> g = ?g"
      using inv that g by (auto simp: ept_inv_def inj_on_def)
    show ?thesis
    proof (cases "512 * g + p = q")
      case True
      then have "g = ?g" "p = ?p" using that(2) page_of_parts by auto
      with old True show ?thesis by (simp add: page_entry_def)
    next
      case False
      then have "\<not> (g = ?g \<and> p = ?p)" using that(2) page_of_parts [of p g q] by simp
      with old False show ?thesis using page_entry_other [of g p q] same by auto
    qed
  qed
  then show ?thesis
    using inv g unfolding ept_inv_def by (auto simp add: set_ept_frame simp del: set_ept_simps(2))
qed

section \<open>Replacing a large page\<close>

lemma fill_ept:
  "hv_epd (loop n (\<lambda>j hv. set_ept k j (f j (hv_ept hv k j)) hv) hv) = hv_epd hv"
  "hv_ept (loop n (\<lambda>j hv. set_ept k j (f j (hv_ept hv k j)) hv) hv) r q =
     (if r = k \<and> q < n then f q (hv_ept hv k q) else hv_ept hv r q)"
  "tables_differ hv0 hv \<Longrightarrow> tables_differ hv0 (loop n (\<lambda>j hv. set_ept k j (f j (hv_ept hv k j)) hv) hv)"
  by (induction n arbitrary: r q) (auto simp: set_ept_frame less_Suc_eq)

lemma tables_differ_fields:
  assumes "tables_differ hv0 hv"
  shows "hv_this hv = hv_this hv0" "hv_host_page_table hv = hv_host_page_table hv0"
  using assms by (auto simp: tables_differ_def)

lemma large_page_number_pages:
  assumes "g < 2 ^ 18" and "p < 512"
  shows "push_bit 9 (of_nat g :: u64) + of_nat p = of_nat (512 * g + p)"
    and "take_bit 40 (of_nat (512 * g + p) :: u64) = of_nat (512 * g + p)"
proof -
  show "push_bit 9 (of_nat g :: u64) + of_nat p = of_nat (512 * g + p)"
    by (simp add: push_bit_eq_mult)
  have "512 * g + p < 2 ^ 40" using assms by simp
  then show "take_bit 40 (of_nat (512 * g + p) :: u64) = of_nat (512 * g + p)"
    by (rule take_bit_of_nat_u64)
qed

lemma take_bit_epte_type: "take_bit 3 (epte_type e) = epte_type e"
  by (rule bit_eqI) (auto simp: epte_type_eq bit_simps bit_bits)

lemma split_large_page_entries:
  fixes k :: nat
  assumes id: "identity_tables hv0" and hv: "tables_differ hv0 hv" "epde hv g = epde hv0 g" and g: "g < 2 ^ 18"
  defines "hv' \<equiv> split_large_page k (g div 512) (g mod 512) hv"
  shows "tables_differ hv0 hv'"
    and "epde hv' g' = (if g' = g then epde hv' g else epde hv g')"
    and "split_region hv0 g k (epde hv' g)"
    and "p < 512 \<Longrightarrow> page_entry hv0 {} g p (hv_ept hv' k p)"
    and "r \<noteq> k \<Longrightarrow> hv_ept hv' r p = hv_ept hv r p"
proof -
  let ?e = "hv_epd hv (g div 512) (g mod 512)"
  let ?f = "\<lambda>j e. epte_set_type (epte_type ?e) (epte_set_page_number (push_bit 9 (epte_large_page_number ?e) + of_nat j) (rwx True e))"
  let ?l = "loop 512 (\<lambda>j hv. set_ept k j (?f j (hv_ept hv k j)) hv) hv"
  let ?new = "epte_set_page_number
      (drop_bit 12 (virtual_to_physical (hv_host_page_table ?l) (ept_address (hv_this ?l) k)))
      (epte_set_type 0 (epte_set_large False ?e))"
  have hv': "hv' = set_epd (g div 512) (g mod 512) ?new ?l"
    by (simp add: hv'_def split_large_page_def Let_def)
  note l = fill_ept [where n = 512 and k = k and f = ?f and hv = hv]
  have fr: "tables_differ hv0 ?l" by (rule l(3)) (rule hv(1))
  then show "tables_differ hv0 hv'" unfolding hv' by (rule set_epd_frame)
  have e: "?e = epde hv0 g" using hv(2) by (simp add: epde_def)
  have ide: "epte_large (epde hv0 g)" "rights True (epde hv0 g)" "epte_large_page_number (epde hv0 g) = of_nat g"
    using id g by (auto simp: identity_tables_def)
  have other: "g' div 512 = g div 512 \<and> g' mod 512 = g mod 512 \<longleftrightarrow> g' = g" for g'
    by (metis div_mult_mod_eq)
  have new: "epde hv' g = ?new" by (simp add: hv' set_epd_def epde_def)
  show "epde hv' g' = (if g' = g then epde hv' g else epde hv g')"
    using other [of g'] l(1) by (auto simp: hv' set_epd_def epde_def)
  show "split_region hv0 g k (epde hv' g)"
    using ide(2) tables_differ_fields [OF fr]
    unfolding new e by (simp add: split_region_def row_frame_def bits_eq)
  have ept: "hv_ept hv' r p = (if r = k \<and> p < 512 then ?f p (hv_ept hv k p) else hv_ept hv r p)" for r p
    using l(2) [of r p] by (simp add: hv' set_epd_def)
  show "page_entry hv0 {} g p (hv_ept hv' k p)" if "p < 512"
    using that ide(3) large_page_number_pages [OF g that]
    by (simp add: ept e page_entry_def take_bit_epte_type)
  show "hv_ept hv' r p = hv_ept hv r p" if "r \<noteq> k" using that by (simp add: ept)
qed

lemma split_inv:
  assumes inv: "ept_inv hv0 \<rho> C D hv" and id: "identity_tables hv0"
    and g: "g < 2 ^ 18" "g \<notin> C" and k: "k < 1024" "k \<notin> \<rho> ` C"
  shows "ept_inv hv0 (\<rho>(g := k)) (insert g C) D (split_large_page k (g div 512) (g mod 512) hv)"
proof -
  have old: "tables_differ hv0 hv" "epde hv g = epde hv0 g" using inv g by (auto simp: ept_inv_def)
  note new = split_large_page_entries [OF id old g(1), where k = k]
  let ?hv = "split_large_page k (g div 512) (g mod 512) hv"
  have rho: "inj_on (\<rho>(g := k)) (insert g C)" "(\<rho>(g := k)) ` insert g C \<subseteq> {..<1024}"
    using inv g k by (auto simp: ept_inv_def inj_on_def)
  have notD: "512 * g + p \<notin> D" if "p < 512" for p
    using inv g that unfolding ept_inv_def by (force dest: subsetD)
  have entry: "page_entry hv0 D h p (hv_ept ?hv ((\<rho>(g := k)) h) p)" if "h \<in> insert g C" "p < 512" for h p
  proof (cases "h = g")
    case True
    then show ?thesis using new(4) [OF that(2)] notD [OF that(2)] by (simp add: page_entry_def)
  next
    case False
    then have "h \<in> C" "\<rho> h \<noteq> k" using that(1) k(2) by auto
    then show ?thesis using inv that(2) False new(5) by (simp add: ept_inv_def)
  qed
  have "if h \<in> insert g C then split_region hv0 h ((\<rho>(g := k)) h) (epde ?hv h) else epde ?hv h = epde hv0 h"
    if "h < 2 ^ 18" for h
    using inv that new(3) by (simp add: new(2) [of h] ept_inv_def)
  moreover have "insert g C \<subseteq> {..<2 ^ 18}" "(\<lambda>q. q div 512) ` D \<subseteq> insert g C"
    using inv g(1) by (auto simp: ept_inv_def)
  ultimately show ?thesis
    unfolding ept_inv_def using rho entry new(1) by (intro conjI allI impI ballI)
qed

section \<open>The loop over the pages of the module\<close>

definition module_page :: "hypervisor \<Rightarrow> nat \<Rightarrow> nat" where
  "module_page hv i = page_of (virtual_to_physical (hv_host_page_table hv) (page_at (hv_module_base hv) i))"

definition unprotected_page :: "hypervisor \<Rightarrow> nat \<Rightarrow> nat" where
  "unprotected_page hv i =
     page_of (virtual_to_physical (hv_host_page_table hv) (page_at (unprotected_memory_address (hv_this hv)) i))"

lemma ept_inv_large:
  assumes "ept_inv hv0 \<rho> C D hv" and "identity_tables hv0" and "g < 2 ^ 18"
  shows "epte_large (epde hv g) \<longleftrightarrow> g \<notin> C"
  using assms unfolding ept_inv_def identity_tables_def split_region_def by (metis (no_types, lifting))

lemma protect_page_eq:
  assumes inv: "ept_inv hv0 \<rho> C D hv" and id: "identity_tables hv0" and reach: "rows_reachable hv0"
    and q: "q = module_page hv0 i" "q < 2 ^ 27"
  shows "protect_page i (hv, k) =
    (if q div 512 \<in> C
     then Some ((set_ept (\<rho> (q div 512)) (q mod 512) (rwx False (hv_ept hv (\<rho> (q div 512)) (q mod 512))) hv, k), None)
     else if 1024 \<le> k then None
     else
       (let hv = split_large_page k (q div 512 div 512) (q div 512 mod 512) hv
        in if k + 1 = 1024 then Some ((hv, k + 1), Some out_of_ept_entries)
           else Some ((set_ept k (q mod 512) (rwx False (hv_ept hv k (q mod 512))) hv, k + 1), None)))"
proof -
  have "virtual_to_physical (hv_host_page_table hv) (hv_module_base hv + of_nat i * page_size) =
      virtual_to_physical (hv_host_page_table hv0) (page_at (hv_module_base hv0) i)"
    using ept_inv_frame [OF inv] by (simp add: page_at_def page_size_def)
  then have q': "page_of (virtual_to_physical (hv_host_page_table hv) (hv_module_base hv + of_nat i * page_size)) = q"
    using q(1) by (simp add: module_page_def)
  have g: "q div 512 < 2 ^ 18" "\<not> 512 \<le> q div 512 div 512" using q(2) by simp_all
  have large: "epte_large (hv_epd hv (q div 512 div 512) (q div 512 mod 512)) \<longleftrightarrow> q div 512 \<notin> C"
    using ept_inv_large [OF inv id g(1)] by (simp add: epde_def)
  note row = map_second_row [OF inv reach, of "q div 512", unfolded epde_def]
  show ?thesis
    unfolding protect_page_def split_conv Let_def ept_indices q' using large g(2) row by simp
qed

text \<open>The regions met so far, and the state of the loop after \<open>i\<close> pages.\<close>

definition module_regions :: "hypervisor \<Rightarrow> nat \<Rightarrow> nat set" where
  "module_regions hv n = (\<lambda>i. module_page hv i div 512) ` {..<n}"

definition protect_inv :: "hypervisor \<Rightarrow> nat \<Rightarrow> hypervisor \<times> nat \<Rightarrow> bool" where
  "protect_inv hv0 i s \<longleftrightarrow>
     (\<exists>\<rho>. ept_inv hv0 \<rho> (module_regions hv0 i) (module_page hv0 ` {..<i}) (fst s) \<and>
       \<rho> ` module_regions hv0 i = {..<snd s} \<and> snd s < 1024)"

lemma ept_inv_inj: "ept_inv hv0 \<rho> C D hv \<Longrightarrow> inj_on \<rho> C"
  by (simp only: ept_inv_def)

lemma protect_inv_card: "protect_inv hv0 i s \<Longrightarrow> card (module_regions hv0 i) = snd s"
  unfolding protect_inv_def by (metis card_image card_lessThan ept_inv_inj)

lemma finite_module_regions: "finite (module_regions hv n)"
  by (simp add: module_regions_def)

lemma module_regions_Suc: "module_regions hv (Suc i) = insert (module_page hv i div 512) (module_regions hv i)"
  by (simp add: module_regions_def lessThan_Suc)

lemma protect_page_step:
  assumes id: "identity_tables hv0" and reach: "rows_reachable hv0" and q: "module_page hv0 i < 2 ^ 27"
    and I: "protect_inv hv0 i s"
  shows "(\<exists>s'. protect_page i s = Some (s', None) \<and> protect_inv hv0 (Suc i) s') \<or>
    (\<exists>s'. protect_page i s = Some (s', Some out_of_ept_entries) \<and> card (module_regions hv0 (Suc i)) = 1024)"
proof -
  obtain hv k where s: "s = (hv, k)" by (cases s)
  let ?q = "module_page hv0 i" and ?C = "module_regions hv0 i" and ?D = "module_page hv0 ` {..<i}"
  have card: "card ?C = k" using protect_inv_card [OF I] s by simp
  obtain \<rho> where inv: "ept_inv hv0 \<rho> ?C ?D hv" and img: "\<rho> ` ?C = {..<k}" and k: "k < 1024"
    using I unfolding protect_inv_def s fst_conv snd_conv by blast
  note eq = protect_page_eq [OF inv id reach refl q, of k]
  have set: "insert ?q ?D = module_page hv0 ` {..<Suc i}" by (simp add: lessThan_Suc)
  show ?thesis
  proof (cases "?q div 512 \<in> ?C")
    case True
    then have C: "module_regions hv0 (Suc i) = ?C" by (auto simp: module_regions_Suc)
    let ?hv = "set_ept (\<rho> (?q div 512)) (?q mod 512) (rwx False (hv_ept hv (\<rho> (?q div 512)) (?q mod 512))) hv"
    have "ept_inv hv0 \<rho> (module_regions hv0 (Suc i)) (module_page hv0 ` {..<Suc i}) ?hv"
      using set_rights_inv [OF inv True, of False] unfolding C by (simp add: set)
    then have "protect_inv hv0 (Suc i) (?hv, k)"
      using img k C unfolding protect_inv_def fst_conv snd_conv by metis
    then show ?thesis using eq True s by simp
  next
    case False
    have g: "?q div 512 < 2 ^ 18" using q by simp
    let ?\<rho> = "\<rho>(?q div 512 := k)"
    let ?hv1 = "split_large_page k (?q div 512 div 512) (?q div 512 mod 512) hv"
    let ?hv = "set_ept k (?q mod 512) (rwx False (hv_ept ?hv1 k (?q mod 512))) ?hv1"
    have inv1: "ept_inv hv0 ?\<rho> (insert (?q div 512) ?C) ?D ?hv1"
      by (rule split_inv [OF inv id g False k]) (simp add: img)
    have "ept_inv hv0 ?\<rho> (insert (?q div 512) ?C) (insert ?q ?D) ?hv"
      using set_rights_inv [OF inv1, of ?q False] by simp
    then have inv2: "ept_inv hv0 ?\<rho> (module_regions hv0 (Suc i)) (module_page hv0 ` {..<Suc i}) ?hv"
      by (simp add: module_regions_Suc set)
    have img2: "?\<rho> ` module_regions hv0 (Suc i) = {..<k + 1}"
      using img False by (auto simp: module_regions_Suc lessThan_Suc)
    show ?thesis
    proof (cases "k + 1 = 1024")
      case True
      have "card (module_regions hv0 (Suc i)) = 1024"
        using card True False by (simp add: module_regions_Suc finite_module_regions)
      then show ?thesis using eq False k True s by simp
    next
      case less: False
      have "k + 1 < 1024" using k less by simp
      with inv2 img2 have "protect_inv hv0 (Suc i) (?hv, k + 1)"
        unfolding protect_inv_def fst_conv snd_conv by blast
      then show ?thesis using eq False k less s by (simp add: Let_def)
    qed
  qed
qed

lemma protect_module_result:
  assumes id: "identity_tables hv0" and reach: "rows_reachable hv0" and n: "n = module_pages hv0"
    and low: "\<forall>i < n. module_page hv0 i < 2 ^ 27"
  shows "if card (module_regions hv0 n) < 1024
    then \<exists>hv \<rho>. protect_module hv0 = Some (hv, success) \<and> ept_inv hv0 \<rho> (module_regions hv0 n) (module_page hv0 ` {..<n}) hv
    else \<exists>hv. protect_module hv0 = Some (hv, out_of_ept_entries)"
proof -
  let ?J = "\<lambda>e (s :: hypervisor \<times> nat). e = out_of_ept_entries \<and> 1024 \<le> card (module_regions hv0 n)"
  have le: "card (module_regions hv0 (Suc i)) \<le> card (module_regions hv0 n)" if "i < n" for i
    using that unfolding module_regions_def by (intro card_mono image_mono) auto
  have "(\<exists>s'. loop_ret n protect_page (hv0, 0) = Some (s', None) \<and> protect_inv hv0 n s') \<or>
      (\<exists>s' e. loop_ret n protect_page (hv0, 0) = Some (s', Some e) \<and> ?J e s')"
  proof (rule loop_ret_inv)
    show "protect_inv hv0 0 (hv0, 0)" by (simp add: protect_inv_def module_regions_def ept_inv_start)
  next
    fix i s assume "i < n" and "protect_inv hv0 i s"
    with protect_page_step [OF id reach _ this(2)] low le [of i]
    show "(\<exists>s'. protect_page i s = Some (s', None) \<and> protect_inv hv0 (Suc i) s') \<or>
        (\<exists>s' e. protect_page i s = Some (s', Some e) \<and> ?J e s')" by auto
  qed
  then consider hv k where "loop_ret n protect_page (hv0, 0) = Some ((hv, k), None)" "protect_inv hv0 n (hv, k)"
    | hv k where "loop_ret n protect_page (hv0, 0) = Some ((hv, k), Some out_of_ept_entries)"
        "1024 \<le> card (module_regions hv0 n)"
    by auto
  then show ?thesis
  proof cases
    case 1
    then have "card (module_regions hv0 n) < 1024"
      using protect_inv_card [OF 1(2)] by (auto simp: protect_inv_def)
    moreover from 1(2) obtain \<rho> where "ept_inv hv0 \<rho> (module_regions hv0 n) (module_page hv0 ` {..<n}) hv"
      unfolding protect_inv_def fst_conv by blast
    ultimately show ?thesis using 1(1) n by (auto simp: protect_module_def)
  next
    case 2
    then show ?thesis using n by (auto simp: protect_module_def)
  qed
qed

section \<open>Giving the unprotected memory back\<close>

lemma unprotect_page_eq:
  assumes inv: "ept_inv hv0 \<rho> C D hv" and reach: "rows_reachable hv0"
    and q: "q = unprotected_page hv0 i" "q div 512 \<in> C"
  shows "unprotect_page i hv =
    Some (set_ept (\<rho> (q div 512)) (q mod 512) (rwx True (hv_ept hv (\<rho> (q div 512)) (q mod 512))) hv)"
proof -
  have "virtual_to_physical (hv_host_page_table hv) (unprotected_memory_address (hv_this hv) + of_nat i * page_size) =
      virtual_to_physical (hv_host_page_table hv0) (page_at (unprotected_memory_address (hv_this hv0)) i)"
    using ept_inv_frame [OF inv] by (simp add: page_at_def page_size_def)
  then have q': "page_of (virtual_to_physical (hv_host_page_table hv)
      (unprotected_memory_address (hv_this hv) + of_nat i * page_size)) = q"
    using q(1) by (simp add: unprotected_page_def)
  have "q div 512 < 2 ^ 18" using ept_inv_split [OF inv q(2)] by simp
  then have g: "\<not> 512 \<le> q div 512 div 512" by simp
  note row = map_second_row [OF inv reach q(2), unfolded epde_def]
  show ?thesis
    unfolding unprotect_page_def Let_def ept_indices q' using g row by simp
qed

lemma unprotect_result:
  assumes inv: "ept_inv hv0 \<rho> C D hv" and reach: "rows_reachable hv0"
    and C: "\<forall>i < 257. unprotected_page hv0 i div 512 \<in> C"
  shows "\<exists>hv'. unprotect_guest_memory hv = Some hv' \<and> ept_inv hv0 \<rho> C (D - unprotected_page hv0 ` {..<257}) hv'"
proof -
  let ?I = "\<lambda>i hv. ept_inv hv0 \<rho> C (D - unprotected_page hv0 ` {..<i}) hv"
  have "\<exists>hv'. loop_opt 257 unprotect_page hv = Some hv' \<and> ?I 257 hv'"
  proof (rule loop_opt_inv)
    show "?I 0 hv" using inv by simp
  next
    fix i hv assume i: "i < (257 :: nat)" and I: "?I i hv"
    have "D - unprotected_page hv0 ` {..<i} - {unprotected_page hv0 i} = D - unprotected_page hv0 ` {..<Suc i}"
      by (auto simp: lessThan_Suc)
    then show "\<exists>t'. unprotect_page i hv = Some t' \<and> ?I (Suc i) t'"
      using unprotect_page_eq [OF I reach refl] set_rights_inv [OF I, of "unprotected_page hv0 i" True] C i
      by simp
  qed
  then show ?thesis
    by (simp add: unprotect_guest_memory_def sizeof_unprotected_memory_def page_size_def)
qed

section \<open>The walk the processor makes\<close>

text \<open>An access of a guest is checked against its bit in every entry on the path; the memory type
  comes from the entry that maps the page.\<close>

datatype ept_access = Ept_read | Ept_write | Ept_execute | Ept_execute_user

fun access_bit :: "ept_access \<Rightarrow> nat" where
  "access_bit Ept_read = 0"
| "access_bit Ept_write = 1"
| "access_bit Ept_execute = 2"
| "access_bit Ept_execute_user = 10"

definition ept_walk :: "(u64 \<Rightarrow> u64) \<Rightarrow> u64 \<Rightarrow> ept_access \<Rightarrow> u64 \<Rightarrow> (u64 \<times> u64) option" where
  "ept_walk pmem eptp k a =
     (let e4 = pmem (push_bit 12 (bits 12 40 eptp) + 8 * bits 39 9 a);
          e3 = pmem (push_bit 12 (bits 12 40 e4) + 8 * bits 30 9 a);
          e2 = pmem (push_bit 12 (bits 12 40 e3) + 8 * bits 21 9 a);
          e1 = pmem (push_bit 12 (bits 12 40 e2) + 8 * bits 12 9 a)
      in if \<not> bit e4 (access_bit k) \<or> \<not> bit e3 (access_bit k) then None
         else if bit e3 7 then Some (push_bit 30 (bits 30 22 e3) + bits 0 30 a, bits 3 3 e3)
         else if \<not> bit e2 (access_bit k) then None
         else if bit e2 7 then Some (push_bit 21 (bits 21 31 e2) + bits 0 21 a, bits 3 3 e2)
         else if \<not> bit e1 (access_bit k) then None
         else Some (push_bit 12 (bits 12 40 e1) + bits 0 12 a, bits 3 3 e1))"

text \<open>The four arrays lie in physical memory where the host table says.\<close>

definition host_frame :: "hypervisor \<Rightarrow> u64 \<Rightarrow> u64" where
  "host_frame hv x = bits 12 40 (virtual_to_physical (hv_host_page_table hv) x)"

definition ept_in_memory :: "(u64 \<Rightarrow> u64) \<Rightarrow> hypervisor \<Rightarrow> bool" where
  "ept_in_memory pmem hv \<longleftrightarrow>
     (\<forall>i < 512.
        pmem (push_bit 12 (host_frame hv (epml4_address (hv_this hv))) + 8 * of_nat i) = hv_epml4 hv i \<and>
        pmem (push_bit 12 (host_frame hv (epdpt_address (hv_this hv))) + 8 * of_nat i) = hv_epdpt hv i \<and>
        (\<forall>j < 512. pmem (push_bit 12 (host_frame hv (epd_address (hv_this hv) j)) + 8 * of_nat i) = hv_epd hv j i) \<and>
        (\<forall>j < 1024. pmem (push_bit 12 (host_frame hv (ept_address (hv_this hv) j)) + 8 * of_nat i) = hv_ept hv j i))"

lemma rights_bit: "rights b e \<Longrightarrow> bit e (access_bit k) = b"
  by (cases k) (auto simp: rights_def epte_bits)

text \<open>The tables whose upper levels \<open>initialize_ept\<close> filled.\<close>

definition upper_tables :: "hypervisor \<Rightarrow> bool" where
  "upper_tables hv \<longleftrightarrow>
     rights True (hv_epml4 hv 0) \<and>
     epte_page_number (hv_epml4 hv 0) = host_frame hv (epdpt_address (hv_this hv)) \<and>
     (\<forall>i. 0 < i \<longrightarrow> i < 512 \<longrightarrow> rights False (hv_epml4 hv i)) \<and>
     (\<forall>i < 512. rights True (hv_epdpt hv i) \<and> \<not> epte_large (hv_epdpt hv i) \<and>
       epte_page_number (hv_epdpt hv i) = host_frame hv (epd_address (hv_this hv) i))"

lemma initialize_ept_upper:
  assumes "hv_epml4 hv = (\<lambda>_. 0)"
  shows "upper_tables (initialize_ept hv)" and "identity_tables (initialize_ept hv)"
proof -
  have "rights False 0" "\<not> epte_large 0" by (simp_all add: rights_def epte_bits)
  then show "upper_tables (initialize_ept hv)"
    using assms by (simp add: upper_tables_def initialize_ept_eq host_frame_def bits_eq)
  show "identity_tables (initialize_ept hv)"
    using initialize_ept_epde by (auto simp: identity_tables_def identity_region_def)
qed

end
