(* ===== verification/Ept_Walk.thy ===== *)
theory Ept_Walk
  imports Ept_Protection
begin

text \<open>
  The guarantee of the extended page tables: what the processor's walk gives for every address of
  the guest, in any state that satisfies the invariant of \<open>protect_module\<close>.
\<close>

section \<open>Indices of the walk\<close>

lemma unat_page_split: "page_of a div 512 = unat a div 2 ^ 21"
  by (simp add: page_of_div div_mult2_eq [symmetric])

lemma walk_indices:
  assumes "unat a < 2 ^ 39"
  shows "unat (bits 39 9 a) = 0" "unat (bits 30 9 a) = page_of a div 512 div 512"
    "unat (bits 21 9 a) = page_of a div 512 mod 512" "unat (bits 12 9 a) = page_of a mod 512"
    "page_of a div 512 < 2 ^ 18"
proof -
  have "unat a div 2 ^ 30 < 2 ^ 9" "unat a div 2 ^ 21 < 2 ^ 18" using assms by (auto simp: less_mult_imp_div_less)
  then show "unat (bits 30 9 a) = page_of a div 512 div 512" "page_of a div 512 < 2 ^ 18"
    by (simp_all add: unat_bits page_of_div div_mult2_eq [symmetric])
  show "unat (bits 39 9 a) = 0" "unat (bits 21 9 a) = page_of a div 512 mod 512" "unat (bits 12 9 a) = page_of a mod 512"
    using assms by (simp_all add: unat_bits page_of_div div_mult2_eq [symmetric])
qed

lemma high_index:
  assumes "unat a < 2 ^ 48" and "\<not> unat a < 2 ^ 39"
  shows "unat (bits 39 9 a) \<noteq> 0" and "unat (bits 39 9 a) < 512"
proof -
  have "unat a div 2 ^ 39 < 2 ^ 9" using assms(1) by (auto simp: less_mult_imp_div_less)
  moreover have "unat a div 2 ^ 39 > 0" using assms(2) by (simp add: div_greater_zero_iff)
  ultimately show "unat (bits 39 9 a) \<noteq> 0" "unat (bits 39 9 a) < 512" by (simp_all add: unat_bits)
qed

lemma ept_in_memoryD:
  assumes mem: "ept_in_memory pmem hv"
  shows "unat w < 512 \<Longrightarrow> pmem (push_bit 12 (host_frame hv (epml4_address (hv_this hv))) + 8 * w) = hv_epml4 hv (unat w)"
    and "unat w < 512 \<Longrightarrow> pmem (push_bit 12 (host_frame hv (epdpt_address (hv_this hv))) + 8 * w) = hv_epdpt hv (unat w)"
    and "unat w < 512 \<Longrightarrow> j < 512 \<Longrightarrow> pmem (push_bit 12 (host_frame hv (epd_address (hv_this hv) j)) + 8 * w) = hv_epd hv j (unat w)"
    and "unat w < 512 \<Longrightarrow> j < 1024 \<Longrightarrow> pmem (push_bit 12 (host_frame hv (ept_address (hv_this hv) j)) + 8 * w) = hv_ept hv j (unat w)"
  using mem [unfolded ept_in_memory_def, rule_format, of "unat w"] by simp_all

section \<open>Identity\<close>

lemma page_plus_rest:
  assumes "b \<le> 63"
  shows "push_bit b (of_nat (unat a div 2 ^ b)) + bits 0 b a = (a :: u64)"
proof -
  have "of_nat (unat a div 2 ^ b) = drop_bit b a"
    by (simp flip: unat_drop_bit)
  moreover have "push_bit b (drop_bit b a) + bits 0 b a = push_bit b (drop_bit b a) OR bits 0 b a"
    by (rule disjunctive_add) (auto simp: bit_simps bit_bits)
  moreover have "push_bit b (drop_bit b a) OR bits 0 b a = a"
    by (rule bit_eqI) (auto simp: bit_simps bit_bits dest: u64_bit_bound)
  ultimately show ?thesis by simp
qed

lemma type_bits: "bits 3 3 e = ucast (epte_type e)"
  by (rule bit_eqI) (auto simp: epte_type_eq bit_simps bit_bits dest: u64_bit_bound)

definition region_type :: "hypervisor \<Rightarrow> u64 \<Rightarrow> u64" where
  "region_type hv a = ucast (epte_type (epde hv (page_of a div 512)))"

lemma ept_walk_inv:
  assumes inv: "ept_inv hv0 \<rho> C D hv" and id: "identity_tables hv0" and up: "upper_tables hv0"
    and mem: "ept_in_memory pmem hv" and eptp: "bits 12 40 eptp = host_frame hv0 (epml4_address (hv_this hv0))"
    and a: "unat a < 2 ^ 48"
  shows "ept_walk pmem eptp k a =
    (if unat a < 2 ^ 39 \<and> page_of a \<notin> D then Some (a, region_type hv0 a) else None)"
proof -
  have hf: "host_frame hv = host_frame hv0" "hv_this hv = hv_this hv0"
    "hv_epml4 hv = hv_epml4 hv0" "hv_epdpt hv = hv_epdpt hv0"
    using ept_inv_frame [OF inv] by (simp_all add: host_frame_def fun_eq_iff)
  note mem' = ept_in_memoryD [OF mem, unfolded hf]
  have lt: "unat (bits off 9 a) < 512" for off using bits_less [of 9 off a] by simp
  have e4: "pmem (push_bit 12 (bits 12 40 eptp) + 8 * bits 39 9 a) = hv_epml4 hv0 (unat (bits 39 9 a))"
    unfolding eptp by (rule mem'(1)) (rule lt)
  show ?thesis
  proof (cases "unat a < 2 ^ 39")
    case False
    then have "rights False (hv_epml4 hv0 (unat (bits 39 9 a)))"
      using high_index [OF a False] up by (simp add: upper_tables_def)
    then show ?thesis using False by (simp add: ept_walk_def Let_def e4 rights_bit)
  next
    case True
    let ?g = "page_of a div 512" and ?p = "page_of a mod 512"
    note ix = walk_indices [OF True]
    have r4: "rights True (hv_epml4 hv0 0)" "bits 12 40 (hv_epml4 hv0 0) = host_frame hv0 (epdpt_address (hv_this hv0))"
      using up by (auto simp: upper_tables_def epte_page_number.get_eq)
    have g: "?g div 512 < 512" using ix(5) by simp
    then have r3: "rights True (hv_epdpt hv0 (?g div 512))" "\<not> bit (hv_epdpt hv0 (?g div 512)) 7"
      "bits 12 40 (hv_epdpt hv0 (?g div 512)) = host_frame hv0 (epd_address (hv_this hv0) (?g div 512))"
      using up by (auto simp: upper_tables_def epte_page_number.get_eq epte_large.flag_get_eq)
    have e3: "pmem (push_bit 12 (bits 12 40 (hv_epml4 hv0 0)) + 8 * bits 30 9 a) = hv_epdpt hv0 (?g div 512)"
      unfolding r4(2) ix(2) [symmetric] by (rule mem'(2)) (rule lt)
    have e2: "pmem (push_bit 12 (bits 12 40 (hv_epdpt hv0 (?g div 512))) + 8 * bits 21 9 a) = epde hv ?g"
      unfolding r3(3) epde_def ix(3) [symmetric] by (rule mem'(3)) (rule lt, rule g)
    show ?thesis
    proof (cases "?g \<in> C")
      case False
      then have "epde hv ?g = epde hv0 ?g" and D: "page_of a \<notin> D"
        using inv ix(5) by (auto simp: ept_inv_def)
      then have r2: "rights True (epde hv ?g)" "bit (epde hv ?g) 7" "bits 21 31 (epde hv ?g) = of_nat ?g"
        "bits 3 3 (epde hv ?g) = region_type hv0 a"
        using id ix(5)
        by (simp_all add: identity_tables_def epte_large.flag_get_eq [symmetric]
            epte_large_page_number.get_eq [symmetric] type_bits region_type_def)
      show ?thesis
        using True D r2 rights_bit [OF r4(1)] rights_bit [OF r3(1)] rights_bit [OF r2(1)] r3(2)
          page_plus_rest [of 21 a, folded unat_page_split]
        by (simp add: ept_walk_def Let_def e4 ix(1) e3 e2)
    next
      case inC: True
      note sp = ept_inv_split [OF inv inC]
      have r2: "rights True (epde hv ?g)" "\<not> bit (epde hv ?g) 7"
        "bits 12 40 (epde hv ?g) = host_frame hv0 (ept_address (hv_this hv0) (\<rho> ?g))"
        using sp by (simp_all add: split_region_def epte_large.flag_get_eq [symmetric]
            epte_page_number.get_eq [symmetric] row_frame_def host_frame_def)
      have e1: "pmem (push_bit 12 (bits 12 40 (epde hv ?g)) + 8 * bits 12 9 a) = hv_ept hv (\<rho> ?g) ?p"
        unfolding r2(3) ix(4) [symmetric] by (rule mem'(4)) (rule lt, use sp in simp)
      have "page_entry hv0 D ?g ?p (hv_ept hv (\<rho> ?g) ?p)" using inv inC by (simp add: ept_inv_def)
      then have r1: "rights (page_of a \<notin> D) (hv_ept hv (\<rho> ?g) ?p)"
        "bits 12 40 (hv_ept hv (\<rho> ?g) ?p) = of_nat (unat a div 2 ^ 12)"
        "bits 3 3 (hv_ept hv (\<rho> ?g) ?p) = region_type hv0 a"
        by (simp_all add: page_entry_def epte_page_number.get_eq [symmetric] type_bits region_type_def page_of_div)
      show ?thesis
        using True r1 r2(2) rights_bit [OF r4(1)] rights_bit [OF r3(1)] rights_bit [OF r2(1)] rights_bit [OF r1(1)]
          r3(2) page_plus_rest [of 12 a]
        by (simp add: ept_walk_def Let_def e4 ix(1) e3 e2 e1)
    qed
  qed
qed

end
