(* ===== verification/Elf.thy ===== *)
theory Elf
  imports Memory
begin

text \<open>
  \<^verbatim>\<open>include/zpp/elf_file.h\<close> and \<^verbatim>\<open>include/zpp/elf_image_base.h\<close>: the ELF image in memory, its
  headers, its size in memory, and loading it (mapping the segments, relative relocations).  The
  structures are read from memory at the offsets the ELF64 layout gives their members.
  \<open>None\<close> is undefined behaviour: a header that is not there, a table without an end.
\<close>

section \<open>Headers\<close>

record elf_header =
  e_machine :: u16
  e_entry :: u64
  e_phoff :: u64
  e_phnum :: u16

definition read_header :: "memory \<Rightarrow> u64 \<Rightarrow> elf_header" where
  "read_header m a =
     \<lparr>e_machine = read_u16 m (a + 18), e_entry = read_u64 m (a + 24),
      e_phoff = read_u64 m (a + 32), e_phnum = read_u16 m (a + 56)\<rparr>"

record elf_phdr =
  p_type :: u32
  p_flags :: u32
  p_offset :: u64
  p_vaddr :: u64
  p_paddr :: u64
  p_filesz :: u64
  p_memsz :: u64
  p_align :: u64

definition read_phdr :: "memory \<Rightarrow> u64 \<Rightarrow> elf_phdr" where
  "read_phdr m a =
     \<lparr>p_type = read_u32 m a, p_flags = read_u32 m (a + 4), p_offset = read_u64 m (a + 8),
      p_vaddr = read_u64 m (a + 16), p_paddr = read_u64 m (a + 24), p_filesz = read_u64 m (a + 32),
      p_memsz = read_u64 m (a + 40), p_align = read_u64 m (a + 48)\<rparr>"

definition sizeof_phdr :: u64 where "sizeof_phdr = 56"

definition phdr_load :: u32 where "phdr_load = 1"
definition phdr_dynamic :: u32 where "phdr_dynamic = 2"

text \<open>Relocation and dynamic entries.\<close>

record elf_rela =
  r_offset :: u64
  r_info :: u64
  r_addend :: u64

definition read_rela :: "memory \<Rightarrow> u64 \<Rightarrow> elf_rela" where
  "read_rela m a = \<lparr>r_offset = read_u64 m a, r_info = read_u64 m (a + 8), r_addend = read_u64 m (a + 16)\<rparr>"

text \<open>An entry of type \<open>elf_rel\<close> has no addend; 0 stands in its place and is never read.\<close>

definition read_rel :: "memory \<Rightarrow> u64 \<Rightarrow> elf_rela" where
  "read_rel m a = \<lparr>r_offset = read_u64 m a, r_info = read_u64 m (a + 8), r_addend = 0\<rparr>"

record elf_dyn =
  d_tag :: u64
  d_val :: u64

definition read_dyn :: "memory \<Rightarrow> u64 \<Rightarrow> elf_dyn" where
  "read_dyn m a = \<lparr>d_tag = read_u64 m a, d_val = read_u64 m (a + 8)\<rparr>"

text \<open>The enumeration \<open>tag\<close> has the underlying type \<open>int\<close>: the conversion keeps the low
  32 bits of \<open>d_tag\<close>.\<close>

definition dyn_tag :: "elf_dyn \<Rightarrow> u32" where "dyn_tag d = ucast (d_tag d)"
definition tag_null :: u32 where "tag_null = 0"
definition tag_rela :: u32 where "tag_rela = 7"
definition tag_rela_size :: u32 where "tag_rela_size = 8"
definition tag_rel :: u32 where "tag_rel = 17"
definition tag_rel_size :: u32 where "tag_rel_size = 18"

lemmas dyn_tags = tag_null_def tag_rela_def tag_rela_size_def tag_rel_def tag_rel_size_def

section \<open>The image\<close>

datatype elf_state = unloaded | loaded

record elf_file =
  m_file_data :: u64
  m_program_headers :: u64
  m_preferred_base :: u64
  m_dynamic_phdr :: u64
  m_dynamic :: u64
  m_last_load_phdr :: u64
  m_memory_size :: u64

definition phdr_at :: "u64 \<Rightarrow> nat \<Rightarrow> u64" where
  "phdr_at table i = table + of_nat i * sizeof_phdr"

text \<open>The index of the first, and of the last, program header of a type.\<close>

definition first_phdr :: "memory \<Rightarrow> u64 \<Rightarrow> nat \<Rightarrow> u32 \<Rightarrow> nat option" where
  "first_phdr m table n ty = find (\<lambda>i. p_type (read_phdr m (phdr_at table i)) = ty) [0..<n]"

definition last_phdr :: "memory \<Rightarrow> u64 \<Rightarrow> nat \<Rightarrow> u32 \<Rightarrow> nat option" where
  "last_phdr m table n ty = find (\<lambda>i. p_type (read_phdr m (phdr_at table i)) = ty) (rev [0..<n])"

definition elf_file_of :: "memory \<Rightarrow> u64 \<Rightarrow> elf_state \<Rightarrow> elf_file option" where
  "elf_file_of m data st =
     (let h = read_header m data; table = data + e_phoff h; n = unat (e_phnum h)
      in do {
        l \<leftarrow> first_phdr m table n phdr_load;
        let preferred_base = p_vaddr (read_phdr m (phdr_at table l)) AND NOT 0xfff;
        d \<leftarrow> first_phdr m table n phdr_dynamic;
        let dynamic_phdr = phdr_at table d;
        let dynamic = (if st = unloaded then data + p_offset (read_phdr m dynamic_phdr)
                       else p_vaddr (read_phdr m dynamic_phdr) + (data - preferred_base));
        k \<leftarrow> last_phdr m table n phdr_load;
        let last_load_phdr = phdr_at table k;
        let memory_size = ((p_vaddr (read_phdr m last_load_phdr) + p_memsz (read_phdr m last_load_phdr) + 0xfff)
                            AND NOT 0xfff) - preferred_base;
        Some \<lparr>m_file_data = data, m_program_headers = table, m_preferred_base = preferred_base,
              m_dynamic_phdr = dynamic_phdr, m_dynamic = dynamic,
              m_last_load_phdr = last_load_phdr, m_memory_size = memory_size\<rparr>
      })"

definition elf_phnum :: "memory \<Rightarrow> elf_file \<Rightarrow> nat" where
  "elf_phnum m elf = unat (e_phnum (read_header m (m_file_data elf)))"

definition elf_phdr_of :: "memory \<Rightarrow> elf_file \<Rightarrow> nat \<Rightarrow> elf_phdr" where
  "elf_phdr_of m elf i = read_phdr m (phdr_at (m_program_headers elf) i)"

definition elf_entry :: "memory \<Rightarrow> elf_file \<Rightarrow> u64" where
  "elf_entry m elf = e_entry (read_header m (m_file_data elf)) - m_preferred_base elf"

definition dynamic_program_header :: "memory \<Rightarrow> elf_file \<Rightarrow> elf_phdr" where
  "dynamic_program_header m elf = read_phdr m (m_program_headers elf)"

definition memory_size :: "elf_file \<Rightarrow> u64" where
  "memory_size elf = m_memory_size elf"

section \<open>Loading\<close>

text \<open>One program header of \<open>map_segments\<close>: \<open>copy_n\<close>, then \<open>fill_n\<close> with zeros.\<close>

definition map_segment :: "u64 \<Rightarrow> elf_file \<Rightarrow> nat \<Rightarrow> memory \<Rightarrow> memory" where
  "map_segment base_difference elf i m =
     (let h = elf_phdr_of m elf i
      in if p_type h \<noteq> phdr_load then m
         else
           (let m = memcpy (base_difference + p_vaddr h) (m_file_data elf + p_offset h) (unat (p_filesz h)) m
            in memset (base_difference + p_vaddr h + p_filesz h) 0 (unat (p_memsz h - p_filesz h)) m))"

definition map_segments :: "u64 \<Rightarrow> elf_file \<Rightarrow> memory \<Rightarrow> memory" where
  "map_segments base_difference elf m = loop (elf_phnum m elf) (map_segment base_difference elf) m"

text \<open>The loop over the dynamic segment, with the four values it collects.\<close>

record dyn_values =
  dv_rel :: u64
  dv_rel_size :: u64
  dv_rela :: u64
  dv_rela_size :: u64

definition dyn_step :: "u64 \<Rightarrow> elf_dyn \<Rightarrow> dyn_values \<Rightarrow> dyn_values" where
  "dyn_step base_difference d v =
     (if dyn_tag d = tag_rel then v\<lparr>dv_rel := base_difference + d_val d\<rparr>
      else if dyn_tag d = tag_rel_size then v\<lparr>dv_rel_size := d_val d\<rparr>
      else if dyn_tag d = tag_rela then v\<lparr>dv_rela := base_difference + d_val d\<rparr>
      else if dyn_tag d = tag_rela_size then v\<lparr>dv_rela_size := d_val d\<rparr>
      else v)"

partial_function (option) dyn_loop :: "memory \<Rightarrow> u64 \<Rightarrow> u64 \<Rightarrow> dyn_values \<Rightarrow> dyn_values option" where
  "dyn_loop m base_difference a v =
     (if dyn_tag (read_dyn m a) = tag_null then Some v
      else dyn_loop m base_difference (a + 16) (dyn_step base_difference (read_dyn m a) v))"

text \<open>The relocation table: its address, whether its entries have addends, and its size.\<close>

datatype relocations = Rela u64 | Rel u64

definition get_relocations :: "memory \<Rightarrow> u64 \<Rightarrow> elf_file \<Rightarrow> (relocations \<times> u64) option" where
  "get_relocations m base_difference elf = do {
     v \<leftarrow> dyn_loop m base_difference (m_dynamic elf)
       \<lparr>dv_rel = 0, dv_rel_size = 0, dv_rela = 0, dv_rela_size = 0\<rparr>;
     Some (if dv_rela v \<noteq> 0 then (Rela (dv_rela v), dv_rela_size v) else (Rel (dv_rel v), dv_rel_size v))
   }"

definition relative_relocation_value :: "u16 \<Rightarrow> u32" where
  "relative_relocation_value machine = (if machine = 183 then 1027 else if machine = 62 then 8 else 0)"

definition parse_relocation_type :: "u64 \<Rightarrow> u32" where
  "parse_relocation_type info = ucast (info AND 0xffffffff)"

fun relocate_entry :: "u16 \<Rightarrow> relocations \<Rightarrow> u64 \<Rightarrow> nat \<Rightarrow> memory \<Rightarrow> memory" where
  "relocate_entry machine (Rela table) base_difference i m =
     (let r = read_rela m (table + of_nat i * 24)
      in if parse_relocation_type (r_info r) \<noteq> relative_relocation_value machine then m
         else write_u64 (base_difference + r_offset r) (base_difference + r_addend r) m)"
| "relocate_entry machine (Rel table) base_difference i m =
     (let r = read_rel m (table + of_nat i * 16)
      in if parse_relocation_type (r_info r) \<noteq> relative_relocation_value machine then m
         else write_u64 (base_difference + r_offset r)
                (read_u64 m (base_difference + r_offset r) + base_difference) m)"

definition relocate :: "u16 \<Rightarrow> relocations \<Rightarrow> u64 \<Rightarrow> u64 \<Rightarrow> memory \<Rightarrow> memory" where
  "relocate machine rs relocations_size base_difference m =
     loop (unat relocations_size) (relocate_entry machine rs base_difference) m"

text \<open>\<open>protect\<close> is the strategy the caller passes.\<close>

definition protect_segments ::
  "(u64 \<Rightarrow> u64 \<Rightarrow> u32 \<Rightarrow> memory \<Rightarrow> memory) \<Rightarrow> u64 \<Rightarrow> elf_file \<Rightarrow> memory \<Rightarrow> memory" where
  "protect_segments protect base_difference elf m =
     loop (elf_phnum m elf)
       (\<lambda>i m. let h = elf_phdr_of m elf i
               in if p_type h \<noteq> phdr_load then m
                  else protect (base_difference + p_vaddr h) (p_memsz h) (p_flags h) m) m"

definition elf_load ::
  "(u64 \<Rightarrow> u64) \<Rightarrow> (u64 \<Rightarrow> u64 \<Rightarrow> u32 \<Rightarrow> memory \<Rightarrow> memory) \<Rightarrow> elf_file \<Rightarrow> memory \<Rightarrow> (u64 \<times> memory) option" where
  "elf_load allocate protect elf m =
     (let base = allocate (m_memory_size elf)
      in if base = 0 then Some (0, m)
         else
           (let base_difference = base - m_preferred_base elf;
                m = map_segments base_difference elf m
            in do {
              (rs, n) \<leftarrow> get_relocations m base_difference elf;
              let machine = e_machine (read_header m (m_file_data elf));
              let m = relocate machine rs n base_difference m;
              Some (base, protect_segments protect base_difference elf m)
            }))"

section \<open>The base of the running image\<close>

text \<open>\<open>marker\<close> is the address of the page-aligned constant \<open>g_elf_magic\<close>; the search goes down
  page by page until the four magic bytes are found.\<close>

definition elf_magic_at :: "memory \<Rightarrow> u64 \<Rightarrow> bool" where
  "elf_magic_at m a \<longleftrightarrow> m a = 0x7f \<and> m (a + 1) = 0x45 \<and> m (a + 2) = 0x4c \<and> m (a + 3) = 0x46"

partial_function (option) elf_base_loop :: "memory \<Rightarrow> u64 \<Rightarrow> u64 option" where
  "elf_base_loop m elf_base = (if \<not> elf_magic_at m elf_base then elf_base_loop m (elf_base - 0x1000) else Some elf_base)"

definition elf_image_base :: "memory \<Rightarrow> u64 \<Rightarrow> u64 option" where
  "elf_image_base m marker = elf_base_loop m (marker AND NOT 0xfff)"

end
