(* ===== verification/Module_Setup.thy ===== *)
theory Module_Setup
  imports Ept_Walk Elf
begin

text \<open>
  The part of \<^verbatim>\<open>src/hypervisor/hypervisor.cpp\<close> that locates the module and builds the host
  page table (\<open>initialize_module_region\<close>, \<open>initialize_os_page_table\<close>,
  \<open>initialize_host_page_table\<close>), and what the physical-to-virtual map of the module holds
  afterwards.
\<close>

section \<open>Operations\<close>

text \<open>\<open>mem\<close> is the memory of the running system, \<open>marker\<close> the address of the constant
  \<open>g_elf_magic\<close>.\<close>

definition initialize_module_region :: "memory \<Rightarrow> u64 \<Rightarrow> hypervisor \<Rightarrow> hypervisor option" where
  "initialize_module_region mem marker hv = do {
     base \<leftarrow> elf_image_base mem marker;
     elf \<leftarrow> elf_file_of mem base loaded;
     Some (hv\<lparr>hv_module_base := base, hv_module_size := memory_size elf\<rparr>)
   }"

definition initialize_os_page_table :: "hypervisor \<Rightarrow> hypervisor" where
  "initialize_os_page_table hv =
     hv\<lparr>hv_os_page_table := os_page_table_of (hv_guest_cr3 hv) (hv_physical_to_virtual hv)\<rparr>"

definition initialize_host_page_table :: "memory \<Rightarrow> hypervisor \<Rightarrow> hypervisor" where
  "initialize_host_page_table mem hv =
     (let other = os_virtual_to_physical (read_u64 mem) (hv_os_page_table hv);
          t = map_self other (hv_host_page_table hv);
          t = map_from_pointer (hv_module_base hv) (hv_module_size hv)
                (protection_or (protection_or protection_read protection_write) protection_execute) other t
      in hv\<lparr>hv_host_page_table := t,
            hv_host_cr3 := virtual_to_physical t (head_address t) OR (hv_guest_cr3 hv AND 0xfff)\<rparr>)"

section \<open>The physical-to-virtual map\<close>

text \<open>Page \<open>i\<close> of the module, as the host table translates it.\<close>

definition module_physical :: "hypervisor \<Rightarrow> nat \<Rightarrow> u64" where
  "module_physical hv i = virtual_to_physical (hv_host_page_table hv) (page_at (hv_module_base hv) i)"

lemma loop_opt_lift:
  assumes "\<And>i x. f i (w x) = map_option w (g i x)"
  shows "loop_opt n f (w x) = map_option w (loop_opt n g x)"
proof (induction n)
  case 0
  then show ?case by simp
next
  case (Suc n)
  then show ?case by (cases "loop_opt n g x") (simp_all add: assms)
qed

lemma fill_module_map:
  "loop_opt n (\<lambda>i hv. let address = hv_module_base hv + page_size * of_nat i;
        physical_address = virtual_to_physical (hv_host_page_table hv) address
      in do {
        m \<leftarrow> emplace physical_address address (hv_module_physical_to_virtual hv);
        Some (hv\<lparr>hv_module_physical_to_virtual := m\<rparr>)
      }) hv =
   map_option (\<lambda>m. hv\<lparr>hv_module_physical_to_virtual := m\<rparr>)
     (loop_opt n (\<lambda>i. emplace (module_physical hv i) (page_at (hv_module_base hv) i)) (hv_module_physical_to_virtual hv))"
  (is "loop_opt n ?f hv = map_option ?w (loop_opt n ?g ?m)")
proof -
  have "loop_opt n ?f (?w ?m) = map_option ?w (loop_opt n ?g ?m)"
  proof (rule loop_opt_lift)
    fix i x
    show "?f i (?w x) = map_option ?w (?g i x)"
      by (cases "?g i x") (simp_all add: module_physical_def page_at_def page_size_def mult.commute)
  qed
  then show ?thesis by simp
qed

text \<open>The lookup the code makes is the lookup of the abstract map.\<close>

lemma map_second_lookup: "small_map_inv m \<Longrightarrow> map_second m key = small_map_lookup m key"
  using small_map_find_correct [of m key]
  by (auto simp: map_second_def split: option.splits)

lemma initialize_module_physical_to_virtual_result:
  assumes n: "n = module_pages hv" and inj: "inj_on (module_physical hv) {..<n}"
    and map: "hv_module_physical_to_virtual hv = default_map storage"
  shows "if n < length storage
    then \<exists>m. initialize_module_physical_to_virtual hv = Some (hv\<lparr>hv_module_physical_to_virtual := m\<rparr>, success) \<and>
      small_map_inv m \<and> (\<forall>i < n. small_map_lookup m (module_physical hv i) = Some (page_at (hv_module_base hv) i)) \<and>
      (\<forall>k. k \<notin> module_physical hv ` {..<n} \<longrightarrow> small_map_lookup m k = None)
    else initialize_module_physical_to_virtual hv = Some (hv, physical_to_virtual_capacity_error)"
proof (cases "n < length storage")
  case False
  then show ?thesis
    by (simp add: initialize_module_physical_to_virtual_def n map small_map_capacity_def default_map_def)
next
  case True
  have empty: "small_map_inv (default_map storage)" "small_map_lookup (default_map storage) k = None" for k
    by (simp_all add: small_map_inv_def small_map_lookup_def entries_def default_map_def)
  have "m_size (default_map storage) + n \<le> length (m_storage (default_map storage))"
    using True by (simp add: default_map_def)
  from sm.fill [OF empty(1) this inj, of "page_at (hv_module_base hv)"] empty(2)
  obtain m where eq: "loop_opt n (\<lambda>i. emplace (module_physical hv i) (page_at (hv_module_base hv) i)) (default_map storage) = Some m"
    and m: "small_map_inv m" "\<forall>i < n. small_map_lookup m (module_physical hv i) = Some (page_at (hv_module_base hv) i)"
      "\<forall>k. k \<notin> module_physical hv ` {..<n} \<longrightarrow> small_map_lookup m k = None"
    by auto
  have "initialize_module_physical_to_virtual hv = Some (hv\<lparr>hv_module_physical_to_virtual := m\<rparr>, success)"
    using True n eq
    unfolding initialize_module_physical_to_virtual_def fill_module_map map
    by (simp add: small_map_capacity_def default_map_def)
  with m True show ?thesis by (simp only: if_True) blast
qed

section \<open>The module is known to the host\<close>

text \<open>What the first phase of the launch establishes: the object lies in the module, page \<open>k\<close>
  on; every page of the module is mapped by a small page to a frame of its own below 512 GB; the
  map leads back.\<close>

definition object_pages :: nat where "object_pages = 0x1382"

definition object_at :: "hypervisor \<Rightarrow> nat \<Rightarrow> bool" where
  "object_at hv k \<longleftrightarrow> hv_this hv = page_at (hv_module_base hv) k \<and> k + object_pages \<le> module_pages hv"

definition module_mapped :: "hypervisor \<Rightarrow> bool" where
  "module_mapped hv \<longleftrightarrow> no_large (hv_host_page_table hv) \<and> va_offset (hv_module_base hv) = 0 \<and>
     inj_on (module_physical hv) {..<module_pages hv} \<and>
     (\<forall>i < module_pages hv. unat (module_physical hv i) < 2 ^ 39)"

definition module_ready :: "hypervisor \<Rightarrow> bool" where
  "module_ready hv \<longleftrightarrow> module_mapped hv \<and> (\<exists>k. object_at hv k) \<and>
     small_map_inv (hv_module_physical_to_virtual hv) \<and>
     (\<forall>i < module_pages hv.
        small_map_lookup (hv_module_physical_to_virtual hv) (module_physical hv i) = Some (page_at (hv_module_base hv) i))"

lemma va_offset_page_at: "va_offset (page_at base i) = va_offset base"
proof -
  have dvd: "(2 ^ 12 :: nat) dvd 2 ^ 64" by (rule le_imp_power_dvd) simp
  have "unat (page_at base i) mod 2 ^ 12 = (unat base + unat (of_nat i :: u64) * 2 ^ 12) mod 2 ^ 12"
    using mod_mod_cancel [OF dvd] by (simp add: page_at_def unat_word_ariths mod_simps)
  then have "unat (va_offset (page_at base i)) = unat (va_offset base)"
    by (simp add: va_bits unat_bits)
  then show ?thesis by (rule unsigned_word_eqI)
qed

lemma module_physical_frame:
  assumes "module_mapped hv"
  shows "module_physical hv i = push_bit 12 (bits 12 40 (module_physical hv i))"
proof -
  have nl: "no_large (hv_host_page_table hv)" and off: "va_offset (page_at (hv_module_base hv) i) = 0"
    using assms va_offset_page_at by (auto simp: module_mapped_def)
  have "module_physical hv i = push_bit 12 (bits 12 40 (module_physical hv i)) + va_offset (page_at (hv_module_base hv) i)"
    unfolding module_physical_def by (rule host.trans_page [OF nl refl])
  then show ?thesis using off by simp
qed

text \<open>Every page of the object is a page of the module.\<close>

lemma object_page:
  assumes "object_at hv k" and "i < object_pages"
  shows "page_at (hv_this hv) i = page_at (hv_module_base hv) (k + i)" and "k + i < module_pages hv"
  using assms by (simp_all add: object_at_def page_at_page_at)

lemma rows_reachable_ready:
  assumes "module_ready hv"
  shows "rows_reachable hv"
proof -
  obtain k where k: "object_at hv k" using assms by (auto simp: module_ready_def)
  have "map_second (hv_module_physical_to_virtual hv) (push_bit 12 (row_frame hv row)) =
      Some (ept_address (hv_this hv) row)" if "row < 1024" for row
  proof -
    have "0xf60 + row < object_pages" using that by (simp add: object_pages_def)
    note p = object_page [OF k this]
    have "row_frame hv row = bits 12 40 (module_physical hv (k + (0xf60 + row)))"
      unfolding row_frame_def member_pages p(1) by (simp add: module_physical_def)
    then have "push_bit 12 (row_frame hv row) = module_physical hv (k + (0xf60 + row))"
      using assms module_physical_frame by (simp add: module_ready_def)
    then show ?thesis
      using assms p by (simp add: module_ready_def map_second_lookup member_pages)
  qed
  then show ?thesis by (simp add: rows_reachable_def)
qed

end
