(* ===== verification/Module_Isolation.thy ===== *)
theory Module_Isolation
  imports Module_Setup
begin

text \<open>
  The isolation of the module: after \<open>initialize_ept\<close>, \<open>protect_module\<close> and
  \<open>unprotect_guest_memory\<close> a guest reaches all memory below 512 GB except the pages of the
  module outside \<open>unprotected_memory\<close>; and what the first phase of the launch has to establish
  for this, in terms of the page tables of the operating system.
\<close>

section \<open>The view of the guest\<close>

text \<open>The pages of the module that stay hidden.\<close>

definition hidden_pages :: "hypervisor \<Rightarrow> nat set" where
  "hidden_pages hv = module_page hv ` {..<module_pages hv} - unprotected_page hv ` {..<257}"

definition guest_type :: "hypervisor \<Rightarrow> u64 \<Rightarrow> u64" where
  "guest_type hv a = ucast (take_bit 3 (large_page_type (hv_mtrrs hv) (of_nat (page_of a div 512 * 2 ^ 21))))"

text \<open>What a guest access gives in a state \<open>hv'\<close> whose tables lie in physical memory: the
  identity on the visible addresses, no access elsewhere.\<close>

definition guest_view :: "hypervisor \<Rightarrow> hypervisor \<Rightarrow> bool" where
  "guest_view hv hv' \<longleftrightarrow>
     (\<forall>pmem eptp k a. ept_in_memory pmem hv' \<longrightarrow> bits 12 40 eptp = host_frame hv (epml4_address (hv_this hv)) \<longrightarrow>
        unat a < 2 ^ 48 \<longrightarrow>
        ept_walk pmem eptp k a =
          (if unat a < 2 ^ 39 \<and> page_of a \<notin> hidden_pages hv then Some (a, guest_type hv a) else None))"

text \<open>The view depends on five members only.\<close>

definition same_module :: "hypervisor \<Rightarrow> hypervisor \<Rightarrow> bool" where
  "same_module hv hv' \<longleftrightarrow> hv_this hv' = hv_this hv \<and> hv_host_page_table hv' = hv_host_page_table hv \<and>
     hv_module_base hv' = hv_module_base hv \<and> hv_module_size hv' = hv_module_size hv \<and>
     hv_module_physical_to_virtual hv' = hv_module_physical_to_virtual hv"

lemma same_module_view:
  assumes "same_module hv hv'"
  shows "module_pages hv' = module_pages hv" "module_page hv' = module_page hv"
    "unprotected_page hv' = unprotected_page hv" "module_regions hv' = module_regions hv"
    "host_frame hv' = host_frame hv" "module_ready hv' = module_ready hv" "hidden_pages hv' = hidden_pages hv"
    "hv_this hv' = hv_this hv"
proof -
  have "module_physical hv' = module_physical hv"
    using assms by (simp add: same_module_def module_physical_def fun_eq_iff)
  moreover show "module_pages hv' = module_pages hv" "module_page hv' = module_page hv"
    "unprotected_page hv' = unprotected_page hv" "module_regions hv' = module_regions hv"
    "host_frame hv' = host_frame hv" "hv_this hv' = hv_this hv"
    using assms
    by (simp_all add: same_module_def module_pages_def module_page_def unprotected_page_def module_regions_def
        host_frame_def fun_eq_iff)
  ultimately show "module_ready hv' = module_ready hv" "hidden_pages hv' = hidden_pages hv"
    using assms
    by (simp_all add: same_module_def module_ready_def module_mapped_def object_at_def hidden_pages_def)
qed

lemma same_module_initialize_ept: "same_module hv (initialize_ept hv)"
  by (simp add: same_module_def initialize_ept_eq)

lemmas initialize_ept_view = same_module_view [OF same_module_initialize_ept]

lemma region_type_initialized:
  "unat a < 2 ^ 39 \<Longrightarrow> region_type (initialize_ept hv) a = guest_type hv a"
  using initialize_ept_epde [of "page_of a div 512" hv] walk_indices(5) [of a]
  by (simp add: region_type_def guest_type_def identity_region_def)

lemma unprotected_page_module:
  assumes "object_at hv k" and "i < 257"
  shows "unprotected_page hv i = module_page hv (k + 0xc5c + i)" and "k + 0xc5c + i < module_pages hv"
  using object_page [OF assms(1), of "0xc5c + i"] assms(2)
  by (simp_all add: object_pages_def unprotected_page_def module_page_def member_pages page_at_page_at add.assoc)

lemma guest_view_protected:
  assumes ready: "module_ready hv" and empty: "hv_epml4 hv = (\<lambda>_. 0)"
  shows "if card (module_regions hv (module_pages hv)) < 1024
    then \<exists>hv1 hv2. protect_module (initialize_ept hv) = Some (hv1, success) \<and>
      unprotect_guest_memory hv1 = Some hv2 \<and> guest_view hv hv2
    else \<exists>hv1. protect_module (initialize_ept hv) = Some (hv1, out_of_ept_entries)"
proof -
  let ?hv = "initialize_ept hv" and ?n = "module_pages hv"
  obtain k where k: "object_at hv k" using ready by (auto simp: module_ready_def)
  note up = initialize_ept_upper [OF empty]
  have reach: "rows_reachable ?hv" using ready by (intro rows_reachable_ready) (simp add: initialize_ept_view)
  have low: "\<forall>i < ?n. module_page ?hv i < 2 ^ 27"
    using ready
    by (auto simp: module_ready_def module_mapped_def module_physical_def module_page_def page_of_div
        less_mult_imp_div_less initialize_ept_view(1) same_module_initialize_ept [unfolded same_module_def])
  note pm = protect_module_result [OF up(2) reach _ low, unfolded initialize_ept_view, OF refl]
  show ?thesis
  proof (cases "card (module_regions hv ?n) < 1024")
    case False
    then show ?thesis using pm by simp
  next
    case True
    then obtain hv1 \<rho> where hv1: "protect_module ?hv = Some (hv1, success)"
      and inv: "ept_inv ?hv \<rho> (module_regions hv ?n) (module_page hv ` {..<?n}) hv1"
      using pm by auto
    have "\<forall>i < 257. unprotected_page ?hv i div 512 \<in> module_regions hv ?n"
      using unprotected_page_module [OF k] by (auto simp: initialize_ept_view module_regions_def)
    from unprotect_result [OF inv reach this] obtain hv2 where hv2: "unprotect_guest_memory hv1 = Some hv2"
      and inv2: "ept_inv ?hv \<rho> (module_regions hv ?n) (hidden_pages hv) hv2"
      by (auto simp: initialize_ept_view hidden_pages_def)
    have "guest_view hv hv2"
      unfolding guest_view_def
    proof (intro allI impI)
      fix pmem eptp k a
      assume mem: "ept_in_memory pmem hv2" and eptp: "bits 12 40 eptp = host_frame hv (epml4_address (hv_this hv))"
        and a: "unat (a :: u64) < 2 ^ 48"
      have "bits 12 40 eptp = host_frame ?hv (epml4_address (hv_this ?hv))"
        using eptp by (simp add: initialize_ept_view)
      from ept_walk_inv [OF inv2 up(2,1) mem this a, of k]
      show "ept_walk pmem eptp k a =
          (if unat a < 2 ^ 39 \<and> page_of a \<notin> hidden_pages hv then Some (a, guest_type hv a) else None)"
        by (simp add: region_type_initialized)
    qed
    with hv1 hv2 True show ?thesis by simp
  qed
qed

section \<open>From the page tables of the operating system\<close>

text \<open>\<open>os_physical\<close> is the address the operating system gives a page of the module.\<close>

definition os_physical :: "memory \<Rightarrow> hypervisor \<Rightarrow> nat \<Rightarrow> u64" where
  "os_physical mem hv i =
     os_virtual_to_physical (read_u64 mem) (hv_os_page_table hv) (page_at (hv_module_base hv) i)"

text \<open>The environment of the launch: a module of whole pages at a page boundary that contains the
  object, mapped by the operating system with 4 KB pages, each page at its own frame below
  512 GB; the host table is as constructed.\<close>

definition os_maps_module :: "memory \<Rightarrow> hypervisor \<Rightarrow> bool" where
  "os_maps_module mem hv \<longleftrightarrow>
     hv_host_page_table hv = empty_table (host_page_table_address (hv_this hv)) \<and>
     va_offset (hv_module_base hv) = 0 \<and>
     hv_module_size hv = of_nat (module_pages hv) * 0x1000 \<and> module_pages hv \<le> 2 ^ 18 \<and>
     (\<exists>k. object_at hv k) \<and>
     (\<forall>x \<in> range_of (hv_module_base hv) (module_pages hv). os_small (read_u64 mem, hv_os_page_table hv) x) \<and>
     inj_on (os_physical mem hv) {..<module_pages hv} \<and>
     (\<forall>i < module_pages hv. unat (os_physical mem hv i) < 2 ^ 39)"

lemma number_of_whole_pages:
  assumes "n \<le> 2 ^ 18"
  shows "unat (number_of_pages (of_nat n * 0x1000)) = n"
proof -
  have "unat (of_nat n * 0x1000 + (0x1000 - 1) :: u64) = n * 4096 + 4095"
    using assms by (simp add: unat_word_ariths unat_of_nat take_bit_nat_eq_self)
  then have "unat (number_of_pages (of_nat n * 0x1000)) = (n * 4096 + 4095) div 4096"
    unfolding number_of_pages_def by (simp add: unat_div_distrib)
  then show ?thesis by simp
qed

abbreviation rwx_protection :: protection where
  "rwx_protection \<equiv> protection_or (protection_or protection_read protection_write) protection_execute"

lemma host_page_table_of_module:
  assumes ok: "os_maps_module mem hv"
  defines "hv' \<equiv> initialize_host_page_table mem hv"
  defines "osv \<equiv> os_virtual_to_physical (read_u64 mem) (hv_os_page_table hv)"
  shows "hv_host_page_table hv' =
      host_table (host_page_table_address (hv_this hv)) (hv_module_base hv) (hv_module_size hv) rwx_protection osv"
    and "no_large (hv_host_page_table hv')"
    and "x \<in> range_of (hv_module_base hv) (module_pages hv) \<Longrightarrow>
      virtual_to_physical (hv_host_page_table hv') x = osv x"
    and "pt_this (hv_host_page_table hv') = host_page_table_address (hv_this hv)"
proof -
  let ?n = "module_pages hv" and ?base = "hv_module_base hv" and ?pt = "host_page_table_address (hv_this hv)"
  let ?p = "(read_u64 mem, hv_os_page_table hv)"
  obtain k where k: "object_at hv k" using ok by (auto simp: os_maps_module_def)
  have n: "?n = unat (number_of_pages (hv_module_size hv))" "?n \<le> 2 ^ 18"
    using ok number_of_whole_pages [of ?n] unfolding os_maps_module_def by metis+
  have small: "\<forall>x \<in> range_of ?base ?n. os_small ?p x" using ok by (simp add: os_maps_module_def)
  have "?pt = page_at ?base (k + 0x802)"
    using object_page(1) [OF k, of "0x802"] by (simp add: member_pages object_pages_def)
  moreover have "k + 0x802 + 1028 \<le> ?n" using k by (simp add: object_at_def object_pages_def)
  ultimately have sub: "range_of ?pt 1028 \<subseteq> range_of ?base ?n"
    using range_of_shift by simp
  show eq: "hv_host_page_table hv' = host_table ?pt ?base (hv_module_size hv) rwx_protection osv"
    using ok by (simp add: hv'_def initialize_host_page_table_def Let_def host_table_def os_maps_module_def osv_def)
  note ht = os.host_table_from [OF n small sub, where prot = rwx_protection, unfolded split_conv, folded osv_def]
  show "no_large (hv_host_page_table hv')" using ht(1) by (simp add: eq host_ok_def)
  show "pt_this (hv_host_page_table hv') = ?pt" using ht(2) by (simp add: eq)
  show "virtual_to_physical (hv_host_page_table hv') x = osv x" if "x \<in> range_of ?base ?n"
    using os.host_table_translates [OF n small sub that, where prot = rwx_protection, unfolded split_conv, folded osv_def]
    by (simp add: eq)
qed

lemma initialize_host_page_table_fields:
  "hv_this (initialize_host_page_table mem hv) = hv_this hv"
  "hv_module_base (initialize_host_page_table mem hv) = hv_module_base hv"
  "hv_module_size (initialize_host_page_table mem hv) = hv_module_size hv"
  "module_pages (initialize_host_page_table mem hv) = module_pages hv"
  "hv_module_physical_to_virtual (initialize_host_page_table mem hv) = hv_module_physical_to_virtual hv"
  "hv_epml4 (initialize_host_page_table mem hv) = hv_epml4 hv"
  "object_at (initialize_host_page_table mem hv) k = object_at hv k"
  by (simp_all add: initialize_host_page_table_def Let_def module_pages_def object_at_def)

lemma module_mapped_host:
  assumes ok: "os_maps_module mem hv"
  defines "hv' \<equiv> initialize_host_page_table mem hv"
  shows "module_mapped hv'" and "i < module_pages hv \<Longrightarrow> module_physical hv' i = os_physical mem hv i"
proof -
  note f = initialize_host_page_table_fields [of mem hv, folded hv'_def]
  note t = host_page_table_of_module [OF ok, folded hv'_def]
  show phys: "module_physical hv' i = os_physical mem hv i" if "i < module_pages hv" for i
    using t(3) [OF page_at_in_range [OF that]] f by (simp add: module_physical_def os_physical_def)
  have "inj_on (module_physical hv') {..<module_pages hv} \<longleftrightarrow> inj_on (os_physical mem hv) {..<module_pages hv}"
    using phys by (intro inj_on_cong) simp
  then show "module_mapped hv'"
    using ok t(2) phys f unfolding module_mapped_def os_maps_module_def by simp
qed

end
