(* ===== verification/Segment_Descriptor.thy ===== *)
theory Segment_Descriptor
  imports Memory
begin

text \<open>
  The class \<open>segment_descriptor\<close> of \<^verbatim>\<open>include/zpp/x64/segment_descriptor.h\<close>: the 8 bytes of a
  descriptor and the 8 bytes that extend it when it is a system descriptor.  The limit and the
  base are scattered over several fields; the accessors of the parts are private in the class.
\<close>

record segment_descriptor =
  sd_entry :: u64
  sd_extended :: u64

definition empty_descriptor :: segment_descriptor where
  "empty_descriptor = \<lparr>sd_entry = 0, sd_extended = 0\<rparr>"

text \<open>The contract of an accessor pair that works on one of the two words.\<close>

locale member_field =
  fixes get :: "'s \<Rightarrow> u64" and put :: "u64 \<Rightarrow> 's \<Rightarrow> 's" and word other :: "'s \<Rightarrow> u64" and off n :: nat
  assumes member_get: "get s = bits off n (word s)"
    and member_put: "word (put v s) = put_bits off n v (word s)"
    and member_other: "other (put v s) = other s"
    and member_fits: "off + n \<le> 64"
begin

lemma member_get_put: "get (put v s) = take_bit n v"
  by (simp add: member_get member_put bits_put_bits_same member_fits)

lemma member_disjoint:
  "off' + n' \<le> off \<or> off + n \<le> off' \<Longrightarrow> bits off' n' (word (put v s)) = bits off' n' (word s)"
  by (simp add: member_put bits_put_bits_disjoint)

end

section \<open>Parts of the limit and of the base\<close>

definition sd_limit_low :: "segment_descriptor \<Rightarrow> u64" where
  "sd_limit_low d = sd_entry d AND 0xffff"

definition sd_set_limit_low :: "u64 \<Rightarrow> segment_descriptor \<Rightarrow> segment_descriptor" where
  "sd_set_limit_low v d = d\<lparr>sd_entry := (sd_entry d AND NOT (0xffff)) OR (v AND 0xffff)\<rparr>"

interpretation sd_limit_low: member_field sd_limit_low sd_set_limit_low sd_entry sd_extended 0 16
  by unfold_locales (simp_all add: sd_limit_low_def sd_set_limit_low_def field_eval)

definition sd_limit_high :: "segment_descriptor \<Rightarrow> u64" where
  "sd_limit_high d = drop_bit 48 (sd_entry d) AND 0xf"

definition sd_set_limit_high :: "u64 \<Rightarrow> segment_descriptor \<Rightarrow> segment_descriptor" where
  "sd_set_limit_high v d = d\<lparr>sd_entry := (sd_entry d AND NOT (push_bit 48 0xf)) OR push_bit 48 (v AND 0xf)\<rparr>"

interpretation sd_limit_high: member_field sd_limit_high sd_set_limit_high sd_entry sd_extended 48 4
  by unfold_locales (simp_all add: sd_limit_high_def sd_set_limit_high_def field_eval)

definition sd_base_low :: "segment_descriptor \<Rightarrow> u64" where
  "sd_base_low d = drop_bit 16 (sd_entry d) AND 0xffff"

definition sd_set_base_low :: "u64 \<Rightarrow> segment_descriptor \<Rightarrow> segment_descriptor" where
  "sd_set_base_low v d = d\<lparr>sd_entry := (sd_entry d AND NOT (push_bit 16 0xffff)) OR push_bit 16 (v AND 0xffff)\<rparr>"

interpretation sd_base_low: member_field sd_base_low sd_set_base_low sd_entry sd_extended 16 16
  by unfold_locales (simp_all add: sd_base_low_def sd_set_base_low_def field_eval)

definition sd_base_middle :: "segment_descriptor \<Rightarrow> u64" where
  "sd_base_middle d = drop_bit 32 (sd_entry d) AND 0xff"

definition sd_set_base_middle :: "u64 \<Rightarrow> segment_descriptor \<Rightarrow> segment_descriptor" where
  "sd_set_base_middle v d = d\<lparr>sd_entry := (sd_entry d AND NOT (push_bit 32 0xff)) OR push_bit 32 (v AND 0xff)\<rparr>"

interpretation sd_base_middle: member_field sd_base_middle sd_set_base_middle sd_entry sd_extended 32 8
  by unfold_locales (simp_all add: sd_base_middle_def sd_set_base_middle_def field_eval)

definition sd_base_high :: "segment_descriptor \<Rightarrow> u64" where
  "sd_base_high d = drop_bit 56 (sd_entry d) AND 0xff"

definition sd_set_base_high :: "u64 \<Rightarrow> segment_descriptor \<Rightarrow> segment_descriptor" where
  "sd_set_base_high v d = d\<lparr>sd_entry := (sd_entry d AND NOT (push_bit 56 0xff)) OR push_bit 56 (v AND 0xff)\<rparr>"

interpretation sd_base_high: member_field sd_base_high sd_set_base_high sd_entry sd_extended 56 8
  by unfold_locales (simp_all add: sd_base_high_def sd_set_base_high_def field_eval)

definition sd_base_upper :: "segment_descriptor \<Rightarrow> u64" where
  "sd_base_upper d = sd_extended d AND 0xffffffff"

definition sd_set_base_upper :: "u64 \<Rightarrow> segment_descriptor \<Rightarrow> segment_descriptor" where
  "sd_set_base_upper v d = d\<lparr>sd_extended := (sd_extended d AND NOT (0xffffffff)) OR (v AND 0xffffffff)\<rparr>"

interpretation sd_base_upper: member_field sd_base_upper sd_set_base_upper sd_extended sd_entry 0 32
  by unfold_locales (simp_all add: sd_base_upper_def sd_set_base_upper_def field_eval)

section \<open>Limit and base\<close>

definition sd_limit :: "segment_descriptor \<Rightarrow> u64" where
  "sd_limit d = sd_limit_low d OR push_bit 16 (sd_limit_high d)"

definition sd_set_limit :: "u64 \<Rightarrow> segment_descriptor \<Rightarrow> segment_descriptor" where
  "sd_set_limit v d = sd_set_limit_high (drop_bit 16 v AND 0xf) (sd_set_limit_low (v AND 0xffff) d)"

definition sd_base :: "segment_descriptor \<Rightarrow> u64" where
  "sd_base d = sd_base_low d OR push_bit 16 (sd_base_middle d) OR push_bit 24 (sd_base_high d)"

definition sd_set_base :: "u64 \<Rightarrow> segment_descriptor \<Rightarrow> segment_descriptor" where
  "sd_set_base v d =
     sd_set_base_high (drop_bit 24 v AND 0xff)
       (sd_set_base_middle (drop_bit 16 v AND 0xff) (sd_set_base_low (v AND 0xffff) d))"

definition sd_base_extended :: "segment_descriptor \<Rightarrow> u64" where
  "sd_base_extended d = sd_base d OR push_bit 32 (sd_base_upper d)"

definition sd_set_base_extended :: "u64 \<Rightarrow> segment_descriptor \<Rightarrow> segment_descriptor" where
  "sd_set_base_extended v d =
     sd_set_base_upper (drop_bit 32 v AND 0xffffffff) (sd_set_base (v AND 0xffffffff) d)"

section \<open>Attributes\<close>

text \<open>The enumeration \<open>segment_type\<close>; two pairs of enumerators share a value.\<close>

type_synonym segment_type = u32

definition tss_available :: segment_type where "tss_available = 9"
definition code_execute_read :: segment_type where "code_execute_read = 10"

definition sd_type :: "segment_descriptor \<Rightarrow> segment_type" where
  "sd_type d = ucast (drop_bit 40 (sd_entry d) AND 0xf)"

definition sd_set_type :: "segment_type \<Rightarrow> segment_descriptor \<Rightarrow> segment_descriptor" where
  "sd_set_type v d = d\<lparr>sd_entry := (sd_entry d AND NOT (push_bit 40 0xf)) OR push_bit 40 (scast v AND 0xf)\<rparr>"

text \<open>The stored bit is the opposite of the attribute.\<close>

definition sd_system :: "segment_descriptor \<Rightarrow> bool" where
  "sd_system d \<longleftrightarrow> \<not> (drop_bit 44 (sd_entry d) AND 1 \<noteq> 0)"

definition sd_set_system :: "bool \<Rightarrow> segment_descriptor \<Rightarrow> segment_descriptor" where
  "sd_set_system v d = d\<lparr>sd_entry := (sd_entry d AND NOT (push_bit 44 1)) OR push_bit 44 (of_bool (\<not> v))\<rparr>"

definition sd_privilege_level :: "segment_descriptor \<Rightarrow> u64" where
  "sd_privilege_level d = drop_bit 45 (sd_entry d) AND 0x3"

definition sd_set_privilege_level :: "u64 \<Rightarrow> segment_descriptor \<Rightarrow> segment_descriptor" where
  "sd_set_privilege_level v d = d\<lparr>sd_entry := (sd_entry d AND NOT (push_bit 45 0x3)) OR push_bit 45 (v AND 0x3)\<rparr>"

interpretation sd_privilege_level: member_field sd_privilege_level sd_set_privilege_level sd_entry sd_extended 45 2
  by unfold_locales (simp_all add: sd_privilege_level_def sd_set_privilege_level_def field_eval)

definition sd_present :: "segment_descriptor \<Rightarrow> bool" where
  "sd_present d \<longleftrightarrow> drop_bit 47 (sd_entry d) AND 1 \<noteq> 0"

definition sd_set_present :: "bool \<Rightarrow> segment_descriptor \<Rightarrow> segment_descriptor" where
  "sd_set_present v d = d\<lparr>sd_entry := (sd_entry d AND NOT (push_bit 47 1)) OR push_bit 47 (of_bool v)\<rparr>"

definition sd_available_for_system_use :: "segment_descriptor \<Rightarrow> bool" where
  "sd_available_for_system_use d \<longleftrightarrow> drop_bit 52 (sd_entry d) AND 1 \<noteq> 0"

definition sd_set_available_for_system_use :: "bool \<Rightarrow> segment_descriptor \<Rightarrow> segment_descriptor" where
  "sd_set_available_for_system_use v d = d\<lparr>sd_entry := (sd_entry d AND NOT (push_bit 52 1)) OR push_bit 52 (of_bool v)\<rparr>"

definition sd_code_64_bit :: "segment_descriptor \<Rightarrow> bool" where
  "sd_code_64_bit d \<longleftrightarrow> drop_bit 53 (sd_entry d) AND 1 \<noteq> 0"

definition sd_set_code_64_bit :: "bool \<Rightarrow> segment_descriptor \<Rightarrow> segment_descriptor" where
  "sd_set_code_64_bit v d = d\<lparr>sd_entry := (sd_entry d AND NOT (push_bit 53 1)) OR push_bit 53 (of_bool v)\<rparr>"

definition sd_default_operation_size :: "segment_descriptor \<Rightarrow> bool" where
  "sd_default_operation_size d \<longleftrightarrow> drop_bit 54 (sd_entry d) AND 1 \<noteq> 0"

definition sd_set_default_operation_size :: "bool \<Rightarrow> segment_descriptor \<Rightarrow> segment_descriptor" where
  "sd_set_default_operation_size v d = d\<lparr>sd_entry := (sd_entry d AND NOT (push_bit 54 1)) OR push_bit 54 (of_bool v)\<rparr>"

definition sd_granularity :: "segment_descriptor \<Rightarrow> bool" where
  "sd_granularity d \<longleftrightarrow> drop_bit 55 (sd_entry d) AND 1 \<noteq> 0"

definition sd_set_granularity :: "bool \<Rightarrow> segment_descriptor \<Rightarrow> segment_descriptor" where
  "sd_set_granularity v d = d\<lparr>sd_entry := (sd_entry d AND NOT (push_bit 55 1)) OR push_bit 55 (of_bool v)\<rparr>"

section \<open>The remaining operations\<close>

definition sd_context_dependent_base :: "segment_descriptor \<Rightarrow> u64" where
  "sd_context_dependent_base d = (if sd_system d then sd_base_extended d else sd_base d)"

definition sd_vmx_access_rights :: "segment_descriptor \<Rightarrow> u32" where
  "sd_vmx_access_rights d = ucast ((drop_bit 40 (sd_entry d) AND 0xffff) OR push_bit 16 (of_bool (\<not> sd_present d)))"

definition sd_basic_value :: "segment_descriptor \<Rightarrow> u64" where
  "sd_basic_value d = sd_entry d"

definition sd_extended_value :: "segment_descriptor \<Rightarrow> u64" where
  "sd_extended_value d = sd_extended d"

text \<open>\<open>selector & ~0x3\<close> clears the requested privilege level and keeps the table indicator.\<close>

definition from_memory :: "memory \<Rightarrow> u64 \<Rightarrow> u16 \<Rightarrow> segment_descriptor" where
  "from_memory mem base selector =
     (if selector = 0 then empty_descriptor
      else
        (let address = base + (ucast selector AND NOT 0x3);
             d = empty_descriptor\<lparr>sd_entry := read_u64 mem address\<rparr>
         in if selector = 0x1fff then d else d\<lparr>sd_extended := read_u64 mem (address + 8)\<rparr>))"

section \<open>Attributes as bits\<close>

lemma drop_bit_flag: "drop_bit n (w :: u64) AND 1 \<noteq> 0 \<longleftrightarrow> bit w n"
  by (simp add: and_one_eq odd_iff_mod_2_eq_one [symmetric] bit_iff_odd_drop_bit)

lemma flag_word: "(w AND NOT (push_bit off 1)) OR push_bit off (of_bool b) = put_bits off 1 (of_bool b) (w :: u64)"
  by (rule bit_eqI) (auto simp: bit_put_bits bit_simps dest: u64_bit_bound)

lemma type_word: "(w AND NOT (push_bit 40 0xf)) OR push_bit 40 (scast v AND 0xf) = put_bits 40 4 (ucast (v :: u32)) (w :: u64)"
proof (rule bit_eqI)
  fix i :: nat
  have mask: "(0xf :: u64) = mask 4" by (simp add: mask_eq_exp_minus_1)
  show "bit ((w AND NOT (push_bit 40 0xf)) OR push_bit 40 (scast v AND 0xf)) i \<longleftrightarrow> bit (put_bits 40 4 (ucast v) w) i"
    unfolding mask by (auto simp: bit_put_bits bit_simps dest: u64_bit_bound)
qed

lemmas sd_flag_defs = sd_present_def sd_available_for_system_use_def sd_code_64_bit_def
  sd_default_operation_size_def sd_granularity_def sd_system_def drop_bit_flag

lemmas sd_set_words = sd_set_present_def sd_set_available_for_system_use_def sd_set_code_64_bit_def
  sd_set_default_operation_size_def sd_set_granularity_def sd_set_system_def sd_set_type_def flag_word type_word

text \<open>The setters as writes of bit fields, with the word each of them leaves alone.\<close>

lemma sd_setters:
  "sd_entry (sd_set_present b d) = put_bits 47 1 (of_bool b) (sd_entry d)"
  "sd_entry (sd_set_available_for_system_use b d) = put_bits 52 1 (of_bool b) (sd_entry d)"
  "sd_entry (sd_set_code_64_bit b d) = put_bits 53 1 (of_bool b) (sd_entry d)"
  "sd_entry (sd_set_default_operation_size b d) = put_bits 54 1 (of_bool b) (sd_entry d)"
  "sd_entry (sd_set_granularity b d) = put_bits 55 1 (of_bool b) (sd_entry d)"
  "sd_entry (sd_set_system b d) = put_bits 44 1 (of_bool (\<not> b)) (sd_entry d)"
  "sd_entry (sd_set_type ty d) = put_bits 40 4 (ucast ty) (sd_entry d)"
  "sd_entry (sd_set_privilege_level v d) = put_bits 45 2 v (sd_entry d)"
  "sd_extended (sd_set_present b d) = sd_extended d" "sd_extended (sd_set_available_for_system_use b d) = sd_extended d"
  "sd_extended (sd_set_code_64_bit b d) = sd_extended d" "sd_extended (sd_set_default_operation_size b d) = sd_extended d"
  "sd_extended (sd_set_granularity b d) = sd_extended d" "sd_extended (sd_set_system b d) = sd_extended d"
  "sd_extended (sd_set_type ty d) = sd_extended d" "sd_extended (sd_set_privilege_level v d) = sd_extended d"
  unfolding sd_set_words by (simp_all add: flag_word type_word sd_privilege_level.member_put sd_privilege_level.member_other)

section \<open>Scattered fields\<close>

lemmas sd_part_gets = sd_limit_low.member_get sd_limit_high.member_get sd_base_low.member_get
  sd_base_middle.member_get sd_base_high.member_get sd_base_upper.member_get

lemmas sd_part_puts = sd_limit_low.member_put sd_limit_high.member_put sd_base_low.member_put
  sd_base_middle.member_put sd_base_high.member_put sd_base_upper.member_put
  sd_limit_low.member_other sd_limit_high.member_other sd_base_low.member_other
  sd_base_middle.member_other sd_base_high.member_other sd_base_upper.member_other

lemma part_masks:
  "(0xffff :: u64) = mask 16" "(0xff :: u64) = mask 8" "(0xf :: u64) = mask 4" "(0xffffffff :: u64) = mask 32"
  by (simp_all add: mask_eq_exp_minus_1)

lemma sd_entry_set_limit:
  "bit (sd_entry (sd_set_limit v d)) i \<longleftrightarrow>
     (if i < 16 then bit v i else if 48 \<le> i \<and> i < 52 then bit v (i - 32) else bit (sd_entry d) i)"
  unfolding sd_set_limit_def sd_part_puts part_masks
  by (auto simp: bit_put_bits bit_simps dest: u64_bit_bound)

lemma sd_entry_set_base:
  "bit (sd_entry (sd_set_base v d)) i \<longleftrightarrow>
     (if 16 \<le> i \<and> i < 40 then bit v (i - 16) else if 56 \<le> i \<and> i < 64 then bit v (i - 32) else bit (sd_entry d) i)"
  unfolding sd_set_base_def sd_part_puts part_masks
  by (auto simp: bit_put_bits bit_simps dest: u64_bit_bound)

lemma sd_extended_set:
  "sd_extended (sd_set_limit v d) = sd_extended d" "sd_extended (sd_set_base v d) = sd_extended d"
  "sd_extended (sd_set_base_extended v d) = put_bits 0 32 (drop_bit 32 v AND 0xffffffff) (sd_extended d)"
  "sd_entry (sd_set_base_extended v d) = sd_entry (sd_set_base (v AND 0xffffffff) d)"
  by (simp_all add: sd_set_limit_def sd_set_base_def sd_set_base_extended_def sd_part_puts)

lemma bit_sd_limit: "bit (sd_limit d) i \<longleftrightarrow> (i < 16 \<and> bit (sd_entry d) i) \<or> (16 \<le> i \<and> i < 20 \<and> bit (sd_entry d) (i + 32))"
  by (auto simp: sd_limit_def sd_part_gets bit_simps bit_bits algebra_simps)

lemma bit_sd_base:
  "bit (sd_base d) i \<longleftrightarrow> (i < 24 \<and> bit (sd_entry d) (i + 16)) \<or> (24 \<le> i \<and> i < 32 \<and> bit (sd_entry d) (i + 32))"
  by (auto simp: sd_base_def sd_part_gets bit_simps bit_bits algebra_simps)

lemma bit_sd_base_extended:
  "bit (sd_base_extended d) i \<longleftrightarrow> (if i < 32 then bit (sd_base d) i else i < 64 \<and> bit (sd_extended d) (i - 32))"
  by (auto simp: sd_base_extended_def sd_part_gets bit_simps bit_bits bit_sd_base)

text \<open>Reading back what was stored.\<close>

lemma sd_limit_set [simp]: "sd_limit (sd_set_limit v d) = take_bit 20 v"
  by (rule bit_eqI) (auto simp: bit_sd_limit sd_entry_set_limit bit_take_bit_iff)

lemma sd_base_set [simp]: "sd_base (sd_set_base v d) = take_bit 32 v"
  by (rule bit_eqI) (auto simp: bit_sd_base sd_entry_set_base bit_take_bit_iff)

lemma sd_base_extended_set [simp]: "sd_base_extended (sd_set_base_extended v d) = v"
proof (rule bit_eqI)
  fix i
  show "bit (sd_base_extended (sd_set_base_extended v d)) i \<longleftrightarrow> bit v i"
    unfolding bit_sd_base_extended bit_sd_base sd_extended_set sd_entry_set_base part_masks
    by (auto simp: bit_put_bits bit_simps dest: u64_bit_bound)
qed

text \<open>Neither setter disturbs the other field.\<close>

lemma sd_limit_set_base [simp]: "sd_limit (sd_set_base_extended v d) = sd_limit d"
  by (rule bit_eqI) (auto simp: bit_sd_limit sd_extended_set sd_entry_set_base)

lemma sd_base_set_limit [simp]: "sd_base_extended (sd_set_limit v d) = sd_base_extended d" "sd_base (sd_set_limit v d) = sd_base d"
  by (rule bit_eqI; auto simp: bit_sd_base_extended bit_sd_base sd_extended_set sd_entry_set_limit)+

section \<open>Properties\<close>

text \<open>The limit and the base, which a descriptor stores in scattered parts, round trip: the limit
  keeps its low 20 bits, the base of a system descriptor all 64, and setting one leaves the other
  alone.  The access rights for the control structure are the bits 40 to 55 of the descriptor with the
  unusable flag above, so they contain the upper four bits of the limit at the reserved positions
  8 to 11.\<close>

theorem descriptor_fields_round_trip:
  "sd_limit (sd_set_limit v d) = take_bit 20 v \<and> sd_base (sd_set_base v d) = take_bit 32 v \<and>
   sd_base_extended (sd_set_base_extended v d) = v \<and>
   sd_limit (sd_set_base_extended v d) = sd_limit d \<and> sd_base_extended (sd_set_limit v d) = sd_base_extended d \<and>
   (bit (sd_vmx_access_rights d) i \<longleftrightarrow> i < 16 \<and> bit (sd_entry d) (40 + i) \<or> i = 16 \<and> \<not> sd_present d) \<and>
   drop_bit 16 (sd_limit d) = take_bit 4 (drop_bit 8 (ucast (sd_vmx_access_rights d)))"
proof -
  have m: "(0xffff :: u64) = mask 16" by (simp add: mask_eq_exp_minus_1)
  have rights: "bit (sd_vmx_access_rights d) i \<longleftrightarrow> i < 16 \<and> bit (sd_entry d) (40 + i) \<or> i = 16 \<and> \<not> sd_present d" for i
    unfolding sd_vmx_access_rights_def m by (auto simp: bit_simps dest: u64_bit_bound)
  have "drop_bit 16 (sd_limit d) = take_bit 4 (drop_bit 8 (ucast (sd_vmx_access_rights d)))"
    by (rule bit_eqI) (auto simp: bit_sd_limit rights bit_simps)
  then show ?thesis using rights by simp
qed

end
