(* ===== verification/Gdt_Setup.thy ===== *)
theory Gdt_Setup
  imports Hypervisor_State Segment_Descriptor
begin

text \<open>
  The descriptor tables of \<^verbatim>\<open>src/hypervisor/hypervisor.cpp\<close>: \<open>initialize_host_gdt\<close>,
  \<open>initialize_host_idt\<close>, \<open>initialize_intermediate_gdt\<close>, \<open>load_intermediate_gdt\<close> and
  \<open>load_os_gdt\<close>.
\<close>

section \<open>Descriptors the hypervisor makes\<close>

definition code_segment :: segment_descriptor where
  "code_segment =
     sd_set_granularity True (sd_set_default_operation_size False (sd_set_code_64_bit True
       (sd_set_available_for_system_use False (sd_set_present True (sd_set_privilege_level 0
         (sd_set_system False (sd_set_type code_execute_read
           (sd_set_base 0 (sd_set_limit 0xfffff empty_descriptor)))))))))"

definition task_state_segment :: "u64 \<Rightarrow> segment_descriptor" where
  "task_state_segment base =
     sd_set_granularity False (sd_set_default_operation_size False (sd_set_code_64_bit False
       (sd_set_available_for_system_use False (sd_set_present True (sd_set_privilege_level 0
         (sd_set_system True (sd_set_type tss_available
           (sd_set_base_extended base (sd_set_limit (104 - 1) empty_descriptor)))))))))"

section \<open>The host tables\<close>

definition initialize_host_gdt :: "hypervisor \<Rightarrow> hypervisor" where
  "initialize_host_gdt hv =
     (let cs_index = 1; tr_index = 2;
          hv = hv\<lparr>hv_host_gdt := (hv_host_gdt hv)(cs_index := sd_basic_value code_segment),
                  hv_host_cs := push_bit 3 1\<rparr>;
          tss = task_state_segment (host_tss_address (hv_this hv))
      in hv\<lparr>hv_host_gdt := (hv_host_gdt hv)(tr_index := sd_basic_value tss, tr_index + 1 := sd_extended_value tss),
            hv_host_tr := push_bit 3 2\<rparr>)"

definition initialize_host_idt :: "hypervisor \<Rightarrow> hypervisor" where
  "initialize_host_idt hv = hv"

section \<open>The intermediate table\<close>

text \<open>The memory as the code reads it: the intermediate tables of the object, the rest of the
  memory \<open>mem\<close> elsewhere.\<close>

definition gdt_memory :: "memory \<Rightarrow> hypervisor \<Rightarrow> memory" where
  "gdt_memory mem hv = (\<lambda>a.
     let d = unat (a - intermediate_gdt_address (hv_this hv) 0)
     in if d < 0x100000 then hv_intermediate_gdt hv (d div 0x10000) (d mod 0x10000) else mem a)"

text \<open>\<open>intermediate_gdt[index] = v\<close> for the row of the current processor: out of range above
  \<open>0x1fff\<close>.\<close>

definition set_gdt_entry :: "nat \<Rightarrow> nat \<Rightarrow> u64 \<Rightarrow> hypervisor \<Rightarrow> hypervisor option" where
  "set_gdt_entry row index v hv =
     (if index < 0x2000
      then Some (hv\<lparr>hv_intermediate_gdt := (hv_intermediate_gdt hv)(row := (\<lambda>j.
             if 8 * index \<le> j \<and> j < 8 * index + 8 then byte_of v (j - 8 * index) else hv_intermediate_gdt hv row j))\<rparr>)
      else None)"

definition copy_os_gdt :: "memory \<Rightarrow> nat \<Rightarrow> hypervisor \<Rightarrow> hypervisor" where
  "copy_os_gdt mem row hv =
     hv\<lparr>hv_intermediate_gdt := (hv_intermediate_gdt hv)(row := (\<lambda>j.
          if j < unat (tr_limit (hv_gdtr hv)) + 1 then mem (tr_base (hv_gdtr hv) + of_nat j)
          else hv_intermediate_gdt hv row j))\<rparr>"

definition initialize_intermediate_gdt :: "memory \<Rightarrow> hypervisor \<Rightarrow> hypervisor option" where
  "initialize_intermediate_gdt mem hv =
     (let row = hv_next_virtual_processor hv - 1
      in if max_cpus \<le> row then None
         else
           (let hv = copy_os_gdt mem row hv;
                base = intermediate_gdt_address (hv_this hv) row;
                limit = (ucast (tr_limit (hv_gdtr hv)) :: u64)
            in if sd_present (from_memory (gdt_memory mem hv) base (hv_os_tr hv))
               then Some (hv\<lparr>hv_guest_gdt_pointer := tr_base (hv_gdtr hv), hv_guest_gdt_limit := limit,
                             hv_intermediate_gdt_limit := limit, hv_guest_tr := hv_os_tr hv\<rparr>)
               else
                 (let new_limit = limit + 2 * 8;
                      hv = hv\<lparr>hv_guest_gdt_pointer := base, hv_intermediate_gdt_limit := new_limit,
                             hv_guest_gdt_limit := new_limit\<rparr>;
                      tr_index = (unat (tr_limit (hv_gdtr hv)) + 1) div 8;
                      tss = task_state_segment (guest_tss_address (hv_this hv) row)
                  in do {
                    hv \<leftarrow> set_gdt_entry row tr_index (sd_basic_value tss) hv;
                    hv \<leftarrow> set_gdt_entry row (tr_index + 1) (sd_extended_value tss) hv;
                    Some (hv\<lparr>hv_guest_tr := of_nat (tr_index * 8)\<rparr>)
                  })))"

definition load_intermediate_gdt :: "hypervisor \<Rightarrow> cpu \<Rightarrow> cpu" where
  "load_intermediate_gdt hv c =
     (let c = lgdt \<lparr>tr_base = intermediate_gdt_address (hv_this hv) (hv_next_virtual_processor hv - 1),
                    tr_limit = ucast (hv_intermediate_gdt_limit hv)\<rparr> c
      in if hv_guest_tr hv \<noteq> hv_os_tr hv then ltr (hv_guest_tr hv) c else c)"

definition load_os_gdt :: "hypervisor \<Rightarrow> cpu \<Rightarrow> cpu" where
  "load_os_gdt hv c =
     (let c = lgdt (hv_gdtr hv) c
      in if hv_guest_tr hv \<noteq> hv_os_tr hv then ltr (hv_os_tr hv) c else c)"

section \<open>The descriptors decode to what was asked for\<close>

lemmas sd_evals = sd_setters sd_extended_set sd_set_limit_def sd_set_base_def sd_set_base_extended_def
  sd_part_puts empty_descriptor_def

lemma code_segment_value: "sd_entry code_segment = 0x00af9a000000ffff" "sd_extended code_segment = 0"
  unfolding code_segment_def sd_evals
  by (simp_all add: put_bits_def code_execute_read_def take_bit_eq_mask mask_eq_exp_minus_1)

text \<open>A descriptor keeps its limit and base when only attributes are written.\<close>

lemma bits_outside_attributes:
  assumes "\<And>i. i < 40 \<or> 48 \<le> i \<and> i < 52 \<or> 56 \<le> i \<Longrightarrow> bit (sd_entry d') i = bit (sd_entry d) i"
    and "sd_extended d' = sd_extended d"
  shows "sd_limit d' = sd_limit d" "sd_base_extended d' = sd_base_extended d"
  using assms by (auto simp: bit_eq_iff bit_sd_limit bit_sd_base_extended bit_sd_base)

lemma task_state_segment_fields:
  "sd_limit (task_state_segment base) = 103" "sd_base_extended (task_state_segment base) = base"
  "sd_present (task_state_segment base)" "sd_system (task_state_segment base)"
  "sd_type (task_state_segment base) = tss_available"
proof -
  let ?d = "sd_set_base_extended base (sd_set_limit (104 - 1) empty_descriptor)"
  have e: "bit (sd_entry (task_state_segment base)) i = bit (sd_entry ?d) i"
    if "i < 40 \<or> 48 \<le> i \<and> i < 52 \<or> 56 \<le> i" for i
  proof (cases "i < 64")
    case True
    from that show ?thesis
      unfolding task_state_segment_def sd_setters by (elim disjE conjE) (simp_all add: bit_put_bits True)
  next
    case False
    then show ?thesis using u64_bit_bound by blast
  qed
  have x: "sd_extended (task_state_segment base) = sd_extended ?d"
    unfolding task_state_segment_def sd_setters by simp
  have same: "sd_limit (task_state_segment base) = sd_limit ?d" "sd_base_extended (task_state_segment base) = sd_base_extended ?d"
    by (rule bits_outside_attributes; use e x in blast)+
  have "take_bit 20 (103 :: u64) = 103" by (simp add: take_bit_eq_mask mask_eq_exp_minus_1)
  then show "sd_limit (task_state_segment base) = 103" "sd_base_extended (task_state_segment base) = base"
    unfolding same by simp_all
  show "sd_present (task_state_segment base)" "sd_system (task_state_segment base)"
    unfolding task_state_segment_def sd_flag_defs sd_setters by (simp_all add: bit_put_bits)
  have "bits 40 4 (sd_entry (task_state_segment base)) = take_bit 4 (ucast tss_available)"
    unfolding task_state_segment_def sd_setters
    by (simp add: bits_put_bits_disjoint bits_put_bits_same)
  then show "sd_type (task_state_segment base) = tss_available"
    unfolding sd_type_def by (simp add: bits_def tss_available_def take_bit_eq_mask mask_eq_exp_minus_1)
qed

section \<open>Reading a descriptor of the intermediate table\<close>

lemma gdt_memory_row:
  assumes "row < max_cpus" and "off + j < 0x10000"
  shows "gdt_memory mem hv (intermediate_gdt_address (hv_this hv) row + of_nat off + of_nat j) =
    hv_intermediate_gdt hv row (off + j)"
proof -
  have d: "intermediate_gdt_address (hv_this hv) row + of_nat off + of_nat j - intermediate_gdt_address (hv_this hv) 0 =
      of_nat (row * 0x10000 + (off + j))"
    by (simp add: intermediate_gdt_address_def)
  have lt: "row * 0x10000 + (off + j) < 0x100000" using assms by (simp add: max_cpus_def)
  then have u: "unat (of_nat (row * 0x10000 + (off + j)) :: u64) = row * 0x10000 + (off + j)"
    by (intro unat_of_nat_u64) simp
  have "(row * 0x10000 + (off + j)) div 0x10000 = row" "(row * 0x10000 + (off + j)) mod 0x10000 = off + j"
    using assms(2) by simp_all
  with lt show ?thesis unfolding gdt_memory_def d u Let_def by (simp only: if_True)
qed

definition row_u64 :: "hypervisor \<Rightarrow> nat \<Rightarrow> nat \<Rightarrow> u64" where
  "row_u64 hv row off = read_u64 (\<lambda>a. hv_intermediate_gdt hv row (off + unat a)) 0"

lemma read_row:
  assumes "row < max_cpus" and "off + 8 \<le> 0x10000"
  shows "read_u64 (gdt_memory mem hv) (intermediate_gdt_address (hv_this hv) row + of_nat off) = row_u64 hv row off"
proof -
  have "bit (read_u64 (gdt_memory mem hv) (intermediate_gdt_address (hv_this hv) row + of_nat off)) i =
      bit (row_u64 hv row off) i" for i
  proof (cases "i < 64")
    case True
    then have "i div 8 < 8" by simp
    then have "unat (of_nat (i div 8) :: u64) = i div 8" and "off + i div 8 < 0x10000"
      using assms(2) by (simp_all add: unat_of_nat take_bit_nat_eq_self)
    then show ?thesis
      using True gdt_memory_row [OF assms(1), of off "i div 8" mem hv]
      by (simp add: read_u64_def row_u64_def bit_read_le)
  next
    case False
    then show ?thesis by (auto dest: u64_bit_bound)
  qed
  then show ?thesis by (intro bit_eqI) simp
qed

lemma row_u64_set:
  assumes "set_gdt_entry row index v hv = Some hv'"
  shows "row_u64 hv' row (8 * index) = v"
    and "off + 8 \<le> 8 * index \<or> 8 * index + 8 \<le> off \<Longrightarrow> row_u64 hv' row off = row_u64 hv row off"
proof -
  have g: "hv_intermediate_gdt hv' row j =
      (if 8 * index \<le> j \<and> j < 8 * index + 8 then byte_of v (j - 8 * index) else hv_intermediate_gdt hv row j)" for j
    using assms by (auto simp: set_gdt_entry_def split: if_splits)
  have un: "unat (of_nat (i div 8) :: u64) = i div 8" if "i < 64" for i
  proof -
    have "i div 8 < 8" using that by simp
    then show ?thesis by (simp add: unat_of_nat take_bit_nat_eq_self)
  qed
  show "row_u64 hv' row (8 * index) = v"
  proof (rule bit_eqI)
    fix i
    show "bit (row_u64 hv' row (8 * index)) i \<longleftrightarrow> bit v i"
    proof (cases "i < 64")
      case True
      then have "i div 8 < 8" by simp
      with True un show ?thesis by (simp add: row_u64_def read_u64_def bit_read_le g bit_byte_of)
    next
      case False
      then show ?thesis using u64_bit_bound by blast
    qed
  qed
  show "row_u64 hv' row off = row_u64 hv row off" if "off + 8 \<le> 8 * index \<or> 8 * index + 8 \<le> off"
  proof (rule bit_eqI)
    fix i :: nat
    have "i < 64 \<Longrightarrow> i div 8 < 8" by simp
    then show "bit (row_u64 hv' row off) i \<longleftrightarrow> bit (row_u64 hv row off) i"
      using un [of i] that by (auto simp: row_u64_def read_u64_def bit_read_le g)
  qed
qed

section \<open>The intermediate table holds a task segment\<close>

lemma set_gdt_entry_fields:
  assumes "set_gdt_entry row index v hv = Some hv'"
  shows "hv_this hv' = hv_this hv" "hv_gdtr hv' = hv_gdtr hv" "hv_os_tr hv' = hv_os_tr hv"
    "hv_guest_gdt_pointer hv' = hv_guest_gdt_pointer hv" "hv_guest_gdt_limit hv' = hv_guest_gdt_limit hv"
    "hv_intermediate_gdt_limit hv' = hv_intermediate_gdt_limit hv"
    "hv_next_virtual_processor hv' = hv_next_virtual_processor hv"
  using assms by (auto simp: set_gdt_entry_def split: if_splits)

text \<open>A selector that is a multiple of 8, neither null nor \<open>0x1fff\<close>, reads two entries.\<close>

lemma from_memory_row:
  assumes "row < max_cpus" and "0 < index" and "index + 1 < 0x2000"
  shows "from_memory (gdt_memory mem hv) (intermediate_gdt_address (hv_this hv) row) (of_nat (index * 8)) =
    \<lparr>sd_entry = row_u64 hv row (8 * index), sd_extended = row_u64 hv row (8 * (index + 1))\<rparr>"
proof -
  have u: "unat (of_nat (index * 8) :: u16) = index * 8"
  proof -
    have "index * 8 < 2 ^ 16" using assms(3) by simp
    then show ?thesis by (simp only: unat_of_nat) (simp add: take_bit_nat_eq_self)
  qed
  then have sel: "(of_nat (index * 8) :: u16) \<noteq> 0" "(of_nat (index * 8) :: u16) \<noteq> 0x1fff"
    using assms(2) by (auto simp del: of_nat_mult) presburger
  have "ucast (of_nat (index * 8) :: u16) AND NOT 0x3 = (of_nat (8 * index) :: u64)"
  proof -
    have c: "ucast (of_nat (index * 8) :: u16) = (of_nat (8 * index) :: u64)"
      using of_nat_unat [of "of_nat (index * 8) :: u16", where ?'a = u64, unfolded u] by (simp only: mult.commute)
    have p: "of_nat (8 * index) = (push_bit 3 (of_nat index) :: u64)" by (simp add: push_bit_eq_mult mult.commute)
    have mask: "(0x3 :: u64) = mask 2" by (simp add: mask_eq_exp_minus_1)
    show ?thesis
      unfolding c p mask by (rule bit_eqI) (auto simp: bit_simps)
  qed
  moreover have "intermediate_gdt_address (hv_this hv) row + of_nat (8 * (index + 1)) =
      intermediate_gdt_address (hv_this hv) row + of_nat (8 * index) + 8"
    by simp
  ultimately show ?thesis
    using sel read_row [OF assms(1), of "8 * index" mem hv] read_row [OF assms(1), of "8 * (index + 1)" mem hv] assms(3)
    by (simp only: from_memory_def Let_def empty_descriptor_def if_False) simp
qed

lemma initialize_intermediate_gdt_new_tss:
  assumes row: "row = hv_next_virtual_processor hv - 1" "row < max_cpus"
    and idx: "index = (unat (tr_limit (hv_gdtr hv)) + 1) div 8" "0 < index" "index + 1 < 0x2000"
    and absent: "\<not> sd_present (from_memory (gdt_memory mem (copy_os_gdt mem row hv))
      (intermediate_gdt_address (hv_this hv) row) (hv_os_tr hv))"
  shows "\<exists>hv'. initialize_intermediate_gdt mem hv = Some hv' \<and> hv_guest_tr hv' = of_nat (index * 8) \<and>
    hv_guest_gdt_pointer hv' = intermediate_gdt_address (hv_this hv) row \<and>
    unat (hv_guest_gdt_limit hv') = unat (tr_limit (hv_gdtr hv)) + 16 \<and>
    from_memory (gdt_memory mem hv') (hv_guest_gdt_pointer hv') (hv_guest_tr hv') =
      task_state_segment (guest_tss_address (hv_this hv) row)"
proof -
  let ?base = "intermediate_gdt_address (hv_this hv) row" and ?limit = "(ucast (tr_limit (hv_gdtr hv)) :: u64) + 2 * 8"
  let ?tss = "task_state_segment (guest_tss_address (hv_this hv) row)"
  let ?hv0 = "(copy_os_gdt mem row hv)\<lparr>hv_guest_gdt_pointer := ?base, hv_intermediate_gdt_limit := ?limit, hv_guest_gdt_limit := ?limit\<rparr>"
  have f0: "hv_this ?hv0 = hv_this hv" "hv_gdtr ?hv0 = hv_gdtr hv" "hv_os_tr ?hv0 = hv_os_tr hv"
    by (simp_all add: copy_os_gdt_def)
  obtain hv1 where hv1: "set_gdt_entry row index (sd_basic_value ?tss) ?hv0 = Some hv1"
    using idx(3) by (simp add: set_gdt_entry_def)
  obtain hv2 where hv2: "set_gdt_entry row (index + 1) (sd_extended_value ?tss) hv1 = Some hv2"
    using idx(3) by (simp add: set_gdt_entry_def)
  note f1 = set_gdt_entry_fields [OF hv1] and f2 = set_gdt_entry_fields [OF hv2]
  let ?hv' = "hv2\<lparr>hv_guest_tr := of_nat (index * 8)\<rparr>"
  have eq: "initialize_intermediate_gdt mem hv = Some ?hv'"
    using row absent hv1 hv2 idx(1) f0 unfolding initialize_intermediate_gdt_def Let_def
    by (simp add: copy_os_gdt_def)
  have "row_u64 ?hv' row off = row_u64 hv2 row off" for off by (simp add: row_u64_def)
  moreover have "row_u64 hv2 row (8 * (index + 1)) = sd_extended ?tss"
    using row_u64_set(1) [OF hv2] by (simp add: sd_extended_value_def)
  moreover have "row_u64 hv2 row (8 * index) = sd_entry ?tss"
    using row_u64_set(2) [OF hv2, of "8 * index"] row_u64_set(1) [OF hv1] by (simp add: sd_basic_value_def)
  ultimately have fm: "from_memory (gdt_memory mem ?hv') (intermediate_gdt_address (hv_this ?hv') row) (of_nat (index * 8)) = ?tss"
    unfolding from_memory_row [OF row(2) idx(2,3)] by simp
  have "unat ?limit = unat (tr_limit (hv_gdtr hv)) + 16"
  proof -
    have "unat (tr_limit (hv_gdtr hv)) < 2 ^ 16" using unsigned_less [of "tr_limit (hv_gdtr hv)", where ?'a = nat] by simp
    then show ?thesis by (simp add: unat_word_ariths unsigned_ucast_eq take_bit_nat_eq_self)
  qed
  then have "unat (hv_guest_gdt_limit ?hv') = unat (tr_limit (hv_gdtr hv)) + 16"
    using f1 f2 by simp
  moreover have "hv_guest_gdt_pointer ?hv' = ?base" "hv_this ?hv' = hv_this hv"
    using f1 f2 f0 by simp_all
  ultimately show ?thesis using eq fm by (intro exI [of _ ?hv'] conjI) simp_all
qed

section \<open>Properties\<close>

text \<open>The table the hypervisor runs on: selector \<open>host_cs\<close> names a present 64-bit code segment
  of ring 0 that covers the whole address space, selector \<open>host_tr\<close> a present, available task
  state segment of 104 bytes at \<open>host_tss\<close>.\<close>

theorem host_gdt_segments:
  fixes hv :: hypervisor
  defines "hv' \<equiv> initialize_host_gdt hv"
  defines "cs \<equiv> \<lparr>sd_entry = hv_host_gdt hv' (unat (hv_host_cs hv') div 8), sd_extended = 0\<rparr>"
  defines "tss \<equiv> \<lparr>sd_entry = hv_host_gdt hv' (unat (hv_host_tr hv') div 8),
    sd_extended = hv_host_gdt hv' (unat (hv_host_tr hv') div 8 + 1)\<rparr>"
  shows "sd_present cs \<and> sd_code_64_bit cs \<and> \<not> sd_default_operation_size cs \<and> \<not> sd_system cs \<and>
      sd_privilege_level cs = 0 \<and> sd_type cs = code_execute_read \<and> sd_granularity cs \<and>
      sd_limit cs = 0xfffff \<and> sd_base cs = 0 \<and>
    sd_present tss \<and> sd_system tss \<and> sd_type tss = tss_available \<and> sd_limit tss = 103 \<and>
      sd_base_extended tss = host_tss_address (hv_this hv)"
proof -
  have cs: "cs = code_segment"
    by (simp add: cs_def hv'_def initialize_host_gdt_def Let_def sd_basic_value_def code_segment_value)
  have tss: "tss = task_state_segment (host_tss_address (hv_this hv))"
    by (simp add: tss_def hv'_def initialize_host_gdt_def Let_def sd_basic_value_def sd_extended_value_def)
  have "sd_present cs \<and> sd_code_64_bit cs \<and> \<not> sd_default_operation_size cs \<and> \<not> sd_system cs \<and>
      sd_privilege_level cs = 0 \<and> sd_type cs = code_execute_read \<and> sd_granularity cs \<and>
      sd_limit cs = 0xfffff \<and> sd_base cs = 0"
    unfolding cs
    by (simp add: code_segment_value sd_present_def sd_code_64_bit_def sd_default_operation_size_def sd_system_def
        sd_privilege_level_def sd_type_def sd_granularity_def sd_limit_def sd_base_def sd_limit_low_def sd_limit_high_def
        sd_base_low_def sd_base_middle_def sd_base_high_def code_execute_read_def)
  then show ?thesis using task_state_segment_fields unfolding tss by simp
qed

lemma unat_ucast_limit: "unat (ucast (w :: u16) :: u64) = unat w"
  using unsigned_less [of w, where ?'a = nat] by (simp add: unsigned_ucast_eq take_bit_nat_eq_self)



end
