(* ===== verification/Scope_Guard.thy ===== *)
theory Scope_Guard
  imports Prelude
begin

text \<open>
  The class \<open>scope_guard\<close> of \<^verbatim>\<open>include/zpp/scope_guard.h\<close>: an action that runs when the guard
  goes out of scope, unless it was cancelled or called before.  The action is a function on the
  state \<open>'s\<close>; guards of one scope are destroyed in the reverse order of their construction.
\<close>

record 's scope_guard =
  m_function :: "'s \<Rightarrow> 's"
  m_active :: bool

definition scope_guard_of :: "('s \<Rightarrow> 's) \<Rightarrow> 's scope_guard" where
  "scope_guard_of f = \<lparr>m_function = f, m_active = True\<rparr>"

definition guard_call :: "'s scope_guard \<Rightarrow> 's \<Rightarrow> 's scope_guard \<times> 's" where
  "guard_call g s = (g\<lparr>m_active := False\<rparr>, m_function g s)"

definition guard_cancel :: "'s scope_guard \<Rightarrow> 's scope_guard" where
  "guard_cancel g = g\<lparr>m_active := False\<rparr>"

definition guard_destroy :: "'s scope_guard \<Rightarrow> 's \<Rightarrow> 's" where
  "guard_destroy g s = (if m_active g then m_function g s else s)"

text \<open>The end of a scope: \<open>gs\<close> in the order of construction.\<close>

definition leave_scope :: "'s scope_guard list \<Rightarrow> 's \<Rightarrow> 's" where
  "leave_scope gs s = fold guard_destroy (rev gs) s"

lemma guard_destroy_simps [simp]:
  "guard_destroy (scope_guard_of f) s = f s" "guard_destroy (guard_cancel g) s = s"
  by (simp_all add: guard_destroy_def scope_guard_of_def guard_cancel_def)

text \<open>An action runs at most once: a guard that was called does nothing when it is destroyed.\<close>

lemma guard_destroy_called: "guard_destroy (fst (guard_call g s)) s' = s'"
  by (simp add: guard_destroy_def guard_call_def)

lemma leave_scope_simps [simp]:
  "leave_scope [] s = s" "leave_scope (gs @ [g]) s = leave_scope gs (guard_destroy g s)"
  "leave_scope (g # gs) s = guard_destroy g (leave_scope gs s)"
  by (simp_all add: leave_scope_def)

end
