(* ===== verification/Vmx_Setup.thy ===== *)
theory Vmx_Setup
  imports Module_Isolation Gdt_Setup Vmcs Scope_Guard
begin

text \<open>
  Entering VMX operation on a processor, from \<^verbatim>\<open>src/hypervisor/hypervisor.cpp\<close>:
  \<open>initialize_registers\<close>, \<open>initialize_vmx_msrs\<close>, \<open>cached_vmx_msr\<close>, \<open>initialize_vmx\<close>,
  \<open>enter_root_mode\<close> and \<open>setup_vmcs\<close>, with the execution controls of
  \<^verbatim>\<open>include/zpp/x64/intel/vmx.h\<close>.
\<close>

section \<open>Registers\<close>

definition initialize_registers :: "cpu \<Rightarrow> hypervisor \<Rightarrow> hypervisor" where
  "initialize_registers c hv =
     hv\<lparr>hv_guest_cr0 := cpu_cr0 c, hv_guest_cr3 := cpu_cr3 c, hv_guest_cr4 := cpu_cr4 c,
        hv_guest_dr7 := cpu_dr7 c,
        hv_ia32_debug_control := rdmsr ia32_debug_control c,
        hv_ia32_fs_base := rdmsr ia32_fs_base c, hv_ia32_gs_base := rdmsr ia32_gs_base c,
        hv_gdtr := cpu_gdtr c, hv_idtr := cpu_idtr c, hv_guest_ldtr := cpu_ldtr c, hv_os_tr := cpu_tr c\<rparr>"

definition initialize_vmx_msrs :: "cpu \<Rightarrow> hypervisor \<Rightarrow> hypervisor" where
  "initialize_vmx_msrs c hv =
     loop vmx_size (\<lambda>i hv. hv\<lparr>hv_vmx_msrs := (hv_vmx_msrs hv)(i := rdmsr (of_nat (vmx_begin + i)) c)\<rparr>) hv"

definition cached_vmx_msr :: "hypervisor \<Rightarrow> nat \<Rightarrow> u64" where
  "cached_vmx_msr hv msr = hv_vmx_msrs hv (msr - vmx_begin)"

definition initialize_vmx :: "hypervisor \<Rightarrow> hypervisor option" where
  "initialize_vmx hv =
     (let row = hv_next_virtual_processor hv - 1; basic_msr = cached_vmx_msr hv vmx_basic;
          trans = virtual_to_physical (hv_host_page_table hv); this = hv_this hv;
          cr0 = hv_guest_cr0 hv; cr4 = hv_guest_cr4 hv;
          cr0 = cr0 AND (cached_vmx_msr hv cr0_fixed_1 AND 0xffffffff);
          cr0 = cr0 OR (cached_vmx_msr hv cr0_fixed_0 AND 0xffffffff);
          cr4 = cr4 AND (cached_vmx_msr hv cr4_fixed_1 AND 0xffffffff);
          cr4 = cr4 OR (cached_vmx_msr hv cr4_fixed_0 AND 0xffffffff)
      in if max_cpus \<le> row then None
         else Some (hv\<lparr>hv_vmx_physical := trans (vmx_address this row),
                       hv_vmcs_physical := trans (vmx_vmcs_address this row),
                       hv_epml4_physical := trans (epml4_address this),
                       hv_msr_bitmap_physical := trans (msr_bitmap_address this),
                       hv_vmx_revision_id := (hv_vmx_revision_id hv)(row := ucast (basic_msr AND 0xffffffff)),
                       hv_vmcs_revision_id := (hv_vmcs_revision_id hv)(row := ucast (basic_msr AND 0xffffffff)),
                       hv_host_cr0 := cr0, hv_host_cr4 := cr4\<rparr>))"

section \<open>Root mode\<close>

definition enter_root_mode :: "hardware \<Rightarrow> hypervisor \<Rightarrow> cpu \<Rightarrow> hv_error \<times> cpu" where
  "enter_root_mode hw hv c =
     (let cr0 = cpu_cr0 c; cr4 = cpu_cr4 c;
          c = set_cr0 (hv_host_cr0 hv) c; restore_cr0 = scope_guard_of (set_cr0 cr0);
          c = set_cr4 (hv_host_cr4 hv) c; restore_cr4 = scope_guard_of (set_cr4 cr4);
          (failed, c) = vmxon hw (hv_vmx_physical hv) c
      in if failed then (vmxon_failed, leave_scope [restore_cr0, restore_cr4] c)
         else
           (let turn_off_vmx = scope_guard_of vmxoff;
                (failed, c) = vmclear hw (hv_vmcs_physical hv) c
            in if failed then (vmclear_failed, leave_scope [restore_cr0, restore_cr4, turn_off_vmx] c)
               else
                 (let (failed, c) = vmptrld hw (hv_vmcs_physical hv) c
                  in if failed then (vmptrld_failed, leave_scope [restore_cr0, restore_cr4, turn_off_vmx] c)
                     else (success, leave_scope
                       [guard_cancel restore_cr0, guard_cancel restore_cr4, guard_cancel turn_off_vmx] c))))"

section \<open>The control structure\<close>

definition enable_msr_bitmaps :: u64 where "enable_msr_bitmaps = push_bit 28 1"
definition enable_secondary_controls :: u64 where "enable_secondary_controls = push_bit 31 1"
definition enable_ept :: u64 where "enable_ept = push_bit 1 1"
definition enable_rdtscp :: u64 where "enable_rdtscp = push_bit 3 1"
definition enable_vpid :: u64 where "enable_vpid = push_bit 5 1"
definition enable_invpcid :: u64 where "enable_invpcid = push_bit 12 1"
definition enable_xsaves_xrstors :: u64 where "enable_xsaves_xrstors = push_bit 20 1"
definition mode_based_execute_control :: u64 where "mode_based_execute_control = push_bit 22 1"
definition host_address_space_size :: u64 where "host_address_space_size = push_bit 9 1"
definition ia_32e_mode_guest :: u64 where "ia_32e_mode_guest = push_bit 9 1"

text \<open>The results of the writes are dropped by the source; \<open>run_writes\<close> threads the
  processor through them.\<close>

definition run_writes :: "(cpu \<Rightarrow> vmcs_error \<times> cpu) list \<Rightarrow> cpu \<Rightarrow> cpu" where
  "run_writes ws c = fold (\<lambda>w c. snd (w c)) ws c"

definition ept_pointer_value :: "hypervisor \<Rightarrow> u64" where
  "ept_pointer_value hv =
     ept_pointer_set_page_number (drop_bit 12 (hv_epml4_physical hv))
       (ept_pointer_set_page_walk_length 4 (ept_pointer_set_memory_type write_back 0))"

text \<open>The writes of a guest segment: selector, limit, access rights.\<close>

definition segment_writes ::
  "(u64 \<Rightarrow> cpu \<Rightarrow> vmcs_error \<times> cpu) \<Rightarrow> (u64 \<Rightarrow> cpu \<Rightarrow> vmcs_error \<times> cpu) \<Rightarrow> (u64 \<Rightarrow> cpu \<Rightarrow> vmcs_error \<times> cpu) \<Rightarrow>
   u16 \<Rightarrow> segment_descriptor \<Rightarrow> (cpu \<Rightarrow> vmcs_error \<times> cpu) list" where
  "segment_writes selector limit access_rights s d =
     [selector (ucast s), limit (sd_limit d), access_rights (ucast (sd_vmx_access_rights d))]"

definition setup_writes :: "hardware \<Rightarrow> memory \<Rightarrow> cpu_context \<Rightarrow> hypervisor \<Rightarrow> (cpu \<Rightarrow> vmcs_error \<times> cpu) list" where
  "setup_writes hw mem ctx hv =
     (let this = hv_this hv;
          d = from_memory (gdt_memory mem hv) (intermediate_gdt_address this (hv_next_virtual_processor hv - 1))
      in [vmcs_set_vmcs_link_pointer hw 0xffffffffffffffff,
          vmcs_set_vpid hw (of_nat (hv_next_virtual_processor hv)),
          vmcs_set_ept_pointer hw (ept_pointer_value hv),
          vmcs_set_msr_bitmap hw (hv_msr_bitmap_physical hv),
          vmcs_set_secondary_processor_based_vm_execution_controls hw
            (adjust_msr (cached_vmx_msr hv processor_based_contorls_2)
              (enable_ept OR enable_vpid OR enable_rdtscp OR enable_invpcid OR enable_xsaves_xrstors OR
               mode_based_execute_control)),
          vmcs_set_pin_based_vm_execution_controls hw
            (adjust_msr (cached_vmx_msr hv true_pin_based_controls) 0),
          vmcs_set_primary_processor_based_vm_execution_controls hw
            (adjust_msr (cached_vmx_msr hv true_processor_based_controls)
              (enable_secondary_controls OR enable_msr_bitmaps)),
          vmcs_set_vm_exit_controls hw
            (adjust_msr (cached_vmx_msr hv true_exit_controls) host_address_space_size),
          vmcs_set_vm_entry_controls hw
            (adjust_msr (cached_vmx_msr hv true_entry_controls) ia_32e_mode_guest)] @
         segment_writes (vmcs_set_guest_cs_selector hw) (vmcs_set_guest_cs_limit hw)
           (vmcs_set_guest_cs_access_rights hw) (c_cs ctx) (d (c_cs ctx)) @
         [vmcs_set_guest_cs_base hw (sd_context_dependent_base (d (c_cs ctx))),
          vmcs_set_host_cs_selector hw (ucast (hv_host_cs hv))] @
         segment_writes (vmcs_set_guest_ds_selector hw) (vmcs_set_guest_ds_limit hw)
           (vmcs_set_guest_ds_access_rights hw) (c_ds ctx) (d (c_ds ctx)) @
         [vmcs_set_guest_ds_base hw (sd_context_dependent_base (d (c_ds ctx))),
          vmcs_set_host_ds_selector hw 0] @
         segment_writes (vmcs_set_guest_es_selector hw) (vmcs_set_guest_es_limit hw)
           (vmcs_set_guest_es_access_rights hw) (c_es ctx) (d (c_es ctx)) @
         [vmcs_set_guest_es_base hw (sd_context_dependent_base (d (c_es ctx))),
          vmcs_set_host_es_selector hw 0] @
         segment_writes (vmcs_set_guest_fs_selector hw) (vmcs_set_guest_fs_limit hw)
           (vmcs_set_guest_fs_access_rights hw) (c_fs ctx) (d (c_fs ctx)) @
         [vmcs_set_guest_fs_base hw (sd_context_dependent_base (d (c_fs ctx))),
          vmcs_set_host_fs_base hw (fs_data_address this),
          vmcs_set_host_fs_selector hw 0] @
         segment_writes (vmcs_set_guest_gs_selector hw) (vmcs_set_guest_gs_limit hw)
           (vmcs_set_guest_gs_access_rights hw) (c_gs ctx) (d (c_gs ctx)) @
         [vmcs_set_guest_gs_base hw (hv_ia32_gs_base hv),
          vmcs_set_host_gs_base hw (gs_data_address this),
          vmcs_set_host_gs_selector hw 0] @
         segment_writes (vmcs_set_guest_ss_selector hw) (vmcs_set_guest_ss_limit hw)
           (vmcs_set_guest_ss_access_rights hw) (c_ss ctx) (d (c_ss ctx)) @
         [vmcs_set_guest_ss_base hw (sd_context_dependent_base (d (c_ss ctx))),
          vmcs_set_host_ss_selector hw 0] @
         segment_writes (vmcs_set_guest_tr_selector hw) (vmcs_set_guest_tr_limit hw)
           (vmcs_set_guest_tr_access_rights hw) (hv_guest_tr hv) (d (hv_guest_tr hv)) @
         [vmcs_set_guest_tr_base hw (sd_context_dependent_base (d (hv_guest_tr hv))),
          vmcs_set_host_tr_base hw (host_tss_address this),
          vmcs_set_host_tr_selector hw (ucast (hv_host_tr hv))] @
         segment_writes (vmcs_set_guest_ldtr_selector hw) (vmcs_set_guest_ldtr_limit hw)
           (vmcs_set_guest_ldtr_access_rights hw) (hv_guest_ldtr hv) (d (hv_guest_ldtr hv)) @
         [vmcs_set_guest_ldtr_base hw (sd_context_dependent_base (d (hv_guest_ldtr hv))),
          vmcs_set_guest_gdtr_limit hw (hv_guest_gdt_limit hv),
          vmcs_set_guest_gdtr_base hw (hv_guest_gdt_pointer hv),
          vmcs_set_host_gdtr_base hw (host_gdt_address this),
          vmcs_set_guest_idtr_limit hw (ucast (tr_limit (hv_idtr hv))),
          vmcs_set_guest_idtr_base hw (tr_base (hv_idtr hv)),
          vmcs_set_host_idtr_base hw (host_idt_address this),
          vmcs_set_cr0_read_shadow hw (hv_guest_cr0 hv),
          vmcs_set_guest_cr0 hw (hv_host_cr0 hv),
          vmcs_set_host_cr0 hw (hv_host_cr0 hv),
          vmcs_set_guest_cr3 hw (hv_guest_cr3 hv),
          vmcs_set_host_cr3 hw (hv_host_cr3 hv),
          vmcs_set_cr4_read_shadow hw (hv_guest_cr4 hv),
          vmcs_set_guest_cr4 hw (hv_host_cr4 hv),
          vmcs_set_host_cr4 hw (hv_host_cr4 hv),
          vmcs_set_guest_ia32_debugctl hw (hv_ia32_debug_control hv),
          vmcs_set_guest_dr7 hw (hv_guest_dr7 hv),
          vmcs_set_guest_rflags hw (c_rflags ctx)])"

definition setup_vmcs :: "hardware \<Rightarrow> memory \<Rightarrow> cpu_context \<Rightarrow> hypervisor \<Rightarrow> cpu \<Rightarrow> cpu" where
  "setup_vmcs hw mem ctx hv c = run_writes (setup_writes hw mem ctx hv) c"

text \<open>The contents the control structure is meant to have, field by field.\<close>

definition setup_fields :: "memory \<Rightarrow> cpu_context \<Rightarrow> hypervisor \<Rightarrow> (u64 \<times> u64) list" where
  "setup_fields mem ctx hv =
     (let this = hv_this hv;
          d = from_memory (gdt_memory mem hv) (intermediate_gdt_address this (hv_next_virtual_processor hv - 1))
      in [(field_vmcs_link_pointer, 0xffffffffffffffff),
          (field_vpid, of_nat (hv_next_virtual_processor hv)),
          (field_ept_pointer, ept_pointer_value hv),
          (field_msr_bitmap, hv_msr_bitmap_physical hv),
          (field_secondary_processor_based_vm_execution_controls, adjust_msr (cached_vmx_msr hv processor_based_contorls_2) (enable_ept OR enable_vpid OR enable_rdtscp OR enable_invpcid OR enable_xsaves_xrstors OR mode_based_execute_control)),
          (field_pin_based_vm_execution_controls, adjust_msr (cached_vmx_msr hv true_pin_based_controls) 0),
          (field_primary_processor_based_vm_execution_controls, adjust_msr (cached_vmx_msr hv true_processor_based_controls) (enable_secondary_controls OR enable_msr_bitmaps)),
          (field_vm_exit_controls, adjust_msr (cached_vmx_msr hv true_exit_controls) host_address_space_size),
          (field_vm_entry_controls, adjust_msr (cached_vmx_msr hv true_entry_controls) ia_32e_mode_guest),
          (field_guest_cs_selector, ucast (c_cs ctx)),
          (field_guest_cs_limit, sd_limit (d (c_cs ctx))),
          (field_guest_cs_access_rights, ucast (sd_vmx_access_rights (d (c_cs ctx)))),
          (field_guest_cs_base, sd_context_dependent_base (d (c_cs ctx))),
          (field_host_cs_selector, ucast (hv_host_cs hv)),
          (field_guest_ds_selector, ucast (c_ds ctx)),
          (field_guest_ds_limit, sd_limit (d (c_ds ctx))),
          (field_guest_ds_access_rights, ucast (sd_vmx_access_rights (d (c_ds ctx)))),
          (field_guest_ds_base, sd_context_dependent_base (d (c_ds ctx))),
          (field_host_ds_selector, 0),
          (field_guest_es_selector, ucast (c_es ctx)),
          (field_guest_es_limit, sd_limit (d (c_es ctx))),
          (field_guest_es_access_rights, ucast (sd_vmx_access_rights (d (c_es ctx)))),
          (field_guest_es_base, sd_context_dependent_base (d (c_es ctx))),
          (field_host_es_selector, 0),
          (field_guest_fs_selector, ucast (c_fs ctx)),
          (field_guest_fs_limit, sd_limit (d (c_fs ctx))),
          (field_guest_fs_access_rights, ucast (sd_vmx_access_rights (d (c_fs ctx)))),
          (field_guest_fs_base, sd_context_dependent_base (d (c_fs ctx))),
          (field_host_fs_base, fs_data_address this),
          (field_host_fs_selector, 0),
          (field_guest_gs_selector, ucast (c_gs ctx)),
          (field_guest_gs_limit, sd_limit (d (c_gs ctx))),
          (field_guest_gs_access_rights, ucast (sd_vmx_access_rights (d (c_gs ctx)))),
          (field_guest_gs_base, hv_ia32_gs_base hv),
          (field_host_gs_base, gs_data_address this),
          (field_host_gs_selector, 0),
          (field_guest_ss_selector, ucast (c_ss ctx)),
          (field_guest_ss_limit, sd_limit (d (c_ss ctx))),
          (field_guest_ss_access_rights, ucast (sd_vmx_access_rights (d (c_ss ctx)))),
          (field_guest_ss_base, sd_context_dependent_base (d (c_ss ctx))),
          (field_host_ss_selector, 0),
          (field_guest_tr_selector, ucast (hv_guest_tr hv)),
          (field_guest_tr_limit, sd_limit (d (hv_guest_tr hv))),
          (field_guest_tr_access_rights, ucast (sd_vmx_access_rights (d (hv_guest_tr hv)))),
          (field_guest_tr_base, sd_context_dependent_base (d (hv_guest_tr hv))),
          (field_host_tr_base, host_tss_address this),
          (field_host_tr_selector, ucast (hv_host_tr hv)),
          (field_guest_ldtr_selector, ucast (hv_guest_ldtr hv)),
          (field_guest_ldtr_limit, sd_limit (d (hv_guest_ldtr hv))),
          (field_guest_ldtr_access_rights, ucast (sd_vmx_access_rights (d (hv_guest_ldtr hv)))),
          (field_guest_ldtr_base, sd_context_dependent_base (d (hv_guest_ldtr hv))),
          (field_guest_gdtr_limit, hv_guest_gdt_limit hv),
          (field_guest_gdtr_base, hv_guest_gdt_pointer hv),
          (field_host_gdtr_base, host_gdt_address this),
          (field_guest_idtr_limit, ucast (tr_limit (hv_idtr hv))),
          (field_guest_idtr_base, tr_base (hv_idtr hv)),
          (field_host_idtr_base, host_idt_address this),
          (field_cr0_read_shadow, hv_guest_cr0 hv),
          (field_guest_cr0, hv_host_cr0 hv),
          (field_host_cr0, hv_host_cr0 hv),
          (field_guest_cr3, hv_guest_cr3 hv),
          (field_host_cr3, hv_host_cr3 hv),
          (field_cr4_read_shadow, hv_guest_cr4 hv),
          (field_guest_cr4, hv_host_cr4 hv),
          (field_host_cr4, hv_host_cr4 hv),
          (field_guest_ia32_debugctl, hv_ia32_debug_control hv),
          (field_guest_dr7, hv_guest_dr7 hv),
          (field_guest_rflags, c_rflags ctx)])"

lemmas setup_accessors =
  vmcs_set_vmcs_link_pointer_def vmcs_set_vpid_def vmcs_set_ept_pointer_def vmcs_set_msr_bitmap_def
  vmcs_set_secondary_processor_based_vm_execution_controls_def
  vmcs_set_pin_based_vm_execution_controls_def
  vmcs_set_primary_processor_based_vm_execution_controls_def vmcs_set_vm_exit_controls_def
  vmcs_set_vm_entry_controls_def vmcs_set_guest_cs_selector_def vmcs_set_guest_cs_limit_def
  vmcs_set_guest_cs_access_rights_def vmcs_set_guest_cs_base_def vmcs_set_host_cs_selector_def
  vmcs_set_guest_ds_selector_def vmcs_set_guest_ds_limit_def vmcs_set_guest_ds_access_rights_def
  vmcs_set_guest_ds_base_def vmcs_set_host_ds_selector_def vmcs_set_guest_es_selector_def
  vmcs_set_guest_es_limit_def vmcs_set_guest_es_access_rights_def vmcs_set_guest_es_base_def
  vmcs_set_host_es_selector_def vmcs_set_guest_fs_selector_def vmcs_set_guest_fs_limit_def
  vmcs_set_guest_fs_access_rights_def vmcs_set_guest_fs_base_def vmcs_set_host_fs_base_def
  vmcs_set_host_fs_selector_def vmcs_set_guest_gs_selector_def vmcs_set_guest_gs_limit_def
  vmcs_set_guest_gs_access_rights_def vmcs_set_guest_gs_base_def vmcs_set_host_gs_base_def
  vmcs_set_host_gs_selector_def vmcs_set_guest_ss_selector_def vmcs_set_guest_ss_limit_def
  vmcs_set_guest_ss_access_rights_def vmcs_set_guest_ss_base_def vmcs_set_host_ss_selector_def
  vmcs_set_guest_tr_selector_def vmcs_set_guest_tr_limit_def vmcs_set_guest_tr_access_rights_def
  vmcs_set_guest_tr_base_def vmcs_set_host_tr_base_def vmcs_set_host_tr_selector_def
  vmcs_set_guest_ldtr_selector_def vmcs_set_guest_ldtr_limit_def
  vmcs_set_guest_ldtr_access_rights_def vmcs_set_guest_ldtr_base_def vmcs_set_guest_gdtr_limit_def
  vmcs_set_guest_gdtr_base_def vmcs_set_host_gdtr_base_def vmcs_set_guest_idtr_limit_def
  vmcs_set_guest_idtr_base_def vmcs_set_host_idtr_base_def vmcs_set_cr0_read_shadow_def
  vmcs_set_guest_cr0_def vmcs_set_host_cr0_def vmcs_set_guest_cr3_def vmcs_set_host_cr3_def
  vmcs_set_cr4_read_shadow_def vmcs_set_guest_cr4_def vmcs_set_host_cr4_def
  vmcs_set_guest_ia32_debugctl_def vmcs_set_guest_dr7_def vmcs_set_guest_rflags_def

lemma setup_writes_fields:
  "setup_writes hw mem ctx hv = map (\<lambda>(f, v). vmcs_write hw f v) (setup_fields mem ctx hv)"
  unfolding setup_writes_def setup_fields_def segment_writes_def Let_def
  by (simp add: setup_accessors fun_eq_iff)

lemmas setup_field_defs =
  field_vmcs_link_pointer_def field_vpid_def field_ept_pointer_def field_msr_bitmap_def
  field_secondary_processor_based_vm_execution_controls_def
  field_pin_based_vm_execution_controls_def field_primary_processor_based_vm_execution_controls_def
  field_vm_exit_controls_def field_vm_entry_controls_def field_guest_cs_selector_def
  field_guest_cs_limit_def field_guest_cs_access_rights_def field_guest_cs_base_def
  field_host_cs_selector_def field_guest_ds_selector_def field_guest_ds_limit_def
  field_guest_ds_access_rights_def field_guest_ds_base_def field_host_ds_selector_def
  field_guest_es_selector_def field_guest_es_limit_def field_guest_es_access_rights_def
  field_guest_es_base_def field_host_es_selector_def field_guest_fs_selector_def
  field_guest_fs_limit_def field_guest_fs_access_rights_def field_guest_fs_base_def
  field_host_fs_base_def field_host_fs_selector_def field_guest_gs_selector_def
  field_guest_gs_limit_def field_guest_gs_access_rights_def field_guest_gs_base_def
  field_host_gs_base_def field_host_gs_selector_def field_guest_ss_selector_def
  field_guest_ss_limit_def field_guest_ss_access_rights_def field_guest_ss_base_def
  field_host_ss_selector_def field_guest_tr_selector_def field_guest_tr_limit_def
  field_guest_tr_access_rights_def field_guest_tr_base_def field_host_tr_base_def
  field_host_tr_selector_def field_guest_ldtr_selector_def field_guest_ldtr_limit_def
  field_guest_ldtr_access_rights_def field_guest_ldtr_base_def field_guest_gdtr_limit_def
  field_guest_gdtr_base_def field_host_gdtr_base_def field_guest_idtr_limit_def
  field_guest_idtr_base_def field_host_idtr_base_def field_cr0_read_shadow_def field_guest_cr0_def
  field_host_cr0_def field_guest_cr3_def field_host_cr3_def field_cr4_read_shadow_def
  field_guest_cr4_def field_host_cr4_def field_guest_ia32_debugctl_def field_guest_dr7_def
  field_guest_rflags_def

lemma setup_fields_distinct: "distinct (map fst (setup_fields mem ctx hv))"
proof -
  have "distinct (map uint (map fst (setup_fields mem ctx hv)))"
    unfolding setup_fields_def Let_def list.map fst_conv setup_field_defs by simp
  then show ?thesis by (simp only: distinct_map)
qed

text \<open>A processor that accepts every access.\<close>

definition vmcs_accepts :: "hardware \<Rightarrow> bool" where
  "vmcs_accepts hw \<longleftrightarrow> (\<forall>c f. hw_vmread hw c f = VMsucceed) \<and> (\<forall>c f v. hw_vmwrite hw c f v = VMsucceed)"

lemma vmcs_ok_accepts: "vmcs_ok hw c \<longleftrightarrow> vmcs_accepts hw \<and> cpu_vmcs c \<noteq> None"
  by (auto simp: vmcs_ok_def vmcs_accepts_def)

lemma run_writes_simps [simp]: "run_writes [] c = c" "run_writes (w # ws) c = run_writes ws (snd (w c))"
  by (simp_all add: run_writes_def)

lemma run_writes_read:
  assumes "vmcs_ok hw c" and "distinct (map fst ps)"
  shows "vmcs_read hw f (run_writes (map (\<lambda>(f, v). vmcs_write hw f v) ps) c) =
      (case map_of ps f of Some v \<Rightarrow> Maybe_value v | None \<Rightarrow> vmcs_read hw f c)"
    and "vmcs_ok hw (run_writes (map (\<lambda>(f, v). vmcs_write hw f v) ps) c)"
  using assms
proof (induction ps arbitrary: c)
  case Nil
  { case 1 then show ?case by simp }
  { case 2 then show ?case by simp }
next
  case (Cons p ps)
  obtain g v where p: "p = (g, v)" by (cases p)
  {
    case 1
    have "map_of ps g = None" using 1(2) p by (auto simp: map_of_eq_None_iff)
    then show ?case
      using Cons.IH(1) [of "snd (vmcs_write hw g v c)"] vmcs_read_write [OF 1(1), where f = g and v = v] 1(2)
      by (auto simp: p split: option.splits)
  next
    case 2
    then show ?case
      using Cons.IH(2) [of "snd (vmcs_write hw g v c)"] vmcs_read_write(3) [OF 2(1)] by (simp add: p)
  }
qed

lemma setup_vmcs_read:
  assumes "vmcs_ok hw c"
  shows "vmcs_read hw f (setup_vmcs hw mem ctx hv c) =
      (case map_of (setup_fields mem ctx hv) f of Some v \<Rightarrow> Maybe_value v | None \<Rightarrow> vmcs_read hw f c)"
    and "vmcs_ok hw (setup_vmcs hw mem ctx hv c)"
  unfolding setup_vmcs_def setup_writes_fields
  by (rule run_writes_read [OF assms setup_fields_distinct])+

section \<open>Root mode: all or nothing\<close>

lemma enter_root_mode_restores:
  assumes "cpu_vmxon c = None" and "cpu_vmcs c = None" and "enter_root_mode hw hv c = (e, c')" and "e \<noteq> success"
  shows "c' = c"
  using assms
  by (auto simp: enter_root_mode_def Let_def vmxon_def vmclear_def vmptrld_def cpu_ops
      split: vm_outcome.splits if_splits)

lemma enter_root_mode_enters:
  assumes "hw_vmxon hw = (\<lambda>_ _. VMsucceed)" and "hw_vmclear hw = (\<lambda>_ _. VMsucceed)" and "hw_vmptrld hw = (\<lambda>_ _. VMsucceed)"
  shows "enter_root_mode hw hv c =
    (success, c\<lparr>cpu_cr0 := hv_host_cr0 hv, cpu_cr4 := hv_host_cr4 hv,
       cpu_vmxon := Some (hv_vmx_physical hv), cpu_vmcs := Some (hv_vmcs_physical hv)\<rparr>)"
  using assms by (simp add: enter_root_mode_def Let_def vmxon_def vmclear_def vmptrld_def cpu_ops)

section \<open>Control registers\<close>

lemma initialize_vmx_cr:
  assumes "initialize_vmx hv = Some hv'"
  shows "bit (hv_host_cr0 hv') i \<longleftrightarrow> i < 32 \<and>
      (bit (cached_vmx_msr hv cr0_fixed_0) i \<or> bit (hv_guest_cr0 hv) i \<and> bit (cached_vmx_msr hv cr0_fixed_1) i)"
    and "bit (hv_host_cr4 hv') i \<longleftrightarrow> i < 32 \<and>
      (bit (cached_vmx_msr hv cr4_fixed_0) i \<or> bit (hv_guest_cr4 hv) i \<and> bit (cached_vmx_msr hv cr4_fixed_1) i)"
proof -
  have mask: "(0xffffffff :: u64) = mask 32" by (simp add: mask_eq_exp_minus_1)
  show "bit (hv_host_cr0 hv') i \<longleftrightarrow> i < 32 \<and>
      (bit (cached_vmx_msr hv cr0_fixed_0) i \<or> bit (hv_guest_cr0 hv) i \<and> bit (cached_vmx_msr hv cr0_fixed_1) i)"
    "bit (hv_host_cr4 hv') i \<longleftrightarrow> i < 32 \<and>
      (bit (cached_vmx_msr hv cr4_fixed_0) i \<or> bit (hv_guest_cr4 hv) i \<and> bit (cached_vmx_msr hv cr4_fixed_1) i)"
    using assms unfolding initialize_vmx_def Let_def mask
    by (auto simp: bit_simps split: if_splits)
qed

section \<open>Properties\<close>


lemma accepting_ok: "vmcs_ok accepting_hardware (reset_cpu\<lparr>cpu_vmcs := Some r\<rparr>)"
  by (simp add: vmcs_ok_def accepting_hardware_def)


text \<open>The five control fields, with the capability register that restricts each and the bits the
  hypervisor asks for.\<close>

definition control_fields :: "(u64 \<times> nat \<times> u64) list" where
  "control_fields =
     [(field_pin_based_vm_execution_controls, true_pin_based_controls, 0),
      (field_primary_processor_based_vm_execution_controls, true_processor_based_controls,
         enable_secondary_controls OR enable_msr_bitmaps),
      (field_secondary_processor_based_vm_execution_controls, processor_based_contorls_2,
         enable_ept OR enable_vpid OR enable_rdtscp OR enable_invpcid OR enable_xsaves_xrstors OR mode_based_execute_control),
      (field_vm_exit_controls, true_exit_controls, host_address_space_size),
      (field_vm_entry_controls, true_entry_controls, ia_32e_mode_guest)]"

text \<open>C20: Every control field \<open>setup_vmcs\<close> writes obeys its capability register: a bit is set
  exactly when the register demands it (low half) or the hypervisor asks for it and the register
  allows it (high half); nothing above bit 31 is set.\<close>

theorem controls_obey_capabilities:
  assumes "vmcs_ok hw c" and "(f, msr, wanted) \<in> set control_fields"
  shows "\<exists>v. vmcs_read hw f (setup_vmcs hw mem ctx hv c) = Maybe_value v \<and>
    (\<forall>i. bit v i \<longleftrightarrow> i < 32 \<and>
       (bit (cached_vmx_msr hv msr) i \<or> bit wanted i \<and> bit (cached_vmx_msr hv msr) (32 + i)))"
proof -
  have "(f, adjust_msr (cached_vmx_msr hv msr) wanted) \<in> set (setup_fields mem ctx hv)"
    using assms(2) unfolding control_fields_def by (auto simp: setup_fields_def Let_def)
  then have "map_of (setup_fields mem ctx hv) f = Some (adjust_msr (cached_vmx_msr hv msr) wanted)"
    using setup_fields_distinct by (simp add: map_of_eq_Some_iff)
  then show ?thesis using setup_vmcs_read(1) [OF assms(1)] by (simp add: bit_adjust_msr)
qed

theorem controls_obey_capabilities_witness:
  "\<exists>v. vmcs_read accepting_hardware field_vm_entry_controls
     (setup_vmcs accepting_hardware (\<lambda>_. 0) zero_context
        ((create_once 0x1000)\<lparr>hv_vmx_msrs := (\<lambda>_. 0xffff000011ff)\<rparr>) (reset_cpu\<lparr>cpu_vmcs := Some 0x1000\<rparr>)) =
   Maybe_value v \<and> bit v 9 \<and> bit v 0 \<and> \<not> bit v 11"
proof -
  have "(field_vm_entry_controls, true_entry_controls, ia_32e_mode_guest) \<in> set control_fields"
    by (simp add: control_fields_def)
  from controls_obey_capabilities [OF accepting_ok [of "0x1000"] this, where mem = "\<lambda>_. 0" and ctx = zero_context
      and hv = "(create_once 0x1000)\<lparr>hv_vmx_msrs := (\<lambda>_. 0xffff000011ff)\<rparr>"]
  obtain v where v: "vmcs_read accepting_hardware field_vm_entry_controls
     (setup_vmcs accepting_hardware (\<lambda>_. 0) zero_context
        ((create_once 0x1000)\<lparr>hv_vmx_msrs := (\<lambda>_. 0xffff000011ff)\<rparr>) (reset_cpu\<lparr>cpu_vmcs := Some 0x1000\<rparr>)) = Maybe_value v"
    and b: "\<And>i. bit v i \<longleftrightarrow> i < 32 \<and> (bit (0xffff000011ff :: u64) i \<or> bit ia_32e_mode_guest i \<and> bit (0xffff000011ff :: u64) (32 + i))"
    by (auto simp: cached_vmx_msr_def)
  have "bit v 9 \<and> bit v 0 \<and> \<not> bit v 11" unfolding b by (simp add: ia_32e_mode_guest_def bit_simps bit_numeral_rec)
  with v show ?thesis by blast
qed

text \<open>The EPT pointer written to the control structure selects write-back memory and a walk of four
  levels (bits 0 to 5), leaves the accessed and dirty flags off, and names the frame of
  \<open>epml4\<close>; no other bit is set.\<close>

theorem ept_pointer_layout:
  "ept_pointer_value hv = push_bit 12 (bits 12 40 (hv_epml4_physical hv)) OR 0x1e \<and>
   ept_pointer_memory_type (ept_pointer_value hv) = write_back \<and>
   ept_pointer_page_walk_length (ept_pointer_value hv) = 4 \<and>
   \<not> ept_pointer_access_and_dirty (ept_pointer_value hv) \<and>
   ept_pointer_page_number (ept_pointer_value hv) = bits 12 40 (hv_epml4_physical hv)"
proof -
  have low: "ept_pointer_set_page_walk_length 4 (ept_pointer_set_memory_type write_back 0) = 0x1e"
    by (simp add: ept_pointer_set_page_walk_length_def ept_pointer_set_memory_type_def write_back_def)
  have v: "ept_pointer_value hv = put_bits 12 40 (drop_bit 12 (hv_epml4_physical hv)) 0x1e"
    unfolding ept_pointer_value_def low by (rule ept_pointer_page_number.put_eq)
  have gen: "put_bits 12 40 (drop_bit 12 x) l = push_bit 12 (bits 12 40 x) OR l" if "take_bit 12 l = l" for x l
  proof (rule bit_eqI)
    fix i
    have "bit l i \<Longrightarrow> i < 12" using that by (metis bit_take_bit_iff)
    then show "bit (put_bits 12 40 (drop_bit 12 x) l) i = bit (push_bit 12 (bits 12 40 x) OR l) i"
      by (auto simp: bit_put_bits bit_bits bit_push_bit_iff bit_or_iff bit_drop_bit_eq dest: u64_bit_bound)
  qed
  have "take_bit 12 (0x1e :: u64) = 0x1e" by (rule take_bit_self_u64) simp
  then have "ept_pointer_value hv = push_bit 12 (bits 12 40 (hv_epml4_physical hv)) OR 0x1e"
    unfolding v by (rule gen)
  moreover have lowb: "bits 0 3 (ept_pointer_value hv) = bits 0 3 0x1e" "bits 3 3 (ept_pointer_value hv) = bits 3 3 0x1e"
    "bit (ept_pointer_value hv) 8 = bit (0x1e :: u64) 8"
    unfolding v by (simp_all add: bits_put_bits_disjoint bit_put_bits)
  moreover have "ept_pointer_page_number (ept_pointer_value hv) = bits 12 40 (hv_epml4_physical hv)"
    by (simp add: v ept_pointer_page_number.get_eq bits_put_bits_same bits_eq)
  ultimately show ?thesis
    by (simp add: ept_pointer_bits write_back_def) (simp add: field_eval)
qed

text \<open>C22: Entering root mode is all or nothing: on an error the processor is exactly as it was (control
  registers restored, VMX off), the error is \<open>vmxon_failed\<close> exactly when the processor refuses
  \<open>vmxon\<close>, and on a processor that accepts the three instructions the result is success with the
  prepared control registers, the VMX region and the control structure of this processor loaded.\<close>

theorem root_mode_all_or_nothing:
  assumes "cpu_vmxon c = None" and "cpu_vmcs c = None" and "enter_root_mode hw hv c = (e, c')"
  shows "(e \<noteq> success \<longrightarrow> c' = c) \<and>
    (e = vmxon_failed \<longleftrightarrow>
       hw_vmxon hw (c\<lparr>cpu_cr0 := hv_host_cr0 hv, cpu_cr4 := hv_host_cr4 hv\<rparr>) (hv_vmx_physical hv) = VMfailInvalid) \<and>
    (hw_vmxon hw = (\<lambda>_ _. VMsucceed) \<and> hw_vmclear hw = (\<lambda>_ _. VMsucceed) \<and> hw_vmptrld hw = (\<lambda>_ _. VMsucceed) \<longrightarrow>
       e = success \<and> c' = c\<lparr>cpu_cr0 := hv_host_cr0 hv, cpu_cr4 := hv_host_cr4 hv,
         cpu_vmxon := Some (hv_vmx_physical hv), cpu_vmcs := Some (hv_vmcs_physical hv)\<rparr>)"
proof -
  have "e = vmxon_failed \<longleftrightarrow>
      hw_vmxon hw (c\<lparr>cpu_cr0 := hv_host_cr0 hv, cpu_cr4 := hv_host_cr4 hv\<rparr>) (hv_vmx_physical hv) = VMfailInvalid"
    using assms(3)
    by (auto simp: enter_root_mode_def Let_def vmxon_def vmclear_def vmptrld_def cpu_ops
        split: vm_outcome.splits if_splits)
  then show ?thesis
    using enter_root_mode_restores [OF assms] enter_root_mode_enters [of hw hv c] assms(3) by auto
qed

theorem root_mode_all_or_nothing_witness:
  "enter_root_mode (accepting_hardware\<lparr>hw_vmclear := (\<lambda>_ _. VMfailInvalid)\<rparr>) (create_once 0x1000) reset_cpu = (vmclear_failed, reset_cpu)"
proof -
  obtain e c' where r: "enter_root_mode (accepting_hardware\<lparr>hw_vmclear := (\<lambda>_ _. VMfailInvalid)\<rparr>) (create_once 0x1000) reset_cpu = (e, c')"
    by (meson surj_pair)
  have "e = vmclear_failed"
    using r by (auto simp: enter_root_mode_def Let_def vmxon_def vmclear_def accepting_hardware_def cpu_ops)
  with root_mode_all_or_nothing [OF _ _ r] r show ?thesis by (simp add: reset_cpu_def)
qed

text \<open>\<open>initialize_vmx\<close> prepares the control registers as VMX operation demands: a bit of
  \<open>host_cr0\<close> (\<open>host_cr4\<close>) is one where the fixed-0 register is one, otherwise it is the bit of
  the guest's register, cleared where the fixed-1 register is zero; it succeeds for the first sixteen
  processors.\<close>

theorem host_control_registers:
  assumes "hv_next_virtual_processor hv - 1 < max_cpus"
  shows "\<exists>hv'. initialize_vmx hv = Some hv' \<and>
    (\<forall>i. bit (hv_host_cr0 hv') i \<longleftrightarrow> i < 32 \<and>
      (bit (cached_vmx_msr hv cr0_fixed_0) i \<or> bit (hv_guest_cr0 hv) i \<and> bit (cached_vmx_msr hv cr0_fixed_1) i)) \<and>
    (\<forall>i. bit (hv_host_cr4 hv') i \<longleftrightarrow> i < 32 \<and>
      (bit (cached_vmx_msr hv cr4_fixed_0) i \<or> bit (hv_guest_cr4 hv) i \<and> bit (cached_vmx_msr hv cr4_fixed_1) i))"
proof -
  obtain hv' where "initialize_vmx hv = Some hv'" using assms by (simp add: initialize_vmx_def Let_def)
  then show ?thesis using initialize_vmx_cr by blast
qed

theorem host_control_registers_witness:
  "\<exists>hv'. initialize_vmx ((create_once 0x1000)\<lparr>hv_guest_cr0 := 0x80000011, hv_vmx_msrs := (\<lambda>i. if i = 6 then 0x20 else 0xffffffff)\<rparr>) = Some hv' \<and>
     bit (hv_host_cr0 hv') 5 \<and> bit (hv_host_cr0 hv') 31 \<and> \<not> bit (hv_host_cr0 hv') 1"
proof -
  define hv where "hv = (create_once 0x1000)\<lparr>hv_guest_cr0 := 0x80000011, hv_vmx_msrs := (\<lambda>i. if i = 6 then 0x20 else 0xffffffff)\<rparr>"
  have hv: "hv_next_virtual_processor hv = 1" "hv_guest_cr0 hv = 0x80000011"
    "cached_vmx_msr hv cr0_fixed_0 = 0x20" "cached_vmx_msr hv cr0_fixed_1 = 0xffffffff"
    by (simp_all add: hv_def create_once_def cached_vmx_msr_def cr0_fixed_0_def cr0_fixed_1_def vmx_begin_def)
  obtain hv' where "initialize_vmx hv = Some hv'" and b: "\<And>i. bit (hv_host_cr0 hv') i \<longleftrightarrow> i < 32 \<and>
      (bit (0x20 :: u64) i \<or> bit (0x80000011 :: u64) i \<and> bit (0xffffffff :: u64) i)"
    using host_control_registers [of hv] by (auto simp: hv max_cpus_def)
  moreover have "bit (hv_host_cr0 hv') 5 \<and> bit (hv_host_cr0 hv') 31 \<and> \<not> bit (hv_host_cr0 hv') 1"
    unfolding b by (simp add: bit_numeral_rec)
  ultimately show ?thesis unfolding hv_def by blast
qed

end
