(* ===== verification/Instruction_Asm.thy ===== *)
theory Instruction_Asm
  imports Thunks Vmx_Setup
begin

text \<open>
  The instruction wrappers of \<^verbatim>\<open>x64/asm.h\<close> and \<^verbatim>\<open>x64/intel/asm.h\<close> as the assembly they are, over the machine
  of \<open>Context_Asm\<close> with the system registers of \<open>Machine\<close>, and \<open>initialize_registers\<close> as calls of them with the
  operands of \<^verbatim>\<open>x64/generic.h\<close> in memory.  \<open>Machine\<close> and \<open>Vmx_Setup\<close> have each wrapper as one function on the
  processor; here they are shown to be what the assembly does.
\<close>

section \<open>The machine\<close>

record sys_state =
  y_asm :: asm_state
  y_cpu :: cpu

datatype control = CR0 | CR3 | CR4

datatype vmx_instr =
    Vmxon reg | Vmxoff | Vmclear reg | Vmptrld reg | Vmptrst reg | Vmread reg reg | Vmwrite reg reg
  | Invept reg reg | Invvpid reg reg

datatype sys_instr =
    Asm instr
  | Mov_from reg control | Mov_to control reg | Mov_dr7 reg | Mov_ax seg
  | Sgdt reg | Sidt reg | Lgdt reg | Lidt reg | Sldt reg | Str reg | Ltr reg | Mov_store_ax reg
  | Lsl_ax_di | Lar_eax_edi | Cli | Sti
  | Mov32 reg reg | Mov32_imm reg u32 | Mov32_store reg u64 reg | Shl reg nat | Shr reg nat | Or reg reg
  | Cpuid | Rdmsr | Wrmsr | Xsetbv | Invd | Vmx vmx_instr

text \<open>What the hardware decides.  \<open>p_flags\<close> gives the flags after arithmetic; \<open>p_lsl\<close> and \<open>p_lar\<close> are \<open>None\<close> for a
  selector that does not name a visible descriptor, which clears the zero flag and loads nothing.\<close>

record processor =
  p_hw :: hardware
  p_flags :: "u64 \<Rightarrow> u64 \<Rightarrow> u64"
  p_lsl :: "cpu \<Rightarrow> u16 \<Rightarrow> u16 option"
  p_lar :: "cpu \<Rightarrow> u32 \<Rightarrow> u32 option"
  p_vmptrst :: "cpu \<Rightarrow> vm_outcome"
  p_invept :: "cpu \<Rightarrow> u64 \<Rightarrow> u64 \<times> u64 \<Rightarrow> vm_outcome"
  p_invvpid :: "cpu \<Rightarrow> u64 \<Rightarrow> u64 \<times> u64 \<Rightarrow> vm_outcome"

text \<open>The operand of \<open>sgdt\<close>, \<open>sidt\<close>, \<open>lgdt\<close> and \<open>lidt\<close>: two bytes of limit, eight of base.\<close>

definition table_image :: "table_register \<Rightarrow> nat \<Rightarrow> u8" where
  "table_image r j = (if j < 2 then byte_of (ucast (tr_limit r)) j else byte_of (tr_base r) (j - 2))"

definition read_table :: "memory \<Rightarrow> u64 \<Rightarrow> table_register" where
  "read_table m a = \<lparr>tr_base = read_u64 m (a + 2), tr_limit = read_u16 m a\<rparr>"

definition sys_mem :: "sys_state \<Rightarrow> memory" where "sys_mem y = a_mem (y_asm y)"
definition sys_reg :: "sys_state \<Rightarrow> reg \<Rightarrow> u64" where "sys_reg y = a_reg (y_asm y)"

definition sys_store :: "u64 \<Rightarrow> nat \<Rightarrow> (nat \<Rightarrow> u8) \<Rightarrow> sys_state \<Rightarrow> sys_state" where
  "sys_store a n f y = y\<lparr>y_asm := store_block a n f (y_asm y)\<rparr>"

definition sys_set :: "reg \<Rightarrow> u64 \<Rightarrow> sys_state \<Rightarrow> sys_state" where
  "sys_set r v y = y\<lparr>y_asm := set_reg r v (y_asm y)\<rparr>"

definition sys_flags :: "u64 \<Rightarrow> sys_state \<Rightarrow> sys_state" where
  "sys_flags f y = y\<lparr>y_asm := (y_asm y)\<lparr>a_rflags := f\<rparr>\<rparr>"

text \<open>A VMX instruction: its outcome, its effect when it succeeds, and the flags that report the outcome (CF for
  \<open>VMfailInvalid\<close>, ZF for \<open>VMfailValid\<close>).\<close>

fun vmx_outcome :: "processor \<Rightarrow> vmx_instr \<Rightarrow> sys_state \<Rightarrow> vm_outcome" where
  "vmx_outcome p (Vmxon b) y = hw_vmxon (p_hw p) (y_cpu y) (read_u64 (sys_mem y) (sys_reg y b))"
| "vmx_outcome p Vmxoff y = VMsucceed"
| "vmx_outcome p (Vmclear b) y = hw_vmclear (p_hw p) (y_cpu y) (read_u64 (sys_mem y) (sys_reg y b))"
| "vmx_outcome p (Vmptrld b) y = hw_vmptrld (p_hw p) (y_cpu y) (read_u64 (sys_mem y) (sys_reg y b))"
| "vmx_outcome p (Vmptrst b) y = p_vmptrst p (y_cpu y)"
| "vmx_outcome p (Vmread b f) y = hw_vmread (p_hw p) (y_cpu y) (sys_reg y f)"
| "vmx_outcome p (Vmwrite f v) y = hw_vmwrite (p_hw p) (y_cpu y) (sys_reg y f) (sys_reg y v)"
| "vmx_outcome p (Invept t b) y = p_invept p (y_cpu y) (sys_reg y t) (read_xmm (sys_mem y) (sys_reg y b))"
| "vmx_outcome p (Invvpid t b) y = p_invvpid p (y_cpu y) (sys_reg y t) (read_xmm (sys_mem y) (sys_reg y b))"

fun vmx_effect :: "vmx_instr \<Rightarrow> sys_state \<Rightarrow> sys_state" where
  "vmx_effect (Vmxon b) y =
     y\<lparr>y_cpu := (y_cpu y)\<lparr>cpu_vmxon := Some (read_u64 (sys_mem y) (sys_reg y b)), cpu_vmcs := None\<rparr>\<rparr>"
| "vmx_effect Vmxoff y = y\<lparr>y_cpu := (y_cpu y)\<lparr>cpu_vmxon := None, cpu_vmcs := None\<rparr>\<rparr>"
| "vmx_effect (Vmclear b) y =
     (if cpu_vmcs (y_cpu y) = Some (read_u64 (sys_mem y) (sys_reg y b))
      then y\<lparr>y_cpu := (y_cpu y)\<lparr>cpu_vmcs := None\<rparr>\<rparr> else y)"
| "vmx_effect (Vmptrld b) y =
     y\<lparr>y_cpu := (y_cpu y)\<lparr>cpu_vmcs := Some (read_u64 (sys_mem y) (sys_reg y b))\<rparr>\<rparr>"
| "vmx_effect (Vmptrst b) y =
     sys_store (sys_reg y b) 8 (byte_of (case cpu_vmcs (y_cpu y) of Some region \<Rightarrow> region | None \<Rightarrow> - 1)) y"
| "vmx_effect (Vmread b f) y =
     (case cpu_vmcs (y_cpu y) of
        Some region \<Rightarrow> sys_store (sys_reg y b) 8 (byte_of (cpu_vmcs_data (y_cpu y) region (sys_reg y f))) y
      | None \<Rightarrow> y)"
| "vmx_effect (Vmwrite f v) y =
     (case cpu_vmcs (y_cpu y) of
        Some region \<Rightarrow>
          y\<lparr>y_cpu := (y_cpu y)\<lparr>cpu_vmcs_data := (cpu_vmcs_data (y_cpu y))
             (region := (cpu_vmcs_data (y_cpu y) region)(sys_reg y f := sys_reg y v))\<rparr>\<rparr>
      | None \<Rightarrow> y)"
| "vmx_effect (Invept t b) y = y"
| "vmx_effect (Invvpid t b) y = y"

fun outcome_flags :: "vm_outcome \<Rightarrow> u64" where
  "outcome_flags VMsucceed = 0"
| "outcome_flags VMfailInvalid = 0x1"
| "outcome_flags VMfailValid = 0x40"

definition vmx_step :: "processor \<Rightarrow> vmx_instr \<Rightarrow> sys_state \<Rightarrow> sys_state" where
  "vmx_step p i y =
     (let result = vmx_outcome p i y; f = (a_rflags (y_asm y) AND NOT 0x8d5) OR outcome_flags result
      in sys_flags f (if result = VMsucceed then vmx_effect i y else y))"

definition control_value :: "control \<Rightarrow> cpu \<Rightarrow> u64" where
  "control_value r c = (case r of CR0 \<Rightarrow> cpu_cr0 c | CR3 \<Rightarrow> cpu_cr3 c | CR4 \<Rightarrow> cpu_cr4 c)"

definition set_control :: "control \<Rightarrow> u64 \<Rightarrow> cpu \<Rightarrow> cpu" where
  "set_control r v c = (case r of CR0 \<Rightarrow> c\<lparr>cpu_cr0 := v\<rparr> | CR3 \<Rightarrow> c\<lparr>cpu_cr3 := v\<rparr> | CR4 \<Rightarrow> c\<lparr>cpu_cr4 := v\<rparr>)"

text \<open>A 32-bit result clears the upper half of the register.\<close>

definition low32 :: "u64 \<Rightarrow> u32" where "low32 v = ucast v"

fun sys_exec :: "processor \<Rightarrow> sys_instr \<Rightarrow> sys_state \<Rightarrow> sys_state" where
  "sys_exec p (Asm i) y = y\<lparr>y_asm := exec (p_flags p) i (y_asm y)\<rparr>"
| "sys_exec p (Mov_from r k) y = sys_set r (control_value k (y_cpu y)) y"
| "sys_exec p (Mov_to k r) y = y\<lparr>y_cpu := set_control k (sys_reg y r) (y_cpu y)\<rparr>"
| "sys_exec p (Mov_dr7 r) y = sys_set r (cpu_dr7 (y_cpu y)) y"
| "sys_exec p (Mov_ax g) y = sys_set RAX (low_half (sys_reg y RAX) (a_seg (y_asm y) g)) y"
| "sys_exec p (Sgdt b) y = sys_store (sys_reg y b) 10 (table_image (cpu_gdtr (y_cpu y))) y"
| "sys_exec p (Sidt b) y = sys_store (sys_reg y b) 10 (table_image (cpu_idtr (y_cpu y))) y"
| "sys_exec p (Lgdt b) y = y\<lparr>y_cpu := (y_cpu y)\<lparr>cpu_gdtr := read_table (sys_mem y) (sys_reg y b)\<rparr>\<rparr>"
| "sys_exec p (Lidt b) y = y\<lparr>y_cpu := (y_cpu y)\<lparr>cpu_idtr := read_table (sys_mem y) (sys_reg y b)\<rparr>\<rparr>"
| "sys_exec p (Sldt b) y = sys_store (sys_reg y b) 2 (byte_of (ucast (cpu_ldtr (y_cpu y)))) y"
| "sys_exec p (Str r) y = sys_set r (ucast (cpu_tr (y_cpu y))) y"
| "sys_exec p (Ltr b) y = y\<lparr>y_cpu := (y_cpu y)\<lparr>cpu_tr := read_u16 (sys_mem y) (sys_reg y b)\<rparr>\<rparr>"
| "sys_exec p (Mov_store_ax b) y = sys_store (sys_reg y b) 2 (byte_of (sys_reg y RAX)) y"
| "sys_exec p Lsl_ax_di y =
     (case p_lsl p (y_cpu y) (ucast (sys_reg y RDI)) of
        Some v \<Rightarrow> sys_flags (a_rflags (y_asm y) OR 0x40) (sys_set RAX (low_half (sys_reg y RAX) v) y)
      | None \<Rightarrow> sys_flags (a_rflags (y_asm y) AND NOT 0x40) y)"
| "sys_exec p Lar_eax_edi y =
     (case p_lar p (y_cpu y) (low32 (sys_reg y RDI)) of
        Some v \<Rightarrow> sys_flags (a_rflags (y_asm y) OR 0x40) (sys_set RAX (ucast v) y)
      | None \<Rightarrow> sys_flags (a_rflags (y_asm y) AND NOT 0x40) y)"
| "sys_exec p Cli y = sys_flags (a_rflags (y_asm y) AND NOT 0x200) (y\<lparr>y_cpu := (y_cpu y)\<lparr>cpu_interrupts := False\<rparr>\<rparr>)"
| "sys_exec p Sti y = sys_flags (a_rflags (y_asm y) OR 0x200) (y\<lparr>y_cpu := (y_cpu y)\<lparr>cpu_interrupts := True\<rparr>\<rparr>)"
| "sys_exec p (Mov32 r r') y = sys_set r (ucast (low32 (sys_reg y r'))) y"
| "sys_exec p (Mov32_imm r v) y = sys_set r (ucast v) y"
| "sys_exec p (Mov32_store b d r) y = sys_store (sys_reg y b + d) 4 (byte_of (sys_reg y r)) y"
| "sys_exec p (Shl r n) y = sys_flags (p_flags p (sys_reg y r) (of_nat n)) (sys_set r (push_bit n (sys_reg y r)) y)"
| "sys_exec p (Shr r n) y = sys_flags (p_flags p (sys_reg y r) (of_nat n)) (sys_set r (drop_bit n (sys_reg y r)) y)"
| "sys_exec p (Or r r') y = sys_flags (p_flags p (sys_reg y r) (sys_reg y r')) (sys_set r (sys_reg y r OR sys_reg y r') y)"
| "sys_exec p Cpuid y =
     (let (a, b, c, d) = hw_cpuid (p_hw p) (low32 (sys_reg y RAX)) (low32 (sys_reg y RCX))
      in sys_set RDX (ucast d) (sys_set RCX (ucast c) (sys_set RBX (ucast b) (sys_set RAX (ucast a) y))))"
| "sys_exec p Rdmsr y =
     (let v = cpu_msr (y_cpu y) (low32 (sys_reg y RCX))
      in sys_set RDX (drop_bit 32 v) (sys_set RAX (take_bit 32 v) y))"
| "sys_exec p Wrmsr y =
     y\<lparr>y_cpu := (y_cpu y)\<lparr>cpu_msr := (cpu_msr (y_cpu y))(low32 (sys_reg y RCX) :=
        push_bit 32 (ucast (low32 (sys_reg y RDX))) OR ucast (low32 (sys_reg y RAX)))\<rparr>\<rparr>"
| "sys_exec p Xsetbv y =
     y\<lparr>y_cpu := (y_cpu y)\<lparr>cpu_xcr := (cpu_xcr (y_cpu y))(low32 (sys_reg y RCX) :=
        push_bit 32 (ucast (low32 (sys_reg y RDX))) OR ucast (low32 (sys_reg y RAX)))\<rparr>\<rparr>"
| "sys_exec p Invd y = y\<lparr>y_cpu := (y_cpu y)\<lparr>cpu_invd := cpu_invd (y_cpu y) + 1\<rparr>\<rparr>"
| "sys_exec p (Vmx i) y = vmx_step p i y"

definition sys_run :: "processor \<Rightarrow> sys_instr list \<Rightarrow> sys_state \<Rightarrow> sys_state" where
  "sys_run p is y = fold (sys_exec p) is y"

section \<open>The wrappers of x64/asm.h\<close>

definition cr0_asm :: "sys_instr list" where "cr0_asm = [Mov_from RAX CR0, Asm Ret]"
definition cr3_asm :: "sys_instr list" where "cr3_asm = [Mov_from RAX CR3, Asm Ret]"
definition cr4_asm :: "sys_instr list" where "cr4_asm = [Mov_from RAX CR4, Asm Ret]"
definition set_cr0_asm :: "sys_instr list" where "set_cr0_asm = [Mov_to CR0 RDI, Asm Ret]"
definition set_cr3_asm :: "sys_instr list" where "set_cr3_asm = [Mov_to CR3 RDI, Asm Ret]"
definition set_cr4_asm :: "sys_instr list" where "set_cr4_asm = [Mov_to CR4 RDI, Asm Ret]"
definition sgdt_asm :: "sys_instr list" where "sgdt_asm = [Sgdt RDI, Asm Ret]"
definition sidt_asm :: "sys_instr list" where "sidt_asm = [Sidt RDI, Asm Ret]"
definition lgdt_asm :: "sys_instr list" where "lgdt_asm = [Lgdt RDI, Asm Ret]"
definition lidt_asm :: "sys_instr list" where "lidt_asm = [Lidt RDI, Asm Ret]"
definition sldt_asm :: "sys_instr list" where "sldt_asm = [Sldt RDI, Asm Ret]"
definition str_asm :: "sys_instr list" where "str_asm = [Str RAX, Mov_store_ax RDI, Asm Ret]"
definition ltr_asm :: "sys_instr list" where "ltr_asm = [Ltr RDI, Asm Ret]"
definition dr7_asm :: "sys_instr list" where "dr7_asm = [Mov_dr7 RAX, Asm Ret]"
definition cs_asm :: "sys_instr list" where "cs_asm = [Mov_ax CS, Asm Ret]"
definition ds_asm :: "sys_instr list" where "ds_asm = [Mov_ax DS, Asm Ret]"
definition es_asm :: "sys_instr list" where "es_asm = [Mov_ax ES, Asm Ret]"
definition fs_asm :: "sys_instr list" where "fs_asm = [Mov_ax FS, Asm Ret]"
definition gs_asm :: "sys_instr list" where "gs_asm = [Mov_ax GS, Asm Ret]"
definition ss_asm :: "sys_instr list" where "ss_asm = [Mov_ax SS, Asm Ret]"
definition rflags_asm :: "sys_instr list" where "rflags_asm = [Asm Pushfq, Asm (Pop RAX), Asm Ret]"
definition load_segment_limit_asm :: "sys_instr list" where "load_segment_limit_asm = [Lsl_ax_di, Asm Ret]"
definition load_access_rights_asm :: "sys_instr list" where "load_access_rights_asm = [Lar_eax_edi, Asm Ret]"
definition disable_interrupts_asm :: "sys_instr list" where "disable_interrupts_asm = [Cli, Asm Ret]"
definition enable_interrupts_asm :: "sys_instr list" where "enable_interrupts_asm = [Sti, Asm Ret]"

definition cpuid_asm :: "sys_instr list" where
  "cpuid_asm =
     [Asm (Push RBX), Asm (Push RDX), Mov32 RAX RDI, Mov32 RCX RSI, Cpuid, Asm (Pop RSI),
      Mov32_store RSI 0 RAX, Mov32_store RSI 4 RBX, Mov32_store RSI 8 RCX, Mov32_store RSI 0xc RDX, Asm (Pop RBX), Asm Ret]"

section \<open>The wrappers of x64/intel/asm.h\<close>

definition rdmsr_asm :: "sys_instr list" where
  "rdmsr_asm = [Mov32 RCX RDI, Rdmsr, Shl RDX 32, Or RAX RDX, Asm Ret]"

definition wrmsr_asm :: "sys_instr list" where
  "wrmsr_asm = [Mov32 RCX RDI, Mov32 RAX RSI, Shr RSI 32, Mov32 RDX RSI, Wrmsr, Asm Ret]"

definition xsetbv_asm :: "sys_instr list" where
  "xsetbv_asm = [Mov32 RCX RDI, Mov32 RAX RSI, Shr RSI 32, Mov32 RDX RSI, Xsetbv, Asm Ret]"

definition invd_asm :: "sys_instr list" where "invd_asm = [Invd, Asm Ret]"

text \<open>The VMX wrappers end in \<open>jc\<close>: 1 in \<open>eax\<close> when the carry flag is set, 0 otherwise.\<close>

definition vmx_wrapper :: "processor \<Rightarrow> vmx_instr \<Rightarrow> sys_state \<Rightarrow> sys_state" where
  "vmx_wrapper p i y =
     (let y = sys_run p [Vmx i] y
      in if bit (a_rflags (y_asm y)) 0 then sys_run p [Mov32_imm RAX 1, Asm Ret] y
         else sys_run p [Mov32_imm RAX 0, Asm Ret] y)"

definition vmxon_asm :: "processor \<Rightarrow> sys_state \<Rightarrow> sys_state" where "vmxon_asm p = vmx_wrapper p (Vmxon RDI)"
definition vmxoff_asm :: "processor \<Rightarrow> sys_state \<Rightarrow> sys_state" where "vmxoff_asm p = vmx_wrapper p Vmxoff"
definition vmptrld_asm :: "processor \<Rightarrow> sys_state \<Rightarrow> sys_state" where "vmptrld_asm p = vmx_wrapper p (Vmptrld RDI)"
definition vmptrst_asm :: "processor \<Rightarrow> sys_state \<Rightarrow> sys_state" where "vmptrst_asm p = vmx_wrapper p (Vmptrst RDI)"
definition vmclear_asm :: "processor \<Rightarrow> sys_state \<Rightarrow> sys_state" where "vmclear_asm p = vmx_wrapper p (Vmclear RDI)"
definition vmread_asm :: "processor \<Rightarrow> sys_state \<Rightarrow> sys_state" where "vmread_asm p = vmx_wrapper p (Vmread RSI RDI)"
definition vmwrite_asm :: "processor \<Rightarrow> sys_state \<Rightarrow> sys_state" where "vmwrite_asm p = vmx_wrapper p (Vmwrite RDI RSI)"
definition invept_asm :: "processor \<Rightarrow> sys_state \<Rightarrow> sys_state" where "invept_asm p = vmx_wrapper p (Invept RDI RSI)"
definition invvpid_asm :: "processor \<Rightarrow> sys_state \<Rightarrow> sys_state" where "invvpid_asm p = vmx_wrapper p (Invvpid RDI RSI)"

lemmas asm_wrapper_defs = cr0_asm_def cr3_asm_def cr4_asm_def set_cr0_asm_def set_cr3_asm_def set_cr4_asm_def
  sgdt_asm_def sidt_asm_def lgdt_asm_def lidt_asm_def sldt_asm_def str_asm_def ltr_asm_def dr7_asm_def
  cs_asm_def ds_asm_def es_asm_def fs_asm_def gs_asm_def ss_asm_def rflags_asm_def
  load_segment_limit_asm_def load_access_rights_asm_def disable_interrupts_asm_def enable_interrupts_asm_def
  rdmsr_asm_def wrmsr_asm_def xsetbv_asm_def invd_asm_def

lemmas vmx_wrapper_defs = vmxon_asm_def vmxoff_asm_def vmptrld_asm_def vmptrst_asm_def vmclear_asm_def
  vmread_asm_def vmwrite_asm_def invept_asm_def invvpid_asm_def

lemmas sys_simps = sys_run_def sys_set_def sys_store_def sys_flags_def sys_mem_def sys_reg_def
  set_reg_def store_block_def push_block_def

section \<open>Running a wrapper\<close>

text \<open>A call returned to its caller as the convention of the hypervisor demands.\<close>

definition sys_returns :: "sys_state \<Rightarrow> sys_state \<Rightarrow> bool" where
  "sys_returns y t \<longleftrightarrow>
     a_rip (y_asm t) = read_u64 (sys_mem y) (sys_reg y RSP) \<and> sys_reg t RSP = sys_reg y RSP + 8 \<and>
     (\<forall>x \<in> sysv_preserved. sys_reg t x = sys_reg y x)"

lemma outcome_carry: "bit ((f AND NOT 0x8d5) OR outcome_flags r) 0 \<longleftrightarrow> r = VMfailInvalid" for f :: u64
  by (cases r) (simp_all add: bit_simps)

lemma vmx_effect_regs: "a_reg (y_asm (vmx_effect i y)) = a_reg (y_asm y)" "a_rip (y_asm (vmx_effect i y)) = a_rip (y_asm y)"
  by (cases i; simp add: sys_simps split: option.split)+

text \<open>What a VMX wrapper leaves: the effect of the instruction if it succeeded, and 1 in \<open>eax\<close> for
  \<open>VMfailInvalid\<close> alone.\<close>

definition vmx_result :: "processor \<Rightarrow> vmx_instr \<Rightarrow> sys_state \<Rightarrow> sys_state" where
  "vmx_result p i y = (if vmx_outcome p i y = VMsucceed then vmx_effect i y else y)"

lemma vmx_wrapper_run:
  assumes "read_u64 (sys_mem (vmx_result p i y)) (sys_reg y RSP) = read_u64 (sys_mem y) (sys_reg y RSP)"
  shows "sys_returns y (vmx_wrapper p i y)"
    and "sys_reg (vmx_wrapper p i y) RAX = of_bool (vmx_outcome p i y = VMfailInvalid)"
    and "y_cpu (vmx_wrapper p i y) = y_cpu (vmx_result p i y)"
    and "sys_mem (vmx_wrapper p i y) = sys_mem (vmx_result p i y)"
proof -
  let ?t = "sys_run p [Vmx i] y"
  have t: "a_reg (y_asm ?t) = a_reg (y_asm y)" "a_mem (y_asm ?t) = sys_mem (vmx_result p i y)"
    "y_cpu ?t = y_cpu (vmx_result p i y)" "bit (a_rflags (y_asm ?t)) 0 \<longleftrightarrow> vmx_outcome p i y = VMfailInvalid"
    using outcome_carry [of "a_rflags (y_asm y)" "vmx_outcome p i y"]
    by (simp_all add: sys_run_def vmx_step_def vmx_result_def Let_def sys_flags_def sys_mem_def vmx_effect_regs)
  have w: "vmx_wrapper p i y = sys_run p [Mov32_imm RAX (of_bool (vmx_outcome p i y = VMfailInvalid)), Asm Ret] ?t"
    using t(4) by (simp add: vmx_wrapper_def Let_def)
  have "sys_returns y (vmx_wrapper p i y) \<and>
      sys_reg (vmx_wrapper p i y) RAX = of_bool (vmx_outcome p i y = VMfailInvalid) \<and>
      y_cpu (vmx_wrapper p i y) = y_cpu (vmx_result p i y) \<and> sys_mem (vmx_wrapper p i y) = sys_mem (vmx_result p i y)"
    using assms t(1-3) unfolding w by (simp add: sys_returns_def sysv_preserved_def sys_simps)
  then show "sys_returns y (vmx_wrapper p i y)" "sys_reg (vmx_wrapper p i y) RAX = of_bool (vmx_outcome p i y = VMfailInvalid)"
    "y_cpu (vmx_wrapper p i y) = y_cpu (vmx_result p i y)" "sys_mem (vmx_wrapper p i y) = sys_mem (vmx_result p i y)" by blast+
qed

text \<open>The functions of \<open>Machine\<close> give the same: the result and the processor.\<close>

lemma vmx_result_machine:
  fixes y
  defines "c \<equiv> y_cpu y" and "region \<equiv> read_u64 (sys_mem y) (sys_reg y RDI)"
  shows "vmxon (p_hw p) region c = (vmx_outcome p (Vmxon RDI) y = VMfailInvalid, y_cpu (vmx_result p (Vmxon RDI) y))"
    "vmclear (p_hw p) region c = (vmx_outcome p (Vmclear RDI) y = VMfailInvalid, y_cpu (vmx_result p (Vmclear RDI) y))"
    "vmptrld (p_hw p) region c = (vmx_outcome p (Vmptrld RDI) y = VMfailInvalid, y_cpu (vmx_result p (Vmptrld RDI) y))"
    "vmwrite (p_hw p) (sys_reg y RDI) (sys_reg y RSI) c =
       (vmx_outcome p (Vmwrite RDI RSI) y = VMfailInvalid, y_cpu (vmx_result p (Vmwrite RDI RSI) y))"
    "vmxoff c = y_cpu (vmx_result p Vmxoff y)"
  by (simp_all add: c_def region_def vmx_result_def vmxon_def vmclear_def vmptrld_def vmwrite_def vmxoff_def
    split: vm_outcome.split option.split)

lemma vmx_result_mem:
  "sys_mem (vmx_result p (Vmxon b) y) = sys_mem y" "sys_mem (vmx_result p Vmxoff y) = sys_mem y"
  "sys_mem (vmx_result p (Vmclear b) y) = sys_mem y" "sys_mem (vmx_result p (Vmptrld b) y) = sys_mem y"
  "sys_mem (vmx_result p (Vmwrite f v) y) = sys_mem y" "sys_mem (vmx_result p (Invept f b) y) = sys_mem y"
  "sys_mem (vmx_result p (Invvpid f b) y) = sys_mem y"
  by (simp_all add: vmx_result_def sys_mem_def split: option.split)

lemma vmread_result:
  "vmread (p_hw p) (sys_reg y RDI) (read_u64 (sys_mem y) (sys_reg y RSI)) (y_cpu y) =
     (vmx_outcome p (Vmread RSI RDI) y = VMfailInvalid, read_u64 (sys_mem (vmx_result p (Vmread RSI RDI) y)) (sys_reg y RSI))"
  "y_cpu (vmx_result p (Vmread RSI RDI) y) = y_cpu y"
  "apart (sys_reg y RSI) 8 (sys_reg y RSP) 8 \<Longrightarrow>
     read_u64 (sys_mem (vmx_result p (Vmread RSI RDI) y)) (sys_reg y RSP) = read_u64 (sys_mem y) (sys_reg y RSP)"
  by (simp_all add: vmread_def vmx_result_def sys_simps read_u64_pushed read_pushed_other split: vm_outcome.split option.split)

section \<open>Registers and model-specific registers\<close>

lemma halves: "push_bit 32 (ucast (ucast (drop_bit 32 v) :: u32)) OR ucast (ucast v :: u32) = v" for v :: u64
  by (rule bit_eqI) (auto simp: bit_simps dest: u64_bit_bound)

lemma join_halves: "take_bit 32 v OR push_bit 32 (drop_bit 32 v) = v" for v :: u64
proof (rule bit_eqI)
  fix n show "bit (take_bit 32 v OR push_bit 32 (drop_bit 32 v)) n \<longleftrightarrow> bit v n"
    by (cases "n < 32") (auto simp: bit_simps dest: u64_bit_bound)
qed

lemma ucast_low: "ucast (ucast (ucast v :: u32) :: u64) = (ucast v :: u32)" for v :: u64
  by (rule bit_eqI) (simp add: bit_simps)

lemma msr_wrappers_run:
  "sys_returns y (sys_run p rdmsr_asm y)" "sys_reg (sys_run p rdmsr_asm y) RAX = rdmsr (ucast (sys_reg y RDI)) (y_cpu y)"
  "y_cpu (sys_run p rdmsr_asm y) = y_cpu y"
  "sys_returns y (sys_run p wrmsr_asm y)"
  "y_cpu (sys_run p wrmsr_asm y) = (y_cpu y)\<lparr>cpu_msr := (cpu_msr (y_cpu y))(ucast (sys_reg y RDI) := sys_reg y RSI)\<rparr>"
  "sys_returns y (sys_run p xsetbv_asm y)"
  "y_cpu (sys_run p xsetbv_asm y) = xsetbv (ucast (sys_reg y RDI)) (sys_reg y RSI) (y_cpu y)"
  by (simp_all add: asm_wrapper_defs sys_simps sys_returns_def sysv_preserved_def Let_def low32_def ucast_low join_halves halves
      rdmsr_def xsetbv_def)

lemma control_wrappers_run:
  "sys_returns y (sys_run p cr0_asm y) \<and> sys_reg (sys_run p cr0_asm y) RAX = cpu_cr0 (y_cpu y)"
  "sys_returns y (sys_run p cr3_asm y) \<and> sys_reg (sys_run p cr3_asm y) RAX = cpu_cr3 (y_cpu y)"
  "sys_returns y (sys_run p cr4_asm y) \<and> sys_reg (sys_run p cr4_asm y) RAX = cpu_cr4 (y_cpu y)"
  "sys_returns y (sys_run p dr7_asm y) \<and> sys_reg (sys_run p dr7_asm y) RAX = cpu_dr7 (y_cpu y)"
  "sys_returns y (sys_run p set_cr0_asm y) \<and> y_cpu (sys_run p set_cr0_asm y) = set_cr0 (sys_reg y RDI) (y_cpu y)"
  "sys_returns y (sys_run p set_cr3_asm y) \<and> y_cpu (sys_run p set_cr3_asm y) = set_cr3 (sys_reg y RDI) (y_cpu y)"
  "sys_returns y (sys_run p set_cr4_asm y) \<and> y_cpu (sys_run p set_cr4_asm y) = set_cr4 (sys_reg y RDI) (y_cpu y)"
  "sys_returns y (sys_run p disable_interrupts_asm y) \<and> y_cpu (sys_run p disable_interrupts_asm y) = disable_interrupts (y_cpu y)"
  "sys_returns y (sys_run p enable_interrupts_asm y) \<and> y_cpu (sys_run p enable_interrupts_asm y) = enable_interrupts (y_cpu y)"
  "sys_returns y (sys_run p invd_asm y) \<and> y_cpu (sys_run p invd_asm y) = invd (y_cpu y)"
  "sys_returns y (sys_run p lgdt_asm y) \<and> y_cpu (sys_run p lgdt_asm y) = lgdt (read_table (sys_mem y) (sys_reg y RDI)) (y_cpu y)"
  "sys_returns y (sys_run p ltr_asm y) \<and> y_cpu (sys_run p ltr_asm y) = ltr (read_u16 (sys_mem y) (sys_reg y RDI)) (y_cpu y)"
  by (simp_all add: asm_wrapper_defs sys_simps sys_returns_def sysv_preserved_def control_value_def set_control_def cpu_ops)

text \<open>The flags and the selectors of the segment registers.\<close>

lemma ucast_low_half: "ucast (low_half x v) = v"
  by (rule bit_word_eqI) (simp add: low_half_def bit_simps)

lemma selector_wrappers_run:
  "sys_returns y (sys_run p cs_asm y) \<and> ucast (sys_reg (sys_run p cs_asm y) RAX) = a_seg (y_asm y) CS"
  "sys_returns y (sys_run p ds_asm y) \<and> ucast (sys_reg (sys_run p ds_asm y) RAX) = a_seg (y_asm y) DS"
  "sys_returns y (sys_run p es_asm y) \<and> ucast (sys_reg (sys_run p es_asm y) RAX) = a_seg (y_asm y) ES"
  "sys_returns y (sys_run p fs_asm y) \<and> ucast (sys_reg (sys_run p fs_asm y) RAX) = a_seg (y_asm y) FS"
  "sys_returns y (sys_run p gs_asm y) \<and> ucast (sys_reg (sys_run p gs_asm y) RAX) = a_seg (y_asm y) GS"
  "sys_returns y (sys_run p ss_asm y) \<and> ucast (sys_reg (sys_run p ss_asm y) RAX) = a_seg (y_asm y) SS"
  by (simp_all add: asm_wrapper_defs sys_simps sys_returns_def sysv_preserved_def ucast_low_half)

lemma rflags_run:
  "sys_returns y (sys_run p rflags_asm y)" "sys_reg (sys_run p rflags_asm y) RAX = a_rflags (y_asm y)"
  by (simp_all add: asm_wrapper_defs sys_simps sys_returns_def sysv_preserved_def read_u64_pushed read_pushed_other apart_def)

section \<open>Descriptor table operands\<close>

lemma read_table_image: "read_table (write_block a 10 (table_image r) m) a = r"
proof -
  have "read_u16 (write_block a 10 (table_image r) m) a = tr_limit r"
    by (rule read_u16_bytes) (simp add: write_block_def table_image_def unat_of_nat take_bit_nat_eq_self)
  moreover have "read_u64 (write_block a 10 (table_image r) m) (a + 2) = tr_base r"
  proof (rule read_u64_bytes)
    fix j :: nat assume "j < 8"
    then show "write_block a 10 (table_image r) m (a + 2 + of_nat j) = byte_of (tr_base r) j"
      using write_block_inside [of 0 10 "2 + j" a "table_image r" m] by (simp add: table_image_def add.assoc)
  qed
  ultimately show ?thesis by (simp add: read_table_def)
qed

section \<open>cpuid\<close>

text \<open>The four stores of \<open>cpuid\<close>.\<close>

definition write_words :: "u64 \<Rightarrow> u64 \<Rightarrow> u64 \<Rightarrow> u64 \<Rightarrow> u64 \<Rightarrow> memory \<Rightarrow> memory" where
  "write_words d a b c e m = write_block (d + 0xc) 4 (byte_of e) (write_block (d + 8) 4 (byte_of c)
     (write_block (d + 4) 4 (byte_of b) (write_block d 4 (byte_of a) m)))"

lemma read_u32_word: "read_u32 (write_block a 4 (byte_of (ucast v)) m) a = v"
  by (rule read_u32_bytes) (simp add: write_block_def unat_of_nat take_bit_nat_eq_self)

lemma read_u32_other: "apart a n b 4 \<Longrightarrow> read_u32 (write_block a n f m) b = read_u32 m b"
  by (simp add: read_u32_def read_le_apart)

lemma read_words:
  fixes a b c e :: u32 and d m
  defines "m' \<equiv> write_words d (ucast a) (ucast b) (ucast c) (ucast e) m"
  shows "(read_u32 m' d, read_u32 m' (d + 4), read_u32 m' (d + 8), read_u32 m' (d + 0xc)) = (a, b, c, e)"
  by (simp add: m'_def write_words_def read_u32_word read_u32_other apart_def)

lemma read_past_words:
  assumes "apart q 24 d 16" and "x \<le> 16"
  shows "read_u64 (write_words d a b c e m) (q + of_nat x) = read_u64 m (q + of_nat x)"
proof -
  have "apart (d + of_nat k) 4 (q + of_nat x) 8" if "k \<le> 12" for k
    using apart_sym_part [OF assms(1), of x 8 k 4] assms(2) that by simp
  from this [of 0] this [of 4] this [of 8] this [of 12] show ?thesis
    by (simp add: write_words_def read_pushed_other)
qed

lemma cpuid_run:
  fixes p y
  assumes "apart (sys_reg y RSP - 16) 24 (sys_reg y RDX) 16"
  defines "t \<equiv> sys_run p cpuid_asm y"
  shows "sys_returns y t" and "y_cpu t = y_cpu y"
    and "(read_u32 (sys_mem t) (sys_reg y RDX), read_u32 (sys_mem t) (sys_reg y RDX + 4),
        read_u32 (sys_mem t) (sys_reg y RDX + 8), read_u32 (sys_mem t) (sys_reg y RDX + 0xc)) =
      cpuid (p_hw p) (ucast (sys_reg y RDI)) (ucast (sys_reg y RSI))"
proof -
  define q where "q = sys_reg y RSP - 16"
  have sp: "a_reg (y_asm y) RSP = q + 16" by (simp add: q_def sys_reg_def)
  obtain a b c e where h: "hw_cpuid (p_hw p) (ucast (sys_reg y RDI)) (ucast (sys_reg y RSI)) = (a, b, c, e)" by (metis surj_pair)
  let ?d = "sys_reg y RDX"
  let ?stack = "write_block q 8 (byte_of ?d) (write_block (q + 8) 8 (byte_of (sys_reg y RBX)) (sys_mem y))"
  let ?m = "write_words ?d (ucast a) (ucast b) (ucast c) (ucast e) ?stack"
  have r0: "read_u64 ?stack q = ?d" "read_u64 ?stack (q + 8) = sys_reg y RBX" "read_u64 ?stack (q + 16) = read_u64 (sys_mem y) (q + 16)"
    by (simp_all add: read_u64_pushed read_pushed_other apart_def)
  have r: "read_u64 ?m (q + 8) = sys_reg y RBX" "read_u64 ?m (q + 16) = read_u64 (sys_mem y) (q + 16)"
    using read_past_words [OF assms(1) [folded q_def], of 8] read_past_words [OF assms(1) [folded q_def], of 16] r0 by simp_all
  have t: "sys_mem t = ?m" "y_cpu t = y_cpu y" "sys_reg t = (sys_reg y)(RAX := ucast a, RBX := sys_reg y RBX, RCX := ucast c,
      RDX := ucast e, RSI := ?d, RSP := q + 24)" "a_rip (y_asm t) = read_u64 (sys_mem y) (q + 16)"
    using r r0 h
    by (simp_all add: t_def cpuid_asm_def sys_simps sp low32_def ucast_low write_words_def add.commute [of q] fun_eq_iff)
  show "sys_returns y t" using t sp by (simp add: sys_returns_def sysv_preserved_def sys_reg_def sys_mem_def)
  show "y_cpu t = y_cpu y" by (rule t)
  show "(read_u32 (sys_mem t) ?d, read_u32 (sys_mem t) (?d + 4), read_u32 (sys_mem t) (?d + 8), read_u32 (sys_mem t) (?d + 0xc)) =
      cpuid (p_hw p) (ucast (sys_reg y RDI)) (ucast (sys_reg y RSI))"
    unfolding t(1) cpuid_def h by (rule read_words)
qed

section \<open>Calls of the wrappers\<close>

text \<open>The layouts of \<^verbatim>\<open>x64/generic.h\<close>: the limit at offset 6, the base at offset 8; \<open>data()\<close> points to the limit.\<close>

definition gdt_layout_data :: "u64 \<Rightarrow> u64" where "gdt_layout_data g = g + 6"
definition gdt_layout_limit :: "memory \<Rightarrow> u64 \<Rightarrow> u16" where "gdt_layout_limit m g = read_u16 m (g + 6)"
definition gdt_layout_base :: "memory \<Rightarrow> u64 \<Rightarrow> u64" where "gdt_layout_base m g = read_u64 m (g + 8)"
definition idt_layout_data :: "u64 \<Rightarrow> u64" where "idt_layout_data g = g + 6"
definition idt_layout_limit :: "memory \<Rightarrow> u64 \<Rightarrow> u16" where "idt_layout_limit m g = read_u16 m (g + 6)"
definition idt_layout_base :: "memory \<Rightarrow> u64 \<Rightarrow> u64" where "idt_layout_base m g = read_u64 m (g + 8)"

text \<open>\<open>gdt_layout layout{}\<close>: limit and base are zeroed.\<close>

definition layout_init :: "u64 \<Rightarrow> sys_state \<Rightarrow> sys_state" where
  "layout_init g y = sys_store (g + 8) 8 (byte_of 0) (sys_store (g + 6) 2 (byte_of 0) y)"

text \<open>A call from C++ with up to three arguments: the return address is pushed, and a wrapper that comes back
  anywhere else, or with another stack pointer, is undefined.\<close>

definition call_entry :: "u64 \<Rightarrow> u64 \<Rightarrow> u64 \<Rightarrow> u64 \<Rightarrow> sys_state \<Rightarrow> sys_state" where
  "call_entry ret a0 a1 a2 y =
     (let sp = sys_reg y RSP - 8
      in sys_store sp 8 (byte_of ret) (sys_set RSP sp (sys_set RDX a2 (sys_set RSI a1 (sys_set RDI a0 y)))))"

definition call_wrapper :: "u64 \<Rightarrow> (sys_state \<Rightarrow> sys_state) \<Rightarrow> u64 \<Rightarrow> u64 \<Rightarrow> u64 \<Rightarrow> sys_state \<Rightarrow> sys_state option" where
  "call_wrapper ret w a0 a1 a2 y =
     (let t = w (call_entry ret a0 a1 a2 y)
      in if a_rip (y_asm t) = ret \<and> sys_reg t RSP = sys_reg y RSP then Some t else None)"

text \<open>\<open>initialize_registers\<close>, with the return address of each call and the addresses of the two layouts on its
  stack and of the members \<open>guest_ldtr\<close> and \<open>os_tr\<close>.\<close>

definition initialize_registers_calls ::
  "processor \<Rightarrow> (nat \<Rightarrow> u64) \<Rightarrow> u64 \<Rightarrow> u64 \<Rightarrow> u64 \<Rightarrow> u64 \<Rightarrow> sys_state \<Rightarrow> hypervisor \<Rightarrow> (hypervisor \<times> sys_state) option" where
  "initialize_registers_calls p ret sgdt_layout sidt_layout guest_ldtr os_tr y hv = do {
     y \<leftarrow> call_wrapper (ret 0) (sys_run p cr0_asm) 0 0 0 y;
     let hv = hv\<lparr>hv_guest_cr0 := sys_reg y RAX\<rparr>;
     y \<leftarrow> call_wrapper (ret 1) (sys_run p cr3_asm) 0 0 0 y;
     let hv = hv\<lparr>hv_guest_cr3 := sys_reg y RAX\<rparr>;
     y \<leftarrow> call_wrapper (ret 2) (sys_run p cr4_asm) 0 0 0 y;
     let hv = hv\<lparr>hv_guest_cr4 := sys_reg y RAX\<rparr>;
     y \<leftarrow> call_wrapper (ret 3) (sys_run p dr7_asm) 0 0 0 y;
     let hv = hv\<lparr>hv_guest_dr7 := sys_reg y RAX\<rparr>;
     y \<leftarrow> call_wrapper (ret 4) (sys_run p rdmsr_asm) (ucast ia32_debug_control) 0 0 y;
     let hv = hv\<lparr>hv_ia32_debug_control := sys_reg y RAX\<rparr>;
     y \<leftarrow> call_wrapper (ret 5) (sys_run p rdmsr_asm) (ucast ia32_fs_base) 0 0 y;
     let hv = hv\<lparr>hv_ia32_fs_base := sys_reg y RAX\<rparr>;
     y \<leftarrow> call_wrapper (ret 6) (sys_run p rdmsr_asm) (ucast ia32_gs_base) 0 0 y;
     let hv = hv\<lparr>hv_ia32_gs_base := sys_reg y RAX\<rparr>;
     y \<leftarrow> call_wrapper (ret 7) (sys_run p sgdt_asm) (gdt_layout_data sgdt_layout) 0 0 (layout_init sgdt_layout y);
     let hv = hv\<lparr>hv_gdtr := \<lparr>tr_base = gdt_layout_base (sys_mem y) sgdt_layout,
                             tr_limit = gdt_layout_limit (sys_mem y) sgdt_layout\<rparr>\<rparr>;
     y \<leftarrow> call_wrapper (ret 8) (sys_run p sidt_asm) (idt_layout_data sidt_layout) 0 0 (layout_init sidt_layout y);
     let hv = hv\<lparr>hv_idtr := \<lparr>tr_base = idt_layout_base (sys_mem y) sidt_layout,
                             tr_limit = idt_layout_limit (sys_mem y) sidt_layout\<rparr>\<rparr>;
     y \<leftarrow> call_wrapper (ret 9) (sys_run p sldt_asm) guest_ldtr 0 0 y;
     let hv = hv\<lparr>hv_guest_ldtr := read_u16 (sys_mem y) guest_ldtr\<rparr>;
     y \<leftarrow> call_wrapper (ret 10) (sys_run p str_asm) os_tr 0 0 y;
     let hv = hv\<lparr>hv_os_tr := read_u16 (sys_mem y) os_tr\<rparr>;
     Some (hv, y)
   }"

section \<open>What a call leaves\<close>

text \<open>The processor, the stack pointer and the preserved registers are those of the caller.\<close>

definition same_frame :: "sys_state \<Rightarrow> sys_state \<Rightarrow> bool" where
  "same_frame y t \<longleftrightarrow> y_cpu t = y_cpu y \<and> sys_reg t RSP = sys_reg y RSP \<and> (\<forall>x \<in> sysv_preserved. sys_reg t x = sys_reg y x)"

lemma same_frame_trans: "same_frame x y \<Longrightarrow> same_frame y z \<Longrightarrow> same_frame x z"
  by (simp add: same_frame_def)

lemma same_frame_keeps: "same_frame x y \<Longrightarrow> y_cpu y = y_cpu x" "same_frame x y \<Longrightarrow> sys_reg y RSP = sys_reg x RSP"
  by (simp_all add: same_frame_def)

lemma call_entry_frame:
  "y_cpu (call_entry ret a0 a1 a2 y) = y_cpu y" "sys_reg (call_entry ret a0 a1 a2 y) RDI = a0"
  "sys_reg (call_entry ret a0 a1 a2 y) RSP = sys_reg y RSP - 8"
  "read_u64 (sys_mem (call_entry ret a0 a1 a2 y)) (sys_reg y RSP - 8) = ret"
  "x \<in> sysv_preserved \<Longrightarrow> sys_reg (call_entry ret a0 a1 a2 y) x = sys_reg y x"
  by (auto simp: call_entry_def Let_def sys_simps read_u64_pushed sysv_preserved_def)

lemma call_wrapper_returns:
  fixes ret a0 a1 a2 y w
  defines "t \<equiv> w (call_entry ret a0 a1 a2 y)"
  assumes "sys_returns (call_entry ret a0 a1 a2 y) t" and "y_cpu t = y_cpu y"
  shows "call_wrapper ret w a0 a1 a2 y = Some t" "same_frame y t"
  using assms by (simp_all add: call_wrapper_def same_frame_def sys_returns_def call_entry_frame)

lemma value_calls:
  assumes "same_frame x y"
  shows
  "\<exists>t. call_wrapper ret (sys_run p cr0_asm) a0 a1 a2 y = Some t \<and> same_frame x t \<and> sys_reg t RAX = cpu_cr0 (y_cpu x)"
  "\<exists>t. call_wrapper ret (sys_run p cr3_asm) a0 a1 a2 y = Some t \<and> same_frame x t \<and> sys_reg t RAX = cpu_cr3 (y_cpu x)"
  "\<exists>t. call_wrapper ret (sys_run p cr4_asm) a0 a1 a2 y = Some t \<and> same_frame x t \<and> sys_reg t RAX = cpu_cr4 (y_cpu x)"
  "\<exists>t. call_wrapper ret (sys_run p dr7_asm) a0 a1 a2 y = Some t \<and> same_frame x t \<and> sys_reg t RAX = cpu_dr7 (y_cpu x)"
  "\<exists>t. call_wrapper ret (sys_run p rdmsr_asm) (ucast msr) a1 a2 y = Some t \<and> same_frame x t \<and> sys_reg t RAX = rdmsr msr (y_cpu x)"
proof -
  have u: "ucast (ucast msr :: u64) = msr" by (rule bit_word_eqI) (simp add: bit_simps)
  have k: "y_cpu (sys_run p w e) = y_cpu e" if "w \<in> {cr0_asm, cr3_asm, cr4_asm, dr7_asm}" for w e
    using that by (auto simp: asm_wrapper_defs sys_simps)
  have call: "\<exists>t. call_wrapper ret (sys_run p w) a0 a1 a2 y = Some t \<and> same_frame x t \<and> sys_reg t RAX = v"
    if "sys_returns (call_entry ret a0 a1 a2 y) (sys_run p w (call_entry ret a0 a1 a2 y))"
      "sys_reg (sys_run p w (call_entry ret a0 a1 a2 y)) RAX = v"
      "y_cpu (sys_run p w (call_entry ret a0 a1 a2 y)) = y_cpu (call_entry ret a0 a1 a2 y)" for w v a0
    using call_wrapper_returns [where w = "sys_run p w", OF that(1)] that(2,3) same_frame_trans [OF assms] by (simp add: call_entry_frame)
  show "\<exists>t. call_wrapper ret (sys_run p cr0_asm) a0 a1 a2 y = Some t \<and> same_frame x t \<and> sys_reg t RAX = cpu_cr0 (y_cpu x)"
    "\<exists>t. call_wrapper ret (sys_run p cr3_asm) a0 a1 a2 y = Some t \<and> same_frame x t \<and> sys_reg t RAX = cpu_cr3 (y_cpu x)"
    "\<exists>t. call_wrapper ret (sys_run p cr4_asm) a0 a1 a2 y = Some t \<and> same_frame x t \<and> sys_reg t RAX = cpu_cr4 (y_cpu x)"
    "\<exists>t. call_wrapper ret (sys_run p dr7_asm) a0 a1 a2 y = Some t \<and> same_frame x t \<and> sys_reg t RAX = cpu_dr7 (y_cpu x)"
    by (rule call; simp add: control_wrappers_run k call_entry_frame same_frame_keeps [OF assms])+
  show "\<exists>t. call_wrapper ret (sys_run p rdmsr_asm) (ucast msr) a1 a2 y = Some t \<and> same_frame x t \<and> sys_reg t RAX = rdmsr msr (y_cpu x)"
    by (rule call) (simp_all add: msr_wrappers_run call_entry_frame u same_frame_keeps [OF assms])
qed

text \<open>The wrappers that store a register, with the block they write.\<close>

lemma store_wrappers_run:
  assumes "apart (sys_reg y RDI) 10 (sys_reg y RSP) 8"
  shows "sys_returns y (sys_run p sgdt_asm y)" "sys_returns y (sys_run p sidt_asm y)"
    "sys_mem (sys_run p sgdt_asm y) = write_block (sys_reg y RDI) 10 (table_image (cpu_gdtr (y_cpu y))) (sys_mem y)"
    "sys_mem (sys_run p sidt_asm y) = write_block (sys_reg y RDI) 10 (table_image (cpu_idtr (y_cpu y))) (sys_mem y)"
    "y_cpu (sys_run p sgdt_asm y) = y_cpu y" "y_cpu (sys_run p sidt_asm y) = y_cpu y"
  using assms by (simp_all add: asm_wrapper_defs sys_simps sys_returns_def sysv_preserved_def read_pushed_other)

lemma read_u16_word: "read_u16 (write_block a 2 (byte_of (ucast v)) m) a = v"
  by (rule read_u16_bytes) (simp add: write_block_def unat_of_nat take_bit_nat_eq_self)

lemma store_selector_run:
  assumes "apart (sys_reg y RDI) 2 (sys_reg y RSP) 8"
  shows "sys_returns y (sys_run p sldt_asm y)" "sys_returns y (sys_run p str_asm y)"
    "read_u16 (sys_mem (sys_run p sldt_asm y)) (sys_reg y RDI) = cpu_ldtr (y_cpu y)"
    "read_u16 (sys_mem (sys_run p str_asm y)) (sys_reg y RDI) = cpu_tr (y_cpu y)"
    "y_cpu (sys_run p sldt_asm y) = y_cpu y" "y_cpu (sys_run p str_asm y) = y_cpu y"
  using assms by (simp_all add: asm_wrapper_defs sys_simps sys_returns_def sysv_preserved_def read_pushed_other read_u16_word)

lemma layout_init_frame: "same_frame y (layout_init g y)"
  by (simp add: same_frame_def layout_init_def sys_simps)

lemma table_calls:
  assumes "apart (g + 6) 10 (sys_reg x RSP - 8) 8" and "same_frame x y"
  shows "\<exists>t. call_wrapper ret (sys_run p sgdt_asm) (gdt_layout_data g) a1 a2 y = Some t \<and> same_frame x t \<and>
      \<lparr>tr_base = gdt_layout_base (sys_mem t) g, tr_limit = gdt_layout_limit (sys_mem t) g\<rparr> = cpu_gdtr (y_cpu x)"
    and "\<exists>t. call_wrapper ret (sys_run p sidt_asm) (idt_layout_data g) a1 a2 y = Some t \<and> same_frame x t \<and>
      \<lparr>tr_base = idt_layout_base (sys_mem t) g, tr_limit = idt_layout_limit (sys_mem t) g\<rparr> = cpu_idtr (y_cpu x)"
proof -
  let ?e = "call_entry ret (g + 6) a1 a2 y"
  have a: "apart (sys_reg ?e RDI) 10 (sys_reg ?e RSP) 8" using assms(1) same_frame_keeps(2) [OF assms(2)] by (simp add: call_entry_frame)
  note r = store_wrappers_run [OF a, where p = p, unfolded call_entry_frame]
  have l: "\<lparr>tr_base = read_u64 (write_block (g + 6) 10 (table_image x) m) (g + 8),
      tr_limit = read_u16 (write_block (g + 6) 10 (table_image x) m) (g + 6)\<rparr> = x" for x m
    using read_table_image [of "g + 6" x m] by (simp add: read_table_def add.assoc)
  show "\<exists>t. call_wrapper ret (sys_run p sgdt_asm) (gdt_layout_data g) a1 a2 y = Some t \<and> same_frame x t \<and>
      \<lparr>tr_base = gdt_layout_base (sys_mem t) g, tr_limit = gdt_layout_limit (sys_mem t) g\<rparr> = cpu_gdtr (y_cpu x)"
    using call_wrapper_returns [where w = "sys_run p sgdt_asm", OF r(1,5)] same_frame_trans [OF assms(2)] same_frame_keeps(1) [OF assms(2)]
    by (simp add: gdt_layout_data_def gdt_layout_base_def gdt_layout_limit_def r(3) l)
  show "\<exists>t. call_wrapper ret (sys_run p sidt_asm) (idt_layout_data g) a1 a2 y = Some t \<and> same_frame x t \<and>
      \<lparr>tr_base = idt_layout_base (sys_mem t) g, tr_limit = idt_layout_limit (sys_mem t) g\<rparr> = cpu_idtr (y_cpu x)"
    using call_wrapper_returns [where w = "sys_run p sidt_asm", OF r(2,6)] same_frame_trans [OF assms(2)] same_frame_keeps(1) [OF assms(2)]
    by (simp add: idt_layout_data_def idt_layout_base_def idt_layout_limit_def r(4) l)
qed

lemma selector_calls:
  assumes "apart d 2 (sys_reg x RSP - 8) 8" and "same_frame x y"
  shows "\<exists>t. call_wrapper ret (sys_run p sldt_asm) d a1 a2 y = Some t \<and> same_frame x t \<and> read_u16 (sys_mem t) d = cpu_ldtr (y_cpu x)"
    and "\<exists>t. call_wrapper ret (sys_run p str_asm) d a1 a2 y = Some t \<and> same_frame x t \<and> read_u16 (sys_mem t) d = cpu_tr (y_cpu x)"
proof -
  let ?e = "call_entry ret d a1 a2 y"
  have a: "apart (sys_reg ?e RDI) 2 (sys_reg ?e RSP) 8" using assms(1) same_frame_keeps(2) [OF assms(2)] by (simp add: call_entry_frame)
  note r = store_selector_run [OF a, where p = p, unfolded call_entry_frame]
  show "\<exists>t. call_wrapper ret (sys_run p sldt_asm) d a1 a2 y = Some t \<and> same_frame x t \<and> read_u16 (sys_mem t) d = cpu_ldtr (y_cpu x)"
    using call_wrapper_returns [where w = "sys_run p sldt_asm", OF r(1,5)] same_frame_trans [OF assms(2)] same_frame_keeps(1) [OF assms(2)]
    by (simp add: r(3))
  show "\<exists>t. call_wrapper ret (sys_run p str_asm) d a1 a2 y = Some t \<and> same_frame x t \<and> read_u16 (sys_mem t) d = cpu_tr (y_cpu x)"
    using call_wrapper_returns [where w = "sys_run p str_asm", OF r(2,6)] same_frame_trans [OF assms(2)] same_frame_keeps(1) [OF assms(2)]
    by (simp add: r(4))
qed

section \<open>Properties\<close>

text \<open>A VMX wrapper returned what a function of \<open>Machine\<close> gives.\<close>

definition sys_yields :: "sys_state \<Rightarrow> sys_state \<Rightarrow> bool \<times> cpu \<Rightarrow> bool" where
  "sys_yields y t r \<longleftrightarrow> sys_returns y t \<and> sys_reg t RAX = of_bool (fst r) \<and> y_cpu t = snd r"

lemma vmx_yields:
  assumes "read_u64 (sys_mem (vmx_result p i y)) (sys_reg y RSP) = read_u64 (sys_mem y) (sys_reg y RSP)"
    and "r = (vmx_outcome p i y = VMfailInvalid, y_cpu (vmx_result p i y))"
  shows "sys_yields y (vmx_wrapper p i y) r"
  using vmx_wrapper_run [OF assms(1)] by (simp add: sys_yields_def assms(2))

text \<open>C35: The instruction wrappers are what the model of the processor says.  The assembly of every VMX wrapper the
  hypervisor calls returns to its caller with the preserved registers, in \<open>eax\<close> the result and on the processor the
  change of the corresponding function of the model, with the region it reads through its pointer; \<open>vmread\<close> stores
  the field, \<open>rdmsr\<close> joins the halves of a register and \<open>xsetbv\<close> splits its argument into them, \<open>cpuid\<close> stores its
  four results and keeps \<open>rbx\<close>.\<close>

theorem instruction_wrappers_refine:
  assumes "apart (sys_reg y RSI) 8 (sys_reg y RSP) 8" and "apart (sys_reg y RSP - 16) 24 (sys_reg y RDX) 16"
  shows "let c = y_cpu y; hw = p_hw p; region = read_u64 (sys_mem y) (sys_reg y RDI); old = read_u64 (sys_mem y) (sys_reg y RSI) in
    sys_yields y (vmxon_asm p y) (vmxon hw region c) \<and> sys_yields y (vmxoff_asm p y) (False, vmxoff c) \<and>
    sys_yields y (vmclear_asm p y) (vmclear hw region c) \<and> sys_yields y (vmptrld_asm p y) (vmptrld hw region c) \<and>
    sys_yields y (vmwrite_asm p y) (vmwrite hw (sys_reg y RDI) (sys_reg y RSI) c) \<and>
    sys_yields y (vmread_asm p y) (fst (vmread hw (sys_reg y RDI) old c), c) \<and>
    read_u64 (sys_mem (vmread_asm p y)) (sys_reg y RSI) = snd (vmread hw (sys_reg y RDI) old c) \<and>
    (let t = sys_run p rdmsr_asm y in sys_returns y t \<and> y_cpu t = c \<and> sys_reg t RAX = rdmsr (ucast (sys_reg y RDI)) c) \<and>
    (let t = sys_run p xsetbv_asm y in sys_returns y t \<and> y_cpu t = xsetbv (ucast (sys_reg y RDI)) (sys_reg y RSI) c) \<and>
    (let t = sys_run p cpuid_asm y; d = sys_reg y RDX in sys_returns y t \<and> y_cpu t = c \<and>
       (read_u32 (sys_mem t) d, read_u32 (sys_mem t) (d + 4), read_u32 (sys_mem t) (d + 8), read_u32 (sys_mem t) (d + 0xc)) =
         cpuid hw (ucast (sys_reg y RDI)) (ucast (sys_reg y RSI)))"
proof -
  note r = vmread_result [where p = p and y = y]
  have "sys_yields y (vmread_asm p y) (vmx_outcome p (Vmread RSI RDI) y = VMfailInvalid, y_cpu y)"
    unfolding vmx_wrapper_defs by (rule vmx_yields) (simp_all add: r(2) r(3) [OF assms(1)])
  moreover have "sys_mem (vmread_asm p y) = sys_mem (vmx_result p (Vmread RSI RDI) y)"
    unfolding vmx_wrapper_defs by (rule vmx_wrapper_run(4)) (rule r(3) [OF assms(1)])
  moreover have "sys_yields y (vmxoff_asm p y) (False, vmxoff (y_cpu y))"
    unfolding vmx_wrapper_defs by (rule vmx_yields) (simp_all add: vmx_result_mem vmx_result_machine)
  ultimately show ?thesis
    unfolding Let_def r(1) vmx_wrapper_defs
    by (simp add: vmx_yields vmx_result_mem vmx_result_machine msr_wrappers_run cpuid_run [OF assms(2)])
qed

text \<open>A state in which \<open>vmxon\<close> gets a pointer to the physical address of a region.\<close>

definition sample_sys :: sys_state where
  "sample_sys = \<lparr>y_asm = sample_state\<lparr>a_reg := (\<lambda>_. 0)(RDI := 0x10000, RSI := 0x10008, RDX := 0x10010, RSP := 0x20000),
       a_mem := write_block 0x10000 8 (byte_of 0x7000) (write_block 0x20000 8 (byte_of 0x1234) (\<lambda>_. 0))\<rparr>,
     y_cpu = reset_cpu\<lparr>cpu_tr := 0x40, cpu_gdtr := \<lparr>tr_base = 0x9000, tr_limit = 0x7f\<rparr>\<rparr>\<rparr>"

theorem instruction_wrappers_refine_witness:
  "\<forall>p. let t = vmxon_asm (p\<lparr>p_hw := accepting_hardware\<rparr>) sample_sys
     in sys_reg t RAX = 0 \<and> a_rip (y_asm t) = 0x1234 \<and> cpu_vmxon (y_cpu t) = Some 0x7000"
proof (intro allI)
  fix q :: processor
  let ?p = "q\<lparr>p_hw := accepting_hardware\<rparr>"
  have a: "apart (sys_reg sample_sys RSI) 8 (sys_reg sample_sys RSP) 8"
    "apart (sys_reg sample_sys RSP - 16) 24 (sys_reg sample_sys RDX) 16"
    by (simp_all add: sample_sys_def sys_reg_def apart_def)
  have m: "read_u64 (sys_mem sample_sys) (sys_reg sample_sys RDI) = 0x7000"
    "read_u64 (sys_mem sample_sys) (sys_reg sample_sys RSP) = 0x1234"
    by (simp_all add: sample_sys_def sys_reg_def sys_mem_def read_u64_pushed read_pushed_other apart_def)
  have "sys_yields sample_sys (vmxon_asm ?p sample_sys) (vmxon accepting_hardware 0x7000 (y_cpu sample_sys))"
    using instruction_wrappers_refine [OF a, of ?p] by (simp add: Let_def m)
  then show "let t = vmxon_asm ?p sample_sys in sys_reg t RAX = 0 \<and> a_rip (y_asm t) = 0x1234 \<and> cpu_vmxon (y_cpu t) = Some 0x7000"
    by (simp add: sys_yields_def sys_returns_def m vmxon_def accepting_hardware_def Let_def)
qed

text \<open>\<open>initialize_registers\<close> saves the state of the processor.  Its calls of the wrappers, with the operands of
  \<open>sgdt\<close> and \<open>sidt\<close> in layouts on its stack and \<open>sldt\<close> and \<open>str\<close> writing to its members, all return, leave the
  processor as it was, and fill the members as the model of the launch has it.\<close>

theorem initialize_registers_refines:
  assumes "apart (sgdt_layout + 6) 10 (sys_reg y RSP - 8) 8" and "apart (sidt_layout + 6) 10 (sys_reg y RSP - 8) 8"
    and "apart guest_ldtr 2 (sys_reg y RSP - 8) 8" and "apart os_tr 2 (sys_reg y RSP - 8) 8"
  shows "\<exists>t. initialize_registers_calls p ret sgdt_layout sidt_layout guest_ldtr os_tr y hv =
      Some (initialize_registers (y_cpu y) hv, t) \<and> same_frame y t"
proof -
  let ?c = "y_cpu y"
  have f: "same_frame y y" by (simp add: same_frame_def)
  obtain y0 where y0: "call_wrapper (ret 0) (sys_run p cr0_asm) 0 0 0 y = Some y0" "same_frame y y0" "sys_reg y0 RAX = cpu_cr0 ?c"
    using value_calls(1) [OF f] by blast
  obtain y1 where y1: "call_wrapper (ret 1) (sys_run p cr3_asm) 0 0 0 y0 = Some y1" "same_frame y y1" "sys_reg y1 RAX = cpu_cr3 ?c"
    using value_calls(2) [OF y0(2)] by blast
  obtain y2 where y2: "call_wrapper (ret 2) (sys_run p cr4_asm) 0 0 0 y1 = Some y2" "same_frame y y2" "sys_reg y2 RAX = cpu_cr4 ?c"
    using value_calls(3) [OF y1(2)] by blast
  obtain y3 where y3: "call_wrapper (ret 3) (sys_run p dr7_asm) 0 0 0 y2 = Some y3" "same_frame y y3" "sys_reg y3 RAX = cpu_dr7 ?c"
    using value_calls(4) [OF y2(2)] by blast
  obtain y4 where y4: "call_wrapper (ret 4) (sys_run p rdmsr_asm) (ucast ia32_debug_control) 0 0 y3 = Some y4" "same_frame y y4"
    "sys_reg y4 RAX = rdmsr ia32_debug_control ?c" using value_calls(5) [OF y3(2)] by blast
  obtain y5 where y5: "call_wrapper (ret 5) (sys_run p rdmsr_asm) (ucast ia32_fs_base) 0 0 y4 = Some y5" "same_frame y y5"
    "sys_reg y5 RAX = rdmsr ia32_fs_base ?c" using value_calls(5) [OF y4(2)] by blast
  obtain y6 where y6: "call_wrapper (ret 6) (sys_run p rdmsr_asm) (ucast ia32_gs_base) 0 0 y5 = Some y6" "same_frame y y6"
    "sys_reg y6 RAX = rdmsr ia32_gs_base ?c" using value_calls(5) [OF y5(2)] by blast
  obtain y7 where y7: "call_wrapper (ret 7) (sys_run p sgdt_asm) (gdt_layout_data sgdt_layout) 0 0 (layout_init sgdt_layout y6) = Some y7"
    "same_frame y y7" "\<lparr>tr_base = gdt_layout_base (sys_mem y7) sgdt_layout, tr_limit = gdt_layout_limit (sys_mem y7) sgdt_layout\<rparr> = cpu_gdtr ?c"
    using table_calls(1) [OF assms(1) same_frame_trans [OF y6(2) layout_init_frame]] by blast
  obtain y8 where y8: "call_wrapper (ret 8) (sys_run p sidt_asm) (idt_layout_data sidt_layout) 0 0 (layout_init sidt_layout y7) = Some y8"
    "same_frame y y8" "\<lparr>tr_base = idt_layout_base (sys_mem y8) sidt_layout, tr_limit = idt_layout_limit (sys_mem y8) sidt_layout\<rparr> = cpu_idtr ?c"
    using table_calls(2) [OF assms(2) same_frame_trans [OF y7(2) layout_init_frame]] by blast
  obtain y9 where y9: "call_wrapper (ret 9) (sys_run p sldt_asm) guest_ldtr 0 0 y8 = Some y9" "same_frame y y9"
    "read_u16 (sys_mem y9) guest_ldtr = cpu_ldtr ?c" using selector_calls(1) [OF assms(3) y8(2)] by blast
  obtain y10 where y10: "call_wrapper (ret 10) (sys_run p str_asm) os_tr 0 0 y9 = Some y10" "same_frame y y10"
    "read_u16 (sys_mem y10) os_tr = cpu_tr ?c" using selector_calls(2) [OF assms(4) y9(2)] by blast
  have "initialize_registers_calls p ret sgdt_layout sidt_layout guest_ldtr os_tr y hv = Some (initialize_registers ?c hv, y10)"
    unfolding initialize_registers_calls_def initialize_registers_def
    by (simp add: Let_def y0(1,3) y1(1,3) y2(1,3) y3(1,3) y4(1,3) y5(1,3) y6(1,3) y7(1,3) y8(1,3) y9(1,3) y10(1,3) del: One_nat_def)
  with y10(2) show ?thesis by blast
qed

theorem initialize_registers_refines_witness:
  "\<forall>p ret hv. \<exists>hv' t. initialize_registers_calls p ret 0x11000 0x11010 0x12000 0x12002 sample_sys hv = Some (hv', t) \<and>
     hv_gdtr hv' = \<lparr>tr_base = 0x9000, tr_limit = 0x7f\<rparr> \<and> hv_os_tr hv' = 0x40 \<and> sys_reg t RSP = 0x20000"
proof (intro allI)
  fix p ret hv
  have r: "sys_reg sample_sys RSP = 0x20000" by (simp add: sample_sys_def sys_reg_def)
  have a: "apart (0x11000 + 6) 10 (sys_reg sample_sys RSP - 8) 8" "apart (0x11010 + 6) 10 (sys_reg sample_sys RSP - 8) 8"
    "apart 0x12000 2 (sys_reg sample_sys RSP - 8) 8" "apart 0x12002 2 (sys_reg sample_sys RSP - 8) 8"
    by (simp_all add: r apart_def)
  have c: "cpu_gdtr (y_cpu sample_sys) = \<lparr>tr_base = 0x9000, tr_limit = 0x7f\<rparr>" "cpu_tr (y_cpu sample_sys) = 0x40"
    by (simp_all add: sample_sys_def)
  from initialize_registers_refines [OF a, of p ret hv]
  show "\<exists>hv' t. initialize_registers_calls p ret 0x11000 0x11010 0x12000 0x12002 sample_sys hv = Some (hv', t) \<and>
     hv_gdtr hv' = \<lparr>tr_base = 0x9000, tr_limit = 0x7f\<rparr> \<and> hv_os_tr hv' = 0x40 \<and> sys_reg t RSP = 0x20000"
    by (auto simp: same_frame_def r initialize_registers_def c)
qed

end
