(* ===== verification/Hypervisor_Main.thy ===== *)
theory Hypervisor_Main
  imports Vmx_Setup Vm_Exit
begin

text \<open>
  The control flow of a launch: \<open>vm_launch\<close>, \<open>main\<close>, \<open>launch_on_cpu_private_stack\<close> and
  \<open>launch_on_cpu\<close> of \<^verbatim>\<open>src/hypervisor/hypervisor.cpp\<close>, and \<open>zpp_hypervisor_main\<close> of
  \<^verbatim>\<open>src/hypervisor/main.cpp\<close>.  Control transfers by \<open>restore_context\<close> are results that
  carry the restored context.
\<close>

section \<open>The environment\<close>

text \<open>What the launch finds: the memory, the functions the loader passes by address, the addresses
  the linker gives code, and what \<open>capture_context\<close> stores for the host.\<close>

record launch_env =
  env_mem :: memory
  env_marker :: u64
  env_function :: "u64 \<Rightarrow> u64 \<Rightarrow> u64"
  env_vm_exit_entry :: u64
  env_vmlaunch :: u64
  env_launch_function :: u64
  env_stack_end :: u64
  env_host_context :: cpu_context

section \<open>Starting the guest\<close>

definition vm_launch ::
  "hardware \<Rightarrow> launch_env \<Rightarrow> cpu_context \<Rightarrow> hypervisor \<Rightarrow> cpu \<Rightarrow> cpu_context \<times> cpu_context \<times> hypervisor \<times> cpu" where
  "vm_launch hw env guest_context hv c =
     (let host_rsp = env_stack_end env - 2 * sizeof_context;
          c = run_writes
                [vmcs_set_host_rip hw (env_vm_exit_entry env), vmcs_set_host_rsp hw host_rsp,
                 vmcs_set_guest_rip hw (c_rip guest_context), vmcs_set_guest_rsp hw (c_rsp guest_context)] c;
          host_context = (env_host_context env)\<lparr>c_cs := hv_host_cs hv, c_ds := 0, c_es := 0, c_fs := 0, c_gs := 0, c_ss := 0\<rparr>;
          hv = hv\<lparr>hv_next_virtual_processor := hv_next_virtual_processor hv + 1\<rparr>;
          guest_context = guest_context\<lparr>c_rip := env_vmlaunch env, c_rflags := c_rflags host_context, c_rax := 0\<rparr>
      in (guest_context, host_context, hv, c))"

section \<open>Main\<close>

datatype main_result = Main_error hv_error | Main_launched cpu_context cpu_context

text \<open>\<open>if (auto error = e; !error)\<close>\<close>

definition failed :: "hv_error \<Rightarrow> bool" where
  "failed e \<longleftrightarrow> \<not> error_bool (hv_zpp_error e)"

text \<open>The two blocks that only the first processor executes.\<close>

definition first_cpu_module :: "launch_env \<Rightarrow> hypervisor \<Rightarrow> (hypervisor \<times> hv_error) option" where
  "first_cpu_module env hv = do {
     hv \<leftarrow> initialize_module_region (env_mem env) (env_marker env) hv;
     let hv = initialize_os_page_table hv;
     let hv = initialize_host_page_table (env_mem env) hv;
     (hv, e) \<leftarrow> initialize_module_physical_to_virtual hv;
     Some (if failed e then (hv, e) else (initialize_host_gdt (initialize_host_idt hv), success))
   }"

definition first_cpu_ept :: "cpu \<Rightarrow> hypervisor \<Rightarrow> (hypervisor \<times> hv_error) option" where
  "first_cpu_ept c hv = do {
     let hv = initialize_vmx_msrs c hv;
     hv \<leftarrow> initialize_mtrrs c hv;
     let hv = initialize_ept hv;
     (hv, e) \<leftarrow> protect_module hv;
     (if failed e then Some (hv, e)
      else do { hv \<leftarrow> unprotect_guest_memory hv; Some (hv, success) })
   }"

definition hypervisor_main ::
  "hardware \<Rightarrow> launch_env \<Rightarrow> cpu_context \<Rightarrow> hypervisor \<Rightarrow> cpu \<Rightarrow> (main_result \<times> hypervisor \<times> cpu) option" where
  "hypervisor_main hw env ctx hv c =
     (let cpuid = c_rdi ctx;
          p2v = (if c_rsi ctx = 0 then None else Some (env_function env (c_rsi ctx)));
          c = disable_interrupts c;
          restore_interrupts = scope_guard_of enable_interrupts;
          hv = initialize_registers c (hv\<lparr>hv_physical_to_virtual := p2v\<rparr>)
      in do {
        (hv, e) \<leftarrow> (if 0 = cpuid then first_cpu_module env hv else Some (hv, success));
        (if failed e then Some (Main_error e, hv, leave_scope [restore_interrupts] c)
         else do {
           hv \<leftarrow> initialize_intermediate_gdt (env_mem env) hv;
           let c = load_intermediate_gdt hv c;
           let c = set_cr3 (hv_host_cr3 hv) c;
           (hv, e) \<leftarrow> (if 0 = cpuid then first_cpu_ept c hv else Some (hv, success));
           let guards = [restore_interrupts, scope_guard_of (load_os_gdt hv), scope_guard_of (set_cr3 (hv_guest_cr3 hv))];
           (if failed e then Some (Main_error e, hv, leave_scope guards c)
            else do {
              hv \<leftarrow> initialize_vmx hv;
              let guards = [restore_interrupts, scope_guard_of (load_os_gdt hv), scope_guard_of (set_cr3 (hv_guest_cr3 hv))];
              let (e, c) = enter_root_mode hw hv c;
              (if failed e then Some (Main_error e, hv, leave_scope guards c)
               else
                 (let c = setup_vmcs hw (env_mem env) ctx hv c;
                      (guest_context, host_context, hv, c) = vm_launch hw env ctx hv c
                  in Some (Main_launched guest_context host_context, hv, c)))
            })
         })
      })"

section \<open>Entry\<close>

text \<open>The context that is restored after \<open>main\<close>: the context of the caller with the error code in
  \<open>rax\<close>, or the guest at \<open>vmlaunch\<close>.\<close>

definition launch_on_cpu_private_stack ::
  "hardware \<Rightarrow> launch_env \<Rightarrow> cpu_context \<Rightarrow> hypervisor \<Rightarrow> cpu \<Rightarrow> (cpu_context \<times> hypervisor \<times> cpu) option" where
  "launch_on_cpu_private_stack hw env caller_context hv c = do {
     (r, hv, c) \<leftarrow> hypervisor_main hw env caller_context hv c;
     Some (case r of
             Main_error e \<Rightarrow> (caller_context\<lparr>c_rax := of_int (hv_error_code e)\<rparr>, hv, c)
           | Main_launched guest_context host_context \<Rightarrow> (guest_context, hv, c))
   }"

definition stack_top :: "hypervisor \<Rightarrow> u64" where
  "stack_top hv = stack_address (hv_this hv) (hv_available_stack_index hv) + 0x80000 - sizeof_context"

definition launch_on_cpu :: "launch_env \<Rightarrow> cpu_context \<Rightarrow> hypervisor \<Rightarrow> (cpu_context \<times> hypervisor) option" where
  "launch_on_cpu env caller_context hv =
     (if max_cpus \<le> hv_available_stack_index hv then None
      else Some
        (caller_context\<lparr>c_rip := env_launch_function env, c_rsp := stack_top hv - 8,
           c_rdi := hv_this hv, c_rsi := stack_top hv\<rparr>,
         hv\<lparr>hv_stack := (hv_stack hv)(hv_available_stack_index hv := Some caller_context),
            hv_available_stack_index := hv_available_stack_index hv + 1\<rparr>))"

text \<open>The global state is created on the first call; \<open>None\<close> before.\<close>

definition zpp_hypervisor_main ::
  "u64 \<Rightarrow> launch_env \<Rightarrow> cpu_context \<Rightarrow> hypervisor option \<Rightarrow> (cpu_context \<times> hypervisor) option" where
  "zpp_hypervisor_main this env caller_context state =
     launch_on_cpu env caller_context (case state of Some hv \<Rightarrow> hv | None \<Rightarrow> create_once this)"

section \<open>What the steps leave alone\<close>

lemma failed_iff [simp]: "failed e \<longleftrightarrow> e \<noteq> success"
  using hv_errors.bool_iff [of e] by (simp add: failed_def hv_zpp_error_def)

text \<open>Each step changes only the members it is about.\<close>

lemma module_map_frame:
  assumes "initialize_module_physical_to_virtual hv = Some (hv', e)"
  shows "\<exists>m. hv' = hv\<lparr>hv_module_physical_to_virtual := m\<rparr>"
proof -
  have "\<exists>m. hv = hv\<lparr>hv_module_physical_to_virtual := m\<rparr>" for hv :: hypervisor
    by (rule exI [of _ "hv_module_physical_to_virtual hv"]) simp
  then show ?thesis
    using assms unfolding initialize_module_physical_to_virtual_def fill_module_map
    by (auto split: if_splits bind_splits)
qed

lemma vmx_msrs_frame: "\<exists>f. initialize_vmx_msrs c hv = hv\<lparr>hv_vmx_msrs := f\<rparr>"
proof -
  have "\<exists>f. loop n (\<lambda>i hv. hv\<lparr>hv_vmx_msrs := (hv_vmx_msrs hv)(i := g i)\<rparr>) hv = hv\<lparr>hv_vmx_msrs := f\<rparr>" for n g
  proof (induction n)
    case 0
    have "hv = hv\<lparr>hv_vmx_msrs := hv_vmx_msrs hv\<rparr>" by simp
    then show ?case by (metis loop.simps(1))
  next
    case (Suc n)
    then show ?case by auto
  qed
  then show ?thesis unfolding initialize_vmx_msrs_def .
qed

lemma mtrrs_frame:
  assumes "initialize_mtrrs c hv = Some hv'"
  shows "\<exists>ms k. hv' = hv\<lparr>hv_mtrrs := ms, hv_mtrr_capabilities := k\<rparr>"
proof -
  let ?P = "\<lambda>t. \<exists>ms k. t = hv\<lparr>hv_mtrrs := ms, hv_mtrr_capabilities := k\<rparr>"
  have "hv\<lparr>hv_mtrr_capabilities := k\<rparr> = hv\<lparr>hv_mtrrs := hv_mtrrs hv, hv_mtrr_capabilities := k\<rparr>" for k by simp
  then have start: "?P (hv\<lparr>hv_mtrr_capabilities := k\<rparr>)" for k by blast
  have upd: "?P (t\<lparr>hv_mtrrs := ms\<rparr>)" if P: "?P t" for t ms
  proof -
    obtain ms' k where "t = hv\<lparr>hv_mtrrs := ms', hv_mtrr_capabilities := k\<rparr>" using P by blast
    then have "t\<lparr>hv_mtrrs := ms\<rparr> = hv\<lparr>hv_mtrrs := ms, hv_mtrr_capabilities := k\<rparr>" by simp
    then show ?thesis by blast
  qed
  show ?thesis
    using assms unfolding initialize_mtrrs_def Let_def
    by (rule loop_opt_preserves [where P = ?P]) (use start upd in \<open>auto split: if_splits bind_splits\<close>)
qed

lemma split_large_page_frame: "tables_differ hv0 hv \<Longrightarrow> tables_differ hv0 (split_large_page k r c hv)"
  unfolding split_large_page_def Let_def by (intro set_epd_frame fill_ept(3))

lemma protect_page_frame:
  assumes "tables_differ hv0 (fst s)" and "protect_page i s = Some (s', r)"
  shows "tables_differ hv0 (fst s')"
  using assms
  by (auto simp: protect_page_def Let_def set_ept_frame split_large_page_frame split: prod.splits if_splits bind_splits)

lemma protect_module_frame:
  assumes "protect_module hv = Some (hv', e)"
  shows "tables_differ hv hv'"
proof -
  obtain k r where "loop_ret (module_pages hv) protect_page (hv, 0) = Some ((hv', k), r)"
    using assms by (auto simp: protect_module_def split: bind_splits)
  then have "tables_differ hv (fst (hv', k))"
    by (rule loop_ret_preserves) (simp_all add: tables_differ_refl protect_page_frame)
  then show ?thesis by simp
qed

lemma unprotect_frame:
  assumes "unprotect_guest_memory hv = Some hv'"
  shows "tables_differ hv hv'"
  using assms unfolding unprotect_guest_memory_def
proof (rule loop_opt_preserves)
  show "tables_differ hv t'" if "tables_differ hv t" "unprotect_page i t = Some t'" for i t t'
    using that by (auto simp: unprotect_page_def Let_def set_ept_frame split: if_splits bind_splits)
qed (rule tables_differ_refl)

text \<open>The registers of the operating system that the guards restore.\<close>

definition saved :: "hypervisor \<Rightarrow> u64 \<times> table_register \<times> u16" where
  "saved hv = (hv_guest_cr3 hv, hv_gdtr hv, hv_os_tr hv)"

lemma saved_first_cpu_module:
  assumes "first_cpu_module env hv = Some (hv', e)"
  shows "saved hv' = saved hv"
  using assms
  by (auto simp: first_cpu_module_def initialize_module_region_def initialize_os_page_table_def
      initialize_host_page_table_def initialize_host_gdt_def initialize_host_idt_def saved_def Let_def
      split: if_splits bind_splits dest!: module_map_frame)

lemma saved_tables_differ: "tables_differ hv hv' \<Longrightarrow> saved hv' = saved hv \<and> hv_guest_tr hv' = hv_guest_tr hv"
  by (auto simp: tables_differ_def saved_def)

lemma saved_first_cpu_ept:
  assumes "first_cpu_ept c hv = Some (hv', e)"
  shows "saved hv' = saved hv \<and> hv_guest_tr hv' = hv_guest_tr hv"
proof -
  obtain f where f: "initialize_vmx_msrs c hv = hv\<lparr>hv_vmx_msrs := f\<rparr>" using vmx_msrs_frame by blast
  obtain hv1 hv2 e1 where hv1: "initialize_mtrrs c (hv\<lparr>hv_vmx_msrs := f\<rparr>) = Some hv1"
    and hv2: "protect_module (initialize_ept hv1) = Some (hv2, e1)"
    and fin: "hv' = hv2 \<or> unprotect_guest_memory hv2 = Some hv'"
    using assms f by (auto simp: first_cpu_ept_def Let_def split: if_splits bind_splits)
  have "saved hv2 = saved hv \<and> hv_guest_tr hv2 = hv_guest_tr hv"
    using mtrrs_frame [OF hv1] saved_tables_differ [OF protect_module_frame [OF hv2]]
    by (auto simp: initialize_ept_eq saved_def)
  then show ?thesis using fin saved_tables_differ [OF unprotect_frame, of hv2 hv'] by auto
qed

lemma saved_intermediate_gdt:
  assumes "initialize_intermediate_gdt mem hv = Some hv'"
  shows "saved hv' = saved hv"
  using assms
  by (auto simp: initialize_intermediate_gdt_def copy_os_gdt_def set_gdt_entry_def saved_def Let_def
      split: if_splits bind_splits)

lemma saved_initialize_vmx:
  assumes "initialize_vmx hv = Some hv'"
  shows "saved hv' = saved hv \<and> hv_guest_tr hv' = hv_guest_tr hv"
  using assms by (auto simp: initialize_vmx_def saved_def Let_def split: if_splits)

section \<open>A failed launch leaves the processor as it was\<close>

lemma leave_restores:
  assumes "saved hv1 = (cpu_cr3 c, cpu_gdtr c, cpu_tr c)" and "saved hv2 = saved hv1" and "hv_guest_tr hv2 = hv_guest_tr hv1"
  shows "leave_scope [scope_guard_of enable_interrupts, scope_guard_of (load_os_gdt hv2), scope_guard_of (set_cr3 (hv_guest_cr3 hv2))]
      (set_cr3 cr3 (load_intermediate_gdt hv1 (disable_interrupts c))) = enable_interrupts c"
  using assms by (auto simp: saved_def load_os_gdt_def load_intermediate_gdt_def cpu_ops Let_def)

lemma load_intermediate_vmx:
  "cpu_vmxon (set_cr3 v (load_intermediate_gdt hv (disable_interrupts c))) = cpu_vmxon c"
  "cpu_vmcs (set_cr3 v (load_intermediate_gdt hv (disable_interrupts c))) = cpu_vmcs c"
  by (simp_all add: load_intermediate_gdt_def cpu_ops Let_def)

lemma main_error_restores:
  assumes vmx: "cpu_vmxon c = None" "cpu_vmcs c = None"
    and res: "hypervisor_main hw env ctx hv c = Some (Main_error e, hv', c')"
  shows "c' = enable_interrupts c \<and> e \<noteq> success"
proof -
  let ?c = "disable_interrupts c"
  let ?hv0 = "initialize_registers ?c (hv\<lparr>hv_physical_to_virtual := if c_rsi ctx = 0 then None else Some (env_function env (c_rsi ctx))\<rparr>)"
  have s0: "saved ?hv0 = (cpu_cr3 c, cpu_gdtr c, cpu_tr c)"
    by (simp add: saved_def initialize_registers_def cpu_ops)
  obtain hv1 e1 where m: "(if 0 = c_rdi ctx then first_cpu_module env ?hv0 else Some (?hv0, success)) = Some (hv1, e1)"
    using res unfolding hypervisor_main_def Let_def by (auto split: bind_splits)
  then have s1: "saved hv1 = (cpu_cr3 c, cpu_gdtr c, cpu_tr c)"
    using s0 saved_first_cpu_module by (auto split: if_splits)
  show ?thesis
  proof (cases "e1 = success")
    case False
    then show ?thesis
      using res m unfolding hypervisor_main_def Let_def by (auto simp: cpu_ops)
  next
    case True
    then obtain hv2 where g: "initialize_intermediate_gdt (env_mem env) hv1 = Some hv2"
      using res m unfolding hypervisor_main_def Let_def by (auto split: bind_splits)
    let ?c2 = "set_cr3 (hv_host_cr3 hv2) (load_intermediate_gdt hv2 ?c)"
    have s2: "saved hv2 = (cpu_cr3 c, cpu_gdtr c, cpu_tr c)" using s1 saved_intermediate_gdt [OF g] by simp
    obtain hv3 e3 where p: "(if 0 = c_rdi ctx then first_cpu_ept ?c2 hv2 else Some (hv2, success)) = Some (hv3, e3)"
      using res m g True unfolding hypervisor_main_def Let_def by (auto split: bind_splits)
    then have s3: "saved hv3 = saved hv2" "hv_guest_tr hv3 = hv_guest_tr hv2"
      using saved_first_cpu_ept [of ?c2 hv2 hv3 e3] by (auto split: if_splits)
    show ?thesis
    proof (cases "e3 = success")
      case False
      then show ?thesis
        using res m g True p leave_restores [OF s2 s3]
        unfolding hypervisor_main_def Let_def by auto
    next
      case success3: True
      then obtain hv4 where v: "initialize_vmx hv3 = Some hv4"
        using res m g True p unfolding hypervisor_main_def Let_def by (auto split: bind_splits)
      have s4: "saved hv4 = saved hv2" "hv_guest_tr hv4 = hv_guest_tr hv2"
        using saved_initialize_vmx [OF v] s3 by simp_all
      obtain e4 c4 where r: "enter_root_mode hw hv4 ?c2 = (e4, c4)" by fastforce
      have "e4 \<noteq> success \<and> e = e4 \<and>
          c' = leave_scope [scope_guard_of enable_interrupts, scope_guard_of (load_os_gdt hv4), scope_guard_of (set_cr3 (hv_guest_cr3 hv4))] c4"
        using res m g True p success3 v r
        unfolding hypervisor_main_def Let_def by (auto split: if_splits prod.splits)
      moreover from this have "c4 = ?c2"
        using enter_root_mode_restores [OF _ _ r] vmx by (simp add: load_intermediate_vmx)
      ultimately show ?thesis using leave_restores [OF s2 s4] by simp
    qed
  qed
qed

end
