(* ===== verification/Module_Memory.thy ===== *)
theory Module_Memory
  imports Module_Isolation
begin

text \<open>
  The host page table in use: the address space a processor has when it runs on the table the launch
  built, the physical memories in which the tables of the module lie, and an operating system that
  maps memory one to one (the firmware of a UEFI boot, where no conversion function is passed).
\<close>

section \<open>Walking the host table\<close>

lemma bits_or_low: "bits 12 40 (x OR (y AND 0xfff)) = bits 12 40 (x :: u64)"
proof -
  have m: "(0xfff :: u64) = mask 12" by (simp add: mask_eq_exp_minus_1)
  show ?thesis unfolding m by (rule bit_eqI) (auto simp: bit_bits bit_simps)
qed

lemma host_walk_of_module:
  assumes ok: "os_maps_module mem hv"
    and mem: "in_memory (\<lambda>x. bits 12 40 (os_virtual_to_physical (read_u64 mem) (hv_os_page_table hv) x)) pmem
      (hv_host_page_table (initialize_host_page_table mem hv))"
  shows "x \<in> range_of (hv_module_base hv) (module_pages hv) \<Longrightarrow>
      hw_walk pmem (hv_host_cr3 (initialize_host_page_table mem hv)) x =
        Some (os_virtual_to_physical (read_u64 mem) (hv_os_page_table hv) x)"
    and "hw_walk pmem (hv_host_cr3 (initialize_host_page_table mem hv)) y = Some q \<Longrightarrow>
      \<exists>x \<in> range_of (hv_module_base hv) (module_pages hv).
        q = push_bit 12 (bits 12 40 (os_virtual_to_physical (read_u64 mem) (hv_os_page_table hv) x)) + va_offset y"
proof -
  let ?n = "module_pages hv" and ?base = "hv_module_base hv" and ?pt = "host_page_table_address (hv_this hv)"
  let ?p = "(read_u64 mem, hv_os_page_table hv)" and ?hv' = "initialize_host_page_table mem hv"
  let ?osv = "os_virtual_to_physical (read_u64 mem) (hv_os_page_table hv)"
  obtain k where k: "object_at hv k" using ok by (auto simp: os_maps_module_def)
  have n: "?n = unat (number_of_pages (hv_module_size hv))" "?n \<le> 2 ^ 18"
    using ok number_of_whole_pages [of ?n] unfolding os_maps_module_def by metis+
  have small: "\<forall>x \<in> range_of ?base ?n. os_small ?p x" using ok by (simp add: os_maps_module_def)
  have pt: "?pt = page_at ?base (k + 0x802)"
    using object_page(1) [OF k, of "0x802"] by (simp add: member_pages object_pages_def)
  moreover have le: "k + 0x802 + 1028 \<le> ?n" using k by (simp add: object_at_def object_pages_def)
  ultimately have sub: "range_of ?pt 1028 \<subseteq> range_of ?base ?n" using range_of_shift by simp
  note t = host_page_table_of_module [OF ok]
  have "?pt \<in> range_of ?base ?n" unfolding pt using le by (intro page_at_in_range) simp
  then have "virtual_to_physical (hv_host_page_table ?hv') ?pt = ?osv ?pt" by (rule t(3))
  then have cr3: "bits 12 40 (hv_host_cr3 ?hv') = bits 12 40 (?osv ?pt)"
    using t(4) by (simp add: initialize_host_page_table_def Let_def head_address_def pml4_address_def bits_or_low)
  note walk = os.host_table_walk [OF n small sub, where prot = rwx_protection, unfolded split_conv, OF mem [unfolded t(1)] cr3]
  show "hw_walk pmem (hv_host_cr3 ?hv') x = Some (?osv x)" if "x \<in> range_of ?base ?n"
    by (rule walk(1) [OF that])
  show "\<exists>x \<in> range_of ?base ?n. q = push_bit 12 (bits 12 40 (?osv x)) + va_offset y"
    if "hw_walk pmem (hv_host_cr3 ?hv') y = Some q"
    by (rule walk(2) [OF that])
qed

section \<open>Memories that hold the tables\<close>

text \<open>The contents of the pages of a host page table object, in the order of the class.\<close>

definition table_page :: "page_table \<Rightarrow> nat \<Rightarrow> nat \<Rightarrow> u64" where
  "table_page t i =
     (if i = 0 then pml4 t else if i = 1 then pdpt t else if i < 4 then pds t (i - 2)
      else pts t ((i - 4) div 512) ((i - 4) mod 512))"

lemma in_memory_exists:
  assumes inj: "inj_on (\<lambda>i. fr (page_at (pt_this t) i)) {..<1028}" and fr: "\<And>x. take_bit 40 (fr x) = fr x"
  shows "\<exists>pmem. in_memory fr pmem t"
proof -
  obtain pmem where pmem: "\<And>i j. i < 1028 \<Longrightarrow> j < 512 \<Longrightarrow>
      pmem (push_bit 12 (fr (page_at (pt_this t) i)) + 8 * of_nat j) = table_page t i j"
    using physical_memory_exists [OF inj, of "table_page t"] fr by metis
  have "pmem (push_bit 12 (fr (page_at (pt_this t) (4 + k * 512 + j))) + 8 * of_nat i) = pts t k j i"
    if "i < 512" "k < 2" "j < 512" for i j k
    using pmem [of "4 + k * 512 + j" i] that by (simp add: table_page_def)
  moreover have "pmem (push_bit 12 (fr (page_at (pt_this t) (2 + k))) + 8 * of_nat i) = pds t k i"
    if "i < 512" "k < 2" for i k
    using pmem [of "2 + k" i] that by (simp add: table_page_def)
  ultimately have "in_memory fr pmem t"
    unfolding in_memory_def table_address_pages
    using pmem [of 0] pmem [of 1] by (simp add: table_page_def)
  then show ?thesis by blast
qed

text \<open>The pages of the extended tables, from \<open>epml4\<close> on.\<close>

definition ept_page :: "hypervisor \<Rightarrow> nat \<Rightarrow> nat \<Rightarrow> u64" where
  "ept_page hv i =
     (if i = 0 then hv_epml4 hv else if i = 1 then hv_epdpt hv else if i < 514 then hv_epd hv (i - 2)
      else hv_ept hv (i - 514))"

lemma ept_in_memory_exists:
  assumes mapped: "module_mapped hv" and k: "object_at hv k"
  shows "\<exists>pmem. ept_in_memory pmem hv"
proof -
  let ?fr = "\<lambda>i. host_frame hv (page_at (hv_this hv) (0xd5e + i))"
  have fr: "?fr i = bits 12 40 (module_physical hv (k + 0xd5e + i))" "k + 0xd5e + i < module_pages hv" if "i < 1538" for i
    using object_page [OF k, of "0xd5e + i"] that
    by (simp_all add: object_pages_def host_frame_def module_physical_def add.assoc)
  have "inj_on ?fr {..<1538}"
  proof (rule inj_onI)
    fix i j assume ij: "i \<in> {..<1538}" "j \<in> {..<1538}" "?fr i = ?fr j"
    then have "module_physical hv (k + 0xd5e + i) = module_physical hv (k + 0xd5e + j)"
      using fr(1) [of i] fr(1) [of j] module_physical_frame [OF mapped] by (metis lessThan_iff)
    then have "k + 0xd5e + i = k + 0xd5e + j"
      using mapped fr(2) ij(1,2) by (auto simp: module_mapped_def dest!: inj_onD)
    then show "i = j" by simp
  qed
  then obtain pmem where pmem: "\<And>i j. i < 1538 \<Longrightarrow> j < 512 \<Longrightarrow>
      pmem (push_bit 12 (?fr i) + 8 * of_nat j) = ept_page hv i j"
    using physical_memory_exists [of ?fr 1538 "ept_page hv"] by (auto simp: host_frame_def bits_take_bit)
  have "pmem (push_bit 12 (host_frame hv (page_at (hv_this hv) (0xd60 + j))) + 8 * of_nat i) = hv_epd hv j i"
    if "i < 512" "j < 512" for i j
    using pmem [of "2 + j" i] that by (simp add: ept_page_def)
  moreover have "pmem (push_bit 12 (host_frame hv (page_at (hv_this hv) (0xf60 + j))) + 8 * of_nat i) = hv_ept hv j i"
    if "i < 512" "j < 1024" for i j
    using pmem [of "514 + j" i] that by (simp add: ept_page_def)
  ultimately have "ept_in_memory pmem hv"
    unfolding ept_in_memory_def member_pages
    using pmem [of 0] pmem [of 1] by (simp add: ept_page_def)
  then show ?thesis by blast
qed

section \<open>An operating system that maps one to one\<close>

lemma unat_page_at_exact:
  assumes "unat base + i * 4096 < 2 ^ 64"
  shows "unat (page_at base i) = unat base + i * 4096"
  using assms by (simp add: page_at_def unat_word_ariths unat_of_nat take_bit_eq_mod mod_less)

lemma whole_pages:
  assumes "n \<le> 2 ^ 18" and "hv_module_size hv = of_nat n * 0x1000"
  shows "module_pages hv = n"
proof -
  have "unat (of_nat n * 0x1000 :: u64) = n * 4096"
    using assms(1) by (simp add: unat_word_ariths unat_of_nat take_bit_nat_eq_self)
  then show ?thesis unfolding module_pages_def assms(2) by (simp add: unat_div_distrib page_size_def)
qed

lemma identity_os_maps:
  assumes os: "physical_to_virtual (hv_os_page_table hv) = None"
    and pt: "hv_host_page_table hv = empty_table (host_page_table_address (hv_this hv))"
    and base: "va_offset (hv_module_base hv) = 0" and bytes: "hv_module_size hv = of_nat n * 0x1000"
    and n: "n \<le> 2 ^ 18" and k: "object_at hv k" and low: "unat (hv_module_base hv) + n * 4096 \<le> 2 ^ 39"
  shows "os_maps_module mem hv"
proof -
  have np: "module_pages hv = n" by (rule whole_pages [OF n bytes])
  have at: "unat (page_at (hv_module_base hv) i) = unat (hv_module_base hv) + i * 4096" if "i < n" for i
    by (rule unat_page_at_exact) (use low that in simp)
  have phys: "os_physical mem hv i = page_at (hv_module_base hv) i" for i
    using os by (simp add: os_physical_def os_virtual_to_physical_def)
  have "os_small (read_u64 mem, hv_os_page_table hv) x" if "x \<in> range_of (hv_module_base hv) n" for x
  proof -
    obtain i where i: "i < n" "drop_bit 12 x = drop_bit 12 (page_at (hv_module_base hv) i)"
      using \<open>x \<in> range_of (hv_module_base hv) n\<close> by (auto simp: range_of_def)
    have "take_bit 52 (page_at (hv_module_base hv) i) = page_at (hv_module_base hv) i"
      by (rule take_bit_self_u64) (use at [OF i(1)] i(1) low in simp)
    then show ?thesis using identity_page(1) i(2) os by (simp add: os_small_def)
  qed
  moreover have "inj_on (os_physical mem hv) {..<n}"
    using page_at_inj n by (auto simp: inj_on_def phys)
  moreover have "unat (os_physical mem hv i) < 2 ^ 39" if "i < n" for i
    using at [OF that] low that by (simp add: phys)
  ultimately show ?thesis
    using assms np unfolding os_maps_module_def by blast
qed

text \<open>The state of such a launch: the module at 16 MB, 5120 pages, with the object on its second
  page.\<close>

definition uefi_module :: hypervisor where
  "uefi_module = (create_once 0x1001000)\<lparr>hv_module_base := 0x1000000, hv_module_size := 0x1400000\<rparr>"

lemma uefi_module_maps: "os_maps_module mem uefi_module" "module_pages uefi_module = 5120"
proof -
  have bytes: "hv_module_size uefi_module = of_nat 5120 * 0x1000" by (simp add: uefi_module_def)
  show np: "module_pages uefi_module = 5120" by (rule whole_pages [OF _ bytes]) simp
  have "object_at uefi_module 1"
    unfolding object_at_def np by (simp add: uefi_module_def create_once_def page_at_def object_pages_def)
  then show "os_maps_module mem uefi_module"
    by (intro identity_os_maps [OF _ _ _ bytes])
      (simp_all add: uefi_module_def create_once_def va_offset_def)
qed

section \<open>Properties\<close>

text \<open>C15: The page table the launch builds for the hypervisor translates every address of the module
  as the page tables of the operating system do, and a processor that walks it from \<open>host_cr3\<close>
  gets the same physical address: the module survives the switch of \<open>cr3\<close>.\<close>

theorem host_table_serves_module:
  assumes "os_maps_module mem hv" and "x \<in> range_of (hv_module_base hv) (module_pages hv)"
    and "in_memory (\<lambda>x. bits 12 40 (os_virtual_to_physical (read_u64 mem) (hv_os_page_table hv) x)) pmem
      (hv_host_page_table (initialize_host_page_table mem hv))"
  shows "virtual_to_physical (hv_host_page_table (initialize_host_page_table mem hv)) x =
      os_virtual_to_physical (read_u64 mem) (hv_os_page_table hv) x \<and>
    hw_walk pmem (hv_host_cr3 (initialize_host_page_table mem hv)) x =
      Some (os_virtual_to_physical (read_u64 mem) (hv_os_page_table hv) x)"
  using host_page_table_of_module(3) [OF assms(1,2)] host_walk_of_module(1) [OF assms(1,3,2)] by blast

lemma uefi_tables_in_memory:
  "\<exists>pmem. in_memory (\<lambda>x. bits 12 40 (os_virtual_to_physical (read_u64 mem) (hv_os_page_table uefi_module) x)) pmem
     (hv_host_page_table (initialize_host_page_table mem uefi_module))"
proof (rule in_memory_exists)
  have id: "os_virtual_to_physical (read_u64 mem) (hv_os_page_table uefi_module) x = x" for x
    by (simp add: uefi_module_def create_once_def os_virtual_to_physical_def)
  have pt: "pt_this (hv_host_page_table (initialize_host_page_table mem uefi_module)) = 0x1803000"
    using host_page_table_of_module(4) [OF uefi_module_maps(1), of mem]
    by (simp add: uefi_module_def create_once_def host_page_table_address_def)
  show "inj_on (\<lambda>i. bits 12 40 (os_virtual_to_physical (read_u64 mem) (hv_os_page_table uefi_module)
      (page_at (pt_this (hv_host_page_table (initialize_host_page_table mem uefi_module))) i))) {..<1028}"
  proof (rule inj_onI, unfold id pt)
    fix i j :: nat
    assume ij: "i \<in> {..<1028}" "j \<in> {..<1028}" "bits 12 40 (page_at 0x1803000 i) = bits 12 40 (page_at 0x1803000 j)"
    then have "unat (bits 12 40 (page_at 0x1803000 i)) = unat (bits 12 40 (page_at 0x1803000 j))" by simp
    then show "i = j"
      using ij(1,2) by (simp add: unat_bits unat_page_at_exact)
  qed
  show "take_bit 40 (bits 12 40 (os_virtual_to_physical (read_u64 mem) (hv_os_page_table uefi_module) x)) =
      bits 12 40 (os_virtual_to_physical (read_u64 mem) (hv_os_page_table uefi_module) x)" for x
    by (rule bits_take_bit)
qed

theorem host_table_serves_module_witness:
  "\<exists>pmem. hw_walk pmem (hv_host_cr3 (initialize_host_page_table (\<lambda>_. 0) uefi_module)) 0x1000000 = Some 0x1000000"
proof -
  obtain pmem where pmem: "in_memory (\<lambda>x. bits 12 40 (os_virtual_to_physical (read_u64 (\<lambda>_. 0)) (hv_os_page_table uefi_module) x)) pmem
     (hv_host_page_table (initialize_host_page_table (\<lambda>_. 0) uefi_module))"
    using uefi_tables_in_memory by blast
  have "page_at 0x1000000 0 \<in> range_of (hv_module_base uefi_module) (module_pages uefi_module)"
    unfolding uefi_module_maps(2) using page_at_in_range [of 0 5120 "0x1000000"] by (simp add: uefi_module_def)
  from host_table_serves_module [OF uefi_module_maps(1) this pmem] show ?thesis
    by (auto simp: page_at_def uefi_module_def create_once_def os_virtual_to_physical_def)
qed

text \<open>C16: A processor on the host page table reaches the frames of the module and no others: whatever
  virtual address it uses, a translation leads into the frame of some page of the module.\<close>

theorem host_table_reaches_module_only:
  assumes "os_maps_module mem hv"
    and "in_memory (\<lambda>x. bits 12 40 (os_virtual_to_physical (read_u64 mem) (hv_os_page_table hv) x)) pmem
      (hv_host_page_table (initialize_host_page_table mem hv))"
    and "hw_walk pmem (hv_host_cr3 (initialize_host_page_table mem hv)) y = Some q"
  shows "\<exists>x \<in> range_of (hv_module_base hv) (module_pages hv).
    q = push_bit 12 (bits 12 40 (os_virtual_to_physical (read_u64 mem) (hv_os_page_table hv) x)) + va_offset y"
  by (rule host_walk_of_module(2) [OF assms])

theorem host_table_reaches_module_only_witness:
  "\<exists>pmem q. hw_walk pmem (hv_host_cr3 (initialize_host_page_table (\<lambda>_. 0) uefi_module)) 0x1000123 = Some q \<and>
     (\<exists>x \<in> range_of 0x1000000 5120. q = push_bit 12 (bits 12 40 x) + va_offset 0x1000123)"
proof -
  obtain pmem where pmem: "in_memory (\<lambda>x. bits 12 40 (os_virtual_to_physical (read_u64 (\<lambda>_. 0)) (hv_os_page_table uefi_module) x)) pmem
     (hv_host_page_table (initialize_host_page_table (\<lambda>_. 0) uefi_module))"
    using uefi_tables_in_memory by blast
  have "0x1000123 \<in> range_of 0x1000000 5120"
    unfolding range_of_def mem_Collect_eq by (rule exI [of _ 0]) (simp add: page_at_def)
  then have "0x1000123 \<in> range_of (hv_module_base uefi_module) (module_pages uefi_module)"
    unfolding uefi_module_maps(2) by (simp add: uefi_module_def)
  note walk = host_walk_of_module(1) [OF uefi_module_maps(1) pmem this]
  note only = host_table_reaches_module_only [OF uefi_module_maps(1) pmem walk]
  have id: "os_virtual_to_physical (read_u64 (\<lambda>_. 0)) (hv_os_page_table uefi_module) x = x" for x
    by (simp add: uefi_module_def create_once_def os_virtual_to_physical_def)
  have "hv_module_base uefi_module = 0x1000000" by (simp add: uefi_module_def)
  then show ?thesis using walk only unfolding id uefi_module_maps(2) by metis
qed

text \<open>C17: When the module fits the map, \<open>initialize_module_physical_to_virtual\<close> succeeds and the
  map leads from the physical address of every page of the module, and from nothing else, back to its
  virtual address; when it does not fit, the capacity error is returned and nothing changes.\<close>

theorem physical_to_virtual_complete:
  assumes "inj_on (module_physical hv) {..<module_pages hv}"
    and "hv_module_physical_to_virtual hv = default_map storage"
  shows "if module_pages hv < length storage
    then \<exists>m. initialize_module_physical_to_virtual hv = Some (hv\<lparr>hv_module_physical_to_virtual := m\<rparr>, success) \<and>
      (\<forall>i < module_pages hv. map_second m (module_physical hv i) = Some (page_at (hv_module_base hv) i)) \<and>
      (\<forall>k. k \<notin> module_physical hv ` {..<module_pages hv} \<longrightarrow> map_second m k = None)
    else initialize_module_physical_to_virtual hv = Some (hv, physical_to_virtual_capacity_error)"
proof (cases "module_pages hv < length storage")
  case True
  then obtain m where m: "initialize_module_physical_to_virtual hv = Some (hv\<lparr>hv_module_physical_to_virtual := m\<rparr>, success)"
    "small_map_inv m" "\<forall>i < module_pages hv. small_map_lookup m (module_physical hv i) = Some (page_at (hv_module_base hv) i)"
    "\<forall>k. k \<notin> module_physical hv ` {..<module_pages hv} \<longrightarrow> small_map_lookup m k = None"
    using initialize_module_physical_to_virtual_result [OF refl assms] by auto
  then show ?thesis using True by (auto simp: map_second_lookup)
next
  case False
  then show ?thesis using initialize_module_physical_to_virtual_result [OF refl assms] by simp
qed

text \<open>The state after the host table was built.\<close>

lemma uefi_host_mapped:
  defines "hv \<equiv> initialize_host_page_table (\<lambda>_. 0) uefi_module"
  shows "module_mapped hv" "module_pages hv = 5120" "object_at hv 1" "hv_epml4 hv = (\<lambda>_. 0)"
    "hv_module_physical_to_virtual hv = default_map (replicate module_capacity (0, 0))" "hv_module_base hv = 0x1000000"
    "i < 5120 \<Longrightarrow> module_physical hv i = page_at 0x1000000 i"
proof -
  note f = initialize_host_page_table_fields [of "\<lambda>_. 0" uefi_module, folded hv_def]
  note mh = module_mapped_host [OF uefi_module_maps(1), where mem = "\<lambda>_. 0", folded hv_def]
  show "module_mapped hv" by (rule mh(1))
  show np: "module_pages hv = 5120" using f(4) uefi_module_maps(2) by simp
  show "object_at hv 1"
    unfolding object_at_def np
    by (simp add: f uefi_module_def create_once_def page_at_def object_pages_def)
  show "hv_epml4 hv = (\<lambda>_. 0)" "hv_module_base hv = 0x1000000"
    "hv_module_physical_to_virtual hv = default_map (replicate module_capacity (0, 0))"
    by (simp_all add: f uefi_module_def create_once_def)
  show "module_physical hv i = page_at 0x1000000 i" if "i < 5120"
    using mh(2) [of i] that uefi_module_maps(2)
    by (simp add: os_physical_def uefi_module_def create_once_def os_virtual_to_physical_def)
qed

theorem physical_to_virtual_complete_witness:
  "\<exists>hv m. initialize_module_physical_to_virtual (initialize_host_page_table (\<lambda>_. 0) uefi_module) = Some (hv, success) \<and>
     hv_module_physical_to_virtual hv = m \<and> map_second m 0x1005000 = Some 0x1005000"
proof -
  let ?hv = "initialize_host_page_table (\<lambda>_. 0) uefi_module"
  note u = uefi_host_mapped
  have "inj_on (module_physical ?hv) {..<module_pages ?hv}" using u(1) by (simp add: module_mapped_def)
  from physical_to_virtual_complete [OF this u(5)] obtain m where
    m: "initialize_module_physical_to_virtual ?hv = Some (?hv\<lparr>hv_module_physical_to_virtual := m\<rparr>, success)"
    "\<forall>i < 5120. map_second m (module_physical ?hv i) = Some (page_at 0x1000000 i)"
    unfolding u(2,6) by (auto simp: module_capacity_eq)
  have "map_second m (page_at 0x1000000 5) = Some (page_at 0x1000000 5)" using spec [OF m(2), of 5] u(7) [of 5] by simp
  with m(1) show ?thesis by (auto simp: page_at_def)
qed

end
