(* ===== verification/Launch_Isolation.thy ===== *)
theory Launch_Isolation
  imports Hypervisor_Main Module_Memory
begin

text \<open>
  The launch as a whole on the first processor: a launch that succeeds leaves a guest that runs
  under extended page tables which hide the module, in terms of the page tables of the operating
  system and of the control structure the processor uses.
\<close>

section \<open>The hidden pages by address\<close>

definition guarded_pages :: "memory \<Rightarrow> hypervisor \<Rightarrow> nat set" where
  "guarded_pages mem hv =
     {page_of (os_physical mem hv i) | i. i < module_pages hv \<and>
        page_at (hv_module_base hv) i \<notin> page_at (unprotected_memory_address (hv_this hv)) ` {..<257}}"

lemma page_of_inj: "page_of (push_bit 12 (bits 12 40 x)) = page_of (push_bit 12 (bits 12 40 y)) \<Longrightarrow>
    push_bit 12 (bits 12 40 x) = push_bit 12 (bits 12 40 y)"
proof -
  assume "page_of (push_bit 12 (bits 12 40 x)) = page_of (push_bit 12 (bits 12 40 y))"
  then have "drop_bit 12 (push_bit 12 (bits 12 40 x)) = drop_bit 12 (push_bit 12 (bits 12 40 y))"
    unfolding page_of_def by (rule unsigned_word_eqI)
  moreover have "push_bit 12 (drop_bit 12 (push_bit 12 (bits 12 40 z))) = push_bit 12 (bits 12 40 z)" for z :: u64
    by (rule bit_eqI) (auto simp: bit_simps bit_bits)
  ultimately show ?thesis by metis
qed

lemma module_page_inj:
  assumes "module_mapped hv"
  shows "inj_on (module_page hv) {..<module_pages hv}"
proof (rule inj_onI)
  fix i j assume i: "i \<in> {..<module_pages hv}" and j: "j \<in> {..<module_pages hv}" and eq: "module_page hv i = module_page hv j"
  have "page_of (module_physical hv i) = page_of (module_physical hv j)"
    using eq by (simp add: module_page_def module_physical_def)
  then have "module_physical hv i = module_physical hv j"
    using module_physical_frame [OF assms, of i] module_physical_frame [OF assms, of j] page_of_inj by metis
  then show "i = j" using assms i j by (auto simp: module_mapped_def inj_on_def)
qed

lemma hidden_guarded:
  assumes ok: "os_maps_module mem hv"
  shows "hidden_pages (initialize_host_page_table mem hv) = guarded_pages mem hv"
proof -
  let ?hv = "initialize_host_page_table mem hv" and ?n = "module_pages hv"
  note f = initialize_host_page_table_fields [of mem hv]
  note m = module_mapped_host [OF ok]
  obtain k where k: "object_at hv k" using ok by (auto simp: os_maps_module_def)
  have n: "?n \<le> 2 ^ 18" using ok by (simp add: os_maps_module_def)
  let ?U = "(\<lambda>j. k + 0xc5c + j) ` {..<257}"
  have kn: "k + 0x1382 \<le> ?n" using k by (simp add: object_at_def object_pages_def)
  then have U: "?U \<subseteq> {..<?n}" by auto
  have page: "module_page ?hv i = page_of (os_physical mem hv i)" if "i < ?n" for i
    using m(2) [OF that] by (simp add: module_page_def module_physical_def)
  have addr: "page_at (hv_module_base hv) i \<in> page_at (unprotected_memory_address (hv_this hv)) ` {..<257} \<longleftrightarrow> i \<in> ?U"
    if i: "i < ?n" for i
  proof -
    have "page_at (unprotected_memory_address (hv_this hv)) j = page_at (hv_module_base hv) (k + 0xc5c + j)" for j
      using k by (simp add: member_pages object_at_def page_at_page_at add.assoc)
    moreover have "page_at (hv_module_base hv) i = page_at (hv_module_base hv) (k + 0xc5c + j) \<longleftrightarrow> i = k + 0xc5c + j"
      if "j < 257" for j
      using page_at_inj [of i "k + 0xc5c + j" "hv_module_base hv"] i that n kn by auto
    ultimately show ?thesis by auto
  qed
  have "unprotected_page ?hv ` {..<257} = module_page ?hv ` ?U"
    using unprotected_page_module [of ?hv k] k f by (simp add: image_image)
  then have "hidden_pages ?hv = module_page ?hv ` ({..<?n} - ?U)"
    using inj_on_image_set_diff [OF module_page_inj [OF m(1)], of "{..<?n}" ?U] U f
    by (simp add: hidden_pages_def)
  also have "\<dots> = (\<lambda>i. page_of (os_physical mem hv i)) ` ({..<?n} - ?U)"
    using page by (intro image_cong) simp_all
  also have "{..<?n} - ?U =
      {i. i < ?n \<and> page_at (hv_module_base hv) i \<notin> page_at (unprotected_memory_address (hv_this hv)) ` {..<257}}"
    using addr by blast
  also have "(\<lambda>i. page_of (os_physical mem hv i)) ` \<dots> = guarded_pages mem hv"
    unfolding guarded_pages_def by blast
  finally show ?thesis .
qed

section \<open>The state before the extended page tables\<close>

lemma same_module_trans: "same_module a b \<Longrightarrow> same_module b d \<Longrightarrow> same_module a d"
  by (simp add: same_module_def)

lemma intermediate_gdt_frame:
  assumes "initialize_intermediate_gdt mem hv = Some hv'"
  shows "same_module hv hv' \<and> hv_epml4 hv' = hv_epml4 hv"
  using assms
  by (auto simp: initialize_intermediate_gdt_def copy_os_gdt_def set_gdt_entry_def same_module_def Let_def
      split: if_splits bind_splits)

lemma host_gdt_frame: "same_module hv (initialize_host_gdt (initialize_host_idt hv)) \<and>
    hv_epml4 (initialize_host_gdt (initialize_host_idt hv)) = hv_epml4 hv"
  by (simp add: initialize_host_gdt_def initialize_host_idt_def same_module_def Let_def)

lemma module_map_view:
  fixes hv :: hypervisor and m :: "(u64, u64) small_map"
  defines "hv' \<equiv> hv\<lparr>hv_module_physical_to_virtual := m\<rparr>"
  shows "module_pages hv' = module_pages hv" "module_physical hv' = module_physical hv"
    "object_at hv' k = object_at hv k" "hidden_pages hv' = hidden_pages hv" "module_mapped hv' = module_mapped hv"
proof -
  show pages: "module_pages hv' = module_pages hv" "module_physical hv' = module_physical hv"
    by (simp_all add: hv'_def module_pages_def module_physical_def fun_eq_iff)
  show "object_at hv' k = object_at hv k" "module_mapped hv' = module_mapped hv"
    unfolding object_at_def module_mapped_def pages by (simp_all add: hv'_def)
  have "module_page hv' = module_page hv" "unprotected_page hv' = unprotected_page hv"
    by (simp_all add: hv'_def module_page_def unprotected_page_def fun_eq_iff)
  then show "hidden_pages hv' = hidden_pages hv" unfolding hidden_pages_def pages by simp
qed

text \<open>After the first block of the first processor the module is ready.\<close>

lemma first_cpu_module_ready:
  assumes res: "first_cpu_module env hv = Some (hv', success)"
    and region: "initialize_module_region (env_mem env) (env_marker env) hv = Some hvm"
    and ok: "os_maps_module (env_mem env) (initialize_os_page_table hvm)"
    and map: "hv_module_physical_to_virtual hv = default_map storage"
  shows "module_ready hv' \<and> hidden_pages hv' = guarded_pages (env_mem env) (initialize_os_page_table hvm) \<and>
    hv_epml4 hv' = hv_epml4 hv \<and> hv_this hv' = hv_this hv"
proof -
  let ?mem = "env_mem env" and ?hvo = "initialize_os_page_table hvm"
  let ?hvh = "initialize_host_page_table ?mem ?hvo"
  note f = initialize_host_page_table_fields [of ?mem ?hvo]
  have hvm: "hv_module_physical_to_virtual hvm = default_map storage" "hv_epml4 hvm = hv_epml4 hv" "hv_this hvm = hv_this hv"
    using region map by (auto simp: initialize_module_region_def split: bind_splits)
  then have hvh: "hv_module_physical_to_virtual ?hvh = default_map storage" "hv_epml4 ?hvh = hv_epml4 hv" "hv_this ?hvh = hv_this hv"
    using f by (simp_all add: initialize_os_page_table_def)
  obtain hvp ep where p: "initialize_module_physical_to_virtual ?hvh = Some (hvp, ep)"
    and hv': "ep = success" "hv' = initialize_host_gdt (initialize_host_idt hvp)"
    using res region by (auto simp: first_cpu_module_def Let_def split: bind_splits if_splits)
  have mm: "module_mapped ?hvh" by (rule module_mapped_host [OF ok])
  then have inj: "inj_on (module_physical ?hvh) {..<module_pages ?hvh}" by (simp add: module_mapped_def)
  obtain m where m: "hvp = ?hvh\<lparr>hv_module_physical_to_virtual := m\<rparr>" "small_map_inv m"
    "\<forall>i < module_pages ?hvh. small_map_lookup m (module_physical ?hvh i) = Some (page_at (hv_module_base ?hvh) i)"
    using initialize_module_physical_to_virtual_result [OF refl inj hvh(1)] p hv'(1)
    by (auto split: if_splits)
  have same: "module_pages hvp = module_pages ?hvh" "module_physical hvp = module_physical ?hvh"
    "hv_module_base hvp = hv_module_base ?hvh" "\<And>k. object_at hvp k = object_at ?hvh k"
    "hidden_pages hvp = hidden_pages ?hvh" "module_mapped hvp = module_mapped ?hvh"
    "hv_epml4 hvp = hv_epml4 hv" "hv_this hvp = hv_this hv"
    using m(1) hvh by (simp_all add: module_map_view)
  have "\<exists>k. object_at ?hvh k" using ok f(7) by (auto simp: os_maps_module_def)
  then have "module_ready hvp"
    using m mm same by (simp add: module_ready_def)
  then show ?thesis
    using host_gdt_frame [of hvp] same hidden_guarded [OF ok] same_module_view [of hvp hv'] hv'(2) by simp
qed

text \<open>The second block: the tables give the view, and nothing that matters for it is touched
  afterwards.\<close>

lemma first_cpu_ept_view:
  assumes res: "first_cpu_ept c hv = Some (hv', success)" and ready: "module_ready hv" and empty: "hv_epml4 hv = (\<lambda>_. 0)"
  shows "\<exists>hve. same_module hv hve \<and> guest_view hve hv' \<and> same_module hve hv' \<and> hv_mtrrs hv' = hv_mtrrs hve"
proof -
  obtain f where f: "initialize_vmx_msrs c hv = hv\<lparr>hv_vmx_msrs := f\<rparr>" using vmx_msrs_frame by blast
  obtain hve where hve: "initialize_mtrrs c (hv\<lparr>hv_vmx_msrs := f\<rparr>) = Some hve"
    using res f by (auto simp: first_cpu_ept_def Let_def split: bind_splits)
  then have same: "same_module hv hve" "hv_epml4 hve = (\<lambda>_. 0)"
    using mtrrs_frame [OF hve] empty by (auto simp: same_module_def)
  obtain hv2 where hv2: "protect_module (initialize_ept hve) = Some (hv2, success)"
    and hv': "unprotect_guest_memory hv2 = Some hv'"
    using res f hve by (auto simp: first_cpu_ept_def Let_def split: bind_splits if_splits)
  have "module_ready hve" using ready same_module_view(6) [OF same(1)] by simp
  then have "guest_view hve hv'"
    using guest_view_protected [OF _ same(2)] hv2 hv' by (auto split: if_splits)
  moreover have "same_module hve hv'" "hv_mtrrs hv' = hv_mtrrs hve"
    using protect_module_frame [OF hv2] unprotect_frame [OF hv'] same(1)
    by (auto simp: tables_differ_def initialize_ept_eq same_module_def)
  ultimately show ?thesis using same(1) by blast
qed

section \<open>The control structure\<close>

text \<open>A processor on which VMX works.\<close>

definition vmx_accepts :: "hardware \<Rightarrow> bool" where
  "vmx_accepts hw \<longleftrightarrow> hw_vmxon hw = (\<lambda>_ _. VMsucceed) \<and> hw_vmclear hw = (\<lambda>_ _. VMsucceed) \<and>
     hw_vmptrld hw = (\<lambda>_ _. VMsucceed) \<and> vmcs_accepts hw"

lemma vm_launch_read:
  assumes ok: "vmcs_ok hw c" and res: "vm_launch hw env ctx hv c = (g, h, hv', c')"
    and f: "f \<noteq> field_host_rip" "f \<noteq> field_host_rsp" "f \<noteq> field_guest_rip" "f \<noteq> field_guest_rsp"
  shows "vmcs_read hw f c' = vmcs_read hw f c"
proof -
  let ?ps = "[(field_host_rip, env_vm_exit_entry env), (field_host_rsp, env_stack_end env - 2 * sizeof_context),
    (field_guest_rip, c_rip ctx), (field_guest_rsp, c_rsp ctx)]"
  have "c' = run_writes (map (\<lambda>(f, v). vmcs_write hw f v) ?ps) c"
    using res by (auto simp: vm_launch_def Let_def vmcs_set_host_rip_def vmcs_set_host_rsp_def
        vmcs_set_guest_rip_def vmcs_set_guest_rsp_def)
  moreover have "distinct (map fst ?ps)"
    by (simp add: field_host_rip_def field_host_rsp_def field_guest_rip_def field_guest_rsp_def)
  ultimately show ?thesis using run_writes_read(1) [OF ok, of ?ps f] f by simp
qed

lemma ept_pointer_value_frame: "bits 12 40 (ept_pointer_value hv) = bits 12 40 (hv_epml4_physical hv)"
  using ept_pointer_page_number.get_put [of "drop_bit 12 (hv_epml4_physical hv)"]
  by (simp add: ept_pointer_value_def ept_pointer_page_number.get_eq bits_eq)

section \<open>The steps of a launch\<close>

text \<open>The state \<open>main\<close> works on after the registers were read.\<close>

definition main_start :: "launch_env \<Rightarrow> cpu_context \<Rightarrow> cpu \<Rightarrow> hypervisor \<Rightarrow> hypervisor" where
  "main_start env ctx c hv =
     initialize_registers (disable_interrupts c) (hv\<lparr>hv_physical_to_virtual :=
       (if c_rsi ctx = 0 then None else Some (env_function env (c_rsi ctx)))\<rparr>)"

text \<open>The processor on the intermediate table and the host page table, as VMX operation starts.\<close>

definition host_cpu :: "hypervisor \<Rightarrow> cpu \<Rightarrow> cpu" where
  "host_cpu hv c = set_cr3 (hv_host_cr3 hv) (load_intermediate_gdt hv (disable_interrupts c))"

text \<open>The steps before VMX operation: module, intermediate table, EPT; the first and the last only on
  the first processor.\<close>

definition prepared :: "launch_env \<Rightarrow> cpu_context \<Rightarrow> cpu \<Rightarrow> hypervisor \<Rightarrow> hypervisor \<Rightarrow> hypervisor \<Rightarrow> hypervisor \<Rightarrow> bool" where
  "prepared env ctx c hv hv1 hv2 hv3 \<longleftrightarrow>
     (if c_rdi ctx = 0 then first_cpu_module env (main_start env ctx c hv) else Some (main_start env ctx c hv, success)) = Some (hv1, success) \<and>
     initialize_intermediate_gdt (env_mem env) hv1 = Some hv2 \<and>
     (if c_rdi ctx = 0 then first_cpu_ept (host_cpu hv2 c) hv2 else Some (hv2, success)) = Some (hv3, success)"

lemma main_launched_steps:
  assumes "hypervisor_main hw env ctx hv c = Some (Main_launched g h, hv', c')"
  obtains hv1 hv2 hv3 hv4 c3 where "prepared env ctx c hv hv1 hv2 hv3" "initialize_vmx hv3 = Some hv4"
    "enter_root_mode hw hv4 (host_cpu hv2 c) = (success, c3)"
    "vm_launch hw env ctx hv4 (setup_vmcs hw (env_mem env) ctx hv4 c3) = (g, h, hv', c')"
proof -
  let ?s = "main_start env ctx c hv"
  note main = assms [unfolded hypervisor_main_def Let_def, folded main_start_def]
  obtain hv1 where 1: "(if c_rdi ctx = 0 then first_cpu_module env ?s else Some (?s, success)) = Some (hv1, success)"
    using main by (auto split: bind_splits if_splits)
  obtain hv2 where 2: "initialize_intermediate_gdt (env_mem env) hv1 = Some hv2"
    using main 1 by (auto split: bind_splits if_splits)
  note main2 = main [unfolded eq_commute [of 0 "c_rdi ctx"] 1, simplified, unfolded 2, simplified, folded host_cpu_def]
  obtain hv3 where 3: "(if c_rdi ctx = 0 then first_cpu_ept (host_cpu hv2 c) hv2 else Some (hv2, success)) = Some (hv3, success)"
    using main2 by (auto split: bind_splits if_splits)
  note main3 = main2 [unfolded 3, simplified]
  obtain hv4 where 4: "initialize_vmx hv3 = Some hv4" using main3 by (auto split: bind_splits)
  obtain c3 where 5: "enter_root_mode hw hv4 (host_cpu hv2 c) = (success, c3)"
    using main3 4 by (auto split: prod.splits if_splits)
  show ?thesis
    by (rule that [of hv1 hv2 hv3 hv4 c3]) (use 1 2 3 4 5 main3 in \<open>simp_all add: prepared_def split: prod.splits\<close>)
qed

text \<open>Setting up VMX keeps the tables and records where \<open>epml4\<close> lies.\<close>

definition same_tables :: "hypervisor \<Rightarrow> hypervisor \<Rightarrow> bool" where
  "same_tables hv hv' \<longleftrightarrow> hv_this hv' = hv_this hv \<and> hv_host_page_table hv' = hv_host_page_table hv \<and>
     hv_epml4 hv' = hv_epml4 hv \<and> hv_epdpt hv' = hv_epdpt hv \<and> hv_epd hv' = hv_epd hv \<and> hv_ept hv' = hv_ept hv \<and>
     hv_mtrrs hv' = hv_mtrrs hv \<and> hv_host_cr3 hv' = hv_host_cr3 hv \<and>
     hv_module_base hv' = hv_module_base hv \<and> hv_module_size hv' = hv_module_size hv"

lemma same_tables_trans: "same_tables a b \<Longrightarrow> same_tables b d \<Longrightarrow> same_tables a d"
  by (simp add: same_tables_def)

lemma same_tables_memory: "same_tables hv hv' \<Longrightarrow> ept_in_memory pmem hv' = ept_in_memory pmem hv"
  by (simp add: same_tables_def ept_in_memory_def host_frame_def)

lemma initialize_vmx_tables:
  assumes "initialize_vmx hv = Some hv'"
  shows "same_tables hv hv'" and "hv_epml4_physical hv' = virtual_to_physical (hv_host_page_table hv) (epml4_address (hv_this hv))"
  using assms by (auto simp: initialize_vmx_def Let_def same_tables_def split: if_splits)

lemma same_tables_module:
  assumes "same_tables hv hv'"
  shows "module_mapped hv' = module_mapped hv" and "object_at hv' k = object_at hv k"
  using assms by (simp_all add: same_tables_def module_mapped_def object_at_def module_pages_def module_physical_def [abs_def])

lemma same_tables_hidden: "same_tables hv hv' \<Longrightarrow> hidden_pages hv' = hidden_pages hv"
  by (simp add: same_tables_def hidden_pages_def module_page_def [abs_def] unprotected_page_def [abs_def] module_pages_def)

text \<open>What a successful launch leaves in the control structure and in the state.\<close>

lemma run_writes_vmcs: "cpu_vmcs (run_writes (map (\<lambda>(f, v). vmcs_write hw f v) ps) c) = cpu_vmcs c"
  by (induction ps arbitrary: c) (auto simp: vmcs_write_def vmwrite_def split: vm_outcome.splits option.splits)

lemma launched_fields:
  assumes "vmx_accepts hw" and root: "enter_root_mode hw hv4 c2 = (success, c3)"
    and launch: "vm_launch hw env ctx hv4 (setup_vmcs hw (env_mem env) ctx hv4 c3) = (g, h, hv', c')"
  shows "cpu_vmcs c' = Some (hv_vmcs_physical hv4)" and "vmcs_vpid hw c' = Maybe_value (of_nat (hv_next_virtual_processor hv4))"
    and "vmcs_ept_pointer hw c' = Maybe_value (ept_pointer_value hv4)"
proof -
  let ?c4 = "setup_vmcs hw (env_mem env) ctx hv4 c3"
  let ?ps = "[(field_host_rip, env_vm_exit_entry env), (field_host_rsp, env_stack_end env - 2 * sizeof_context),
    (field_guest_rip, c_rip ctx), (field_guest_rsp, c_rsp ctx)]"
  have c3: "cpu_vmcs c3 = Some (hv_vmcs_physical hv4)" "vmcs_ok hw c3"
    using assms(1) root enter_root_mode_enters [of hw hv4 c2] by (auto simp: vmx_accepts_def vmcs_ok_accepts)
  have "c' = run_writes (map (\<lambda>(f, v). vmcs_write hw f v) ?ps) ?c4"
    using launch by (auto simp: vm_launch_def Let_def vmcs_set_host_rip_def vmcs_set_host_rsp_def
        vmcs_set_guest_rip_def vmcs_set_guest_rsp_def)
  then show "cpu_vmcs c' = Some (hv_vmcs_physical hv4)"
    using c3(1) unfolding setup_vmcs_def setup_writes_fields by (simp only: run_writes_vmcs)
  have field: "vmcs_read hw f c' = Maybe_value v" if "(f, v) \<in> set (setup_fields (env_mem env) ctx hv4)"
    and "f \<noteq> field_host_rip" "f \<noteq> field_host_rsp" "f \<noteq> field_guest_rip" "f \<noteq> field_guest_rsp" for f v
    using vm_launch_read [OF setup_vmcs_read(2) [OF c3(2)] launch that(2-)] setup_vmcs_read(1) [OF c3(2)] that(1)
    by (simp add: setup_fields_distinct)
  have mem: "(field_vpid, of_nat (hv_next_virtual_processor hv4)) \<in> set (setup_fields (env_mem env) ctx hv4)"
    "(field_ept_pointer, ept_pointer_value hv4) \<in> set (setup_fields (env_mem env) ctx hv4)"
    by (simp_all add: setup_fields_def Let_def)
  show "vmcs_vpid hw c' = Maybe_value (of_nat (hv_next_virtual_processor hv4))"
    unfolding vmcs_vpid_def by (rule field [OF mem(1)])
      (simp_all add: field_vpid_def field_host_rip_def field_host_rsp_def field_guest_rip_def field_guest_rsp_def)
  show "vmcs_ept_pointer hw c' = Maybe_value (ept_pointer_value hv4)"
    unfolding vmcs_ept_pointer_def by (rule field [OF mem(2)])
      (simp_all add: field_ept_pointer_def field_host_rip_def field_host_rsp_def field_guest_rip_def field_guest_rsp_def)
qed

lemma launched_state:
  assumes vmx: "initialize_vmx hv3 = Some hv4" and "vmx_accepts hw" and "enter_root_mode hw hv4 c2 = (success, c3)"
    and "vm_launch hw env ctx hv4 (setup_vmcs hw (env_mem env) ctx hv4 c3) = (g, h, hv', c')"
  shows "\<exists>eptp. vmcs_ept_pointer hw c' = Maybe_value eptp \<and> bits 12 40 eptp = host_frame hv3 (epml4_address (hv_this hv3))"
    and "same_tables hv3 hv'"
    and "vmcs_vpid hw c' = Maybe_value (of_nat (hv_next_virtual_processor hv3))"
    and "cpu_vmcs c' = Some (virtual_to_physical (hv_host_page_table hv3) (vmx_vmcs_address (hv_this hv3) (hv_next_virtual_processor hv3 - 1)))"
    and "hv_next_virtual_processor hv' = hv_next_virtual_processor hv3 + 1" and "hv_next_virtual_processor hv3 - 1 < max_cpus"
proof -
  note f = launched_fields [OF assms(2-)]
  have v: "hv_next_virtual_processor hv4 = hv_next_virtual_processor hv3" "hv_next_virtual_processor hv3 - 1 < max_cpus"
    "hv_vmcs_physical hv4 = virtual_to_physical (hv_host_page_table hv3) (vmx_vmcs_address (hv_this hv3) (hv_next_virtual_processor hv3 - 1))"
    using vmx by (auto simp: initialize_vmx_def Let_def split: if_splits)
  have "bits 12 40 (ept_pointer_value hv4) = host_frame hv3 (epml4_address (hv_this hv3))"
    by (simp add: ept_pointer_value_frame host_frame_def initialize_vmx_tables(2) [OF vmx])
  then show "\<exists>eptp. vmcs_ept_pointer hw c' = Maybe_value eptp \<and> bits 12 40 eptp = host_frame hv3 (epml4_address (hv_this hv3))"
    using f(3) by blast
  have "same_tables hv4 hv' \<and> hv_next_virtual_processor hv' = hv_next_virtual_processor hv4 + 1"
    using assms(4) by (auto simp: vm_launch_def Let_def same_tables_def)
  then show "same_tables hv3 hv'" "hv_next_virtual_processor hv' = hv_next_virtual_processor hv3 + 1"
    using initialize_vmx_tables(1) [OF vmx] same_tables_trans v(1) by auto
  show "vmcs_vpid hw c' = Maybe_value (of_nat (hv_next_virtual_processor hv3))" "hv_next_virtual_processor hv3 - 1 < max_cpus"
    "cpu_vmcs c' = Some (virtual_to_physical (hv_host_page_table hv3) (vmx_vmcs_address (hv_this hv3) (hv_next_virtual_processor hv3 - 1)))"
    using f v by simp_all
qed

section \<open>The first processor\<close>

text \<open>A state no processor has launched from.\<close>

definition fresh_state :: "hypervisor \<Rightarrow> bool" where
  "fresh_state hv \<longleftrightarrow> hv_module_physical_to_virtual hv = default_map (replicate module_capacity (0, 0)) \<and>
     hv_epml4 hv = (\<lambda>_. 0) \<and> hv_next_virtual_processor hv = 1 \<and> length (hv_mtrrs hv) = 8"

lemma fresh_create_once: "fresh_state (create_once this)"
  by (simp add: fresh_state_def create_once_def)

lemma fresh_main_start: "fresh_state (main_start env ctx c hv) = fresh_state hv"
  by (simp add: fresh_state_def main_start_def initialize_registers_def)

text \<open>The steps that prepare the launch do not count it.\<close>

lemma first_cpu_module_processor: "first_cpu_module env hv = Some (hv', e) \<Longrightarrow> hv_next_virtual_processor hv' = hv_next_virtual_processor hv"
  by (auto simp: first_cpu_module_def initialize_module_region_def initialize_os_page_table_def initialize_host_page_table_def
      initialize_host_gdt_def initialize_host_idt_def Let_def dest!: module_map_frame split: bind_splits if_splits)

lemma intermediate_gdt_processor: "initialize_intermediate_gdt mem hv = Some hv' \<Longrightarrow> hv_next_virtual_processor hv' = hv_next_virtual_processor hv"
  by (auto simp: initialize_intermediate_gdt_def copy_os_gdt_def set_gdt_entry_def Let_def split: if_splits bind_splits)

lemma first_cpu_ept_processor:
  assumes "first_cpu_ept c hv = Some (hv', success)"
  shows "hv_next_virtual_processor hv' = hv_next_virtual_processor hv"
proof -
  obtain f where f: "initialize_vmx_msrs c hv = hv\<lparr>hv_vmx_msrs := f\<rparr>" using vmx_msrs_frame by blast
  obtain hve hv2 where s: "initialize_mtrrs c (hv\<lparr>hv_vmx_msrs := f\<rparr>) = Some hve"
    "protect_module (initialize_ept hve) = Some (hv2, success)" "unprotect_guest_memory hv2 = Some hv'"
    using assms f by (auto simp: first_cpu_ept_def Let_def split: bind_splits if_splits)
  show ?thesis
    using mtrrs_frame [OF s(1)] protect_module_frame [OF s(2)] unprotect_frame [OF s(3)]
    by (auto simp: tables_differ_def initialize_ept_eq)
qed

text \<open>The tables of a state hide a set of pages: whoever walks them from \<open>epml4\<close>.\<close>

definition tables_hide :: "hypervisor \<Rightarrow> nat set \<Rightarrow> bool" where
  "tables_hide hv G \<longleftrightarrow> (\<forall>pmem eptp k a. ept_in_memory pmem hv \<longrightarrow>
     bits 12 40 eptp = host_frame hv (epml4_address (hv_this hv)) \<longrightarrow> unat a < 2 ^ 48 \<longrightarrow>
     ept_walk pmem eptp k a = (if unat a < 2 ^ 39 \<and> page_of a \<notin> G then Some (a, guest_type hv a) else None))"

lemma tables_hide_same: "same_tables hv hv' \<Longrightarrow> tables_hide hv' G = tables_hide hv G"
  by (simp add: tables_hide_def same_tables_memory) (simp add: same_tables_def host_frame_def guest_type_def)

lemma prepared_hides:
  assumes "prepared env ctx c hv hv1 hv2 hv3" and "c_rdi ctx = 0" and fresh: "fresh_state hv"
    and region: "initialize_module_region (env_mem env) (env_marker env) (main_start env ctx c hv) = Some hvm"
    and ok: "os_maps_module (env_mem env) (initialize_os_page_table hvm)"
  shows "tables_hide hv3 (guarded_pages (env_mem env) (initialize_os_page_table hvm))"
    and "module_mapped hv3 \<and> (\<exists>k. object_at hv3 k)" and "hv_next_virtual_processor hv3 = 1"
    and "hidden_pages hv3 = guarded_pages (env_mem env) (initialize_os_page_table hvm)"
proof -
  have steps: "first_cpu_module env (main_start env ctx c hv) = Some (hv1, success)"
    "initialize_intermediate_gdt (env_mem env) hv1 = Some hv2" "first_cpu_ept (host_cpu hv2 c) hv2 = Some (hv3, success)"
    using assms(1,2) by (simp_all add: prepared_def)
  have hv0: "hv_module_physical_to_virtual (main_start env ctx c hv) = default_map (replicate module_capacity (0, 0))"
    "hv_epml4 (main_start env ctx c hv) = (\<lambda>_. 0)"
    using fresh unfolding fresh_main_start [symmetric, of hv env ctx c] by (simp_all add: fresh_state_def)
  note ready1 = first_cpu_module_ready [OF steps(1) region ok hv0(1)]
  note fr2 = intermediate_gdt_frame [OF steps(2)]
  have ready2: "module_ready hv2" "hidden_pages hv2 = hidden_pages hv1" "hv_epml4 hv2 = (\<lambda>_. 0)"
    using ready1 fr2 same_module_view [of hv1 hv2] hv0(2) by simp_all
  obtain hve where view: "same_module hv2 hve" "guest_view hve hv3" "same_module hve hv3" "hv_mtrrs hv3 = hv_mtrrs hve"
    using first_cpu_ept_view [OF steps(3) ready2(1,3)] by blast
  have "guest_type hve = guest_type hv3" using view(4) by (simp add: guest_type_def fun_eq_iff)
  moreover have "hidden_pages hve = guarded_pages (env_mem env) (initialize_os_page_table hvm)"
    using same_module_view(7) [OF view(1)] ready2(2) ready1 by simp
  moreover have "host_frame hve = host_frame hv3" "hv_this hve = hv_this hv3"
    using view(3) by (simp_all add: host_frame_def same_module_def fun_eq_iff)
  ultimately show "tables_hide hv3 (guarded_pages (env_mem env) (initialize_os_page_table hvm))"
    using view(2) by (simp add: guest_view_def tables_hide_def)
  then show "hidden_pages hv3 = guarded_pages (env_mem env) (initialize_os_page_table hvm)"
    using same_module_view(7) [OF view(1)] same_module_view(7) [OF view(3)] ready2(2) ready1 by simp
  have "module_ready hv3" using ready2(1) same_module_view(6) view(1,3) by metis
  then show "module_mapped hv3 \<and> (\<exists>k. object_at hv3 k)" by (simp add: module_ready_def)
  have "hv_next_virtual_processor (main_start env ctx c hv) = 1"
    using fresh fresh_main_start [of env ctx c hv] by (simp add: fresh_state_def)
  then show "hv_next_virtual_processor hv3 = 1"
    using first_cpu_module_processor [OF steps(1)] intermediate_gdt_processor [OF steps(2)] first_cpu_ept_processor [OF steps(3)] by simp
qed

text \<open>A guest that runs: its control structure names \<open>epml4\<close>, and it has the identifier and the
  control structure of its own number.\<close>

definition guest_runs :: "hardware \<Rightarrow> hypervisor \<Rightarrow> nat \<Rightarrow> cpu \<Rightarrow> bool" where
  "guest_runs hw hv n c \<longleftrightarrow>
     (\<exists>eptp. vmcs_ept_pointer hw c = Maybe_value eptp \<and> bits 12 40 eptp = host_frame hv (epml4_address (hv_this hv))) \<and>
     vmcs_vpid hw c = Maybe_value (of_nat n) \<and>
     cpu_vmcs c = Some (virtual_to_physical (hv_host_page_table hv) (vmx_vmcs_address (hv_this hv) (n - 1)))"

lemma guest_runs_same: "same_tables hv hv' \<Longrightarrow> guest_runs hw hv' n c = guest_runs hw hv n c"
  by (simp add: guest_runs_def same_tables_def host_frame_def)

lemma main_isolates:
  assumes launch: "hypervisor_main hw env ctx hv c = Some (Main_launched g h, hv', c')"
    and fresh: "fresh_state hv" and first: "c_rdi ctx = 0" and hw: "vmx_accepts hw"
    and region: "initialize_module_region (env_mem env) (env_marker env) (main_start env ctx c hv) = Some hvm"
    and ok: "os_maps_module (env_mem env) (initialize_os_page_table hvm)"
  shows "tables_hide hv' (guarded_pages (env_mem env) (initialize_os_page_table hvm)) \<and>
    module_mapped hv' \<and> (\<exists>k. object_at hv' k) \<and> hv_next_virtual_processor hv' = 2 \<and> guest_runs hw hv' 1 c' \<and>
    hidden_pages hv' = guarded_pages (env_mem env) (initialize_os_page_table hvm)"
proof -
  obtain hv1 hv2 hv3 hv4 c3 where s: "prepared env ctx c hv hv1 hv2 hv3" "initialize_vmx hv3 = Some hv4"
    "enter_root_mode hw hv4 (host_cpu hv2 c) = (success, c3)"
    "vm_launch hw env ctx hv4 (setup_vmcs hw (env_mem env) ctx hv4 c3) = (g, h, hv', c')"
    using main_launched_steps [OF launch] .
  note p = launched_state [OF s(2) hw s(3,4)] and h = prepared_hides [OF s(1) first fresh region ok]
  have "guest_runs hw hv3 1 c'" using p(1,3,4) h(3) by (simp add: guest_runs_def)
  then show ?thesis
    using p(5) h tables_hide_same [OF p(2)] same_tables_module [OF p(2)] guest_runs_same [OF p(2)] same_tables_hidden [OF p(2)] by simp
qed

end
