(* ===== verification/Mtrr_Range.thy ===== *)
theory Mtrr_Range
  imports Ept_Setup
begin

text \<open>
  The memory type ranges: \<open>initialize_mtrrs\<close> turns the base and mask registers into intervals,
  and \<open>initialize_ept\<close> asks whether a large page meets an interval.  That reading of the
  registers is equivalent to the rule of the processor, which matches masked addresses, for the
  masks the processor allows.
\<close>

section \<open>Reading the registers\<close>

text \<open>The size doubles once for every zero below the lowest one of the mask.\<close>

lemma mtrr_size_loop_correct:
  assumes "bit i k" and "\<forall>j < k. \<not> bit i j"
  shows "mtrr_size_loop i bytes = Some (push_bit k bytes)"
  using assms
proof (induction k arbitrary: i bytes)
  case 0
  then show ?case by (subst mtrr_size_loop.simps) (simp add: and_one_eq bit_0 odd_iff_mod_2_eq_one)
next
  case (Suc k)
  have "mtrr_size_loop (drop_bit 1 i) (push_bit 1 bytes) = Some (push_bit k (push_bit 1 bytes))"
    by (rule Suc.IH) (use Suc.prems in \<open>auto simp: bit_simps\<close>)
  moreover have "i AND 1 = 0" using Suc.prems(2) by (auto simp: and_one_eq bit_0 even_iff_mod_2_eq_zero)
  ultimately show ?case by (subst mtrr_size_loop.simps) (simp add: push_bit_push_bit)
qed

lemma lowest_bit:
  fixes w :: u64
  assumes "w \<noteq> 0"
  shows "\<exists>k < 64. bit w k \<and> (\<forall>j < k. \<not> bit w j)"
proof -
  from assms have "\<exists>k. bit w k" by (auto simp: bit_eq_iff)
  then obtain k where "bit w k" "\<forall>j < k. \<not> bit w j" using exists_least_iff [of "bit w"] by blast
  then show ?thesis using u64_bit_bound by blast
qed

lemma read_mtrr_defined: "\<exists>m. read_mtrr c i = Some m"
proof -
  have "\<exists>s. (if w = 0 then Some 0 else mtrr_size_loop w page_size) = Some s" for w
    using lowest_bit [of w] mtrr_size_loop_correct by auto
  then obtain g where "\<And>w. (if w = 0 then Some 0 else mtrr_size_loop w page_size) = Some (g w)" by metis
  then show ?thesis by (simp add: read_mtrr_def Let_def)
qed

lemma initialize_mtrrs_defined:
  assumes "unat (mtrr_capabilities_variable_range_register_count (rdmsr ia32_mtrr_capability c)) \<le> length (hv_mtrrs hv)"
  shows "\<exists>hv'. initialize_mtrrs c hv = Some hv'"
proof -
  let ?n = "unat (mtrr_capabilities_variable_range_register_count (rdmsr ia32_mtrr_capability c))"
  let ?f = "\<lambda>i hv. if i < length (hv_mtrrs hv) then do {
      m \<leftarrow> read_mtrr c i; Some (hv\<lparr>hv_mtrrs := (hv_mtrrs hv)[i := m]\<rparr>) } else None"
  have "\<exists>t. loop_opt ?n ?f (hv\<lparr>hv_mtrr_capabilities := rdmsr ia32_mtrr_capability c\<rparr>) = Some t \<and>
      length (hv_mtrrs t) = length (hv_mtrrs hv)"
  proof (rule loop_opt_inv)
    fix i t assume "i < ?n" and "length (hv_mtrrs t) = length (hv_mtrrs (hv :: hypervisor))"
    then show "\<exists>t'. ?f i t = Some t' \<and> length (hv_mtrrs t') = length (hv_mtrrs hv)"
      using read_mtrr_defined [of c i] assms by auto
  qed simp
  then show ?thesis by (auto simp: initialize_mtrrs_def Let_def)
qed

section \<open>Intervals and masks\<close>

text \<open>A mask of the 40 bits of a page number that is contiguous: ones from bit \<open>k\<close> on.\<close>

definition contiguous_mask :: "nat \<Rightarrow> u64 \<Rightarrow> bool" where
  "contiguous_mask k w \<longleftrightarrow> k < 40 \<and> w = push_bit k (mask (40 - k))"

lemma bit_contiguous_mask: "contiguous_mask k w \<Longrightarrow> bit w j \<longleftrightarrow> k \<le> j \<and> j < 40"
  by (auto simp: contiguous_mask_def bit_simps)

text \<open>Matching under the mask compares the bits above \<open>k\<close>.\<close>

lemma masked_eq:
  fixes a base w :: u64
  assumes w: "contiguous_mask k w" and a: "unat a < 2 ^ 52" and base: "unat base < 2 ^ 40"
  shows "drop_bit 12 a AND w = base AND w \<longleftrightarrow> unat a div 2 ^ (12 + k) = unat base div 2 ^ k"
proof -
  have a': "take_bit 52 a = a" by (rule take_bit_self_u64 [OF a])
  have b': "take_bit 40 base = base" by (rule take_bit_self_u64 [OF base])
  have abit: "bit a j \<Longrightarrow> j < 52" and bbit: "bit base j \<Longrightarrow> j < 40" for j
    using a' b' by (metis bit_take_bit_iff)+
  have "drop_bit 12 a AND w = base AND w \<longleftrightarrow> drop_bit (12 + k) a = drop_bit k base"
  proof
    assume eq: "drop_bit 12 a AND w = base AND w"
    show "drop_bit (12 + k) a = drop_bit k base"
    proof (rule bit_eqI)
      fix j
      have "bit (drop_bit 12 a AND w) (k + j) = bit (base AND w) (k + j)" using eq by simp
      then show "bit (drop_bit (12 + k) a) j = bit (drop_bit k base) j"
        using abit [of "12 + k + j"] bbit [of "k + j"]
        by (cases "k + j < 40") (auto simp: bit_contiguous_mask [OF w] bit_simps algebra_simps)
    qed
  next
    assume eq: "drop_bit (12 + k) a = drop_bit k base"
    show "drop_bit 12 a AND w = base AND w"
    proof (rule bit_eqI)
      fix j
      have "bit (drop_bit (12 + k) a) (j - k) = bit (drop_bit k base) (j - k)" using eq by simp
      then show "bit (drop_bit 12 a AND w) j = bit (base AND w) j"
        by (cases "k \<le> j") (auto simp: bit_contiguous_mask [OF w] bit_simps algebra_simps)
    qed
  qed
  also have "\<dots> \<longleftrightarrow> unat (drop_bit (12 + k) a) = unat (drop_bit k base)" by (simp add: word_eq_iff_unsigned)
  finally show ?thesis by (simp add: unat_drop_bit)
qed

text \<open>What \<open>read_mtrr\<close> stores for a contiguous mask.\<close>

lemma read_mtrr_contiguous:
  assumes "contiguous_mask k (mtrr_variable_mask_physical_mask (rdmsr (of_nat (mtrr_physmask_0 + i * 2)) c))"
  shows "read_mtrr c i = Some \<lparr>physical_base = push_bit 12 (mtrr_variable_base_page_number (rdmsr (of_nat (mtrr_physbase_0 + i * 2)) c)),
      mtrr_size = push_bit k page_size,
      mtrr_type = mtrr_variable_base_memory_type (rdmsr (of_nat (mtrr_physbase_0 + i * 2)) c),
      mtrr_valid = mtrr_variable_mask_valid (rdmsr (of_nat (mtrr_physmask_0 + i * 2)) c)\<rparr>"
proof -
  let ?w = "mtrr_variable_mask_physical_mask (rdmsr (of_nat (mtrr_physmask_0 + i * 2)) c)"
  have k: "k < 40" using assms by (simp add: contiguous_mask_def)
  have "bit ?w k" and low: "\<forall>j < k. \<not> bit ?w j"
    using bit_contiguous_mask [OF assms] k by auto
  then have "?w \<noteq> 0" by auto
  then show ?thesis
    using mtrr_size_loop_correct [OF \<open>bit ?w k\<close> low] by (simp add: read_mtrr_def Let_def)
qed

text \<open>The range register \<open>i\<close> of the processor \<open>c\<close>, and the rule of the processor: an address
  is in the range when it agrees with the base under the mask.\<close>

definition range_base :: "cpu \<Rightarrow> nat \<Rightarrow> u64" where
  "range_base c i = mtrr_variable_base_page_number (rdmsr (of_nat (mtrr_physbase_0 + i * 2)) c)"

definition range_mask :: "cpu \<Rightarrow> nat \<Rightarrow> u64" where
  "range_mask c i = mtrr_variable_mask_physical_mask (rdmsr (of_nat (mtrr_physmask_0 + i * 2)) c)"

definition in_mtrr :: "cpu \<Rightarrow> nat \<Rightarrow> u64 \<Rightarrow> bool" where
  "in_mtrr c i a \<longleftrightarrow> drop_bit 12 a AND range_mask c i = range_base c i AND range_mask c i"

lemma div_eq_interval: "0 < d \<Longrightarrow> n div d = q \<longleftrightarrow> q * d \<le> n \<and> n < q * d + (d :: nat)"
  using div_nat_eqI [of d q n] by (auto simp: dividend_less_times_div algebra_simps)

lemma range_base_less: "unat (range_base c i) < 2 ^ 40"
  using bits_less [of 40 12] by (simp add: range_base_def mtrr_variable_base_page_number.get_eq)

lemma in_mtrr_interval:
  assumes m: "contiguous_mask k (range_mask c i)" and al: "2 ^ k dvd unat (range_base c i)" and a: "unat a < 2 ^ 52"
  shows "in_mtrr c i a \<longleftrightarrow>
    unat (range_base c i) * 2 ^ 12 \<le> unat a \<and> unat a < unat (range_base c i) * 2 ^ 12 + 2 ^ (12 + k)"
proof -
  obtain q where q: "unat (range_base c i) = 2 ^ k * q" using al by blast
  have "in_mtrr c i a \<longleftrightarrow> unat a div 2 ^ (12 + k) = q"
    unfolding in_mtrr_def masked_eq [OF m a range_base_less] by (simp add: q)
  also have "\<dots> \<longleftrightarrow> q * 2 ^ (12 + k) \<le> unat a \<and> unat a < q * 2 ^ (12 + k) + 2 ^ (12 + k)"
    by (rule div_eq_interval) simp
  finally show ?thesis by (simp add: q power_add mult_ac)
qed

lemma read_mtrr_interval:
  assumes m: "contiguous_mask k (range_mask c i)" and al: "2 ^ k dvd unat (range_base c i)" and r: "read_mtrr c i = Some r"
  shows "unat (physical_base r) = unat (range_base c i) * 2 ^ 12" and "unat (mtrr_size r) = 2 ^ (12 + k)"
    and "unat (physical_base r + mtrr_size r) = unat (physical_base r) + unat (mtrr_size r)"
    and "unat (physical_base r) + unat (mtrr_size r) \<le> 2 ^ 52"
proof -
  have k: "k < 40" using m by (simp add: contiguous_mask_def)
  have r': "physical_base r = push_bit 12 (range_base c i)" "mtrr_size r = push_bit k page_size"
    using r read_mtrr_contiguous [of k i c] m by (simp_all add: range_base_def range_mask_def)
  have b: "unat (range_base c i) * 2 ^ 12 < 2 ^ 64" using range_base_less [of c i] by simp
  show base: "unat (physical_base r) = unat (range_base c i) * 2 ^ 12"
    unfolding r' by (rule unat_push_bit [OF b])
  have "(2 :: nat) ^ (12 + k) < 2 ^ 64" using k by (intro power_strict_increasing) auto
  then show size: "unat (mtrr_size r) = 2 ^ (12 + k)"
    unfolding r' by (subst unat_push_bit) (simp_all add: page_size_def power_add)
  obtain q where q: "unat (range_base c i) = 2 ^ k * q" using al by blast
  have "2 ^ k * q < 2 ^ k * 2 ^ (40 - k)" using range_base_less [of c i] q k by (simp flip: power_add)
  then have "q + 1 \<le> 2 ^ (40 - k)" by simp
  then have "2 ^ k * (q + 1) \<le> 2 ^ k * 2 ^ (40 - k)" by (rule mult_le_mono2)
  also have "\<dots> = 2 ^ 40" using k by (simp flip: power_add)
  finally show le: "unat (physical_base r) + unat (mtrr_size r) \<le> 2 ^ 52"
    unfolding base size q by (simp add: power_add algebra_simps)
  show "unat (physical_base r + mtrr_size r) = unat (physical_base r) + unat (mtrr_size r)"
    by (rule unat_add_lem [THEN iffD1]) (use le in simp)
qed

section \<open>Properties\<close>



end
