(* ===== verification/Launch_Progress.thy ===== *)
theory Launch_Progress
  imports Launch_Isolation Mtrr_Range
begin

text \<open>
  A launch on the first processor comes to its end: no step is undefined on a machine that meets
  the stated conditions, and the result is the launch of the guest, or the error the source names
  when the module is too large for the map or too scattered for the tables.
\<close>

section \<open>Descriptor tables\<close>

lemma initialize_intermediate_gdt_defined:
  assumes "hv_next_virtual_processor hv - 1 < max_cpus" and "(unat (tr_limit (hv_gdtr hv)) + 1) div 8 + 1 < 0x2000"
  shows "\<exists>hv'. initialize_intermediate_gdt mem hv = Some hv'"
  using assms by (simp add: initialize_intermediate_gdt_def copy_os_gdt_def set_gdt_entry_def Let_def)

section \<open>The two blocks of the first processor\<close>

definition os_regions :: "memory \<Rightarrow> hypervisor \<Rightarrow> nat set" where
  "os_regions mem hv = (\<lambda>i. page_of (os_physical mem hv i) div 512) ` {..<module_pages hv}"

text \<open>The members the later steps start from.\<close>

definition launch_members :: "hypervisor \<Rightarrow> nat \<times> table_register \<times> nat" where
  "launch_members hv = (hv_next_virtual_processor hv, hv_gdtr hv, length (hv_mtrrs hv))"

lemma first_cpu_module_result:
  assumes region: "initialize_module_region (env_mem env) (env_marker env) hv = Some hvm"
    and ok: "os_maps_module (env_mem env) (initialize_os_page_table hvm)"
    and map: "hv_module_physical_to_virtual hv = default_map storage"
  shows "\<exists>hv'. first_cpu_module env hv = Some (hv',
      if module_pages hvm < length storage then success else physical_to_virtual_capacity_error)
    \<and> launch_members hv' = launch_members hv \<and>
    module_regions hv' (module_pages hv') = os_regions (env_mem env) (initialize_os_page_table hvm)"
proof -
  let ?mem = "env_mem env" and ?hvo = "initialize_os_page_table hvm"
  let ?hvh = "initialize_host_page_table ?mem ?hvo"
  note f = initialize_host_page_table_fields [of ?mem ?hvo]
  have hvm: "hv_module_physical_to_virtual hvm = default_map storage" "launch_members hvm = launch_members hv"
    using region map by (auto simp: initialize_module_region_def launch_members_def split: bind_splits)
  have pages: "module_pages ?hvh = module_pages hvm"
    using f(4) by (simp add: initialize_os_page_table_def module_pages_def)
  have hvh: "hv_module_physical_to_virtual ?hvh = default_map storage" "launch_members ?hvh = launch_members hv"
    using f hvm by (simp_all add: initialize_os_page_table_def initialize_host_page_table_def launch_members_def Let_def)
  have mm: "module_mapped ?hvh" by (rule module_mapped_host [OF ok])
  then have inj: "inj_on (module_physical ?hvh) {..<module_pages ?hvh}" by (simp add: module_mapped_def)
  have reg: "module_regions ?hvh (module_pages ?hvh) = os_regions ?mem ?hvo"
    using module_mapped_host(2) [OF ok] f(4)
    by (auto simp: module_regions_def os_regions_def module_page_def module_physical_def intro!: image_cong)
  show ?thesis
  proof (cases "module_pages hvm < length storage")
    case True
    with initialize_module_physical_to_virtual_result [OF refl inj hvh(1)] pages
    obtain m where m: "initialize_module_physical_to_virtual ?hvh = Some (?hvh\<lparr>hv_module_physical_to_virtual := m\<rparr>, success)"
      by auto
    let ?hv' = "initialize_host_gdt (initialize_host_idt (?hvh\<lparr>hv_module_physical_to_virtual := m\<rparr>))"
    have "module_regions ?hv' = module_regions ?hvh" "module_pages ?hv' = module_pages ?hvh" "launch_members ?hv' = launch_members ?hvh"
      by (simp_all add: module_regions_def module_page_def module_pages_def launch_members_def
          initialize_host_gdt_def initialize_host_idt_def Let_def fun_eq_iff)
    then show ?thesis using m region True reg hvh(2) by (simp add: first_cpu_module_def Let_def)
  next
    case False
    with initialize_module_physical_to_virtual_result [OF refl inj hvh(1)] pages
    have "initialize_module_physical_to_virtual ?hvh = Some (?hvh, physical_to_virtual_capacity_error)" by simp
    then show ?thesis using region False reg hvh(2) by (simp add: first_cpu_module_def Let_def)
  qed
qed

lemma first_cpu_ept_result:
  assumes ready: "module_ready hv" and empty: "hv_epml4 hv = (\<lambda>_. 0)"
    and mtrrs: "unat (mtrr_capabilities_variable_range_register_count (rdmsr ia32_mtrr_capability c)) \<le> length (hv_mtrrs hv)"
  shows "\<exists>hv'. first_cpu_ept c hv = Some (hv',
      if card (module_regions hv (module_pages hv)) < 1024 then success else out_of_ept_entries) \<and>
    hv_next_virtual_processor hv' = hv_next_virtual_processor hv"
proof -
  obtain f where f: "initialize_vmx_msrs c hv = hv\<lparr>hv_vmx_msrs := f\<rparr>" using vmx_msrs_frame by blast
  obtain hve where hve: "initialize_mtrrs c (hv\<lparr>hv_vmx_msrs := f\<rparr>) = Some hve"
    using initialize_mtrrs_defined [of c "hv\<lparr>hv_vmx_msrs := f\<rparr>"] mtrrs by auto
  then have same: "same_module hv hve" "hv_epml4 hve = (\<lambda>_. 0)" "hv_next_virtual_processor hve = hv_next_virtual_processor hv"
    using mtrrs_frame [OF hve] empty by (auto simp: same_module_def)
  note v = same_module_view [OF same(1)]
  have "module_ready hve" using ready v(6) by simp
  note gv = guest_view_protected [OF this same(2), unfolded v(1,4)]
  show ?thesis
  proof (cases "card (module_regions hv (module_pages hv)) < 1024")
    case True
    then obtain hv1 hv2 where p: "protect_module (initialize_ept hve) = Some (hv1, success)" "unprotect_guest_memory hv1 = Some hv2"
      using gv by auto
    have "hv_next_virtual_processor hv2 = hv_next_virtual_processor hve"
      using protect_module_frame [OF p(1)] unprotect_frame [OF p(2)] by (auto simp: tables_differ_def initialize_ept_eq)
    then show ?thesis using f hve p True same(3) by (simp add: first_cpu_ept_def Let_def)
  next
    case False
    then obtain hv1 where p: "protect_module (initialize_ept hve) = Some (hv1, out_of_ept_entries)" using gv by auto
    have "hv_next_virtual_processor hv1 = hv_next_virtual_processor hve"
      using protect_module_frame [OF p] by (auto simp: tables_differ_def initialize_ept_eq)
    then show ?thesis using f hve p False same(3) by (simp add: first_cpu_ept_def Let_def)
  qed
qed

section \<open>The launch\<close>

text \<open>What \<open>main\<close> returns on the first processor of a machine on which VMX works.\<close>

definition launch_result :: "memory \<Rightarrow> hypervisor \<Rightarrow> hv_error" where
  "launch_result mem hv =
     (if \<not> module_pages hv < module_capacity then physical_to_virtual_capacity_error
      else if \<not> card (os_regions mem hv) < 1024 then out_of_ept_entries
      else success)"

lemma intermediate_gdt_members: "initialize_intermediate_gdt mem hv = Some hv' \<Longrightarrow> launch_members hv' = launch_members hv"
  by (auto simp: initialize_intermediate_gdt_def copy_os_gdt_def set_gdt_entry_def launch_members_def Let_def
      split: if_splits bind_splits)

lemma host_cpu_msr: "rdmsr r (host_cpu hv c) = rdmsr r c"
  by (simp add: host_cpu_def cpu_ops load_intermediate_gdt_def Let_def)

text \<open>From the intermediate table on, every processor on which VMX works is launched.\<close>

lemma main_launches:
  assumes "prepared env ctx c hv hv1 hv2 hv3" and "hv_next_virtual_processor hv3 - 1 < max_cpus" and "vmx_accepts hw"
  shows "\<exists>g h hv' c'. hypervisor_main hw env ctx hv c = Some (Main_launched g h, hv', c')"
proof -
  obtain hv4 where v: "initialize_vmx hv3 = Some hv4"
    using assms(2) by (simp add: initialize_vmx_def Let_def)
  obtain c3 where r: "enter_root_mode hw hv4 (host_cpu hv2 c) = (success, c3)"
    using assms(3) enter_root_mode_enters [of hw hv4 "host_cpu hv2 c"] by (auto simp: vmx_accepts_def)
  note p = assms(1) [unfolded prepared_def]
  show ?thesis
    using p v r unfolding hypervisor_main_def Let_def main_start_def [symmetric] host_cpu_def
    by (cases "c_rdi ctx = 0") (simp_all split: prod.splits)
qed

text \<open>The first block of the first processor, up to the intermediate table.\<close>

lemma first_cpu_module_stage:
  assumes fresh: "fresh_state hv"
    and region: "initialize_module_region (env_mem env) (env_marker env) (main_start env ctx c hv) = Some hvm"
    and ok: "os_maps_module (env_mem env) (initialize_os_page_table hvm)"
  obtains hv1 where "first_cpu_module env (main_start env ctx c hv) =
      Some (hv1, if module_pages hvm < module_capacity then success else physical_to_virtual_capacity_error)"
    "launch_members hv1 = (1, cpu_gdtr c, 8)"
    "module_regions hv1 (module_pages hv1) = os_regions (env_mem env) (initialize_os_page_table hvm)"
    "module_pages hvm < module_capacity \<Longrightarrow> module_ready hv1 \<and> hv_epml4 hv1 = (\<lambda>_. 0)"
proof -
  let ?s = "main_start env ctx c hv"
  have s: "hv_module_physical_to_virtual ?s = default_map (replicate module_capacity (0, 0))" "hv_epml4 ?s = (\<lambda>_. 0)"
    "launch_members ?s = (1, cpu_gdtr c, 8)"
    using fresh by (simp_all add: fresh_state_def main_start_def initialize_registers_def launch_members_def cpu_ops)
  obtain hv1 where m: "first_cpu_module env ?s =
      Some (hv1, if module_pages hvm < module_capacity then success else physical_to_virtual_capacity_error)"
    and mem: "launch_members hv1 = (1, cpu_gdtr c, 8)"
    and reg: "module_regions hv1 (module_pages hv1) = os_regions (env_mem env) (initialize_os_page_table hvm)"
    using first_cpu_module_result [OF region ok s(1)] s(3) by auto
  moreover have "module_ready hv1 \<and> hv_epml4 hv1 = (\<lambda>_. 0)" if "module_pages hvm < module_capacity"
    using first_cpu_module_ready [OF _ region ok s(1), of hv1] m that s(2) by simp
  ultimately show ?thesis by (rule that)
qed

lemma main_result:
  assumes first: "c_rdi ctx = 0" and hw: "vmx_accepts hw" and fresh: "fresh_state hv"
    and region: "initialize_module_region (env_mem env) (env_marker env) (main_start env ctx c hv) = Some hvm"
    and ok: "os_maps_module (env_mem env) (initialize_os_page_table hvm)"
    and mtrrs: "unat (mtrr_capabilities_variable_range_register_count (rdmsr ia32_mtrr_capability c)) \<le> 8"
    and gdt: "(unat (tr_limit (cpu_gdtr c)) + 1) div 8 + 1 < 0x2000"
  shows "\<exists>r hv' c'. hypervisor_main hw env ctx hv c = Some (r, hv', c') \<and>
    (let e = launch_result (env_mem env) (initialize_os_page_table hvm)
     in if e = success then (\<exists>g h. r = Main_launched g h) else r = Main_error e)"
proof -
  let ?hvo = "initialize_os_page_table hvm"
  have pages: "module_pages ?hvo = module_pages hvm" by (simp add: initialize_os_page_table_def module_pages_def)
  obtain hv1 where m: "first_cpu_module env (main_start env ctx c hv) =
      Some (hv1, if module_pages hvm < module_capacity then success else physical_to_virtual_capacity_error)"
    and mem1: "launch_members hv1 = (1, cpu_gdtr c, 8)"
    and reg1: "module_regions hv1 (module_pages hv1) = os_regions (env_mem env) ?hvo"
    and ready1: "module_pages hvm < module_capacity \<Longrightarrow> module_ready hv1 \<and> hv_epml4 hv1 = (\<lambda>_. 0)"
    by (rule first_cpu_module_stage [OF fresh region ok]) blast
  show ?thesis
  proof (cases "module_pages hvm < module_capacity")
    case False
    then show ?thesis
      using m first pages unfolding hypervisor_main_def Let_def main_start_def launch_result_def by simp
  next
    case True
    obtain hv2 where i: "initialize_intermediate_gdt (env_mem env) hv1 = Some hv2"
      using initialize_intermediate_gdt_defined [of hv1 "env_mem env"] mem1 gdt by (auto simp: launch_members_def max_cpus_def)
    note view2 = same_module_view [OF conjunct1 [OF intermediate_gdt_frame [OF i]]]
    obtain hv3 where p: "first_cpu_ept (host_cpu hv2 c) hv2 =
        Some (hv3, if card (os_regions (env_mem env) ?hvo) < 1024 then success else out_of_ept_entries)"
      and nvp: "hv_next_virtual_processor hv3 = 1"
      using first_cpu_ept_result [of hv2 "host_cpu hv2 c"] ready1 [OF True] intermediate_gdt_frame [OF i] view2 reg1 mem1
        intermediate_gdt_members [OF i] mtrrs by (auto simp: launch_members_def host_cpu_msr)
    show ?thesis
    proof (cases "card (os_regions (env_mem env) ?hvo) < 1024")
      case False
      then show ?thesis
        using m i p first pages True unfolding hypervisor_main_def Let_def main_start_def host_cpu_def launch_result_def by simp
    next
      case few: True
      have "prepared env ctx c hv hv1 hv2 hv3" using m i p True few first by (simp add: prepared_def)
      then show ?thesis
        using main_launches [OF _ _ hw, of env ctx c hv hv1 hv2 hv3] nvp True few pages by (auto simp: launch_result_def max_cpus_def)
    qed
  qed
qed

end
