(* ===== verification/Launch_Processors.thy ===== *)
theory Launch_Processors
  imports Launch_Progress
begin

text \<open>
  The launches of all processors, one after another, from the entry point on: the loader calls
  \<open>zpp_hypervisor_main\<close> on each processor, the context of the caller moves to a private stack, and
  \<open>launch_on_cpu_private_stack\<close> runs there.  The state is shared: the first processor creates it,
  the others use it.
\<close>

section \<open>One processor\<close>

text \<open>The launch function runs with the context that was copied onto the private stack.\<close>

definition launch_processor ::
  "hardware \<Rightarrow> u64 \<Rightarrow> launch_env \<Rightarrow> cpu_context \<Rightarrow> hypervisor option \<Rightarrow> cpu \<Rightarrow> (cpu_context \<times> hypervisor \<times> cpu) option" where
  "launch_processor hw this env ctx state c = do {
     (launch_context, hv) \<leftarrow> zpp_hypervisor_main this env ctx state;
     caller_context \<leftarrow> hv_stack hv (hv_available_stack_index hv - 1);
     launch_on_cpu_private_stack hw env caller_context hv c
   }"

text \<open>The state after the entry.\<close>

definition entered :: "cpu_context \<Rightarrow> hypervisor \<Rightarrow> hypervisor" where
  "entered ctx hv = hv\<lparr>hv_stack := (hv_stack hv)(hv_available_stack_index hv := Some ctx),
     hv_available_stack_index := hv_available_stack_index hv + 1\<rparr>"

lemma hv_error_code_zero [simp]: "hv_error_code e = 0 \<longleftrightarrow> e = success"
  by (cases e) simp_all

lemma main_error_failed: "hypervisor_main hw env ctx hv c = Some (Main_error e, hv', c') \<Longrightarrow> e \<noteq> success"
  unfolding hypervisor_main_def Let_def by (auto split: bind_splits if_splits prod.splits)

lemma launch_processor_main:
  assumes "launch_processor hw this env ctx state c = Some (g, hv', c')"
  obtains r where "hypervisor_main hw env ctx (entered ctx (case state of Some hv \<Rightarrow> hv | None \<Rightarrow> create_once this)) c = Some (r, hv', c')"
    "c_rax g = 0 \<longleftrightarrow> (\<exists>gc hc. r = Main_launched gc hc)"
    "case r of Main_error e \<Rightarrow> g = ctx\<lparr>c_rax := of_int (hv_error_code e)\<rparr> | Main_launched gc hc \<Rightarrow> g = gc"
proof -
  define hv where "hv = entered ctx (case state of Some hv \<Rightarrow> hv | None \<Rightarrow> create_once this)"
  obtain r where r: "hypervisor_main hw env ctx hv c = Some (r, hv', c')"
    and g: "g = (case r of Main_error e \<Rightarrow> ctx\<lparr>c_rax := of_int (hv_error_code e)\<rparr> | Main_launched gc hc \<Rightarrow> gc)"
    using assms
    by (auto simp: launch_processor_def zpp_hypervisor_main_def launch_on_cpu_def launch_on_cpu_private_stack_def
        hv_def entered_def split: bind_splits if_splits option.splits main_result.splits)
  have "c_rax g = 0 \<longleftrightarrow> (\<exists>gc hc. r = Main_launched gc hc)"
  proof (cases r)
    case (Main_error e)
    with main_error_failed r have "e \<noteq> success" by blast
    then show ?thesis using Main_error g by (cases e) simp_all
  next
    case (Main_launched gc hc)
    with r main_launched_steps obtain hv4 c4 where "vm_launch hw env ctx hv4 c4 = (gc, hc, hv', c')" by metis
    then have "c_rax gc = 0" by (auto simp: vm_launch_def Let_def)
    then show ?thesis using Main_launched g by simp
  qed
  with r g show ?thesis by (intro that) (auto simp: hv_def split: main_result.splits)
qed

section \<open>The later processors\<close>

text \<open>A processor other than the first keeps the tables, whether it is launched or not, and its control
  structure names the same \<open>epml4\<close>.\<close>

lemma main_start_tables: "same_tables hv (main_start env ctx c hv)"
  by (simp add: same_tables_def main_start_def initialize_registers_def)

lemma entered_tables: "same_tables hv (entered ctx hv)"
  by (simp add: same_tables_def entered_def)

lemma intermediate_gdt_tables: "initialize_intermediate_gdt mem hv = Some hv' \<Longrightarrow> same_tables hv hv'"
  by (auto simp: initialize_intermediate_gdt_def copy_os_gdt_def set_gdt_entry_def same_tables_def Let_def
      split: if_splits bind_splits)

lemma later_cpu_launched:
  assumes "hypervisor_main hw env ctx hv c = Some (Main_launched g h, hv', c')" and "c_rdi ctx \<noteq> 0" and "vmx_accepts hw"
  shows "same_tables hv hv'" and "guest_runs hw hv (hv_next_virtual_processor hv) c'"
    and "hv_next_virtual_processor hv' = hv_next_virtual_processor hv + 1"
    and "hv_next_virtual_processor hv - 1 < max_cpus"
proof -
  obtain hv1 hv2 hv3 hv4 c3 where s: "prepared env ctx c hv hv1 hv2 hv3" "initialize_vmx hv3 = Some hv4"
    "enter_root_mode hw hv4 (host_cpu hv2 c) = (success, c3)"
    "vm_launch hw env ctx hv4 (setup_vmcs hw (env_mem env) ctx hv4 c3) = (g, h, hv', c')"
    using main_launched_steps [OF assms(1)] .
  have i: "initialize_intermediate_gdt (env_mem env) (main_start env ctx c hv) = Some hv2" "hv3 = hv2"
    using s(1) assms(2) by (simp_all add: prepared_def)
  have same: "same_tables hv hv3" unfolding i(2) by (rule same_tables_trans [OF main_start_tables intermediate_gdt_tables [OF i(1)]])
  have next_cpu: "hv_next_virtual_processor hv3 = hv_next_virtual_processor hv"
    unfolding i(2) intermediate_gdt_processor [OF i(1)] by (simp add: main_start_def initialize_registers_def)
  note l = launched_state [OF s(2) assms(3) s(3,4)]
  show "same_tables hv hv'" using same l(2) same_tables_trans by blast
  have "guest_runs hw hv3 (hv_next_virtual_processor hv3) c'" using l(1,3,4) by (simp add: guest_runs_def)
  then show "guest_runs hw hv (hv_next_virtual_processor hv) c'" using guest_runs_same [OF same] next_cpu by simp
  show "hv_next_virtual_processor hv' = hv_next_virtual_processor hv + 1" "hv_next_virtual_processor hv - 1 < max_cpus"
    using l(5,6) next_cpu by simp_all
qed

lemma later_cpu_failed:
  assumes "hypervisor_main hw env ctx hv c = Some (Main_error e, hv', c')" and "c_rdi ctx \<noteq> 0"
  shows "same_tables hv hv'" and "hv_next_virtual_processor hv' = hv_next_virtual_processor hv"
proof -
  let ?s = "main_start env ctx c hv"
  note main = assms(1) [unfolded hypervisor_main_def Let_def, folded main_start_def]
  obtain hv2 where 2: "initialize_intermediate_gdt (env_mem env) ?s = Some hv2"
    using main assms(2) by (auto split: bind_splits)
  then have vmx: "initialize_vmx hv2 = Some hv'"
    using main assms(2) by (auto split: bind_splits prod.splits if_splits)
  then show "same_tables hv hv'"
    using main_start_tables intermediate_gdt_tables [OF 2] initialize_vmx_tables(1) same_tables_trans by blast
  show "hv_next_virtual_processor hv' = hv_next_virtual_processor hv"
    using intermediate_gdt_processor [OF 2] vmx
    by (auto simp: initialize_vmx_def Let_def main_start_def initialize_registers_def split: if_splits)
qed

section \<open>All processors\<close>

text \<open>\<open>launches hw this env ctx\<^sub>0 c\<^sub>0 hv cs\<close>: the first processor was launched with the
  context \<open>ctx\<^sub>0\<close> in the state \<open>c\<^sub>0\<close>, others followed in any number and order, launched or
  refused; \<open>hv\<close> is the shared state and \<open>cs\<close> are the processors that run a guest.  A launch
  leaves 0 in \<open>rax\<close>, a refusal its error code.\<close>

inductive launches :: "hardware \<Rightarrow> u64 \<Rightarrow> launch_env \<Rightarrow> cpu_context \<Rightarrow> cpu \<Rightarrow> hypervisor \<Rightarrow> cpu list \<Rightarrow> bool"
  for hw :: hardware and this :: u64 and env :: launch_env and ctx0 :: cpu_context and c0 :: cpu where
  first: "launch_processor hw this env ctx0 None c0 = Some (g, hv, c) \<Longrightarrow> c_rdi ctx0 = 0 \<Longrightarrow> c_rax g = 0 \<Longrightarrow>
    launches hw this env ctx0 c0 hv [c]"
| later: "launches hw this env ctx0 c0 hv cs \<Longrightarrow> launch_processor hw this env' ctx (Some hv) c = Some (g, hv', c') \<Longrightarrow>
    c_rdi ctx \<noteq> 0 \<Longrightarrow> launches hw this env ctx0 c0 hv' (if c_rax g = 0 then c' # cs else cs)"

text \<open>The module the first processor finds, and that the members for the entry do not matter for it.\<close>

definition found_module :: "launch_env \<Rightarrow> cpu_context \<Rightarrow> cpu \<Rightarrow> u64 \<Rightarrow> hypervisor option" where
  "found_module env ctx c this =
     map_option initialize_os_page_table
       (initialize_module_region (env_mem env) (env_marker env) (main_start env ctx c (create_once this)))"

lemma module_region_entered:
  assumes "found_module env ctx c this = Some hvo"
  obtains hvm where "initialize_module_region (env_mem env) (env_marker env) (main_start env ctx c (entered ctx (create_once this))) = Some hvm"
    "os_maps_module mem (initialize_os_page_table hvm) = os_maps_module mem hvo"
    "guarded_pages mem (initialize_os_page_table hvm) = guarded_pages mem hvo"
    "launch_result mem (initialize_os_page_table hvm) = launch_result mem hvo"
proof -
  obtain base elf where e: "elf_image_base (env_mem env) (env_marker env) = Some base"
    "elf_file_of (env_mem env) base loaded = Some elf"
    and hvo: "hvo = initialize_os_page_table ((main_start env ctx c (create_once this))\<lparr>hv_module_base := base, hv_module_size := memory_size elf\<rparr>)"
    using assms by (auto simp: found_module_def initialize_module_region_def split: bind_splits)
  define hvm where "hvm = (main_start env ctx c (entered ctx (create_once this)))\<lparr>hv_module_base := base, hv_module_size := memory_size elf\<rparr>"
  let ?o = "initialize_os_page_table hvm"
  have m: "hv_this ?o = hv_this hvo" "hv_host_page_table ?o = hv_host_page_table hvo" "hv_module_base ?o = hv_module_base hvo"
    "hv_module_size ?o = hv_module_size hvo" "hv_os_page_table ?o = hv_os_page_table hvo"
    by (simp_all add: hvm_def hvo initialize_os_page_table_def main_start_def initialize_registers_def entered_def)
  have p: "module_pages ?o = module_pages hvo" "os_physical mem ?o = os_physical mem hvo" "object_at ?o k = object_at hvo k" for mem k
    using m by (simp_all add: module_pages_def os_physical_def object_at_def fun_eq_iff)
  show ?thesis
    by (rule that [of hvm])
      (use m p e in \<open>simp_all add: hvm_def initialize_module_region_def os_maps_module_def guarded_pages_def launch_result_def os_regions_def\<close>)
qed

lemma fresh_entered: "fresh_state (entered ctx (create_once this))"
  using fresh_create_once [of this] by (simp add: fresh_state_def entered_def)

text \<open>The invariant: the tables hide the module, every running guest uses them, and the \<open>i\<close>-th
  launched processor has identifier and control structure number \<open>i\<close> (the last one comes first).\<close>

definition isolated :: "hardware \<Rightarrow> hypervisor \<Rightarrow> nat set \<Rightarrow> cpu list \<Rightarrow> bool" where
  "isolated hw hv G cs \<longleftrightarrow> tables_hide hv G \<and> hidden_pages hv = G \<and> module_mapped hv \<and> (\<exists>k. object_at hv k) \<and>
     hv_next_virtual_processor hv = Suc (length cs) \<and> length cs \<le> max_cpus \<and>
     list_all2 (guest_runs hw hv) (rev [1..<Suc (length cs)]) cs"

lemma isolated_same:
  assumes "same_tables hv hv'" and "hv_next_virtual_processor hv' = hv_next_virtual_processor hv"
  shows "isolated hw hv' G cs = isolated hw hv G cs"
proof -
  have "guest_runs hw hv' = guest_runs hw hv" using guest_runs_same [OF assms(1)] by (simp add: fun_eq_iff)
  then show ?thesis
    using tables_hide_same [OF assms(1)] same_tables_module [OF assms(1)] same_tables_hidden [OF assms(1)] assms(2)
    by (simp add: isolated_def)
qed

lemma isolated_later:
  assumes "isolated hw hv G cs" and "same_tables hv hv'" and "guest_runs hw hv (hv_next_virtual_processor hv) c"
    and "hv_next_virtual_processor hv' = hv_next_virtual_processor hv + 1" and "hv_next_virtual_processor hv - 1 < max_cpus"
  shows "isolated hw hv' G (c # cs)"
proof -
  have "guest_runs hw hv' = guest_runs hw hv" using guest_runs_same [OF assms(2)] by (simp add: fun_eq_iff)
  then show ?thesis
    using assms tables_hide_same [OF assms(2)] same_tables_module [OF assms(2)] same_tables_hidden [OF assms(2)]
    by (simp add: isolated_def)
qed

lemma isolated_first:
  assumes launch: "launch_processor hw this env ctx None c = Some (g, hv, c')" and first: "c_rdi ctx = 0" "c_rax g = 0"
    and hw: "vmx_accepts hw" and found: "found_module env ctx c this = Some hvo" and ok: "os_maps_module (env_mem env) hvo"
  shows "isolated hw hv (guarded_pages (env_mem env) hvo) [c']"
proof -
  obtain hvm where m: "initialize_module_region (env_mem env) (env_marker env) (main_start env ctx c (entered ctx (create_once this))) = Some hvm"
    "os_maps_module (env_mem env) (initialize_os_page_table hvm)"
    "guarded_pages (env_mem env) (initialize_os_page_table hvm) = guarded_pages (env_mem env) hvo"
    by (rule module_region_entered [OF found, where mem = "env_mem env"]) (use ok in blast)
  obtain gc hc where "hypervisor_main hw env ctx (entered ctx (create_once this)) c = Some (Main_launched gc hc, hv, c')"
    by (rule launch_processor_main [OF launch]) (use first(2) in auto)
  from main_isolates [OF this fresh_entered first(1) hw m(1,2)] show ?thesis
    by (simp add: isolated_def m(3) max_cpus_def)
qed

lemma isolated_launch:
  assumes iso: "isolated hw hv G cs" and launch: "launch_processor hw this env ctx (Some hv) c = Some (g, hv', c')"
    and later: "c_rdi ctx \<noteq> 0" and hw: "vmx_accepts hw"
  shows "isolated hw hv' G (if c_rax g = 0 then c' # cs else cs)" and "same_tables hv hv'"
proof -
  let ?hv = "entered ctx hv"
  have same: "isolated hw ?hv G cs" using iso isolated_same [OF entered_tables [of hv ctx]] by (simp add: entered_def)
  obtain r where r: "hypervisor_main hw env ctx ?hv c = Some (r, hv', c')"
    "c_rax g = 0 \<longleftrightarrow> (\<exists>gc hc. r = Main_launched gc hc)"
    by (rule launch_processor_main [OF launch]) auto
  have "isolated hw hv' G (if c_rax g = 0 then c' # cs else cs) \<and> same_tables ?hv hv'"
  proof (cases r)
    case (Main_error e)
    note f = later_cpu_failed [OF r(1) [unfolded Main_error] later]
    show ?thesis using same isolated_same [OF f] f(1) r(2) Main_error by simp
  next
    case (Main_launched gc hc)
    note f = later_cpu_launched [OF r(1) [unfolded Main_launched] later hw]
    show ?thesis using isolated_later [OF same f] f(1) r(2) Main_launched by simp
  qed
  then show "isolated hw hv' G (if c_rax g = 0 then c' # cs else cs)" "same_tables hv hv'"
    using same_tables_trans [OF entered_tables] by blast+
qed

lemma launches_isolated:
  assumes "launches hw this env ctx0 c0 hv cs" and hw: "vmx_accepts hw"
    and found: "found_module env ctx0 c0 this = Some hvo" and ok: "os_maps_module (env_mem env) hvo"
  shows "isolated hw hv (guarded_pages (env_mem env) hvo) cs"
  using assms(1)
proof (induction rule: launches.induct)
  case (first g hv c)
  then show ?case using isolated_first hw found ok by blast
next
  case (later hv cs env' ctx c g hv' c')
  then show ?case using isolated_launch(1) hw by blast
qed

text \<open>Distinct numbers mean distinct identifiers and distinct control structures.\<close>

lemma vmcs_regions_distinct:
  assumes "module_mapped hv" and "object_at hv k" and "i < max_cpus" and "j < max_cpus"
    and "virtual_to_physical (hv_host_page_table hv) (vmx_vmcs_address (hv_this hv) i) =
      virtual_to_physical (hv_host_page_table hv) (vmx_vmcs_address (hv_this hv) j)"
  shows "i = j"
proof -
  have at: "vmx_vmcs_address (hv_this hv) n = page_at (hv_module_base hv) (k + 0x1370 + n)" "k + 0x1370 + n < module_pages hv"
    if "n < max_cpus" for n
    using object_page [OF assms(2), of "0x1370 + n"] that
    by (simp_all add: member_pages object_pages_def max_cpus_def add.assoc)
  have eq: "module_physical hv (k + 0x1370 + i) = module_physical hv (k + 0x1370 + j)"
    using assms(5) at [OF assms(3)] at [OF assms(4)] by (simp add: module_physical_def)
  have "inj_on (module_physical hv) {..<module_pages hv}" using assms(1) by (simp add: module_mapped_def)
  from inj_onD [OF this eq] have "k + 0x1370 + i = k + 0x1370 + j"
    using at(2) [OF assms(3)] at(2) [OF assms(4)] by simp
  then show ?thesis by simp
qed

lemma isolated_distinct:
  assumes "isolated hw hv G cs"
  shows "distinct (map cpu_vmcs cs)" and "distinct (map (vmcs_vpid hw) cs)"
    and "\<forall>c \<in> set cs. \<exists>eptp. vmcs_ept_pointer hw c = Maybe_value eptp \<and> bits 12 40 eptp = host_frame hv (epml4_address (hv_this hv))"
proof -
  obtain k where k: "object_at hv k" using assms by (auto simp: isolated_def)
  have mapped: "module_mapped hv" and n: "length cs \<le> 16" using assms by (simp_all add: isolated_def max_cpus_def)
  have runs: "guest_runs hw hv (length cs - i) (cs ! i)" if "i < length cs" for i
    using assms that by (auto simp: isolated_def list_all2_conv_all_nth rev_nth Suc_diff_Suc simp del: upt_Suc)
  have "i = j" if "i < length cs" "j < length cs" "cpu_vmcs (cs ! i) = cpu_vmcs (cs ! j)" for i j
  proof -
    have "length cs - i - 1 = length cs - j - 1"
      by (rule vmcs_regions_distinct [OF mapped k]) (use runs [OF that(1)] runs [OF that(2)] that n in \<open>auto simp: guest_runs_def max_cpus_def\<close>)
    then show ?thesis using that by simp
  qed
  then show "distinct (map cpu_vmcs cs)" by (fastforce simp: distinct_conv_nth)
  have "i = j" if "i < length cs" "j < length cs" "vmcs_vpid hw (cs ! i) = vmcs_vpid hw (cs ! j)" for i j
  proof -
    have "(of_nat (length cs - i) :: u64) = of_nat (length cs - j)"
      using runs [OF that(1)] runs [OF that(2)] that(3) by (auto simp: guest_runs_def)
    then have "unat (of_nat (length cs - i) :: u64) = unat (of_nat (length cs - j) :: u64)" by simp
    moreover have "unat (of_nat (length cs - m) :: u64) = length cs - m" for m
      using n by (simp add: unat_of_nat take_bit_nat_eq_self_iff)
    ultimately have "length cs - i = length cs - j" by metis
    then show ?thesis using that by simp
  qed
  then show "distinct (map (vmcs_vpid hw) cs)" by (fastforce simp: distinct_conv_nth)
  show "\<forall>c \<in> set cs. \<exists>eptp. vmcs_ept_pointer hw c = Maybe_value eptp \<and> bits 12 40 eptp = host_frame hv (epml4_address (hv_this hv))"
    using runs by (fastforce simp: guest_runs_def in_set_conv_nth)
qed

section \<open>Progress\<close>

lemma launch_processor_eq:
  assumes "hv_available_stack_index (case state of Some hv \<Rightarrow> hv | None \<Rightarrow> create_once this) < max_cpus"
  shows "launch_processor hw this env ctx state c =
    launch_on_cpu_private_stack hw env ctx (entered ctx (case state of Some hv \<Rightarrow> hv | None \<Rightarrow> create_once this)) c"
  using assms by (simp add: launch_processor_def zpp_hypervisor_main_def launch_on_cpu_def entered_def)

lemma launched_context:
  assumes "hypervisor_main hw env ctx hv c = Some (Main_launched g h, hv', c')"
  shows "g = ctx\<lparr>c_rip := env_vmlaunch env, c_rflags := c_rflags (env_host_context env), c_rax := 0\<rparr>"
  by (rule main_launched_steps [OF assms]) (auto simp: vm_launch_def Let_def)

lemma first_processor_result:
  assumes first: "c_rdi ctx = 0" and hw: "vmx_accepts hw"
    and found: "found_module env ctx c this = Some hvo" and ok: "os_maps_module (env_mem env) hvo"
    and mtrrs: "unat (mtrr_capabilities_variable_range_register_count (rdmsr ia32_mtrr_capability c)) \<le> 8"
    and gdt: "(unat (tr_limit (cpu_gdtr c)) + 1) div 8 + 1 < 0x2000"
  shows "\<exists>g hv' c'. launch_processor hw this env ctx None c = Some (g, hv', c') \<and>
    g = (if launch_result (env_mem env) hvo = success
         then ctx\<lparr>c_rip := env_vmlaunch env, c_rflags := c_rflags (env_host_context env), c_rax := 0\<rparr>
         else ctx\<lparr>c_rax := of_int (hv_error_code (launch_result (env_mem env) hvo))\<rparr>)"
proof -
  let ?hv = "entered ctx (create_once this)" and ?e = "launch_result (env_mem env) hvo"
  obtain hvm where m: "initialize_module_region (env_mem env) (env_marker env) (main_start env ctx c ?hv) = Some hvm"
    "os_maps_module (env_mem env) (initialize_os_page_table hvm)" "launch_result (env_mem env) (initialize_os_page_table hvm) = ?e"
    by (rule module_region_entered [OF found, where mem = "env_mem env"]) (use ok in blast)
  obtain r hv' c' where r: "hypervisor_main hw env ctx ?hv c = Some (r, hv', c')"
    "if ?e = success then (\<exists>g h. r = Main_launched g h) else r = Main_error ?e"
    using main_result [OF first hw fresh_entered m(1,2) mtrrs gdt] m(3) by (auto simp: Let_def)
  have eq: "launch_processor hw this env ctx None c = launch_on_cpu_private_stack hw env ctx ?hv c"
    using launch_processor_eq [of this None] by (simp add: create_once_def max_cpus_def)
  show ?thesis
    using r launched_context [of hw env ctx ?hv c] unfolding eq launch_on_cpu_private_stack_def
    by (auto split: if_splits)
qed

lemma later_processor_launches:
  assumes later: "c_rdi ctx \<noteq> 0" and hw: "vmx_accepts hw"
    and room: "hv_available_stack_index hv < max_cpus" "hv_next_virtual_processor hv - 1 < max_cpus"
    and gdt: "(unat (tr_limit (cpu_gdtr c)) + 1) div 8 + 1 < 0x2000"
  shows "\<exists>g hv' c'. launch_processor hw this env ctx (Some hv) c = Some (g, hv', c') \<and>
    g = ctx\<lparr>c_rip := env_vmlaunch env, c_rflags := c_rflags (env_host_context env), c_rax := 0\<rparr>"
proof -
  let ?s = "main_start env ctx c (entered ctx hv)"
  have s: "hv_next_virtual_processor ?s = hv_next_virtual_processor hv" "hv_gdtr ?s = cpu_gdtr c"
    by (simp_all add: main_start_def initialize_registers_def entered_def cpu_ops)
  obtain hv2 where i: "initialize_intermediate_gdt (env_mem env) ?s = Some hv2"
    using initialize_intermediate_gdt_defined [of ?s "env_mem env"] room gdt s by auto
  then have p: "prepared env ctx c (entered ctx hv) ?s hv2 hv2" using later by (simp add: prepared_def)
  have "hv_next_virtual_processor hv2 - 1 < max_cpus" using intermediate_gdt_processor [OF i] s(1) room(2) by simp
  from main_launches [OF p this hw] obtain g h hv' c' where
    g: "hypervisor_main hw env ctx (entered ctx hv) c = Some (Main_launched g h, hv', c')" by blast
  have eq: "launch_processor hw this env ctx (Some hv) c = launch_on_cpu_private_stack hw env ctx (entered ctx hv) c"
    using launch_processor_eq [of this "Some hv"] room(1) by simp
  show ?thesis
    unfolding eq launch_on_cpu_private_stack_def using g launched_context [OF g] by simp
qed

section \<open>The private stacks\<close>

lemma stack_range:
  assumes "unat this + unat sizeof_hypervisor \<le> 2 ^ 64" and "i < max_cpus"
  shows "unat (stack_address this i) = unat this + 0x1000 + i * 0x80000"
proof -
  have i: "i < 16" using assms(2) by (simp add: max_cpus_def)
  then have u: "unat (of_nat i :: u64) = i" by (simp add: unat_of_nat take_bit_nat_eq_self_iff)
  have "unat (of_nat i * 0x80000 :: u64) = i * 0x80000" using i by (subst unat_mult_lem [THEN iffD1]) (simp_all add: u)
  then have "unat (0x1000 + of_nat i * 0x80000 :: u64) = 0x1000 + i * 0x80000"
    using i by (subst unat_add_lem [THEN iffD1]) simp_all
  then show ?thesis
    using assms(1) i unfolding stack_address_def add.assoc
    by (subst unat_add_lem [THEN iffD1]) (simp_all add: sizeof_hypervisor_def)
qed

end
