(* ===== verification/Module_Frames.thy ===== *)
theory Module_Frames
  imports Launch_Processors
begin

text \<open>
  The page frames of the object \<open>hypervisor\<close> in physical memory, by member: those of different
  members are different, those outside \<open>unprotected_memory\<close> are hidden from the guests, and the
  extended page tables depend on nothing but their own.
\<close>

section \<open>Frames\<close>

text \<open>The physical pages of pages \<open>I\<close> of the object.\<close>

definition object_frames :: "hypervisor \<Rightarrow> nat set \<Rightarrow> nat set" where
  "object_frames hv I = (\<lambda>i. page_of (virtual_to_physical (hv_host_page_table hv) (page_at (hv_this hv) i))) ` I"

text \<open>The members by their pages: the stacks of the processors, \<open>unprotected_memory\<close>, the extended
  page tables from \<open>epml4\<close> to \<open>ept\<close>, and the VMXON regions and control structures.\<close>

definition stack_pages :: "nat set" where "stack_pages = {1..<0x801}"
definition unprotected_pages :: "nat set" where "unprotected_pages = {0xc5c..<0xd5d}"
definition ept_pages :: "nat set" where "ept_pages = {0xd5e..<0x1360}"
definition vmx_pages :: "nat set" where "vmx_pages = {0x1360..<0x1380}"

lemmas object_part_defs = stack_pages_def unprotected_pages_def ept_pages_def vmx_pages_def object_pages_def

lemma object_parts:
  "stack_pages \<subseteq> {..<object_pages}" "unprotected_pages \<subseteq> {..<object_pages}"
  "ept_pages \<subseteq> {..<object_pages}" "vmx_pages \<subseteq> {..<object_pages}"
  "ept_pages \<inter> (stack_pages \<union> vmx_pages) = {}" "unprotected_pages \<inter> (stack_pages \<union> vmx_pages \<union> ept_pages) = {}"
  by (auto simp: object_part_defs)

lemma object_parts_members:
  "i < max_cpus \<Longrightarrow> stack_address this i = page_at this (1 + 0x80 * i)"
  "unprotected_memory_address this = page_at this 0xc5c" "epml4_address this = page_at this 0xd5e"
  "vmx_address this 0 = page_at this 0x1360" "msr_bitmap_address this = page_at this 0x1380"
  by (simp_all add: member_pages) (simp add: stack_address_def page_at_def algebra_simps)

lemma object_frames_module:
  assumes "object_at hv k" and "I \<subseteq> {..<object_pages}"
  shows "object_frames hv I = module_page hv ` (+) k ` I" and "(+) k ` I \<subseteq> {..<module_pages hv}"
  using object_page [OF assms(1)] assms(2)
  by (auto simp: object_frames_def module_page_def image_image intro!: image_cong)

lemma object_frames_Un: "object_frames hv (I \<union> J) = object_frames hv I \<union> object_frames hv J"
  by (simp add: object_frames_def image_Un)

lemma object_frames_disjoint:
  assumes "module_mapped hv" and "object_at hv k" and "I \<subseteq> {..<object_pages}" and "J \<subseteq> {..<object_pages}" and "I \<inter> J = {}"
  shows "object_frames hv I \<inter> object_frames hv J = {}"
proof -
  note f = object_frames_module [OF assms(2)]
  have "(+) k ` I \<inter> (+) k ` J = {}" using assms(5) by auto
  then show ?thesis
    using inj_on_image_Int [OF module_page_inj [OF assms(1)] f(2) f(2), OF assms(3,4)]
    unfolding f(1) [OF assms(3)] f(1) [OF assms(4)] by simp
qed

lemma object_frames_hidden:
  assumes "module_mapped hv" and "object_at hv k" and "I \<subseteq> {..<object_pages}" and "I \<inter> unprotected_pages = {}"
  shows "object_frames hv I \<subseteq> hidden_pages hv"
proof -
  have "unprotected_page hv ` {..<257} = object_frames hv unprotected_pages"
  proof -
    have "unprotected_page hv i = page_of (virtual_to_physical (hv_host_page_table hv) (page_at (hv_this hv) (0xc5c + i)))" for i
      by (simp add: unprotected_page_def member_pages page_at_page_at)
    moreover have "unprotected_pages = (+) 0xc5c ` {..<257}"
      unfolding unprotected_pages_def lessThan_atLeast0 by (subst image_add_atLeastLessThan) simp
    ultimately show ?thesis unfolding object_frames_def by (metis (mono_tags, lifting) image_cong image_image)
  qed
  then have "object_frames hv I \<inter> unprotected_page hv ` {..<257} = {}"
    using object_frames_disjoint [OF assms(1-3) object_parts(2) assms(4)] by simp
  moreover have "object_frames hv I \<subseteq> module_page hv ` {..<module_pages hv}"
    using object_frames_module [OF assms(2,3)] by auto
  ultimately show ?thesis by (auto simp: hidden_pages_def)
qed

section \<open>The extended page tables in a byte memory\<close>

lemma page_of_frame_byte:
  assumes "take_bit 40 f = (f :: u64)" and "i < 512" and "j < 8"
  shows "page_of (push_bit 12 f + 8 * of_nat i + of_nat j) = page_of (push_bit 12 f)"
proof -
  define w :: u64 where "w = 8 * of_nat i + of_nat j"
  have "unat (of_nat i :: u64) = i" "unat (of_nat j :: u64) = j" using assms(2,3) by (simp_all add: unat_of_nat_u64)
  then have "unat w = 8 * i + j" using assms(2,3) by (simp add: w_def unat_word_ariths)
  then have "take_bit 12 w = w" using assms(2,3) by (intro take_bit_self_u64) simp
  then have w: "bit w k \<Longrightarrow> k < 12" for k by (metis bit_take_bit_iff)
  have "push_bit 12 f + w = push_bit 12 f OR w"
    by (rule disjunctive_add) (auto simp: bit_simps dest: w)
  moreover have "drop_bit 12 (push_bit 12 f OR w) = drop_bit 12 (push_bit 12 f)"
    by (rule bit_eqI) (auto simp: bit_simps dest: w)
  ultimately show ?thesis by (simp add: page_of_def w_def add.assoc)
qed

lemma object_frame_page:
  assumes "module_mapped hv" and "object_at hv k" and "i < object_pages"
  shows "page_of (push_bit 12 (host_frame hv (page_at (hv_this hv) i))) =
    page_of (virtual_to_physical (hv_host_page_table hv) (page_at (hv_this hv) i))"
  using module_physical_frame [OF assms(1), of "k + i"] object_page(1) [OF assms(2,3)]
  by (simp add: module_physical_def host_frame_def)

lemma ept_in_memory_frames:
  assumes "module_mapped hv" and "object_at hv k" and mem: "ept_in_memory (read_u64 pm) hv"
    and same: "\<And>x. page_of x \<in> object_frames hv ept_pages \<Longrightarrow> pm' x = pm x"
  shows "ept_in_memory (read_u64 pm') hv"
proof -
  have "read_u64 pm' (push_bit 12 (host_frame hv (page_at (hv_this hv) p)) + 8 * of_nat i) =
      read_u64 pm (push_bit 12 (host_frame hv (page_at (hv_this hv) p)) + 8 * of_nat i)"
    if "i < 512" "p \<in> ept_pages" for i p
    unfolding read_u64_def
  proof (rule read_le_cong, rule same)
    fix j :: nat assume "j < 8"
    have p: "p < object_pages" using that(2) object_parts(3) by auto
    have "page_of (push_bit 12 (host_frame hv (page_at (hv_this hv) p)) + 8 * of_nat i + of_nat j) =
        page_of (virtual_to_physical (hv_host_page_table hv) (page_at (hv_this hv) p))"
      using page_of_frame_byte [OF _ that(1) \<open>j < 8\<close>] object_frame_page [OF assms(1,2) p]
      by (simp add: host_frame_def bits_take_bit)
    then show "page_of (push_bit 12 (host_frame hv (page_at (hv_this hv) p)) + 8 * of_nat i + of_nat j) \<in> object_frames hv ept_pages"
      using that(2) by (auto simp: object_frames_def)
  qed
  then show ?thesis
    using mem unfolding ept_in_memory_def member_pages by (simp add: ept_pages_def)
qed

text \<open>A byte memory that holds the tables.\<close>

definition byte_memory :: "(u64 \<Rightarrow> u64) \<Rightarrow> memory" where
  "byte_memory pmem x = ucast (drop_bit (8 * unat (x AND 7)) (pmem (x AND NOT 7)))"

lemma read_byte_memory:
  assumes "x AND 7 = 0"
  shows "read_u64 (byte_memory pmem) x = pmem x"
proof (rule bit_eqI)
  fix i
  have x: "\<not> bit x k" if "k < 3" for k
  proof -
    have "bit (x AND mask 3) k = bit (0 :: u64) k" using assms by (simp add: mask_eq_exp_minus_1)
    then show ?thesis using that by (simp add: bit_and_iff bit_mask_iff)
  qed
  have byte: "byte_memory pmem (x + of_nat k) = byte_of (pmem x) k" if "k < 8" for k
  proof -
    define w :: u64 where "w = of_nat k"
    have u: "unat w = k" using that by (simp add: w_def unat_of_nat_u64)
    then have "take_bit 3 w = w" using that by (intro take_bit_self_u64) simp
    then have w: "bit w j \<Longrightarrow> j < 3" for j by (metis bit_take_bit_iff)
    have eq: "x + w = x OR w" by (rule disjunctive_add) (auto simp: bit_simps dest: w x)
    have "(x + w) AND mask 3 = w" "(x + w) AND NOT (mask 3) = x"
      unfolding eq by (rule bit_eqI; auto simp: bit_simps dest: w x u64_bit_bound)+
    moreover have "mask 3 = (7 :: u64)" by (simp add: mask_eq_exp_minus_1)
    ultimately show ?thesis using u by (simp add: byte_memory_def byte_of_def w_def)
  qed
  show "bit (read_u64 (byte_memory pmem) x) i = bit (pmem x) i"
    by (cases "i < 64") (auto simp: read_u64_def bit_read_le byte bit_byte_of dest: u64_bit_bound)
qed

lemma ept_in_byte_memory_exists:
  assumes "module_mapped hv" and "object_at hv k"
  shows "\<exists>pm. ept_in_memory (read_u64 pm) hv"
proof -
  obtain pmem where pmem: "ept_in_memory pmem hv" using ept_in_memory_exists [OF assms] by blast
  have "read_u64 (byte_memory pmem) (push_bit 12 f + 8 * w) = pmem (push_bit 12 f + 8 * w)" for f w
  proof (rule read_byte_memory)
    have "take_bit 3 (push_bit 12 f + 8 * w :: u64) = 0"
    proof -
      have "push_bit 12 f + 8 * w = push_bit 3 (push_bit 9 f + w)" by (simp add: push_bit_eq_mult algebra_simps)
      then show ?thesis by (simp only: take_bit_push_bit) simp
    qed
    then show "(push_bit 12 f + 8 * w) AND 7 = 0" by (simp add: take_bit_eq_mask mask_eq_exp_minus_1)
  qed
  then have "ept_in_memory (read_u64 (byte_memory pmem)) hv" using pmem by (simp add: ept_in_memory_def)
  then show ?thesis by blast
qed

end
