(* ===== verification/Loader.thy ===== *)
theory Loader
  imports Elf
begin

text \<open>
  \<^verbatim>\<open>src/loader/src/main.cpp\<close>: \<open>zpp_load_elf\<close>, which loads the hypervisor and calls its entry
  point on every processor, and the services the loaders of the operating systems give it.  The state
  of a call is a pair of the machine and of what the operating system keeps about scheduling.
\<close>

section \<open>Services\<close>

type_synonym 's call = "'s \<Rightarrow> (int \<times> 's) option"

text \<open>The function pointers \<open>zpp_load_elf\<close> gets.  \<open>ls_enter\<close> is the call of a function at an
  address with two arguments; \<open>ls_adjust\<close> is \<open>None\<close> for a null pointer.\<close>

record ('m, 'o) loader_services =
  ls_allocate_rwx :: "u64 \<Rightarrow> 'o \<Rightarrow> u64 \<times> 'o"
  ls_physical_to_virtual :: u64
  ls_call_on_cpu :: "nat \<Rightarrow> ('m \<times> 'o) call \<Rightarrow> ('m \<times> 'o) call"
  ls_number_of_cpus :: "'o \<Rightarrow> u64 \<times> 'o"
  ls_adjust :: "(u64 \<Rightarrow> nat \<Rightarrow> u64 \<Rightarrow> ('m \<times> 'o) call) option"
  ls_enter :: "u64 \<Rightarrow> nat \<Rightarrow> u64 \<Rightarrow> ('m \<times> 'o) call"

section \<open>Loading and launching\<close>

text \<open>The closure \<open>launch\<close>.\<close>

definition launch_entry :: "('m, 'o) loader_services \<Rightarrow> u64 \<Rightarrow> nat \<Rightarrow> ('m \<times> 'o) call" where
  "launch_entry svc entry i =
     (case ls_adjust svc of
        Some adjust \<Rightarrow> adjust entry i (ls_physical_to_virtual svc)
      | None \<Rightarrow> ls_enter svc entry i (ls_physical_to_virtual svc))"

text \<open>The loop over the processors: it returns -1 at the first call that fails.\<close>

definition on_each_cpu :: "(nat \<Rightarrow> ('m \<times> 'o) call \<Rightarrow> ('m \<times> 'o) call) \<Rightarrow> nat \<Rightarrow> (nat \<Rightarrow> ('m \<times> 'o) call) \<Rightarrow> 'm \<times> 'o \<Rightarrow> (('m \<times> 'o) \<times> int option) option" where
  "on_each_cpu call_on cpus f s =
     loop_ret cpus
       (\<lambda>i s. do {
          (result, s) \<leftarrow> call_on i (f i) s;
          Some (s, if result \<noteq> 0 then Some (- 1) else None)
        }) s"

definition launch_on_cpus :: "('m, 'o) loader_services \<Rightarrow> u64 \<Rightarrow> nat \<Rightarrow> ('m \<times> 'o) call" where
  "launch_on_cpus svc entry cpus s = do {
     (s, r) \<leftarrow> on_each_cpu (ls_call_on_cpu svc) cpus (launch_entry svc entry) s;
     Some (case r of Some e \<Rightarrow> e | None \<Rightarrow> 0, s)
   }"

definition zpp_load_elf ::
  "('m, 'o) loader_services \<Rightarrow> u64 \<Rightarrow> memory \<Rightarrow> 'm \<times> 'o \<Rightarrow> (int \<times> memory \<times> 'm \<times> 'o) option" where
  "zpp_load_elf svc zpp_elf_binary m s = do {
     elf \<leftarrow> elf_file_of m zpp_elf_binary unloaded;
     let (block, os) = ls_allocate_rwx svc (m_memory_size elf) (snd s);
     (base, m) \<leftarrow> elf_load (\<lambda>_. block) (\<lambda>_ _ _ m. m) elf m;
     let s = (fst s, os);
     (if base = 0 then Some (- 1, m, s)
      else
        (let entry = base + elf_entry m elf;
             (cpus, os) = ls_number_of_cpus svc os;
             s = (fst s, os)
         in if cpus = 0 then Some (- 1, m, s)
            else do {
              (r, s) \<leftarrow> launch_on_cpus svc entry (unat cpus) s;
              Some (r, m, s)
            }))
   }"

lemma on_each_cpu_error: "on_each_cpu call_on n f s = Some (t, Some e) \<Longrightarrow> e = - 1"
proof (induction n arbitrary: t)
  case 0
  then show ?case by (simp add: on_each_cpu_def)
next
  case (Suc n)
  then show ?case by (auto simp: on_each_cpu_def split: bind_splits option.splits if_splits)
qed

lemma launch_on_cpus_zero:
  assumes "launch_on_cpus svc entry n s = Some (0, t)"
  shows "on_each_cpu (ls_call_on_cpu svc) n (launch_entry svc entry) s = Some (t, None)"
  using assms on_each_cpu_error by (fastforce simp: launch_on_cpus_def split: bind_splits option.splits)

section \<open>Calling on a processor\<close>

text \<open>What the loader relies on: the function runs at most once and on the processor that was asked
  for, and a call returns 0 only if the function did.  \<open>on i\<close> says of the scheduling state that the
  current thread is bound to processor \<open>i\<close>.\<close>

locale cpu_call =
  fixes call_on :: "nat \<Rightarrow> ('m \<times> 'o) call \<Rightarrow> ('m \<times> 'o) call" and on :: "nat \<Rightarrow> 'o \<Rightarrow> bool"
  assumes success: "call_on i f (m, os) = Some (0, m', os') \<Longrightarrow> \<exists>os1 os2. on i os1 \<and> f (m, os1) = Some (0, m', os2)"
    and at_most_once: "call_on i f (m, os) = Some (r, m', os') \<Longrightarrow>
      m' = m \<or> (\<exists>os1 r1 os2. on i os1 \<and> f (m, os1) = Some (r1, m', os2))"
begin

text \<open>The calls of a successful loop, one per processor and in order.\<close>

lemma loop_success:
  assumes "on_each_cpu call_on n f (m, os) = Some ((m', os'), None)"
    and step: "\<And>i m os m' os'. i < n \<Longrightarrow> on i os \<Longrightarrow> f i (m, os) = Some (0, m', os') \<Longrightarrow> R i m \<Longrightarrow> R (Suc i) m'"
    and "R 0 m"
  shows "R n m'"
  using assms(1,2)
proof (induction n arbitrary: m' os')
  case 0
  then show ?case using assms(3) by (simp add: on_each_cpu_def)
next
  case (Suc n)
  obtain m1 os1 where l: "on_each_cpu call_on n f (m, os) = Some ((m1, os1), None)"
    and c: "call_on n (f n) (m1, os1) = Some (0, m', os')"
    using Suc.prems(1) by (auto simp: on_each_cpu_def split: bind_splits option.splits if_splits)
  have "R n m1" by (rule Suc.IH [OF l]) (use Suc.prems(2) in auto)
  then show ?case using success [OF c] Suc.prems(2) by blast
qed

end

end
