(* ===== verification/Os_Loaders.thy ===== *)
theory Os_Loaders
  imports Loader
begin

text \<open>
  The loaders of the operating systems: \<^verbatim>\<open>src/linux_loader/src/main.c\<close>,
  \<^verbatim>\<open>src/windows_loader/src/main.cpp\<close> and the part of \<^verbatim>\<open>src/uefi_loader/src/main.cpp\<close> that starts the
  hypervisor.  The functions of the kernels and of the firmware are parameters, records of functions
  over the state the operating system keeps.
\<close>

section \<open>Linux\<close>

text \<open>The kernel functions the driver calls; \<open>lk_getaffinity\<close> also gives the new contents of the mask
  it fills.\<close>

record ('mask, 'o) linux_kernel =
  lk_num_online_cpus :: "'o \<Rightarrow> int \<times> 'o"
  lk_getaffinity :: "'mask \<Rightarrow> 'o \<Rightarrow> (int \<times> 'mask) \<times> 'o"
  lk_setaffinity :: "'mask \<Rightarrow> 'o \<Rightarrow> int \<times> 'o"
  lk_cpumask_of :: "nat \<Rightarrow> 'mask"
  lk_vmalloc :: "u64 \<Rightarrow> 'o \<Rightarrow> u64 \<times> 'o"
  lk_phys_to_virt :: u64
  lk_EFAULT :: int
  lk_EPERM :: int

text \<open>The state of the operating system comes with \<open>g_state.previous_mask\<close>.\<close>

definition linux_number_of_cpus :: "('mask, 'o) linux_kernel \<Rightarrow> 'mask \<times> 'o \<Rightarrow> u64 \<times> 'mask \<times> 'o" where
  "linux_number_of_cpus k s =
     (let (mask, os) = s; (result, os) = lk_num_online_cpus k os
      in (if result < 0 then 0 else of_int result, mask, os))"

definition linux_call_on_cpu ::
  "('mask, 'o) linux_kernel \<Rightarrow> nat \<Rightarrow> ('m \<times> 'mask \<times> 'o) call \<Rightarrow> ('m \<times> 'mask \<times> 'o) call" where
  "linux_call_on_cpu k cpuid function s =
     (let (m, previous_mask, os) = s;
          ((e, previous_mask), os) = lk_getaffinity k previous_mask os
      in if e \<noteq> 0 then Some (- 1, m, previous_mask, os)
         else
           (let (e, os) = lk_setaffinity k (lk_cpumask_of k cpuid) os
            in if e \<noteq> 0 then Some (- 1, m, previous_mask, os)
               else do {
                 (result, m, previous_mask, os) \<leftarrow> function (m, previous_mask, os);
                 let (e, os) = lk_setaffinity k previous_mask os;
                 Some (if e \<noteq> 0 then - 1 else result, m, previous_mask, os)
               }))"

definition linux_allocate_rwx :: "('mask, 'o) linux_kernel \<Rightarrow> u64 \<Rightarrow> 'mask \<times> 'o \<Rightarrow> u64 \<times> 'mask \<times> 'o" where
  "linux_allocate_rwx k bytes s = (let (mask, os) = s; (a, os) = lk_vmalloc k bytes os in (a, mask, os))"

definition zpp_init ::
  "('mask, 'o) linux_kernel \<Rightarrow> (u64 \<Rightarrow> nat \<Rightarrow> u64 \<Rightarrow> ('m \<times> 'mask \<times> 'o) call) \<Rightarrow> u64 \<Rightarrow> memory \<Rightarrow> 'm \<times> 'mask \<times> 'o \<Rightarrow>
   (int \<times> memory \<times> 'm \<times> 'mask \<times> 'o) option" where
  "zpp_init k enter binary mem s = do {
     (result, mem, s) \<leftarrow> zpp_load_elf
       \<lparr>ls_allocate_rwx = linux_allocate_rwx k, ls_physical_to_virtual = lk_phys_to_virt k,
        ls_call_on_cpu = linux_call_on_cpu k, ls_number_of_cpus = linux_number_of_cpus k, ls_adjust = None, ls_enter = enter\<rparr>
       binary mem s;
     Some (if result \<noteq> 0 then - lk_EFAULT k else - lk_EPERM k, mem, s)
   }"

text \<open>The thread was bound to the processor last.\<close>

definition linux_on :: "('mask, 'o) linux_kernel \<Rightarrow> nat \<Rightarrow> 'mask \<times> 'o \<Rightarrow> bool" where
  "linux_on k i s \<longleftrightarrow> (\<exists>os. lk_setaffinity k (lk_cpumask_of k i) os = (0, snd s))"

interpretation linux: cpu_call "linux_call_on_cpu k" "linux_on k" for k :: "('mask, 'o) linux_kernel"
  by unfold_locales
    (fastforce simp: linux_call_on_cpu_def linux_on_def Let_def split: prod.splits if_splits bind_splits)+

section \<open>Windows\<close>

record 'o windows_kernel =
  wk_allocate_pool :: "u64 \<Rightarrow> 'o \<Rightarrow> u64 \<times> 'o"
  wk_active_processor_count :: "'o \<Rightarrow> u32 \<times> 'o"
  wk_set_affinity :: "u64 \<Rightarrow> 'o \<Rightarrow> u64 \<times> 'o"
  wk_revert_affinity :: "u64 \<Rightarrow> 'o \<Rightarrow> 'o"
  wk_virtual_for_physical :: "u64 \<Rightarrow> u64"
  wk_INTERNAL_ERROR :: u32
  wk_INSUFFICIENT_POWER :: u32

definition windows_allocate_rwx :: "'o windows_kernel \<Rightarrow> u64 \<Rightarrow> 'o \<Rightarrow> u64 \<times> 'o" where
  "windows_allocate_rwx w bytes = wk_allocate_pool w bytes"

definition windows_number_of_cpus :: "'o windows_kernel \<Rightarrow> 'o \<Rightarrow> u64 \<times> 'o" where
  "windows_number_of_cpus w os = (let (n, os) = wk_active_processor_count w os in (ucast n, os))"

text \<open>A shift of \<open>1ull\<close> by 64 or more is undefined.\<close>

definition windows_call_on_cpu :: "'o windows_kernel \<Rightarrow> nat \<Rightarrow> ('m \<times> 'o) call \<Rightarrow> ('m \<times> 'o) call" where
  "windows_call_on_cpu w cpuid function s =
     (if 64 \<le> cpuid then None
      else
        (let (m, os) = s; (previous, os) = wk_set_affinity w (push_bit cpuid 1) os
         in do {
           (result, m, os) \<leftarrow> function (m, os);
           Some (result, m, wk_revert_affinity w previous os)
         }))"

definition zpp_windows_loader_physical_to_virtual :: "'o windows_kernel \<Rightarrow> u64 \<Rightarrow> u64" where
  "zpp_windows_loader_physical_to_virtual w value = wk_virtual_for_physical w value"

text \<open>\<open>invoke_entry\<close> and \<open>invoke_physical_to_virtual\<close> change the calling convention; their addresses
  and the adjusted call are parameters.\<close>

definition driver_entry ::
  "'o windows_kernel \<Rightarrow> u64 \<Rightarrow> (u64 \<Rightarrow> nat \<Rightarrow> u64 \<Rightarrow> ('m \<times> 'o) call) \<Rightarrow> (u64 \<Rightarrow> nat \<Rightarrow> u64 \<Rightarrow> ('m \<times> 'o) call) \<Rightarrow>
   u64 \<Rightarrow> memory \<Rightarrow> 'm \<times> 'o \<Rightarrow> (u32 \<times> memory \<times> 'm \<times> 'o) option" where
  "driver_entry w invoke_physical_to_virtual invoke_entry enter binary mem s = do {
     (result, mem, s) \<leftarrow> zpp_load_elf
       \<lparr>ls_allocate_rwx = windows_allocate_rwx w, ls_physical_to_virtual = invoke_physical_to_virtual,
        ls_call_on_cpu = windows_call_on_cpu w, ls_number_of_cpus = windows_number_of_cpus w,
        ls_adjust = Some invoke_entry, ls_enter = enter\<rparr>
       binary mem s;
     Some (if result \<noteq> 0 then wk_INTERNAL_ERROR w else wk_INSUFFICIENT_POWER w, mem, s)
   }"

definition windows_on :: "'o windows_kernel \<Rightarrow> nat \<Rightarrow> 'o \<Rightarrow> bool" where
  "windows_on w i s \<longleftrightarrow> i < 64 \<and> (\<exists>os. snd (wk_set_affinity w (push_bit i 1) os) = s)"

lemma windows_call_runs:
  assumes "windows_call_on_cpu w i f (m, os) = Some (r, m', os')"
  shows "\<exists>os1 os2. windows_on w i os1 \<and> f (m, os1) = Some (r, m', os2)"
proof -
  obtain previous os1 where p: "wk_set_affinity w (push_bit i 1) os = (previous, os1)" by fastforce
  then obtain os2 where "f (m, os1) = Some (r, m', os2)" "i < 64"
    using assms by (auto simp: windows_call_on_cpu_def split: if_splits bind_splits)
  moreover have "snd (wk_set_affinity w (push_bit i 1) os) = os1" using p by simp
  ultimately show ?thesis unfolding windows_on_def by blast
qed

interpretation windows: cpu_call "windows_call_on_cpu w" "windows_on w" for w :: "'o windows_kernel"
  by unfold_locales (drule windows_call_runs, blast)+

section \<open>UEFI\<close>

text \<open>A status is an error when its highest bit is set.  \<open>ub_startup_this_ap\<close> says whether the firmware
  starts the procedure, and in which state.\<close>

definition efi_error :: "u64 \<Rightarrow> bool" where "efi_error status \<longleftrightarrow> bit status 63"

record 'o uefi_services =
  ub_allocate_pages :: "u64 \<Rightarrow> 'o \<Rightarrow> (u64 \<times> u64) \<times> 'o"
  ub_number_of_processors :: "'o \<Rightarrow> (u64 \<times> u64 \<times> u64) \<times> 'o"
  ub_create_event :: "'o \<Rightarrow> u64 \<times> 'o"
  ub_signal_event :: "'o \<Rightarrow> 'o"
  ub_wait_for_event :: "'o \<Rightarrow> u64 \<times> 'o"
  ub_close_event :: "'o \<Rightarrow> 'o"
  ub_startup_this_ap :: "nat \<Rightarrow> 'o \<Rightarrow> u64 \<times> 'o \<times> 'o option"

definition uefi_allocate_rwx :: "'o uefi_services \<Rightarrow> u64 \<Rightarrow> 'o \<Rightarrow> u64 \<times> 'o" where
  "uefi_allocate_rwx u bytes os =
     (let ((status, physical_address), os) = ub_allocate_pages u ((bytes + 0x1000 - 1) div 0x1000) os
      in if efi_error status then (0, os) else (physical_address, os))"

definition uefi_number_of_cpus :: "'o uefi_services \<Rightarrow> 'o \<Rightarrow> u64 \<times> 'o" where
  "uefi_number_of_cpus u os =
     (let ((status, cpu_count, enabled_cpu_count), os) = ub_number_of_processors u os
      in if efi_error status then (0, os) else (cpu_count, os))"

definition uefi_call_on_cpu :: "'o uefi_services \<Rightarrow> nat \<Rightarrow> ('m \<times> 'o) call \<Rightarrow> ('m \<times> 'o) call" where
  "uefi_call_on_cpu u cpuid function s =
     (if cpuid = 0 then function s
      else
        (let (m, os) = s; (status, os) = ub_create_event u os
         in if efi_error status then Some (- 1, m, os)
            else
              (let (status, os, started) = ub_startup_this_ap u cpuid os
               in do {
                 (result, m, os) \<leftarrow>
                   (case started of
                      None \<Rightarrow> Some (- 1, m, os)
                    | Some ap \<Rightarrow> do {
                        (result, m, os) \<leftarrow> function (m, ap);
                        Some (result, m, ub_signal_event u os)
                      });
                 let os = (if efi_error status then os else snd (ub_wait_for_event u os));
                 Some (result, m, ub_close_event u os)
               })))"

definition uefi_on :: "'o uefi_services \<Rightarrow> nat \<Rightarrow> 'o \<Rightarrow> bool" where
  "uefi_on u i s \<longleftrightarrow> i = 0 \<or> (\<exists>os. snd (snd (ub_startup_this_ap u i os)) = Some s)"

lemma uefi_call_runs:
  assumes "uefi_call_on_cpu u i f (m, os) = Some (r, m', os')"
  shows "r = - 1 \<and> m' = m \<or> (\<exists>os1 os2. uefi_on u i os1 \<and> f (m, os1) = Some (r, m', os2))"
proof (cases "i = 0")
  case True
  then show ?thesis using assms by (auto simp: uefi_call_on_cpu_def uefi_on_def)
next
  case False
  obtain s1 os1 where e: "ub_create_event u os = (s1, os1)" by fastforce
  obtain s2 os2 started where a: "ub_startup_this_ap u i os1 = (s2, os2, started)" by (metis surj_pair)
  show ?thesis
  proof (cases started)
    case None
    then show ?thesis using assms False e a by (auto simp: uefi_call_on_cpu_def split: if_splits)
  next
    case (Some ap)
    then have "uefi_on u i ap" using a unfolding uefi_on_def by (intro disjI2 exI [of _ os1]) simp
    moreover have "r = - 1 \<and> m' = m \<or> (\<exists>os3. f (m, ap) = Some (r, m', os3))"
      using assms False e a Some by (auto simp: uefi_call_on_cpu_def split: if_splits bind_splits)
    ultimately show ?thesis by blast
  qed
qed

interpretation uefi: cpu_call "uefi_call_on_cpu u" "uefi_on u" for u :: "'o uefi_services"
  by unfold_locales (use uefi_call_runs in fastforce)+

end
