(* ===== verification/Loader_Launch.thy ===== *)
theory Loader_Launch
  imports Os_Loaders Launch_Processors
begin

text \<open>
  The loader and the hypervisor together: the entry point the loader calls on each processor is the
  launch of the hypervisor there.
\<close>

section \<open>The machine the loader works on\<close>

text \<open>The state object of the module (\<open>None\<close> until the first call), the processors, and the ones that
  run a guest, the last one first.\<close>

record launch_machine =
  lm_state :: "hypervisor option"
  lm_cpu :: "nat \<Rightarrow> cpu"
  lm_guests :: "cpu list"

text \<open>\<open>_start\<close> captures the context with the two arguments in \<open>rdi\<close> and \<open>rsi\<close>; the result of the
  call is the low half of \<open>rax\<close> when the context is restored.  Only \<open>start\<close>, the address of
  \<open>_start\<close>, is known to be code.\<close>

definition start_context :: "cpu_context \<Rightarrow> nat \<Rightarrow> u64 \<Rightarrow> cpu_context" where
  "start_context ctx i p2v = ctx\<lparr>c_rdi := of_nat i, c_rsi := p2v\<rparr>"

definition enter_module ::
  "hardware \<Rightarrow> u64 \<Rightarrow> u64 \<Rightarrow> (nat \<Rightarrow> launch_env) \<Rightarrow> (nat \<Rightarrow> cpu_context) \<Rightarrow> u64 \<Rightarrow> nat \<Rightarrow> u64 \<Rightarrow> (launch_machine \<times> 'o) call" where
  "enter_module hw this start env ctx entry i p2v s =
     (let (lm, os) = s
      in if entry \<noteq> start then None
         else do {
           (g, hv, c) \<leftarrow> launch_processor hw this (env i) (start_context (ctx i) i p2v) (lm_state lm) (lm_cpu lm i);
           Some (sint (ucast (c_rax g) :: u32),
             lm\<lparr>lm_state := Some hv, lm_cpu := (lm_cpu lm)(i := c),
                lm_guests := (if c_rax g = 0 then c # lm_guests lm else lm_guests lm)\<rparr>, os)
         })"

text \<open>An error code is small: its low half tells success.\<close>

lemma launch_result_int:
  assumes "launch_processor hw this env ctx state c = Some (g, hv', c')"
  shows "sint (ucast (c_rax g) :: u32) = 0 \<longleftrightarrow> c_rax g = 0"
proof -
  obtain r where r: "c_rax g = 0 \<longleftrightarrow> (\<exists>gc hc. r = Main_launched gc hc)"
    "case r of Main_error e \<Rightarrow> g = ctx\<lparr>c_rax := of_int (hv_error_code e)\<rparr> | Main_launched gc hc \<Rightarrow> g = gc"
    by (rule launch_processor_main [OF assms]) blast
  show ?thesis
  proof (cases r)
    case (Main_error e)
    with r show ?thesis by (cases e) auto
  next
    case (Main_launched gc hc)
    with r show ?thesis by simp
  qed
qed

section \<open>All processors\<close>

text \<open>After \<open>i\<close> successful calls.\<close>

definition started ::
  "hardware \<Rightarrow> u64 \<Rightarrow> (nat \<Rightarrow> launch_env) \<Rightarrow> (nat \<Rightarrow> cpu_context) \<Rightarrow> u64 \<Rightarrow> launch_machine \<Rightarrow> nat \<Rightarrow> launch_machine \<Rightarrow> bool" where
  "started hw this env ctx p2v lm0 i lm \<longleftrightarrow>
     (if i = 0 then lm = lm0
      else \<exists>hv. lm_state lm = Some hv \<and> length (lm_guests lm) = i \<and>
        launches hw this (env 0) (start_context (ctx 0) 0 p2v) (lm_cpu lm0 0) hv (lm_guests lm))"

lemma started_step:
  assumes "lm_state lm0 = None" and "lm_guests lm0 = []" and "i < 2 ^ 64"
    and "started hw this env ctx p2v lm0 i lm"
    and "enter_module hw this start env ctx entry i p2v (lm, os) = Some (0, lm', os')"
  shows "started hw this env ctx p2v lm0 (Suc i) lm'"
proof -
  let ?ctx = "start_context (ctx i) i p2v"
  obtain g hv c where l: "launch_processor hw this (env i) ?ctx (lm_state lm) (lm_cpu lm i) = Some (g, hv, c)"
    and zero: "c_rax g = 0" and lm': "lm' = lm\<lparr>lm_state := Some hv, lm_cpu := (lm_cpu lm)(i := c), lm_guests := c # lm_guests lm\<rparr>"
    using assms(5) launch_result_int by (fastforce simp: enter_module_def split: if_splits bind_splits)
  show ?thesis
  proof (cases "i = 0")
    case True
    then have "lm = lm0" using assms(4) by (simp add: started_def)
    then have "launches hw this (env 0) (start_context (ctx 0) 0 p2v) (lm_cpu lm0 0) hv [c]"
      using l zero True assms(1) by (intro launches.first [of _ _ _ _ _ g]) (simp_all add: start_context_def)
    then show ?thesis using True \<open>lm = lm0\<close> assms(2) lm' by (simp add: started_def)
  next
    case False
    have "of_nat i \<noteq> (0 :: u64)" using offset_inj [of i 0 0] assms(3) False by simp
    then have rdi: "c_rdi ?ctx \<noteq> 0" by (simp add: start_context_def)
    obtain hv0 where hv0: "lm_state lm = Some hv0" "length (lm_guests lm) = i"
      "launches hw this (env 0) (start_context (ctx 0) 0 p2v) (lm_cpu lm0 0) hv0 (lm_guests lm)"
      using assms(4) False by (auto simp: started_def)
    from launches.later [OF hv0(3) l [unfolded hv0(1)] rdi] zero show ?thesis
      using hv0(2) lm' by (simp add: started_def)
  qed
qed

text \<open>The loader as a client of the call interface.\<close>

context cpu_call
begin

lemma load_success:
  assumes load: "zpp_load_elf svc binary mem (m, os) = Some (0, mem', m', os')" and svc: "ls_call_on_cpu svc = call_on"
    and step: "\<And>entry i m os m' os'. i < 2 ^ 64 \<Longrightarrow> on i os \<Longrightarrow> launch_entry svc entry i (m, os) = Some (0, m', os') \<Longrightarrow> R i m \<Longrightarrow> R (Suc i) m'"
    and "R 0 m"
  shows "\<exists>cpus os. 0 < cpus \<and> (cpus :: u64) = fst (ls_number_of_cpus svc os) \<and> R (unat cpus) m'"
proof -
  obtain entry cpus os1 os2 where "launch_on_cpus svc entry (unat cpus) (m, os2) = Some (0, m', os')" "cpus \<noteq> 0"
    and cpus: "ls_number_of_cpus svc os1 = (cpus, os2)"
    using load by (auto simp: zpp_load_elf_def Let_def split: bind_splits prod.splits if_splits)
  then have l: "on_each_cpu call_on (unat cpus) (launch_entry svc entry) (m, os2) = Some ((m', os'), None)"
    using launch_on_cpus_zero [of svc entry] svc by simp
  have "R (unat cpus) m'"
    by (rule loop_success [where R = R, OF l _ assms(4)]) (use step unsigned_less [of cpus, where ?'a = nat] in force)
  then show ?thesis using cpus \<open>cpus \<noteq> 0\<close> by (metis fst_conv word_neq_0_conv)
qed

end

text \<open>The three ways to call on a processor.\<close>

definition known_call_on_cpu ::
  "(nat \<Rightarrow> ('m \<times> 'mask \<times> 'o) call \<Rightarrow> ('m \<times> 'mask \<times> 'o) call) \<Rightarrow> bool" where
  "known_call_on_cpu call_on \<longleftrightarrow> (\<exists>k. call_on = linux_call_on_cpu k) \<or> (\<exists>w. call_on = windows_call_on_cpu w) \<or>
     (\<exists>u. call_on = uefi_call_on_cpu u)"

lemma loader_started:
  fixes svc :: "(launch_machine, 'mask \<times> 'o) loader_services"
  assumes load: "zpp_load_elf svc binary mem (lm, os) = Some (0, mem', lm', os')" and call: "known_call_on_cpu (ls_call_on_cpu svc)"
    and enter: "ls_enter svc = enter_module hw this start env ctx" "ls_adjust svc = None \<or> ls_adjust svc = Some (ls_enter svc)"
    and lm: "lm_state lm = None" "lm_guests lm = []"
  shows "\<exists>cpus os. 0 < cpus \<and> cpus = fst (ls_number_of_cpus svc os) \<and>
    started hw this env ctx (ls_physical_to_virtual svc) lm (unat cpus) lm'"
proof -
  let ?R = "started hw this env ctx (ls_physical_to_virtual svc) lm"
  have "launch_entry svc entry i = enter_module hw this start env ctx entry i (ls_physical_to_virtual svc)" for entry i
    using enter by (auto simp: launch_entry_def)
  then have step: "i < 2 ^ 64 \<Longrightarrow> launch_entry svc entry i (m, os) = Some (0, m', os') \<Longrightarrow> ?R i m \<Longrightarrow> ?R (Suc i) m'" for entry i m os m' os'
    using started_step [OF lm] by metis
  have start: "?R 0 lm" by (simp add: started_def)
  consider k where "ls_call_on_cpu svc = linux_call_on_cpu k" | w where "ls_call_on_cpu svc = windows_call_on_cpu w"
    | u where "ls_call_on_cpu svc = uefi_call_on_cpu u" using call by (auto simp: known_call_on_cpu_def)
  then show ?thesis
  proof cases
    case 1
    show ?thesis by (rule linux.load_success [where R = ?R, OF load 1 step start])
  next
    case 2
    show ?thesis by (rule windows.load_success [where R = ?R, OF load 2 step start])
  next
    case 3
    show ?thesis by (rule uefi.load_success [where R = ?R, OF load 3 step start])
  qed
qed

end
