(* ===== verification/Elf_Load.thy ===== *)
theory Elf_Load
  imports Elf
begin

text \<open>
  What loading an ELF image does to memory: the segments are copied and zero-filled, the relative
  relocations are applied, everything else stays; the segments lie inside the memory that was
  allocated; and the search for the base of the running image finds it.
\<close>

section \<open>Loops that write disjoint regions\<close>

text \<open>Each pass writes its region with bytes that depend on the region \<open>K\<close> only, which no pass
  writes.\<close>

lemma loop_regions:
  fixes m :: memory
  assumes step: "\<And>i t x. i < n \<Longrightarrow> \<forall>y \<in> K. t y = m y \<Longrightarrow> f i t x = (if x \<in> R i then g i x else t x)"
    and disjoint: "\<And>i j. i < n \<Longrightarrow> j < i \<Longrightarrow> R i \<inter> R j = {}" and keep: "\<And>i. i < n \<Longrightarrow> R i \<inter> K = {}"
  shows "(\<forall>i < n. \<forall>x \<in> R i. loop n f m x = g i x) \<and> (\<forall>x. (\<forall>i < n. x \<notin> R i) \<longrightarrow> loop n f m x = m x)"
proof -
  have "k \<le> n \<Longrightarrow> (\<forall>i < k. \<forall>x \<in> R i. loop k f m x = g i x) \<and> (\<forall>x. (\<forall>i < k. x \<notin> R i) \<longrightarrow> loop k f m x = m x)" for k
  proof (induction k)
    case 0
    then show ?case by simp
  next
    case (Suc k)
    let ?t = "loop k f m"
    have IH: "\<forall>i < k. \<forall>x \<in> R i. ?t x = g i x" "\<forall>x. (\<forall>i < k. x \<notin> R i) \<longrightarrow> ?t x = m x" using Suc by simp_all
    have "\<forall>y \<in> K. ?t y = m y" using IH(2) keep Suc(2) by (metis IntI Suc_le_lessD empty_iff less_trans)
    then have now: "loop (Suc k) f m x = (if x \<in> R k then g k x else ?t x)" for x using step Suc(2) by simp
    have "x \<notin> R k" if "i < k" "x \<in> R i" for i x using disjoint [of k i] Suc(2) that by auto
    then show ?case using IH now by (auto simp: less_Suc_eq)
  qed
  then show ?thesis by blast
qed

lemma in_range_offset: "in_range x a n \<longleftrightarrow> unat (x - a) < n" if "n \<le> 2 ^ 64"
proof
  assume "in_range x a n"
  then obtain j where "j < n" "x = a + of_nat j" by (auto simp: in_range_def)
  then show "unat (x - a) < n" using that by (simp add: unat_of_nat take_bit_nat_eq_self_iff)
next
  assume "unat (x - a) < n"
  then show "in_range x a n" unfolding in_range_def by (intro exI [of _ "unat (x - a)"]) simp
qed

lemma in_range_tail:
  assumes "unat (k :: u64) \<le> n" and "n \<le> 2 ^ 63"
  shows "in_range x (a + k) (n - unat k) \<longleftrightarrow> unat k \<le> unat (x - a) \<and> unat (x - a) < n"
proof -
  define u where "u = x - a"
  have eq: "x - (a + k) = u - k" by (simp add: u_def algebra_simps)
  have "n - unat k \<le> 2 ^ 64" using assms(2) by simp
  then have "in_range x (a + k) (n - unat k) \<longleftrightarrow> unat (u - k) < n - unat k" by (simp only: in_range_offset eq)
  also have "\<dots> \<longleftrightarrow> unat k \<le> unat u \<and> unat u < n"
    using assms unsigned_less [of u, where ?'a = nat] by (auto simp: unat_sub_if_size word_size)
  finally show ?thesis by (simp add: u_def)
qed

section \<open>Segments\<close>

definition segment_range :: "u64 \<Rightarrow> elf_phdr \<Rightarrow> u64 set" where
  "segment_range d h = (if p_type h = phdr_load then {x. in_range x (d + p_vaddr h) (unat (p_memsz h))} else {})"

text \<open>The byte a segment is meant to have at an address of its range.\<close>

definition segment_byte :: "memory \<Rightarrow> u64 \<Rightarrow> u64 \<Rightarrow> elf_phdr \<Rightarrow> u64 \<Rightarrow> u8" where
  "segment_byte m d file h x =
     (let j = x - (d + p_vaddr h) in if j < p_filesz h then m (file + p_offset h + j) else 0)"

text \<open>The image in the file of \<open>len\<close> bytes is whole (the program headers and the contents of the
  segments lie in it), and its segments have places of their own.\<close>

definition segments_ok :: "u64 \<Rightarrow> elf_file \<Rightarrow> nat \<Rightarrow> memory \<Rightarrow> bool" where
  "segments_ok d elf len m \<longleftrightarrow>
     (\<forall>i < elf_phnum m elf.
        (\<forall>j < 56. in_range (phdr_at (m_program_headers elf) i + of_nat j) (m_file_data elf) len) \<and>
        (let h = elf_phdr_of m elf i in p_type h = phdr_load \<longrightarrow>
           p_filesz h \<le> p_memsz h \<and> unat (p_memsz h) \<le> 2 ^ 63 \<and>
           (\<forall>j < unat (p_filesz h). in_range (m_file_data elf + p_offset h + of_nat j) (m_file_data elf) len) \<and>
           (\<forall>x \<in> segment_range d h. \<not> in_range x (m_file_data elf) len)) \<and>
        (\<forall>j < i. segment_range d (elf_phdr_of m elf i) \<inter> segment_range d (elf_phdr_of m elf j) = {}))"

lemma read_phdr_cong:
  assumes "\<And>j. j < 56 \<Longrightarrow> t (a + of_nat j) = m (a + of_nat j)"
  shows "read_phdr t a = read_phdr m a"
proof -
  have at: "t (a + of_nat k + of_nat j) = m (a + of_nat k + of_nat j)" if "k + j < 56" for k j
    using assms [OF that] by (simp add: add.assoc)
  have "read_le n t (a + of_nat k) = read_le n m (a + of_nat k)" if "k + n \<le> 56" for n k
    by (rule read_le_cong) (use at that in simp)
  from this [of 0] this [of 4] this [of 8] this [of 16] this [of 24] this [of 32] this [of 40] this [of 48]
  show ?thesis by (simp add: read_phdr_def read_u32_def read_u64_def)
qed

lemma map_segment_bytes:
  assumes h: "elf_phdr_of t elf i = h" and load: "p_type h = phdr_load \<Longrightarrow> p_filesz h \<le> p_memsz h \<and> unat (p_memsz h) \<le> 2 ^ 63"
    and apart: "\<And>j. p_type h = phdr_load \<Longrightarrow> j < unat (p_filesz h) \<Longrightarrow> m_file_data elf + p_offset h + of_nat j \<notin> segment_range d h"
  shows "map_segment d elf i t x =
    (if x \<in> segment_range d h then segment_byte t d (m_file_data elf) h x else t x)"
proof (cases "p_type h = phdr_load")
  case False
  then show ?thesis by (simp add: map_segment_def h segment_range_def)
next
  case True
  let ?dest = "d + p_vaddr h" and ?src = "m_file_data elf + p_offset h" and ?k = "unat (p_filesz h)" and ?n = "unat (p_memsz h)"
  have le: "?k \<le> ?n" "?n \<le> 2 ^ 63" using load [OF True] by (simp_all add: word_le_nat_alt)
  have "forward_ok ?dest ?src ?k"
  proof (rule ccontr)
    assume "\<not> forward_ok ?dest ?src ?k"
    then have less: "unat (?dest - ?src) < ?k" by (simp add: forward_ok_def)
    then have "?src + of_nat (unat (?dest - ?src)) \<notin> segment_range d h" by (rule apart [OF True])
    moreover have "?dest \<in> segment_range d h"
      using True less le unfolding segment_range_def in_range_def by (auto intro!: exI [of _ 0])
    ultimately show False by simp
  qed
  then have copy: "memcpy ?dest ?src ?k t y = (if in_range y ?dest ?k then t (?src + (y - ?dest)) else t y)" for y
    using memcpy_bytes le by simp
  have "unat (p_memsz h - p_filesz h) = ?n - ?k" using load [OF True] by (simp add: unat_sub)
  moreover have zero: "in_range x (?dest + p_filesz h) (?n - ?k) \<longleftrightarrow> ?k \<le> unat (x - ?dest) \<and> unat (x - ?dest) < ?n"
    using in_range_tail [OF le] .
  ultimately show ?thesis
    using True copy le
    by (auto simp: map_segment_def h Let_def memset_bytes segment_range_def segment_byte_def in_range_offset word_less_nat_alt)
qed

text \<open>The whole loop.\<close>

lemma segments_okD:
  assumes "segments_ok d elf len m" and "i < elf_phnum m elf" and h: "h = elf_phdr_of m elf i"
  shows "j < 56 \<Longrightarrow> in_range (phdr_at (m_program_headers elf) i + of_nat j) (m_file_data elf) len"
    and "p_type h = phdr_load \<Longrightarrow> p_filesz h \<le> p_memsz h \<and> unat (p_memsz h) \<le> 2 ^ 63"
    and "p_type h = phdr_load \<Longrightarrow> j < unat (p_filesz h) \<Longrightarrow> in_range (m_file_data elf + p_offset h + of_nat j) (m_file_data elf) len"
    and "x \<in> segment_range d h \<Longrightarrow> \<not> in_range x (m_file_data elf) len"
    and "k < i \<Longrightarrow> segment_range d h \<inter> segment_range d (elf_phdr_of m elf k) = {}"
  using assms unfolding segments_ok_def Let_def by (auto simp: segment_range_def split: if_splits)

lemma map_segments_bytes:
  assumes ok: "segments_ok d elf len m"
  shows "(\<forall>i < elf_phnum m elf. \<forall>x \<in> segment_range d (elf_phdr_of m elf i).
      map_segments d elf m x = segment_byte m d (m_file_data elf) (elf_phdr_of m elf i) x) \<and>
    (\<forall>x. (\<forall>i < elf_phnum m elf. x \<notin> segment_range d (elf_phdr_of m elf i)) \<longrightarrow> map_segments d elf m x = m x)"
  unfolding map_segments_def
proof (rule loop_regions [where K = "{x. in_range x (m_file_data elf) len}"])
  fix i t x
  let ?h = "elf_phdr_of m elf i"
  note okd = segments_okD [OF ok _ refl]
  assume i: "i < elf_phnum m elf" and same: "\<forall>y \<in> {x. in_range x (m_file_data elf) len}. t y = m y"
  have "elf_phdr_of t elf i = ?h"
    unfolding elf_phdr_of_def by (rule read_phdr_cong) (use okd(1) [OF i] same in simp)
  moreover have "segment_byte t d (m_file_data elf) ?h x = segment_byte m d (m_file_data elf) ?h x" if "x \<in> segment_range d ?h"
  proof -
    have "p_type ?h = phdr_load" using that by (auto simp: segment_range_def split: if_splits)
    from okd(3) [OF i this, of "unat (x - (d + p_vaddr ?h))"] show ?thesis
      using same by (simp add: segment_byte_def Let_def word_less_nat_alt)
  qed
  moreover have "m_file_data elf + p_offset ?h + of_nat j \<notin> segment_range d ?h"
    if "p_type ?h = phdr_load" "j < unat (p_filesz ?h)" for j
    using okd(3) [OF i that] okd(4) [OF i] by blast
  ultimately show "map_segment d elf i t x =
      (if x \<in> segment_range d ?h then segment_byte m d (m_file_data elf) ?h x else t x)"
    using map_segment_bytes [of t elf i ?h d x] okd(2) [OF i] by simp
qed (use segments_okD(4,5) [OF ok _ refl] in blast)+

section \<open>Relocations\<close>

text \<open>Entry \<open>i\<close> of a table with addends.\<close>

definition rela_at :: "memory \<Rightarrow> u64 \<Rightarrow> nat \<Rightarrow> elf_rela" where
  "rela_at m table i = read_rela m (table + of_nat i * 24)"

definition relative_rela :: "u16 \<Rightarrow> elf_rela \<Rightarrow> bool" where
  "relative_rela machine r \<longleftrightarrow> parse_relocation_type (r_info r) = relative_relocation_value machine"

definition rela_target :: "u16 \<Rightarrow> u64 \<Rightarrow> elf_rela \<Rightarrow> u64 set" where
  "rela_target machine d r = (if relative_rela machine r then {x. x - (d + r_offset r) < 8} else {})"

text \<open>The targets of the first \<open>n\<close> entries are apart from each other and from the table.\<close>

definition relocations_ok :: "u16 \<Rightarrow> u64 \<Rightarrow> nat \<Rightarrow> u64 \<Rightarrow> memory \<Rightarrow> bool" where
  "relocations_ok machine table n d m \<longleftrightarrow>
     (\<forall>i < n. (\<forall>j < 24 * n. table + of_nat j \<notin> rela_target machine d (rela_at m table i)) \<and>
        (\<forall>j < i. rela_target machine d (rela_at m table i) \<inter> rela_target machine d (rela_at m table j) = {}))"

lemma read_rela_cong:
  assumes "\<And>j. j < 24 \<Longrightarrow> t (a + of_nat j) = m (a + of_nat j)"
  shows "read_rela t a = read_rela m a"
proof -
  have at: "t (a + of_nat k + of_nat j) = m (a + of_nat k + of_nat j)" if "k + j < 24" for k j
    using assms [OF that] by (simp add: add.assoc)
  have "read_le 8 t (a + of_nat k) = read_le 8 m (a + of_nat k)" if "k + 8 \<le> 24" for k
    by (rule read_le_cong) (use at that in simp)
  from this [of 0] this [of 8] this [of 16] show ?thesis by (simp add: read_rela_def read_u64_def)
qed

lemma relocate_bytes:
  assumes ok: "relocations_ok machine table n d m"
  shows "(\<forall>i < n. \<forall>x \<in> rela_target machine d (rela_at m table i).
      loop n (relocate_entry machine (Rela table) d) m x =
        byte_of (d + r_addend (rela_at m table i)) (unat (x - (d + r_offset (rela_at m table i))))) \<and>
    (\<forall>x. (\<forall>i < n. x \<notin> rela_target machine d (rela_at m table i)) \<longrightarrow> loop n (relocate_entry machine (Rela table) d) m x = m x)"
proof (rule loop_regions [where K = "{x. \<exists>j < 24 * n. x = table + of_nat j}"])
  fix i t x
  assume i: "i < n" and same: "\<forall>y \<in> {x. \<exists>j < 24 * n. x = table + of_nat j}. t y = m y"
  have "rela_at t table i = rela_at m table i"
    unfolding rela_at_def
  proof (rule read_rela_cong)
    fix j :: nat assume "j < 24"
    then have "i * 24 + j < 24 * n" using i by linarith
    then have "t (table + of_nat (i * 24 + j)) = m (table + of_nat (i * 24 + j))" using same by blast
    then show "t (table + of_nat i * 24 + of_nat j) = m (table + of_nat i * 24 + of_nat j)" by (simp add: add.assoc)
  qed
  then show "relocate_entry machine (Rela table) d i t x =
      (if x \<in> rela_target machine d (rela_at m table i)
       then byte_of (d + r_addend (rela_at m table i)) (unat (x - (d + r_offset (rela_at m table i)))) else t x)"
    by (auto simp: rela_at_def rela_target_def relative_rela_def write_u64_def Let_def)
next
  fix i assume "i < n"
  then show "rela_target machine d (rela_at m table i) \<inter> {x. \<exists>j < 24 * n. x = table + of_nat j} = {}"
    using ok unfolding relocations_ok_def by blast
  show "j < i \<Longrightarrow> rela_target machine d (rela_at m table i) \<inter> rela_target machine d (rela_at m table j) = {}" for j
    using ok \<open>i < n\<close> unfolding relocations_ok_def by blast
qed

lemma relocated_value:
  assumes ok: "relocations_ok machine table n d m" and i: "i < n" and rel: "relative_rela machine (rela_at m table i)"
  shows "read_u64 (loop n (relocate_entry machine (Rela table) d) m) (d + r_offset (rela_at m table i)) = d + r_addend (rela_at m table i)"
proof -
  let ?r = "rela_at m table i" and ?t = "loop n (relocate_entry machine (Rela table) d) m"
  have "read_u64 ?t (d + r_offset ?r) = read_u64 (write_u64 (d + r_offset ?r) (d + r_addend ?r) m) (d + r_offset ?r)"
    unfolding read_u64_def
  proof (rule read_le_cong)
    fix j :: nat assume "j < 8"
    then have u: "unat (of_nat j :: u64) = j" "(of_nat j :: u64) < 8"
      by (simp_all add: unat_of_nat take_bit_nat_eq_self_iff word_less_nat_alt)
    then have "d + r_offset ?r + of_nat j \<in> rela_target machine d ?r" using rel by (simp add: rela_target_def)
    then show "?t (d + r_offset ?r + of_nat j) = write_u64 (d + r_offset ?r) (d + r_addend ?r) m (d + r_offset ?r + of_nat j)"
      using conjunct1 [OF relocate_bytes [OF ok]] i u by (simp add: write_u64_def)
  qed
  then show ?thesis by (simp add: read_write_u64)
qed

section \<open>The size of the image\<close>

text \<open>Segments in ascending order, as an ELF file has them, whose ends do not wrap around.\<close>

definition segments_ordered :: "memory \<Rightarrow> elf_file \<Rightarrow> bool" where
  "segments_ordered m elf \<longleftrightarrow>
     (\<forall>i < elf_phnum m elf. \<forall>j \<le> i.
        p_type (elf_phdr_of m elf i) = phdr_load \<longrightarrow> p_type (elf_phdr_of m elf j) = phdr_load \<longrightarrow>
        p_vaddr (elf_phdr_of m elf j) \<le> p_vaddr (elf_phdr_of m elf i) \<and>
        unat (p_vaddr (elf_phdr_of m elf j)) + unat (p_memsz (elf_phdr_of m elf j)) \<le>
          unat (p_vaddr (elf_phdr_of m elf i)) + unat (p_memsz (elf_phdr_of m elf i)) \<and>
        unat (p_vaddr (elf_phdr_of m elf i)) + unat (p_memsz (elf_phdr_of m elf i)) + 0xfff < 2 ^ 64)"

lemma page_down: "unat (w AND NOT 0xfff) = unat (w :: u64) div 4096 * 4096"
proof -
  have "w AND NOT (mask 12) = push_bit 12 (drop_bit 12 w)"
    by (rule bit_eqI) (auto simp: bit_simps not_less)
  then have "w AND NOT 0xfff = push_bit 12 (drop_bit 12 w)" by (simp add: mask_eq_exp_minus_1)
  moreover have "unat w div 4096 * 4096 < 2 ^ 64"
    by (rule le_less_trans [OF div_times_less_eq_dividend]) (use unsigned_less [of w, where ?'a = nat] in simp)
  ultimately show ?thesis by (simp add: unat_push_bit unat_drop_bit)
qed

lemma find_upt_Some:
  assumes "find P [0..<n] = Some l"
  shows "l < n" "P l" "j < l \<Longrightarrow> \<not> P j"
  using assms by (auto simp: find_Some_iff)

lemma find_rev_upt_Some:
  assumes "find P (rev [0..<n]) = Some k"
  shows "k < n" "P k" "k < j \<Longrightarrow> j < n \<Longrightarrow> \<not> P j"
proof -
  obtain i where i: "i < n" "P (rev [0..<n] ! i)" "k = rev [0..<n] ! i" "\<forall>j < i. \<not> P (rev [0..<n] ! j)"
    using assms by (auto simp: find_Some_iff)
  then show "k < n" "P k" by (simp_all add: rev_nth)
  show "\<not> P j" if "k < j" "j < n"
  proof -
    have "n - Suc j < i" using i(1,3) that by (simp add: rev_nth)
    with i(1,4) that show ?thesis by (auto simp: rev_nth)
  qed
qed

lemma elf_file_of_size:
  assumes elf: "elf_file_of m data st = Some elf" and ordered: "segments_ordered m elf"
  shows "unat (memory_size elf) mod 4096 = 0" and "unat (m_preferred_base elf) mod 4096 = 0"
    and "i < elf_phnum m elf \<Longrightarrow> p_type (elf_phdr_of m elf i) = phdr_load \<Longrightarrow>
      unat (m_preferred_base elf) \<le> unat (p_vaddr (elf_phdr_of m elf i)) \<and>
      unat (p_vaddr (elf_phdr_of m elf i) - m_preferred_base elf) + unat (p_memsz (elf_phdr_of m elf i)) \<le> unat (memory_size elf)"
proof -
  let ?h = "elf_phdr_of m elf" and ?n = "elf_phnum m elf" and ?b = "m_preferred_base elf"
  obtain l k where lk: "first_phdr m (m_program_headers elf) ?n phdr_load = Some l" "last_phdr m (m_program_headers elf) ?n phdr_load = Some k"
    and b: "?b = p_vaddr (?h l) AND NOT 0xfff"
    and size: "memory_size elf = ((p_vaddr (?h k) + p_memsz (?h k) + 0xfff) AND NOT 0xfff) - ?b"
    using elf by (auto simp: elf_file_of_def Let_def elf_phnum_def elf_phdr_of_def memory_size_def split: bind_splits)
  note l = find_upt_Some [OF lk(1) [unfolded first_phdr_def], folded elf_phdr_of_def]
  note k = find_rev_upt_Some [OF lk(2) [unfolded last_phdr_def], folded elf_phdr_of_def]
  have kend: "unat (p_vaddr (?h k)) + unat (p_memsz (?h k)) + 0xfff < 2 ^ 64"
    using ordered k(1,2) unfolding segments_ordered_def by blast
  have "unat (p_vaddr (?h k) + p_memsz (?h k) + 0xfff) = unat (p_vaddr (?h k)) + unat (p_memsz (?h k)) + 0xfff"
    using kend by (simp add: unat_add_lem [THEN iffD1])
  then have up: "unat ((p_vaddr (?h k) + p_memsz (?h k) + 0xfff) AND NOT 0xfff) =
      (unat (p_vaddr (?h k)) + unat (p_memsz (?h k)) + 0xfff) div 4096 * 4096" by (simp only: page_down)
  have base: "unat ?b = unat (p_vaddr (?h l)) div 4096 * 4096" by (simp only: b page_down)
  have in_order: "unat (p_vaddr (?h l)) \<le> unat (p_vaddr (?h i)) \<and>
      unat (p_vaddr (?h i)) + unat (p_memsz (?h i)) \<le> unat (p_vaddr (?h k)) + unat (p_memsz (?h k))"
    if "i < ?n" "p_type (?h i) = phdr_load" for i
  proof -
    have "l \<le> i" "i \<le> k" using l(3) [of i] k(3) [of i] that by (auto simp: not_less [symmetric])
    then show ?thesis using ordered l(1,2) k(1,2) that unfolding segments_ordered_def word_le_nat_alt by blast
  qed
  have le: "unat ?b \<le> (unat (p_vaddr (?h k)) + unat (p_memsz (?h k)) + 0xfff) div 4096 * 4096"
    using in_order [OF l(1,2)] unfolding base by (intro mult_le_mono1 div_le_mono) linarith
  then have total: "unat (memory_size elf) = (unat (p_vaddr (?h k)) + unat (p_memsz (?h k)) + 0xfff) div 4096 * 4096 - unat ?b"
    unfolding size by (subst unat_sub) (simp_all only: word_le_nat_alt up)
  show "unat (memory_size elf) mod 4096 = 0" "unat ?b mod 4096 = 0"
    unfolding total base by (simp_all flip: diff_mult_distrib)
  show "unat ?b \<le> unat (p_vaddr (?h i)) \<and> unat (p_vaddr (?h i) - ?b) + unat (p_memsz (?h i)) \<le> unat (memory_size elf)"
    if i: "i < ?n" "p_type (?h i) = phdr_load"
  proof -
    have bi: "unat ?b \<le> unat (p_vaddr (?h i))"
      using in_order [OF i] div_times_less_eq_dividend [of "unat (p_vaddr (?h l))" 4096] unfolding base by linarith
    then have "unat (p_vaddr (?h i) - ?b) = unat (p_vaddr (?h i)) - unat ?b" by (subst unat_sub) (simp_all add: word_le_nat_alt)
    moreover have "e \<le> (e + 0xfff) div 4096 * 4096" for e :: nat by linarith
    then have "unat (p_vaddr (?h i)) + unat (p_memsz (?h i)) \<le> (unat (p_vaddr (?h k)) + unat (p_memsz (?h k)) + 0xfff) div 4096 * 4096"
      using in_order [OF i] order_trans by blast
    ultimately show ?thesis using bi total by linarith
  qed
qed

section \<open>The base of the running image\<close>

lemma elf_base_loop_found:
  assumes "elf_magic_at m (a - of_nat k * 0x1000)" and "\<And>j. j < k \<Longrightarrow> \<not> elf_magic_at m (a - of_nat j * 0x1000)"
  shows "elf_base_loop m a = Some (a - of_nat k * 0x1000)"
  using assms
proof (induction k arbitrary: a)
  case 0
  then show ?case by (subst elf_base_loop.simps) simp
next
  case (Suc k)
  have shift: "a - of_nat (Suc j) * 0x1000 = a - 0x1000 - of_nat j * 0x1000" for j by (simp add: algebra_simps)
  have "elf_base_loop m (a - 0x1000) = Some (a - 0x1000 - of_nat k * 0x1000)"
    by (rule Suc.IH) (use Suc.prems(1) Suc.prems(2) [of "Suc _"] in \<open>auto simp only: shift Suc_less_eq\<close>)
  then show ?case
    using Suc.prems(2) [of 0] unfolding shift by (subst elf_base_loop.simps) simp
qed

section \<open>A small image\<close>

text \<open>A file at \<open>0x1000\<close> with one segment of two bytes in the file and four in memory at address
  \<open>0x200\<close>, and a dynamic segment; \<open>small_relocations\<close> is a table of 24 entries at \<open>0x8000\<close>, of which
  the first relocates address \<open>0x210\<close>.\<close>

definition small_image :: memory where
  "small_image = (\<lambda>_. 0)(0x1020 := 64, 0x1038 := 2, 0x1040 := 1, 0x1048 := 0xb0, 0x1051 := 2, 0x1060 := 2, 0x1068 := 4,
     0x1078 := 2, 0x10b0 := 0xaa, 0x10b1 := 0xbb, 0x100203 := 0xcc)"

definition small_elf :: elf_file where
  "small_elf = \<lparr>m_file_data = 0x1000, m_program_headers = 0x1040, m_preferred_base = 0, m_dynamic_phdr = 0x1078,
     m_dynamic = 0x1000, m_last_load_phdr = 0x1040, m_memory_size = 0x1000\<rparr>"

definition small_relocations :: memory where
  "small_relocations = (\<lambda>_. 0)(0x8000 := 0x10, 0x8001 := 2, 0x8008 := 8, 0x8010 := 0x34, 0x8011 := 0x12)"

lemma small_phdr:
  "read_phdr small_image 0x1040 = \<lparr>p_type = 1, p_flags = 0, p_offset = 0xb0, p_vaddr = 0x200, p_paddr = 0, p_filesz = 2, p_memsz = 4, p_align = 0\<rparr>"
  "p_type (read_phdr small_image 0x1078) = 2"
  by (simp_all add: read_phdr_def read_u64_def read_u32_def small_image_def read_le_numeral)

lemma small_header:
  "e_phoff (read_header small_image 0x1000) = 64" "e_phnum (read_header small_image 0x1000) = 2"
  by (simp_all add: read_header_def read_u64_def read_u16_def small_image_def read_le_numeral)

lemma small_phnum: "elf_phnum small_image small_elf = 2"
  by (simp add: elf_phnum_def small_elf_def small_header)

lemma small_headers:
  "elf_phdr_of small_image small_elf 0 = \<lparr>p_type = 1, p_flags = 0, p_offset = 0xb0, p_vaddr = 0x200, p_paddr = 0, p_filesz = 2, p_memsz = 4, p_align = 0\<rparr>"
  "p_type (elf_phdr_of small_image small_elf (Suc 0)) = 2"
  by (simp_all add: elf_phdr_of_def small_elf_def phdr_at_def sizeof_phdr_def small_phdr)

lemma small_elf_of: "elf_file_of small_image 0x1000 unloaded = Some small_elf"
proof -
  have at: "phdr_at 0x1040 0 = 0x1040" "phdr_at 0x1040 1 = 0x1078" by (simp_all add: phdr_at_def sizeof_phdr_def)
  have list: "[0..<unat (2 :: u16)] = [0, 1]" by (simp add: upt_rec)
  have "p_offset (read_phdr small_image 0x1078) = 0"
    by (simp add: read_phdr_def read_u64_def small_image_def read_le_numeral)
  then show ?thesis
    unfolding elf_file_of_def Let_def small_header first_phdr_def last_phdr_def list
    by (simp add: at small_phdr phdr_load_def phdr_dynamic_def small_elf_def del: One_nat_def)
qed

lemma in_range_numeral: "in_range (a + of_nat j) b n \<longleftrightarrow> unat (a - b) + j < n"
  if "unat (a - b) + j < 2 ^ 64" and "n \<le> 2 ^ 64"
proof -
  have eq: "a + of_nat j - b = of_nat (unat (a - b) + j)" by (simp add: algebra_simps)
  have "unat (of_nat (unat (a - b) + j) :: u64) = unat (a - b) + j"
    unfolding unat_of_nat using that(1) by (simp add: take_bit_nat_eq_self_iff)
  then show ?thesis by (simp only: in_range_offset [OF that(2)] eq)
qed

lemma small_segments_ok: "segments_ok 0x100000 small_elf 0xb2 small_image"
proof -
  have "segment_range 0x100000 (elf_phdr_of small_image small_elf (Suc 0)) = {}"
    by (simp add: segment_range_def small_headers phdr_load_def)
  moreover have "\<not> in_range x 0x1000 0xb2" if "x \<in> segment_range 0x100000 (elf_phdr_of small_image small_elf 0)" for x
  proof -
    have "in_range x 0x100200 4" using that by (simp add: segment_range_def small_headers phdr_load_def)
    then obtain j where j: "j < 4" "x = 0x100200 + of_nat j" by (auto simp: in_range_def)
    then show ?thesis using in_range_numeral [of "0x100200" "0x1000" j "0xb2"] by simp
  qed
  moreover have "in_range (phdr_at 0x1040 i + of_nat j) 0x1000 0xb2" if "i < 2" "j < 56" for i j
  proof -
    have "i = 0 \<or> i = 1" using that(1) by auto
    then show ?thesis
      using in_range_numeral [of "0x1040" "0x1000" j "0xb2"] in_range_numeral [of "0x1078" "0x1000" j "0xb2"] that(2)
      by (auto simp: phdr_at_def sizeof_phdr_def)
  qed
  moreover have "in_range (0x10b0 + of_nat j) 0x1000 0xb2" if "j < 2" for j
    using in_range_numeral [of "0x10b0" "0x1000" j "0xb2"] that by simp
  ultimately show ?thesis
    unfolding segments_ok_def small_phnum Let_def
    by (auto simp: less_2_cases_iff small_elf_def [THEN arg_cong [of _ _ m_file_data], simplified]
        small_elf_def [THEN arg_cong [of _ _ m_program_headers], simplified] small_headers phdr_load_def)
qed

lemma small_ordered: "segments_ordered small_image small_elf"
  unfolding segments_ordered_def small_phnum by (auto simp: less_2_cases_iff small_headers phdr_load_def)

lemma small_relocations_rest: "small_relocations (0x8000 + of_nat n) = 0" if "24 \<le> n" "n < 2 ^ 64"
proof -
  have "0x8000 + of_nat n \<noteq> (0x8000 + of_nat k :: u64)" if "k < 24" for k
    using offset_inj [of n k "0x8000"] that \<open>24 \<le> n\<close> \<open>n < 2 ^ 64\<close> by simp
  from this [of 0] this [of 1] this [of 8] this [of 16] this [of 17] show ?thesis by (simp add: small_relocations_def)
qed

lemma small_relocations_entries:
  "rela_at small_relocations 0x8000 0 = \<lparr>r_offset = 0x210, r_info = 8, r_addend = 0x1234\<rparr>"
  "i < 24 \<Longrightarrow> 0 < i \<Longrightarrow> r_info (rela_at small_relocations 0x8000 i) = 0"
proof -
  show "rela_at small_relocations 0x8000 0 = \<lparr>r_offset = 0x210, r_info = 8, r_addend = 0x1234\<rparr>"
    by (simp add: rela_at_def read_rela_def read_u64_def small_relocations_def read_le_numeral)
  assume i: "i < 24" "0 < i"
  have "read_le 8 small_relocations (0x8000 + of_nat (i * 24 + 8)) = read_le 8 (\<lambda>_. 0) (0x8000 + of_nat (i * 24 + 8))"
  proof (rule read_le_cong)
    fix j :: nat assume "j < 8"
    then show "small_relocations (0x8000 + of_nat (i * 24 + 8) + of_nat j) = 0"
      using small_relocations_rest [of "i * 24 + 8 + j"] i by (simp add: add.assoc)
  qed
  moreover have "read_le 8 (\<lambda>_. 0) a = 0" for a by (simp add: read_le_numeral)
  ultimately show "r_info (rela_at small_relocations 0x8000 i) = 0"
    by (simp add: rela_at_def read_rela_def read_u64_def add.assoc)
qed

lemma small_relocations_ok: "relocations_ok 62 0x8000 24 0x100000 small_relocations"
proof -
  have rest: "rela_target 62 0x100000 (rela_at small_relocations 0x8000 i) = {}" if "i < 24" "0 < i" for i
    using small_relocations_entries(2) [OF that]
    by (simp add: rela_target_def relative_rela_def parse_relocation_type_def relative_relocation_value_def)
  have "0x8000 + of_nat j \<notin> rela_target 62 0x100000 (rela_at small_relocations 0x8000 0)" if "j < 576" for j
  proof
    assume "0x8000 + of_nat j \<in> rela_target 62 0x100000 (rela_at small_relocations 0x8000 0)"
    then have "unat (0x8000 + of_nat j - 0x100210 :: u64) < 8"
      by (simp add: rela_target_def small_relocations_entries word_less_nat_alt split: if_splits)
    moreover have "unat (of_nat j :: u64) = j" using that by (simp add: unat_of_nat take_bit_nat_eq_self_iff)
    ultimately show False using that by (simp add: unat_sub_if' split: if_splits)
  qed
  then have "0x8000 + of_nat j \<notin> rela_target 62 0x100000 (rela_at small_relocations 0x8000 i)" if "i < 24" "j < 24 * 24" for i j
    using rest [OF that(1)] that(2) by (cases "i = 0") auto
  then show ?thesis unfolding relocations_ok_def using rest by (metis Int_empty_left gr0I not_less_zero)
qed

section \<open>Properties\<close>

text \<open>C27: Loading maps the segments of the file: for an image that is whole and whose segments have
  places of their own, every byte of a loadable segment holds the byte of the file at the same offset,
  and zero behind the part that is in the file; no byte outside the segments changes.\<close>

theorem elf_segments_loaded:
  assumes "segments_ok d elf len m" and "i < elf_phnum m elf" and "p_type (elf_phdr_of m elf i) = phdr_load"
  shows "(\<forall>j < unat (p_memsz (elf_phdr_of m elf i)).
      map_segments d elf m (d + p_vaddr (elf_phdr_of m elf i) + of_nat j) =
        (if j < unat (p_filesz (elf_phdr_of m elf i)) then m (m_file_data elf + p_offset (elf_phdr_of m elf i) + of_nat j) else 0)) \<and>
    (\<forall>x. (\<forall>k < elf_phnum m elf. x \<notin> segment_range d (elf_phdr_of m elf k)) \<longrightarrow> map_segments d elf m x = m x)"
proof -
  let ?h = "elf_phdr_of m elf i"
  have "unat (p_memsz ?h) \<le> 2 ^ 63" using segments_okD(2) [OF assms(1,2) refl assms(3)] by blast
  then have u: "unat (of_nat j :: u64) = j" if "j < unat (p_memsz ?h)" for j
    using that by (simp add: unat_of_nat take_bit_nat_eq_self_iff)
  have "map_segments d elf m (d + p_vaddr ?h + of_nat j) =
      (if j < unat (p_filesz ?h) then m (m_file_data elf + p_offset ?h + of_nat j) else 0)" if j: "j < unat (p_memsz ?h)" for j
  proof -
    have "d + p_vaddr ?h + of_nat j \<in> segment_range d ?h" using assms(3) j by (auto simp: segment_range_def in_range_def)
    then have "map_segments d elf m (d + p_vaddr ?h + of_nat j) = segment_byte m d (m_file_data elf) ?h (d + p_vaddr ?h + of_nat j)"
      using map_segments_bytes [OF assms(1)] assms(2) by blast
    then show ?thesis by (simp add: segment_byte_def Let_def word_less_nat_alt u [OF j])
  qed
  then show ?thesis using map_segments_bytes [OF assms(1)] by blast
qed

theorem elf_segments_loaded_witness:
  "map_segments 0x100000 small_elf small_image 0x100201 = 0xbb \<and> map_segments 0x100000 small_elf small_image 0x100203 = 0 \<and>
   small_image 0x100203 = 0xcc"
proof -
  have "p_type (elf_phdr_of small_image small_elf 0) = phdr_load" by (simp add: small_headers phdr_load_def)
  from elf_segments_loaded [OF small_segments_ok _ this, unfolded small_phnum]
  have bytes: "\<forall>j < unat (4 :: u64). map_segments 0x100000 small_elf small_image (0x100200 + of_nat j) =
      (if j < unat (2 :: u64) then small_image (m_file_data small_elf + 0xb0 + of_nat j) else 0)"
    by (simp add: small_headers)
  show ?thesis
    using bytes [rule_format, of 1] bytes [rule_format, of 3] by (simp add: small_elf_def small_image_def)
qed

text \<open>C28: The size an image asks for is a whole number of pages and large enough: for segments in
  ascending order, wherever the image is loaded, every address of every segment lies in the allocated
  block, which starts at the preferred base rounded down to a page.\<close>

theorem elf_image_fits_allocation:
  assumes "elf_file_of m data st = Some elf" and "segments_ordered m elf"
  shows "unat (memory_size elf) mod 4096 = 0 \<and> unat (m_preferred_base elf) mod 4096 = 0 \<and>
    (\<forall>i < elf_phnum m elf. \<forall>x \<in> segment_range (base - m_preferred_base elf) (elf_phdr_of m elf i).
       in_range x base (unat (memory_size elf)))"
proof -
  note s = elf_file_of_size [OF assms]
  have "in_range x base (unat (memory_size elf))"
    if i: "i < elf_phnum m elf" and x: "x \<in> segment_range (base - m_preferred_base elf) (elf_phdr_of m elf i)" for i x
  proof -
    let ?h = "elf_phdr_of m elf i" and ?o = "p_vaddr (elf_phdr_of m elf i) - m_preferred_base elf"
    have load: "p_type ?h = phdr_load" using x by (auto simp: segment_range_def split: if_splits)
    then obtain j where j: "j < unat (p_memsz ?h)" "x = base - m_preferred_base elf + p_vaddr ?h + of_nat j"
      using x by (auto simp: segment_range_def in_range_def)
    have "x = base + of_nat (unat ?o + j)" unfolding j(2) by (simp add: algebra_simps)
    moreover have "unat ?o + j < unat (memory_size elf)" using s(3) [OF i load] j(1) by linarith
    ultimately show ?thesis unfolding in_range_def by blast
  qed
  then show ?thesis using s(1,2) by blast
qed

theorem elf_image_fits_allocation_witness:
  "memory_size small_elf = 0x1000 \<and> 0x100203 \<in> segment_range 0x100000 (elf_phdr_of small_image small_elf 0) \<and> in_range 0x100203 0x100000 0x1000"
proof -
  have "m_preferred_base small_elf = 0" "m_memory_size small_elf = 0x1000" by (simp_all add: small_elf_def)
  with elf_image_fits_allocation [OF small_elf_of small_ordered, of "0x100000"]
  have "\<forall>i < 2. \<forall>x \<in> segment_range 0x100000 (elf_phdr_of small_image small_elf i). in_range x 0x100000 0x1000" "memory_size small_elf = 0x1000"
    by (simp_all add: small_phnum memory_size_def)
  moreover have "0x100203 \<in> segment_range 0x100000 (elf_phdr_of small_image small_elf 0)"
    by (auto simp: segment_range_def small_headers phdr_load_def in_range_def intro!: exI [of _ 3])
  ultimately show ?thesis by (metis zero_less_numeral)
qed

text \<open>C29: Relocating with addends applies every relative relocation the loop visits: its target holds
  the load address plus the addend, and no other byte changes, for targets apart from each other and
  from the table.  The loop visits as many entries as the table has bytes, since the size of the table
  is taken as its number of entries.\<close>

theorem elf_relocations_applied:
  assumes "relocations_ok machine table (unat bytes) d m"
  shows "(\<forall>i < unat bytes. relative_rela machine (rela_at m table i) \<longrightarrow>
      read_u64 (relocate machine (Rela table) bytes d m) (d + r_offset (rela_at m table i)) = d + r_addend (rela_at m table i)) \<and>
    (\<forall>x. (\<forall>i < unat bytes. x \<notin> rela_target machine d (rela_at m table i)) \<longrightarrow> relocate machine (Rela table) bytes d m x = m x)"
  unfolding relocate_def using relocated_value [OF assms] relocate_bytes [OF assms] by blast

theorem elf_relocations_applied_witness:
  "read_u64 (relocate 62 (Rela 0x8000) 24 0x100000 small_relocations) 0x100210 = 0x101234"
proof -
  have "relocations_ok 62 0x8000 (unat (24 :: u64)) 0x100000 small_relocations" using small_relocations_ok by simp
  from elf_relocations_applied [OF this] show ?thesis
    using small_relocations_entries(1)
    by (auto simp: relative_rela_def parse_relocation_type_def relative_relocation_value_def dest: spec [of _ 0])
qed

text \<open>C30: The search for the image base ends at the nearest page at or below the marker that starts with
  the ELF magic, whenever there is one.\<close>

theorem elf_image_base_found:
  assumes "elf_magic_at m ((marker AND NOT 0xfff) - of_nat k * 0x1000)"
  shows "\<exists>j \<le> k. elf_image_base m marker = Some ((marker AND NOT 0xfff) - of_nat j * 0x1000) \<and>
    elf_magic_at m ((marker AND NOT 0xfff) - of_nat j * 0x1000) \<and>
    (\<forall>i < j. \<not> elf_magic_at m ((marker AND NOT 0xfff) - of_nat i * 0x1000))"
proof -
  let ?P = "\<lambda>j. elf_magic_at m ((marker AND NOT 0xfff) - of_nat j * 0x1000)"
  let ?j = "LEAST j. ?P j"
  have "?P ?j" "?j \<le> k" "\<And>i. i < ?j \<Longrightarrow> \<not> ?P i"
    using assms LeastI [of ?P k] Least_le [of ?P k] not_less_Least [of _ ?P] by blast+
  then show ?thesis unfolding elf_image_base_def using elf_base_loop_found [of m "marker AND NOT 0xfff" ?j] by blast
qed

theorem elf_image_base_found_witness:
  "elf_image_base ((\<lambda>_. 0)(0x3000 := 0x7f, 0x3001 := 0x45, 0x3002 := 0x4c, 0x3003 := 0x46)) 0x5008 = Some 0x3000"
proof -
  let ?m = "(\<lambda>_. 0)(0x3000 := 0x7f, 0x3001 := 0x45, 0x3002 := 0x4c, 0x3003 := 0x46) :: memory"
  have "elf_magic_at ?m ((0x5008 AND NOT 0xfff) - of_nat 2 * 0x1000)" by (simp add: elf_magic_at_def)
  from elf_image_base_found [OF this] obtain j where j: "j \<le> 2" "elf_image_base ?m 0x5008 = Some (0x5000 - of_nat j * 0x1000)"
    "elf_magic_at ?m (0x5000 - of_nat j * 0x1000)" by auto
  have "j = 0 \<or> j = 1 \<or> j = 2" using j(1) by auto
  with j(2,3) show ?thesis by (auto simp: elf_magic_at_def)
qed

end
