(* ===== verification/Guest_Memory.thy ===== *)
theory Guest_Memory
  imports Module_Memory
begin

text \<open>
  What a guest can reach through the extended page tables, stated for the processor's own walk of
  the tables in physical memory: the identity that \<open>initialize_ept\<close> builds, and the view that is
  left after \<open>protect_module\<close> and \<open>unprotect_guest_memory\<close>.
\<close>

section \<open>A module that is ready\<close>

lemma same_module_mapped:
  assumes "same_module hv hv'"
  shows "module_physical hv' = module_physical hv" "module_mapped hv' = module_mapped hv"
    "object_at hv' k = object_at hv k"
proof -
  show eq: "module_physical hv' = module_physical hv"
    using assms by (simp add: same_module_def module_physical_def fun_eq_iff)
  show "module_mapped hv' = module_mapped hv" "object_at hv' k = object_at hv k"
    using assms by (simp_all add: same_module_def module_mapped_def object_at_def module_pages_def eq)
qed

text \<open>The state of the one-to-one launch after the map of the module was filled.\<close>

lemma uefi_ready:
  "\<exists>hv. initialize_module_physical_to_virtual (initialize_host_page_table (\<lambda>_. 0) uefi_module) = Some (hv, success) \<and>
     module_ready hv \<and> hv_epml4 hv = (\<lambda>_. 0) \<and> module_pages hv = 5120 \<and> object_at hv 1 \<and> module_mapped hv \<and>
     (\<forall>i < 5120. module_physical hv i = page_at 0x1000000 i) \<and> hv_module_base hv = 0x1000000 \<and> hv_this hv = 0x1001000"
proof -
  let ?hv = "initialize_host_page_table (\<lambda>_. 0) uefi_module"
  note u = uefi_host_mapped
  have inj: "inj_on (module_physical ?hv) {..<module_pages ?hv}" using u(1) by (simp add: module_mapped_def)
  from initialize_module_physical_to_virtual_result [OF refl inj u(5)] obtain m where
    m: "initialize_module_physical_to_virtual ?hv = Some (?hv\<lparr>hv_module_physical_to_virtual := m\<rparr>, success)"
    "small_map_inv m" "\<forall>i < 5120. small_map_lookup m (module_physical ?hv i) = Some (page_at (hv_module_base ?hv) i)"
    unfolding u(2) by (auto simp: module_capacity_eq)
  let ?hv' = "?hv\<lparr>hv_module_physical_to_virtual := m\<rparr>"
  have eq: "module_physical ?hv' = module_physical ?hv" "module_pages ?hv' = module_pages ?hv"
    "object_at ?hv' k = object_at ?hv k" for k
    by (simp_all add: module_physical_def module_pages_def object_at_def fun_eq_iff)
  have mapped: "module_mapped ?hv'" using u(1) by (simp add: module_mapped_def eq)
  then have "module_ready ?hv'" using m(2,3) u(2,3) by (auto simp: module_ready_def eq)
  moreover have "hv_this ?hv = 0x1001000"
    by (simp add: initialize_host_page_table_fields uefi_module_def create_once_def)
  ultimately show ?thesis using m(1) mapped u eq by auto
qed

text \<open>Its 5120 pages lie in ten regions of 2 MB.\<close>

lemma uefi_regions:
  assumes "\<forall>i < 5120. module_physical hv i = page_at 0x1000000 i"
  shows "card (module_regions hv 5120) < 1024"
proof -
  have page: "module_page hv i = 4096 + i" if "i < 5120" for i
    using assms that unat_page_at_exact [of "0x1000000" i]
    by (simp add: module_page_def module_physical_def page_of_div)
  then have "module_regions hv 5120 \<subseteq> {..<100}" by (auto simp: module_regions_def)
  then have "card (module_regions hv 5120) \<le> card {..<100 :: nat}" by (rule card_mono [rotated]) simp
  then show ?thesis by simp
qed

section \<open>Properties\<close>


lemma uefi_initial_memory:
  "\<exists>hv pmem eptp. hv_epml4 hv = (\<lambda>_. 0) \<and> ept_in_memory pmem (initialize_ept hv) \<and>
     bits 12 40 eptp = host_frame hv (epml4_address (hv_this hv))"
proof -
  let ?hv = "initialize_host_page_table (\<lambda>_. 0) uefi_module"
  have "module_mapped (initialize_ept ?hv)" "object_at (initialize_ept ?hv) 1"
    using uefi_host_mapped(1,3) by (simp_all add: same_module_mapped [OF same_module_initialize_ept])
  then obtain pmem where "ept_in_memory pmem (initialize_ept ?hv)" using ept_in_memory_exists by blast
  moreover have "bits 12 40 (virtual_to_physical (hv_host_page_table ?hv) (epml4_address (hv_this ?hv))) =
      host_frame ?hv (epml4_address (hv_this ?hv))" by (simp add: host_frame_def)
  ultimately show ?thesis using uefi_host_mapped(4) by blast
qed


text \<open>C13: The guest never sees the module: when the module is mapped and lies in fewer than 1024 regions
  of 2 MB, \<open>protect_module\<close> and \<open>unprotect_guest_memory\<close> succeed, and the processor's walk of
  the resulting tables is still the identity below 512 GB, except for the pages of the module outside
  \<open>unprotected_memory\<close>, which no access of the guest reaches; in 1024 regions or more the module
  does not fit the page tables and \<open>out_of_ept_entries\<close> is returned.\<close>

theorem module_hidden_from_guest:
  assumes "module_ready hv" and "hv_epml4 hv = (\<lambda>_. 0)"
  shows "if card (module_regions hv (module_pages hv)) < 1024
    then \<exists>hv1 hv2. protect_module (initialize_ept hv) = Some (hv1, success) \<and>
      unprotect_guest_memory hv1 = Some hv2 \<and>
      (\<forall>pmem eptp k a. ept_in_memory pmem hv2 \<longrightarrow>
         bits 12 40 eptp = host_frame hv (epml4_address (hv_this hv)) \<longrightarrow> unat a < 2 ^ 48 \<longrightarrow>
         ept_walk pmem eptp k a =
           (if unat a < 2 ^ 39 \<and> page_of a \<notin> hidden_pages hv then Some (a, guest_type hv a) else None))
    else \<exists>hv1. protect_module (initialize_ept hv) = Some (hv1, out_of_ept_entries)"
  using guest_view_protected [OF assms] unfolding guest_view_def .

theorem module_hidden_from_guest_witness:
  "\<exists>hv hv1 hv2. protect_module (initialize_ept hv) = Some (hv1, success) \<and> unprotect_guest_memory hv1 = Some hv2 \<and>
     (\<forall>pmem eptp k. ept_in_memory pmem hv2 \<longrightarrow> bits 12 40 eptp = host_frame hv (epml4_address (hv_this hv)) \<longrightarrow>
        ept_walk pmem eptp k 0x1000000 = None \<and>
        ept_walk pmem eptp k 0x123456 = Some (0x123456, guest_type hv 0x123456))"
proof -
  obtain hv where ready: "module_ready hv" "hv_epml4 hv = (\<lambda>_. 0)" "module_pages hv = 5120" "object_at hv 1"
    and phys: "\<forall>i < 5120. module_physical hv i = page_at 0x1000000 i"
    using uefi_ready by blast
  have page: "module_page hv i = 4096 + i" if "i < 5120" for i
    using phys that unat_page_at_exact [of "0x1000000" i]
    by (simp add: module_page_def module_physical_def page_of_div)
  have "unprotected_page hv i = 4096 + (1 + 0xc5c + i)" if "i < 257" for i
    using unprotected_page_module [OF ready(4) that] page [of "1 + 0xc5c + i"] that by simp
  then have hidden: "4096 \<in> hidden_pages hv" "291 \<notin> hidden_pages hv"
    using page ready(3) by (auto simp: hidden_pages_def image_iff intro!: bexI [of _ 0])
  obtain hv1 hv2 where r: "protect_module (initialize_ept hv) = Some (hv1, success)" "unprotect_guest_memory hv1 = Some hv2"
    and walk: "\<And>pmem eptp k a. ept_in_memory pmem hv2 \<Longrightarrow>
         bits 12 40 eptp = host_frame hv (epml4_address (hv_this hv)) \<Longrightarrow> unat a < 2 ^ 48 \<Longrightarrow>
         ept_walk pmem eptp k a =
           (if unat a < 2 ^ 39 \<and> page_of a \<notin> hidden_pages hv then Some (a, guest_type hv a) else None)"
    using module_hidden_from_guest [OF ready(1,2)] uefi_regions [OF phys] unfolding ready(3) by auto
  have "page_of 0x1000000 = 4096" "page_of 0x123456 = 291" by (simp_all add: page_of_div)
  then have "ept_walk pmem eptp k 0x1000000 = None \<and>
      ept_walk pmem eptp k 0x123456 = Some (0x123456, guest_type hv 0x123456)"
    if "ept_in_memory pmem hv2" "bits 12 40 eptp = host_frame hv (epml4_address (hv_this hv))" for pmem eptp k
    using walk [OF that, of "0x1000000" k] walk [OF that, of "0x123456" k] hidden by simp
  with r show ?thesis by blast
qed

end
