(* ===== verification/Uefi_Launch.thy ===== *)
theory Uefi_Launch
  imports Loader_Launch Elf_Load Guest_Memory
begin

text \<open>
  A concrete launch: an ELF image of 20 MB that UEFI placed at 16 MB, translated one to one, on a
  processor that accepts every VMX instruction.  It shows that the hypotheses of the theorems on the
  launch hold together.
\<close>

section \<open>The image\<close>

text \<open>An ELF header with two program headers: one segment to load, of 20 MB at address 0, and the
  dynamic segment.\<close>

definition uefi_memory :: memory where
  "uefi_memory = (\<lambda>_. 0)(0x1000000 := 0x7f, 0x1000001 := 0x45, 0x1000002 := 0x4c, 0x1000003 := 0x46,
     0x1000020 := 64, 0x1000038 := 2, 0x1000040 := 1, 0x100006a := 0x40, 0x100006b := 0x01, 0x1000078 := 2)"

definition uefi_env :: launch_env where
  "uefi_env = \<lparr>env_mem = uefi_memory, env_marker = 0x1002000, env_function = (\<lambda>_ x. x), env_vm_exit_entry = 0x1100000,
     env_vmlaunch = 0x1100100, env_launch_function = 0x1100200, env_stack_end = 0x1c60000, env_host_context = zero_context\<rparr>"

lemma uefi_image_base: "elf_image_base uefi_memory 0x1002000 = Some 0x1000000"
proof -
  have "\<not> elf_magic_at uefi_memory 0x1002000" "\<not> elf_magic_at uefi_memory 0x1001000" "elf_magic_at uefi_memory 0x1000000"
    by (simp_all add: elf_magic_at_def uefi_memory_def)
  then have "elf_base_loop uefi_memory 0x1002000 = Some 0x1000000"
    by (simp add: elf_base_loop.simps)
  then show ?thesis by (simp add: elf_image_base_def)
qed

lemma uefi_header: "e_phoff (read_header uefi_memory 0x1000000) = 64" "e_phnum (read_header uefi_memory 0x1000000) = 2"
  by (simp_all add: read_header_def read_u64_def read_u16_def uefi_memory_def read_le_numeral)

lemma uefi_phdr:
  "p_type (read_phdr uefi_memory 0x1000040) = 1" "p_vaddr (read_phdr uefi_memory 0x1000040) = 0"
  "p_memsz (read_phdr uefi_memory 0x1000040) = 0x1400000" "p_type (read_phdr uefi_memory 0x1000078) = 2"
  by (simp_all add: read_phdr_def read_u64_def read_u32_def uefi_memory_def read_le_numeral)

lemma uefi_elf: "\<exists>elf. elf_file_of uefi_memory 0x1000000 loaded = Some elf \<and> memory_size elf = 0x1400000"
proof -
  have at: "phdr_at 0x1000040 0 = 0x1000040" "phdr_at 0x1000040 1 = 0x1000078"
    by (simp_all add: phdr_at_def sizeof_phdr_def)
  have list: "[0..<unat (2 :: u16)] = [0, 1]" by (simp add: upt_rec)
  show ?thesis
    unfolding elf_file_of_def Let_def uefi_header first_phdr_def last_phdr_def list
    by (simp add: at uefi_phdr phdr_load_def phdr_dynamic_def memory_size_def del: One_nat_def)
qed

section \<open>The launch of the first processor\<close>

lemma uefi_accepts: "vmx_accepts accepting_hardware"
  by (simp add: vmx_accepts_def vmcs_accepts_def accepting_hardware_def)

text \<open>The module the launch finds.\<close>

lemma uefi_found:
  obtains hvo where "found_module uefi_env zero_context reset_cpu 0x1001000 = Some hvo"
    "os_maps_module uefi_memory hvo" "launch_result uefi_memory hvo = success" "4096 \<in> guarded_pages uefi_memory hvo"
    "291 \<notin> guarded_pages uefi_memory hvo"
proof -
  obtain elf where elf: "elf_file_of uefi_memory 0x1000000 loaded = Some elf" "memory_size elf = 0x1400000"
    using uefi_elf by blast
  define hvo where "hvo = initialize_os_page_table ((main_start uefi_env zero_context reset_cpu (create_once 0x1001000))
    \<lparr>hv_module_base := 0x1000000, hv_module_size := 0x1400000\<rparr>)"
  have found: "found_module uefi_env zero_context reset_cpu 0x1001000 = Some hvo"
    using elf by (simp add: found_module_def initialize_module_region_def uefi_env_def uefi_image_base hvo_def)
  have m: "hv_module_base hvo = 0x1000000" "hv_module_size hvo = 0x1400000" "hv_this hvo = 0x1001000"
    "physical_to_virtual (hv_os_page_table hvo) = None" "hv_host_page_table hvo = empty_table (host_page_table_address 0x1001000)"
    by (simp_all add: hvo_def initialize_os_page_table_def main_start_def initialize_registers_def create_once_def
        zero_context_def os_page_table_of_def)
  have bytes: "hv_module_size hvo = of_nat 5120 * 0x1000" by (simp add: m)
  have np: "module_pages hvo = 5120" by (rule whole_pages [OF _ bytes]) simp
  have "object_at hvo 1" unfolding object_at_def np by (simp add: m page_at_def object_pages_def)
  then have maps: "os_maps_module uefi_memory hvo"
    by (intro identity_os_maps [OF _ _ _ bytes]) (simp_all add: m va_offset_def)
  have page: "page_of (os_physical uefi_memory hvo i) = 4096 + i" if "i < 5120" for i
    using that unat_page_at_exact [of "0x1000000" i] by (simp add: os_physical_def os_virtual_to_physical_def m page_of_div)
  have "os_regions uefi_memory hvo \<subseteq> {..<100}" unfolding os_regions_def np using page by auto
  then have "card (os_regions uefi_memory hvo) \<le> card {..<100 :: nat}" by (rule card_mono [rotated]) simp
  then have success: "launch_result uefi_memory hvo = success" by (simp add: launch_result_def np module_capacity_eq)
  have "(0x1000000 :: u64) \<notin> page_at (unprotected_memory_address 0x1001000) ` {..<257}"
  proof
    assume "(0x1000000 :: u64) \<in> page_at (unprotected_memory_address 0x1001000) ` {..<257}"
    then obtain i where i: "i < 257" "0x1000000 = page_at (unprotected_memory_address 0x1001000) i" by auto
    have "unat (page_at (unprotected_memory_address 0x1001000) i) = unat (unprotected_memory_address 0x1001000) + i * 4096"
      by (rule unat_page_at_exact) (use i(1) in \<open>simp add: unprotected_memory_address_def\<close>)
    then have "unat (0x1000000 :: u64) = unat (unprotected_memory_address 0x1001000) + i * 4096" unfolding i(2) [symmetric] .
    then show False by (simp add: unprotected_memory_address_def)
  qed
  then have "4096 \<in> guarded_pages uefi_memory hvo"
    unfolding guarded_pages_def np m using page [of 0] by (auto intro!: exI [of _ 0] simp: page_at_def)
  moreover have "291 \<notin> guarded_pages uefi_memory hvo" unfolding guarded_pages_def np using page by auto
  ultimately show ?thesis using that [OF found maps success] by blast
qed

lemma uefi_start:
  "c_rdi zero_context = 0" "unat (mtrr_capabilities_variable_range_register_count (rdmsr ia32_mtrr_capability reset_cpu)) \<le> 8"
  "(unat (tr_limit (cpu_gdtr reset_cpu)) + 1) div 8 + 1 < 0x2000"
  by (simp_all add: zero_context_def reset_cpu_def rdmsr_def mtrr_capabilities_variable_range_register_count_def)

lemma uefi_launches:
  obtains hv c where "launches accepting_hardware 0x1001000 uefi_env zero_context reset_cpu hv [c]"
proof -
  obtain hvo where m: "found_module uefi_env zero_context reset_cpu 0x1001000 = Some hvo"
    "os_maps_module uefi_memory hvo" "launch_result uefi_memory hvo = success"
    by (rule uefi_found)
  obtain g hv c where "launch_processor accepting_hardware 0x1001000 uefi_env zero_context None reset_cpu = Some (g, hv, c)" "c_rax g = 0"
    using first_processor_result [OF _ uefi_accepts m(1)] m(2,3) uefi_start by (auto simp: uefi_env_def)
  then show ?thesis using launches.first [OF _ uefi_start(1)] that by blast
qed

section \<open>A refused launch\<close>

lemma uefi_refused:
  "\<exists>hv' c'. launch_processor (accepting_hardware\<lparr>hw_vmxon := (\<lambda>_ _. VMfailInvalid)\<rparr>) 0x1001000 uefi_env (zero_context\<lparr>c_rdi := 1\<rparr>)
     (Some (create_once 0x1001000)) reset_cpu = Some (zero_context\<lparr>c_rdi := 1, c_rax := 1\<rparr>, hv', c')"
proof -
  let ?hw = "accepting_hardware\<lparr>hw_vmxon := (\<lambda>_ _. VMfailInvalid)\<rparr>" and ?ctx = "zero_context\<lparr>c_rdi := 1\<rparr>"
  let ?hv = "entered ?ctx (create_once 0x1001000)" and ?s = "main_start uefi_env ?ctx reset_cpu (entered ?ctx (create_once 0x1001000))"
  have s: "hv_next_virtual_processor ?s = 1" "hv_gdtr ?s = cpu_gdtr reset_cpu"
    by (simp_all add: main_start_def initialize_registers_def entered_def cpu_ops create_once_def)
  obtain hv2 where i: "initialize_intermediate_gdt uefi_memory ?s = Some hv2"
    using initialize_intermediate_gdt_defined [of ?s uefi_memory] uefi_start(3) s by (auto simp: max_cpus_def)
  obtain hv4 where v: "initialize_vmx hv2 = Some hv4"
    using intermediate_gdt_processor [OF i] s(1) by (simp add: initialize_vmx_def Let_def max_cpus_def)
  define c2 where "c2 = host_cpu hv2 reset_cpu"
  obtain c3 where root: "enter_root_mode ?hw hv4 c2 = (vmxon_failed, c3)"
    by (simp add: enter_root_mode_def Let_def vmxon_def)
  have "\<exists>c'. hypervisor_main ?hw uefi_env ?ctx ?hv reset_cpu = Some (Main_error vmxon_failed, hv4, c')"
    using i v root [unfolded c2_def host_cpu_def] unfolding hypervisor_main_def Let_def main_start_def [symmetric]
    by (simp add: uefi_env_def)
  then show ?thesis
    using launch_processor_eq [of "0x1001000" "Some (create_once 0x1001000)"]
    by (auto simp: launch_on_cpu_private_stack_def create_once_def max_cpus_def)
qed

section \<open>The launch from the loader\<close>

text \<open>A kernel with one processor that gives the block at \<open>0x100000\<close>, and the loader's services on it.\<close>

definition small_kernel :: "(unit, unit) linux_kernel" where
  "small_kernel = \<lparr>lk_num_online_cpus = (\<lambda>os. (1, os)), lk_getaffinity = (\<lambda>mask os. ((0, mask), os)),
     lk_setaffinity = (\<lambda>_ os. (0, os)), lk_cpumask_of = (\<lambda>_. ()), lk_vmalloc = (\<lambda>_ os. (0x100000, os)),
     lk_phys_to_virt = 0, lk_EFAULT = 14, lk_EPERM = 1\<rparr>"

definition small_services :: "(launch_machine, unit \<times> unit) loader_services" where
  "small_services = \<lparr>ls_allocate_rwx = linux_allocate_rwx small_kernel, ls_physical_to_virtual = 0,
     ls_call_on_cpu = linux_call_on_cpu small_kernel, ls_number_of_cpus = linux_number_of_cpus small_kernel,
     ls_adjust = None,
     ls_enter = enter_module accepting_hardware 0x1001000 0x100000 (\<lambda>_. uefi_env) (\<lambda>_. zero_context)\<rparr>"

definition small_machine :: launch_machine where
  "small_machine = \<lparr>lm_state = None, lm_cpu = (\<lambda>_. reset_cpu), lm_guests = []\<rparr>"

lemma small_elf_loads:
  "\<exists>m. elf_load (\<lambda>_. 0x100000) (\<lambda>_ _ _ m. m) small_elf small_image = Some (0x100000, m) \<and> elf_entry m small_elf = 0"
proof -
  define m where "m = map_segments 0x100000 small_elf small_image"
  have d: "0x100000 - m_preferred_base small_elf = 0x100000" by (simp add: small_elf_def)
  have same: "m (0x1000 + of_nat j) = small_image (0x1000 + of_nat j)" if "j < 0xb2" for j
  proof -
    have "in_range (0x1000 + of_nat j) (m_file_data small_elf) 0xb2" using that by (auto simp: in_range_def small_elf_def)
    then have "0x1000 + of_nat j \<notin> segment_range 0x100000 (elf_phdr_of small_image small_elf i)" if "i < elf_phnum small_image small_elf" for i
      using segments_okD(4) [OF small_segments_ok that refl] by blast
    then show ?thesis using map_segments_bytes [OF small_segments_ok] unfolding m_def by blast
  qed
  have read: "read_le n m (0x1000 + of_nat k) = read_le n small_image (0x1000 + of_nat k)" if "k + n \<le> 0xb2" for n k
    by (rule read_le_cong) (use same [of "k + _"] that in \<open>simp add: add.assoc\<close>)
  have "d_tag (read_dyn m 0x1000) = 0"
    using read [of 0 8] by (simp add: read_dyn_def read_u64_def) (simp add: small_image_def read_le_numeral)
  then have "dyn_loop m d 0x1000 v = Some v" for d v
    by (subst dyn_loop.simps) (simp add: dyn_tag_def tag_null_def)
  then have "get_relocations m 0x100000 small_elf = Some (Rel 0, 0)"
    by (simp add: get_relocations_def small_elf_def)
  moreover have "relocate machine rs 0 d m = m" for machine rs d by (simp add: relocate_def)
  moreover have "protect_segments (\<lambda>_ _ _ m. m) d elf m = m" for d elf
    unfolding protect_segments_def Let_def if_cancel by (rule loop_inv [where I = "\<lambda>_ t. t = m"]) simp_all
  ultimately have "elf_load (\<lambda>_. 0x100000) (\<lambda>_ _ _ m. m) small_elf small_image = Some (0x100000, m)"
    unfolding elf_load_def Let_def d m_def [symmetric] by simp
  moreover have "e_entry (read_header m 0x1000) = 0"
    using read [of 24 8] by (simp add: read_header_def read_u64_def) (simp add: small_image_def read_le_numeral)
  then have "elf_entry m small_elf = 0" by (simp add: elf_entry_def small_elf_def)
  ultimately show ?thesis by blast
qed

lemma small_load: "\<exists>m lm os. zpp_load_elf small_services 0x1000 small_image (small_machine, (), ()) = Some (0, m, lm, os)"
proof -
  obtain hvo where found: "found_module uefi_env zero_context reset_cpu 0x1001000 = Some hvo"
    "os_maps_module uefi_memory hvo" "launch_result uefi_memory hvo = success"
    by (rule uefi_found)
  obtain g hv c where l: "launch_processor accepting_hardware 0x1001000 uefi_env zero_context None reset_cpu = Some (g, hv, c)" "c_rax g = 0"
    using first_processor_result [OF _ uefi_accepts found(1)] found(2,3) uefi_start by (auto simp: uefi_env_def)
  obtain m where m: "elf_load (\<lambda>_. 0x100000) (\<lambda>_ _ _ m. m) small_elf small_image = Some (0x100000, m)" "elf_entry m small_elf = 0"
    using small_elf_loads by blast
  have ctx: "start_context zero_context 0 0 = zero_context" by (simp add: start_context_def zero_context_def)
  have "\<exists>lm. enter_module accepting_hardware 0x1001000 0x100000 (\<lambda>_. uefi_env) (\<lambda>_. zero_context) 0x100000 0 0 (small_machine, (), ()) =
      Some (0, lm, (), ())"
    using l by (simp add: enter_module_def ctx small_machine_def)
  then obtain lm where e: "enter_module accepting_hardware 0x1001000 0x100000 (\<lambda>_. uefi_env) (\<lambda>_. zero_context) 0x100000 0 0 (small_machine, (), ()) =
      Some (0, lm, (), ())" by blast
  have "on_each_cpu (linux_call_on_cpu small_kernel) 1 (launch_entry small_services 0x100000) (small_machine, (), ()) = Some ((lm, (), ()), None)"
    using e by (simp add: on_each_cpu_def linux_call_on_cpu_def small_kernel_def launch_entry_def small_services_def)
  then show ?thesis
    using m small_elf_of
    by (simp add: zpp_load_elf_def small_services_def linux_allocate_rwx_def linux_number_of_cpus_def small_kernel_def
        launch_on_cpus_def)
qed

end
