(* ===== verification/Guest_Run.thy ===== *)
theory Guest_Run
  imports Module_Frames Uefi_Launch
begin

text \<open>
  The system that runs after the first launch, as a machine of interleaved steps over the state of the
  hypervisor, the processors that run a guest, and physical memory: later launches, stores and other
  instructions of the guests, VM exits with the handler of the hypervisor, and whatever processors that
  are not launched and devices do.
\<close>

section \<open>The system\<close>

text \<open>The guests are listed with the last launched first.\<close>

record system =
  sys_hv :: hypervisor
  sys_guests :: "cpu list"
  sys_memory :: memory

datatype system_event =
    Launch
  | Guest_store nat u64 u8
  | Guest_instruction nat
  | Guest_exit nat cpu_context cpu_context
  | Outside

text \<open>A guest cannot change which control structure is current or what it holds: every VMX instruction
  exits.\<close>

definition stays_in_guest :: "cpu \<Rightarrow> cpu \<Rightarrow> bool" where
  "stays_in_guest c c' \<longleftrightarrow> cpu_vmcs c' = cpu_vmcs c \<and> cpu_vmcs_data c' = cpu_vmcs_data c"

text \<open>An exit writes the guest state and the exit information, which the bits 10 and 11 of the encoding
  tell, and two control fields: the mode of the guest in the entry controls and the valid bit of the
  interruption to inject.\<close>

definition written_by_exit :: "u64 \<Rightarrow> bool" where
  "written_by_exit f \<longleftrightarrow> bits 10 2 f = 1 \<or> bits 10 2 f = 2 \<or> f = field_vm_entry_controls \<or>
     f = field_vm_entry_interruption_information_field"

definition exits_to :: "cpu \<Rightarrow> cpu \<Rightarrow> bool" where
  "exits_to c c' \<longleftrightarrow> cpu_vmcs c' = cpu_vmcs c \<and>
     (\<forall>r f. cpu_vmcs_data c' r f = cpu_vmcs_data c r f \<or> cpu_vmcs c = Some r \<and> written_by_exit f)"

text \<open>Two memories are the same outside some physical pages.\<close>

definition same_outside :: "nat set \<Rightarrow> memory \<Rightarrow> memory \<Rightarrow> bool" where
  "same_outside P m m' \<longleftrightarrow> (\<forall>x. page_of x \<notin> P \<longrightarrow> m' x = m x)"

text \<open>The steps.  A later launch is the model of the launch; the memory after it holds the tables of the
  state after it.  A store of a guest goes where the processor's walk of the tables in memory leads it.
  An exit runs the handler, on the stack of the processor.  The processor keeps VMX data of its own in
  the VMX regions at any time.  Processors that are not launched and devices leave the hidden pages
  alone.\<close>

inductive system_step :: "hardware \<Rightarrow> u64 \<Rightarrow> u64 \<Rightarrow> system \<Rightarrow> system_event \<Rightarrow> system \<Rightarrow> bool"
  for hw :: hardware and this :: u64 and vmresume :: u64 where
  launch: "launch_processor hw this env ctx (Some (sys_hv s)) c = Some (g, hv', c') \<Longrightarrow> c_rdi ctx \<noteq> 0 \<Longrightarrow>
    ept_in_memory (read_u64 m') hv' \<Longrightarrow>
    system_step hw this vmresume s Launch
      \<lparr>sys_hv = hv', sys_guests = (if c_rax g = 0 then c' # sys_guests s else sys_guests s), sys_memory = m'\<rparr>"
| store: "i < length (sys_guests s) \<Longrightarrow> vmcs_ept_pointer hw (sys_guests s ! i) = Maybe_value eptp \<Longrightarrow> unat a < 2 ^ 48 \<Longrightarrow>
    ept_walk (read_u64 (sys_memory s)) eptp Ept_write a = Some (b, t) \<Longrightarrow>
    system_step hw this vmresume s (Guest_store i a v) (s\<lparr>sys_memory := (sys_memory s)(b := v)\<rparr>)"
| instruction: "i < length (sys_guests s) \<Longrightarrow> stays_in_guest (sys_guests s ! i) c' \<Longrightarrow>
    same_outside (object_frames (sys_hv s) vmx_pages) (sys_memory s) m' \<Longrightarrow>
    system_step hw this vmresume s (Guest_instruction i) (s\<lparr>sys_guests := (sys_guests s)[i := c'], sys_memory := m'\<rparr>)"
| exit: "i < length (sys_guests s) \<Longrightarrow> exits_to (sys_guests s ! i) c1 \<Longrightarrow>
    vm_exit_handler hw vmresume ctx c1 = Some (Vmm_resume ctx' c') \<Longrightarrow>
    same_outside (object_frames (sys_hv s) (stack_pages \<union> vmx_pages)) (sys_memory s) m' \<Longrightarrow>
    system_step hw this vmresume s (Guest_exit i ctx ctx') (s\<lparr>sys_guests := (sys_guests s)[i := c'], sys_memory := m'\<rparr>)"
| outside: "same_outside (- hidden_pages (sys_hv s)) (sys_memory s) m' \<Longrightarrow>
    system_step hw this vmresume s Outside (s\<lparr>sys_memory := m'\<rparr>)"

inductive_cases system_launchE: "system_step hw this vmresume s Launch s'"
inductive_cases system_storeE: "system_step hw this vmresume s (Guest_store i a v) s'"
inductive_cases system_instructionE: "system_step hw this vmresume s (Guest_instruction i) s'"
inductive_cases system_exitE: "system_step hw this vmresume s (Guest_exit i ctx ctx') s'"
inductive_cases system_outsideE: "system_step hw this vmresume s Outside s'"

text \<open>The reachable systems: the first processor is launched, then any steps follow.\<close>

inductive system_run :: "hardware \<Rightarrow> u64 \<Rightarrow> u64 \<Rightarrow> launch_env \<Rightarrow> cpu_context \<Rightarrow> cpu \<Rightarrow> system \<Rightarrow> bool"
  for hw :: hardware and this :: u64 and vmresume :: u64 and env :: launch_env and ctx0 :: cpu_context and c0 :: cpu where
  boot: "launch_processor hw this env ctx0 None c0 = Some (g, hv, c) \<Longrightarrow> c_rdi ctx0 = 0 \<Longrightarrow> c_rax g = 0 \<Longrightarrow>
    ept_in_memory (read_u64 m) hv \<Longrightarrow>
    system_run hw this vmresume env ctx0 c0 \<lparr>sys_hv = hv, sys_guests = [c], sys_memory = m\<rparr>"
| run: "system_run hw this vmresume env ctx0 c0 s \<Longrightarrow> system_step hw this vmresume s e s' \<Longrightarrow>
    system_run hw this vmresume env ctx0 c0 s'"

section \<open>The invariant\<close>

definition system_inv :: "hardware \<Rightarrow> nat set \<Rightarrow> system \<Rightarrow> bool" where
  "system_inv hw G s \<longleftrightarrow> isolated hw (sys_hv s) G (sys_guests s) \<and> ept_in_memory (read_u64 (sys_memory s)) (sys_hv s)"

lemma system_inv_parts:
  assumes "system_inv hw G s"
  shows "isolated hw (sys_hv s) G (sys_guests s)" and "ept_in_memory (read_u64 (sys_memory s)) (sys_hv s)"
  using assms by (simp_all add: system_inv_def)

text \<open>What the invariant says of one guest.\<close>

lemma isolated_walk:
  assumes "isolated hw hv G cs" and "c \<in> set cs" and "ept_in_memory pmem hv"
  shows "\<exists>eptp. vmcs_ept_pointer hw c = Maybe_value eptp \<and> (\<forall>k a. unat a < 2 ^ 48 \<longrightarrow>
    ept_walk pmem eptp k a = (if unat a < 2 ^ 39 \<and> page_of a \<notin> G then Some (a, guest_type hv a) else None))"
proof -
  obtain eptp where "vmcs_ept_pointer hw c = Maybe_value eptp" "bits 12 40 eptp = host_frame hv (epml4_address (hv_this hv))"
    using isolated_distinct(3) [OF assms(1)] assms(2) by blast
  then show ?thesis using assms(1,3) by (auto simp: isolated_def tables_hide_def)
qed

lemma isolated_update:
  assumes "isolated hw hv G cs" and "i < length cs" and "\<And>n. guest_runs hw hv n (cs ! i) \<Longrightarrow> guest_runs hw hv n c"
  shows "isolated hw hv G (cs[i := c])"
  using assms by (auto simp: isolated_def list_all2_conv_all_nth nth_list_update simp del: upt_Suc)

lemma isolated_vmcs_ok:
  assumes "isolated hw hv G cs" and "c \<in> set cs" and "vmx_accepts hw"
  shows "vmcs_ok hw c"
proof -
  have "\<exists>n. guest_runs hw hv n c" using assms(1,2) by (fastforce simp: isolated_def list_all2_conv_all_nth in_set_conv_nth)
  then show ?thesis using assms(3) by (auto simp: guest_runs_def vmcs_ok_accepts vmx_accepts_def)
qed

text \<open>A guest stays one whose three fields are kept.\<close>

lemma guest_runs_kept:
  assumes "vmcs_ok hw c" and "vmcs_ok hw c'" and "cpu_vmcs c' = cpu_vmcs c"
    and "\<And>r f. cpu_vmcs c = Some r \<Longrightarrow> f \<in> {field_ept_pointer, field_vpid} \<Longrightarrow> cpu_vmcs_data c' r f = cpu_vmcs_data c r f"
  shows "guest_runs hw hv n c \<Longrightarrow> guest_runs hw hv n c'"
proof -
  assume runs: "guest_runs hw hv n c"
  then obtain r where r: "cpu_vmcs c = Some r" by (auto simp: guest_runs_def)
  then have "vmcs_read hw f c' = vmcs_read hw f c" if "f \<in> {field_ept_pointer, field_vpid}" for f
    using assms(3) assms(4) [OF r that] vmcs_read_ok [OF assms(1) r] vmcs_read_ok [OF assms(2), of r] by simp
  then show ?thesis
    using runs assms(3) by (simp add: guest_runs_def vmcs_ept_pointer_def vmcs_vpid_def)
qed

lemma exits_to_fields:
  assumes "exits_to c c'" and "f \<in> {field_ept_pointer, field_vpid}"
  shows "cpu_vmcs_data c' r f = cpu_vmcs_data c r f"
proof -
  have "\<not> written_by_exit f"
    using assms(2) by (auto simp: written_by_exit_def field_ept_pointer_def field_vpid_def field_vm_entry_controls_def
        field_vm_entry_interruption_information_field_def bits_def)
  then show ?thesis using assms(1) by (auto simp: exits_to_def)
qed

text \<open>An exit, as the handler leaves it.\<close>

lemma exit_handled:
  assumes ok: "vmcs_ok hw c" and ex: "exits_to c c1"
  obtains ctx' c' r where "vm_exit_handler hw vmresume ctx c1 = Some (Vmm_resume ctx' c')" "c_rip ctx' = vmresume"
    "cpu_vmcs c = Some r" "cpu_vmcs c' = Some r" "vmcs_ok hw c'"
    "cpu_vmcs_data c' = (cpu_vmcs_data c1)(r := (cpu_vmcs_data c1 r)(field_guest_rip :=
       cpu_vmcs_data c1 r field_guest_rip + cpu_vmcs_data c1 r field_vm_exit_instruction_length))"
proof -
  obtain r where r: "cpu_vmcs c = Some r" using ok by (auto simp: vmcs_ok_def)
  then have c1: "cpu_vmcs c1 = Some r" "vmcs_ok hw c1" using ok ex by (simp_all add: exits_to_def vmcs_ok_def)
  let ?rip = "cpu_vmcs_data c1 r field_guest_rip + cpu_vmcs_data c1 r field_vm_exit_instruction_length"
  let ?res = "handle_reason hw (exit_reason_basic (cpu_vmcs_data c1 r field_exit_reason)) (ctx\<lparr>c_rip := cpu_vmcs_data c1 r field_guest_rip\<rparr>) c1"
  have res: "cpu_vmcs (snd ?res) = Some r" "cpu_vmcs_data (snd ?res) = cpu_vmcs_data c1"
    using c1 by (simp_all add: handle_reason_vmcs)
  let ?c' = "snd (vmcs_set_guest_rip hw ?rip (snd ?res))"
  have ok': "\<forall>c f v. hw_vmwrite hw c f v = VMsucceed" using ok by (simp add: vmcs_ok_def)
  then have "?c' = (snd ?res)\<lparr>cpu_vmcs_data := (cpu_vmcs_data c1)(r := (cpu_vmcs_data c1 r)(field_guest_rip := ?rip))\<rparr>"
    using res by (simp add: vmcs_set_guest_rip_def vmcs_write_def vmwrite_def)
  then show ?thesis
    by (intro that [OF vm_exit_handler_resumes [OF c1(2,1)]]) (use r c1 ok' res in \<open>auto simp: vmcs_ok_def\<close>)
qed

lemma exit_keeps_guest:
  assumes "vmcs_ok hw c" and ex: "exits_to c c1" and "vm_exit_handler hw vmresume ctx c1 = Some (Vmm_resume ctx' c')"
  shows "guest_runs hw hv n c \<Longrightarrow> guest_runs hw hv n c'"
proof (rule exit_handled [OF assms(1,2), of vmresume ctx])
  fix ctx2 c2 r
  assume h: "vm_exit_handler hw vmresume ctx c1 = Some (Vmm_resume ctx2 c2)" "cpu_vmcs c = Some r" "cpu_vmcs c2 = Some r" "vmcs_ok hw c2"
    "cpu_vmcs_data c2 = (cpu_vmcs_data c1)(r := (cpu_vmcs_data c1 r)(field_guest_rip :=
       cpu_vmcs_data c1 r field_guest_rip + cpu_vmcs_data c1 r field_vm_exit_instruction_length))"
  assume "guest_runs hw hv n c"
  moreover have "c' = c2" using assms(3) h(1) by simp
  moreover have "cpu_vmcs_data c2 q f = cpu_vmcs_data c q f" if "f \<in> {field_ept_pointer, field_vpid}" for q f
  proof -
    have "f \<noteq> field_guest_rip" using that by (auto simp: field_guest_rip_def field_ept_pointer_def field_vpid_def)
    then show ?thesis using h(5) exits_to_fields [OF ex that] by simp
  qed
  ultimately show "guest_runs hw hv n c'"
    using guest_runs_kept [OF assms(1) h(4)] h(2,3) by simp
qed

section \<open>Steps keep the invariant\<close>

text \<open>The tables survive every change of memory outside their own frames.\<close>

lemma system_inv_memory:
  assumes "system_inv hw G s" and "same_outside P (sys_memory s) m'" and "P \<inter> object_frames (sys_hv s) ept_pages = {}"
  shows "ept_in_memory (read_u64 m') (sys_hv s)"
proof -
  obtain k where k: "module_mapped (sys_hv s)" "object_at (sys_hv s) k" using assms(1) by (auto simp: system_inv_def isolated_def)
  show ?thesis
  proof (rule ept_in_memory_frames [OF k])
    show "ept_in_memory (read_u64 (sys_memory s)) (sys_hv s)" using assms(1) by (simp add: system_inv_def)
    show "m' x = sys_memory s x" if "page_of x \<in> object_frames (sys_hv s) ept_pages" for x
      using assms(2,3) that by (auto simp: same_outside_def)
  qed
qed

lemma system_inv_frames:
  assumes "system_inv hw G s"
  shows "object_frames (sys_hv s) (stack_pages \<union> vmx_pages) \<inter> object_frames (sys_hv s) ept_pages = {}"
    and "object_frames (sys_hv s) ept_pages \<subseteq> G" and "hidden_pages (sys_hv s) = G"
proof -
  obtain k where k: "module_mapped (sys_hv s)" "object_at (sys_hv s) k" using assms by (auto simp: system_inv_def isolated_def)
  show G: "hidden_pages (sys_hv s) = G" using assms by (simp add: system_inv_def isolated_def)
  show "object_frames (sys_hv s) (stack_pages \<union> vmx_pages) \<inter> object_frames (sys_hv s) ept_pages = {}"
    by (rule object_frames_disjoint [OF k]) (use object_parts in auto)
  show "object_frames (sys_hv s) ept_pages \<subseteq> G"
    using object_frames_hidden [OF k object_parts(3)] object_parts(6) G by auto
qed

text \<open>The pages a step may write.\<close>

primrec writes_of :: "system_event \<Rightarrow> hypervisor \<Rightarrow> nat set" where
  "writes_of Launch hv = UNIV"
| "writes_of (Guest_store i a v) hv = - hidden_pages hv"
| "writes_of (Guest_instruction i) hv = object_frames hv vmx_pages"
| "writes_of (Guest_exit i ctx ctx') hv = object_frames hv (stack_pages \<union> vmx_pages)"
| "writes_of Outside hv = - hidden_pages hv"

lemma store_spares_hidden:
  assumes inv: "system_inv hw G s" and "i < length (sys_guests s)" and "vmcs_ept_pointer hw (sys_guests s ! i) = Maybe_value eptp"
    and "unat a < 2 ^ 48" and "ept_walk (read_u64 (sys_memory s)) eptp k a = Some (b, t)"
  shows "b = a" and "page_of a \<notin> G"
proof -
  have "\<exists>e. vmcs_ept_pointer hw (sys_guests s ! i) = Maybe_value e \<and> (\<forall>k a. unat a < 2 ^ 48 \<longrightarrow>
      ept_walk (read_u64 (sys_memory s)) e k a = (if unat a < 2 ^ 39 \<and> page_of a \<notin> G then Some (a, guest_type (sys_hv s) a) else None))"
    using inv assms(2) by (intro isolated_walk) (auto simp: system_inv_def)
  then show "b = a" "page_of a \<notin> G" using assms(3-5) by (auto split: if_splits)
qed

lemma step_memory:
  assumes inv: "system_inv hw G s" and step: "system_step hw this vmresume s e s'"
  shows "same_outside (writes_of e (sys_hv s)) (sys_memory s) (sys_memory s')"
  using step
proof (cases rule: system_step.cases)
  case (store i eptp a b t v)
  then have "b = a" "page_of a \<notin> hidden_pages (sys_hv s)"
    using store_spares_hidden [OF inv] system_inv_frames(3) [OF inv] by blast+
  then show ?thesis using store by (auto simp: same_outside_def)
qed (auto simp: same_outside_def)

lemma step_hypervisor:
  assumes inv: "system_inv hw G s" and hw: "vmx_accepts hw" and step: "system_step hw this vmresume s e s'"
  shows "same_tables (sys_hv s) (sys_hv s')" and "isolated hw (sys_hv s') G (sys_guests s')"
proof -
  have iso: "isolated hw (sys_hv s) G (sys_guests s)" using inv by (simp add: system_inv_def)
  have refl: "same_tables (sys_hv s) (sys_hv s)" by (simp add: same_tables_def)
  have ok: "vmcs_ok hw (sys_guests s ! i)" if "i < length (sys_guests s)" for i
    using isolated_vmcs_ok [OF iso _ hw] that by simp
  have "same_tables (sys_hv s) (sys_hv s') \<and> isolated hw (sys_hv s') G (sys_guests s')"
    using step
  proof (cases rule: system_step.cases)
    case (launch env ctx c g hv' c' m')
    then show ?thesis using isolated_launch [OF iso launch(3) launch(4) hw] by simp
  next
    case (instruction i c' m')
    have "guest_runs hw (sys_hv s) n (sys_guests s ! i) \<Longrightarrow> guest_runs hw (sys_hv s) n c'" for n
      using guest_runs_kept [OF ok [OF instruction(3)], of c'] vmcs_ok_cong [of c' "sys_guests s ! i" hw] ok [OF instruction(3)] instruction(4)
      by (simp add: stays_in_guest_def)
    then show ?thesis using isolated_update [OF iso instruction(3)] refl instruction(2) by simp
  next
    case (exit i c1 ctx ctx' c' m')
    show ?thesis using isolated_update [OF iso exit(3)] exit_keeps_guest [OF ok [OF exit(3)] exit(4,5)] refl exit(2) by simp
  qed (use iso refl in simp_all)
  then show "same_tables (sys_hv s) (sys_hv s')" "isolated hw (sys_hv s') G (sys_guests s')" by blast+
qed

lemma step_inv:
  assumes inv: "system_inv hw G s" and hw: "vmx_accepts hw" and step: "system_step hw this vmresume s e s'"
  shows "system_inv hw G s'"
proof -
  note h = step_hypervisor [OF assms] and f = system_inv_frames [OF inv]
  have "ept_in_memory (read_u64 (sys_memory s')) (sys_hv s')"
  proof (cases "e = Launch")
    case True
    with step show ?thesis by (auto elim: system_launchE)
  next
    case False
    then have "writes_of e (sys_hv s) \<inter> object_frames (sys_hv s) ept_pages = {}"
      using f object_frames_Un [of "sys_hv s" stack_pages vmx_pages] by (cases e) auto
    from system_inv_memory [OF inv step_memory [OF inv step] this] show ?thesis
      using same_tables_memory [OF h(1)] by simp
  qed
  then show ?thesis using h(2) by (simp add: system_inv_def)
qed

lemma system_run_inv:
  assumes run: "system_run hw this vmresume env ctx0 c0 s" and hw: "vmx_accepts hw"
    and found: "found_module env ctx0 c0 this = Some hvo" and ok: "os_maps_module (env_mem env) hvo"
  shows "system_inv hw (guarded_pages (env_mem env) hvo) s"
  using run
proof (induction rule: system_run.induct)
  case (boot g hv c m)
  then show ?case using isolated_first [OF boot(1-3) hw found ok] by (simp add: system_inv_def)
next
  case (run s e s')
  then show ?case using step_inv hw by blast
qed

section \<open>A run\<close>

text \<open>The concrete launch, and a store of its guest at \<open>0x123456\<close>.\<close>

lemma uefi_system:
  obtains hvo s where "system_run accepting_hardware 0x1001000 vmresume uefi_env zero_context reset_cpu s"
    "found_module uefi_env zero_context reset_cpu 0x1001000 = Some hvo" "os_maps_module (env_mem uefi_env) hvo"
    "4096 \<in> guarded_pages (env_mem uefi_env) hvo" "291 \<notin> guarded_pages (env_mem uefi_env) hvo" "length (sys_guests s) = 1"
proof -
  obtain hvo where m: "found_module uefi_env zero_context reset_cpu 0x1001000 = Some hvo"
    "os_maps_module uefi_memory hvo" "launch_result uefi_memory hvo = success" "4096 \<in> guarded_pages uefi_memory hvo"
    "291 \<notin> guarded_pages uefi_memory hvo"
    by (rule uefi_found)
  have mem: "env_mem uefi_env = uefi_memory" by (simp add: uefi_env_def)
  obtain g hv c where l: "launch_processor accepting_hardware 0x1001000 uefi_env zero_context None reset_cpu = Some (g, hv, c)" "c_rax g = 0"
    using first_processor_result [OF _ uefi_accepts m(1)] m(2,3) uefi_start by (auto simp: mem)
  have "module_mapped hv \<and> (\<exists>k. object_at hv k)"
    using isolated_first [OF l(1) uefi_start(1) l(2) uefi_accepts m(1)] m(2) by (simp add: isolated_def mem)
  then obtain pm where pm: "ept_in_memory (read_u64 pm) hv" using ept_in_byte_memory_exists by blast
  show ?thesis
    by (rule that [OF system_run.boot [OF l(1) uefi_start(1) l(2) pm] m(1)]) (use m mem in simp_all)
qed

lemma uefi_store:
  assumes "system_run accepting_hardware 0x1001000 vmresume uefi_env zero_context reset_cpu s"
    and "found_module uefi_env zero_context reset_cpu 0x1001000 = Some hvo" "os_maps_module (env_mem uefi_env) hvo"
    and "291 \<notin> guarded_pages (env_mem uefi_env) hvo" and "length (sys_guests s) = 1"
  shows "system_step accepting_hardware 0x1001000 vmresume s (Guest_store 0 0x123456 v) (s\<lparr>sys_memory := (sys_memory s)(0x123456 := v)\<rparr>)"
proof -
  have inv: "system_inv accepting_hardware (guarded_pages (env_mem uefi_env) hvo) s"
    by (rule system_run_inv [OF assms(1) uefi_accepts assms(2,3)])
  have "sys_guests s ! 0 \<in> set (sys_guests s)" using assms(5) by simp
  from isolated_walk [OF system_inv_parts(1) [OF inv] this system_inv_parts(2) [OF inv]]
  obtain eptp where e: "vmcs_ept_pointer accepting_hardware (sys_guests s ! 0) = Maybe_value eptp"
    "\<forall>k a. unat a < 2 ^ 48 \<longrightarrow> ept_walk (read_u64 (sys_memory s)) eptp k a =
       (if unat a < 2 ^ 39 \<and> page_of a \<notin> guarded_pages (env_mem uefi_env) hvo then Some (a, guest_type (sys_hv s) a) else None)"
    by blast
  have "page_of 0x123456 = 291" by (simp add: page_of_div)
  then have "ept_walk (read_u64 (sys_memory s)) eptp Ept_write 0x123456 = Some (0x123456, guest_type (sys_hv s) 0x123456)"
    using e(2) [rule_format, of "0x123456" Ept_write] assms(4) by simp
  with e(1) assms(5) show ?thesis by (intro system_step.store [where eptp = eptp]) simp_all
qed

section \<open>Properties\<close>

text \<open>C1: The isolation lasts: in every state of the running system, whatever the guests store, whatever
  exits were handled, whatever other processors were launched and whatever the rest of the machine did
  outside the hidden pages, the processor's walk of the extended page tables in memory gives each running
  guest the identity below 512 GB without the pages of the module outside \<open>unprotected_memory\<close>, and
  nothing else; and no two guests share a control structure or an identifier.\<close>

theorem system_isolated:
  assumes "system_run hw this vmresume env ctx0 c0 s" and "vmx_accepts hw"
    and "found_module env ctx0 c0 this = Some hvo" and "os_maps_module (env_mem env) hvo"
  shows "(\<forall>c \<in> set (sys_guests s). \<exists>eptp. vmcs_ept_pointer hw c = Maybe_value eptp \<and>
      (\<forall>k a. unat a < 2 ^ 48 \<longrightarrow> ept_walk (read_u64 (sys_memory s)) eptp k a =
        (if unat a < 2 ^ 39 \<and> page_of a \<notin> guarded_pages (env_mem env) hvo then Some (a, guest_type (sys_hv s) a) else None))) \<and>
    distinct (map cpu_vmcs (sys_guests s)) \<and> distinct (map (vmcs_vpid hw) (sys_guests s))"
proof -
  have "system_inv hw (guarded_pages (env_mem env) hvo) s" by (rule system_run_inv [OF assms])
  then have iso: "isolated hw (sys_hv s) (guarded_pages (env_mem env) hvo) (sys_guests s)"
    and mem: "ept_in_memory (read_u64 (sys_memory s)) (sys_hv s)" by (simp_all add: system_inv_def)
  from isolated_walk [OF iso _ mem] isolated_distinct(1,2) [OF iso] show ?thesis by blast
qed

theorem system_isolated_witness:
  "\<exists>s eptp. system_run accepting_hardware 0x1001000 0x9000 uefi_env zero_context reset_cpu s \<and> sys_memory s 0x123456 = 7 \<and>
     length (sys_guests s) = 1 \<and> vmcs_ept_pointer accepting_hardware (sys_guests s ! 0) = Maybe_value eptp \<and>
     ept_walk (read_u64 (sys_memory s)) eptp Ept_write 0x1000000 = None"
proof -
  obtain hvo s where m: "system_run accepting_hardware 0x1001000 0x9000 uefi_env zero_context reset_cpu s"
    "found_module uefi_env zero_context reset_cpu 0x1001000 = Some hvo" "os_maps_module (env_mem uefi_env) hvo"
    "4096 \<in> guarded_pages (env_mem uefi_env) hvo" "291 \<notin> guarded_pages (env_mem uefi_env) hvo" "length (sys_guests s) = 1"
    by (rule uefi_system)
  let ?s = "s\<lparr>sys_memory := (sys_memory s)(0x123456 := 7)\<rparr>"
  have run: "system_run accepting_hardware 0x1001000 0x9000 uefi_env zero_context reset_cpu ?s"
    by (rule system_run.run [OF m(1) uefi_store [OF m(1-3,5,6)]])
  have "sys_guests ?s ! 0 \<in> set (sys_guests ?s)" using m(6) by simp
  with system_isolated [OF run uefi_accepts m(2,3)] obtain eptp where
    e: "vmcs_ept_pointer accepting_hardware (sys_guests ?s ! 0) = Maybe_value eptp"
    "\<forall>k a. unat a < 2 ^ 48 \<longrightarrow> ept_walk (read_u64 (sys_memory ?s)) eptp k a =
       (if unat a < 2 ^ 39 \<and> page_of a \<notin> guarded_pages (env_mem uefi_env) hvo then Some (a, guest_type (sys_hv ?s) a) else None)"
    by blast
  have "page_of 0x1000000 = 4096" by (simp add: page_of_div)
  then have "ept_walk (read_u64 (sys_memory ?s)) eptp Ept_write 0x1000000 = None"
    using e(2) [rule_format, of "0x1000000" Ept_write] m(4) by simp
  moreover have "sys_memory ?s 0x123456 = 7" "length (sys_guests ?s) = 1" using m(6) by simp_all
  ultimately show ?thesis using run e(1) by blast
qed



text \<open>C7: No guest is stuck in an exit: in every state of the running system, whatever made a guest exit
  and whatever its registers hold, the handler ends in \<open>vmresume\<close> with \<open>guest_rip\<close> behind the
  instruction, and the exit is a step of the system that leaves the guest running.\<close>

theorem every_exit_resumes:
  assumes "system_run hw this vmresume env ctx0 c0 s" and "vmx_accepts hw"
    and "found_module env ctx0 c0 this = Some hvo" and "os_maps_module (env_mem env) hvo"
    and "i < length (sys_guests s)" and "exits_to (sys_guests s ! i) c"
    and "vmcs_guest_rip hw c = Maybe_value rip" and "vmcs_vm_exit_instruction_length hw c = Maybe_value len"
  shows "\<exists>ctx' c'. vm_exit_handler hw vmresume ctx c = Some (Vmm_resume ctx' c') \<and> c_rip ctx' = vmresume \<and>
    vmcs_guest_rip hw c' = Maybe_value (rip + len) \<and>
    system_run hw this vmresume env ctx0 c0 (s\<lparr>sys_guests := (sys_guests s)[i := c']\<rparr>)"
proof -
  have ok: "vmcs_ok hw (sys_guests s ! i)"
    using system_run_inv [OF assms(1-4)] isolated_vmcs_ok [OF _ _ assms(2)] assms(5) by (auto simp: system_inv_def)
  from exit_handled [OF ok assms(6), of vmresume ctx] obtain ctx' c' r where
    h: "vm_exit_handler hw vmresume ctx c = Some (Vmm_resume ctx' c')" "c_rip ctx' = vmresume"
    "cpu_vmcs (sys_guests s ! i) = Some r" "cpu_vmcs c' = Some r" "vmcs_ok hw c'"
    "cpu_vmcs_data c' = (cpu_vmcs_data c)(r := (cpu_vmcs_data c r)(field_guest_rip :=
       cpu_vmcs_data c r field_guest_rip + cpu_vmcs_data c r field_vm_exit_instruction_length))"
    by metis
  have c: "cpu_vmcs c = Some r" "vmcs_ok hw c" using h(3) ok assms(6) by (simp_all add: exits_to_def vmcs_ok_def)
  have "cpu_vmcs_data c r field_guest_rip = rip" "cpu_vmcs_data c r field_vm_exit_instruction_length = len"
    using assms(7,8) vmcs_read_ok [OF c(2,1)] by (simp_all add: vmcs_guest_rip_def vmcs_vm_exit_instruction_length_def)
  then have "vmcs_guest_rip hw c' = Maybe_value (rip + len)"
    using vmcs_read_ok [OF h(5,4)] h(6) by (simp add: vmcs_guest_rip_def)
  moreover have "system_step hw this vmresume s (Guest_exit i ctx ctx') (s\<lparr>sys_guests := (sys_guests s)[i := c']\<rparr>)"
    using system_step.exit [OF assms(5,6) h(1), where m' = "sys_memory s"] by (simp add: same_outside_def)
  ultimately show ?thesis using h(1,2) system_run.run [OF assms(1)] by blast
qed

theorem every_exit_resumes_witness:
  "\<exists>s ctx' c'. vm_exit_handler accepting_hardware 0x9000 zero_context (sys_guests s ! 0) = Some (Vmm_resume ctx' c') \<and>
     c_rip ctx' = 0x9000 \<and> system_run accepting_hardware 0x1001000 0x9000 uefi_env zero_context reset_cpu (s\<lparr>sys_guests := [c']\<rparr>)"
proof -
  obtain hvo s where m: "system_run accepting_hardware 0x1001000 0x9000 uefi_env zero_context reset_cpu s"
    "found_module uefi_env zero_context reset_cpu 0x1001000 = Some hvo" "os_maps_module (env_mem uefi_env) hvo"
    "4096 \<in> guarded_pages (env_mem uefi_env) hvo" "291 \<notin> guarded_pages (env_mem uefi_env) hvo" "length (sys_guests s) = 1"
    by (rule uefi_system)
  let ?c = "sys_guests s ! 0"
  have i: "0 < length (sys_guests s)" "?c \<in> set (sys_guests s)" using m(6) by simp_all
  have "vmcs_ok accepting_hardware ?c"
    using system_run_inv [OF m(1) uefi_accepts m(2,3)] isolated_vmcs_ok [OF _ i(2) uefi_accepts] by (auto simp: system_inv_def)
  then obtain r where r: "vmcs_ok accepting_hardware ?c" "cpu_vmcs ?c = Some r" by (auto simp: vmcs_ok_def)
  have ex: "exits_to ?c ?c" by (simp add: exits_to_def)
  have upd: "(sys_guests s)[0 := c'] = [c']" for c' using m(6) by (cases "sys_guests s") simp_all
  from every_exit_resumes [OF m(1) uefi_accepts m(2,3) i(1) ex, unfolded vmcs_guest_rip_def vmcs_vm_exit_instruction_length_def,
      OF vmcs_read_ok [OF r] vmcs_read_ok [OF r], of zero_context]
  show ?thesis unfolding upd by blast
qed

end
