(* ===== verification/Vm_Entry.thy ===== *)
theory Vm_Entry
  imports Exit_Path Instruction_Asm Guest_Run
begin

text \<open>
  The two wrappers that enter a guest, \<open>vmlaunch\<close> and \<open>vmresume\<close> of \<^verbatim>\<open>x64/intel/asm.h\<close>, at the end of a
  launch and of an exit: where the guest starts, that it continues behind each exit, and what happens
  when the processor refuses the entry.
\<close>

section \<open>The wrappers\<close>

text \<open>The field \<open>f\<close> of the current control structure.\<close>

definition current_field :: "cpu \<Rightarrow> u64 \<Rightarrow> u64" where
  "current_field c f = (case cpu_vmcs c of Some r \<Rightarrow> cpu_vmcs_data c r f | None \<Rightarrow> 0)"

primrec selector_field :: "seg \<Rightarrow> u64" where
  "selector_field CS = field_guest_cs_selector"
| "selector_field DS = field_guest_ds_selector"
| "selector_field ES = field_guest_es_selector"
| "selector_field FS = field_guest_fs_selector"
| "selector_field GS = field_guest_gs_selector"
| "selector_field SS = field_guest_ss_selector"

text \<open>An entry that succeeds loads the instruction and stack pointers, the flags and the segments of the
  guest from the control structure and leaves the other registers; one that fails reports it in the
  flags, and the processor goes on with the next instruction.\<close>

datatype entry_result = In_guest asm_state | In_host asm_state

definition guest_state :: "cpu \<Rightarrow> asm_state \<Rightarrow> asm_state" where
  "guest_state c s =
     s\<lparr>a_reg := (a_reg s)(RSP := current_field c field_guest_rsp), a_rip := current_field c field_guest_rip,
       a_rflags := current_field c field_guest_rflags, a_seg := (\<lambda>g. ucast (current_field c (selector_field g)))\<rparr>"

definition vm_entry :: "(u64 \<Rightarrow> u64 \<Rightarrow> u64) \<Rightarrow> vm_outcome \<Rightarrow> cpu \<Rightarrow> instr list \<Rightarrow> asm_state \<Rightarrow> entry_result" where
  "vm_entry flags result c rest s =
     (if result = VMsucceed then In_guest (guest_state c s)
      else In_host (run flags rest (s\<lparr>a_rflags := (a_rflags s AND NOT 0x8d5) OR outcome_flags result\<rparr>)))"

definition vmlaunch_asm :: "(u64 \<Rightarrow> u64 \<Rightarrow> u64) \<Rightarrow> vm_outcome \<Rightarrow> cpu \<Rightarrow> asm_state \<Rightarrow> entry_result" where
  "vmlaunch_asm flags result c = vm_entry flags result c [Ret]"

definition vmresume_asm :: "(u64 \<Rightarrow> u64 \<Rightarrow> u64) \<Rightarrow> vm_outcome \<Rightarrow> cpu \<Rightarrow> asm_state \<Rightarrow> entry_result" where
  "vmresume_asm flags result c = vm_entry flags result c [Ret]"

lemma vm_entry_refused:
  assumes "result \<noteq> VMsucceed"
  shows "\<exists>w. vm_entry flags result c [Ret] s = In_host w \<and> a_rip w = read_u64 (a_mem s) (a_reg s RSP) \<and>
    a_reg w = (a_reg s)(RSP := a_reg s RSP + 8)"
  using assms by (simp add: vm_entry_def exec_simps)

lemma current_field_read: "vmcs_ok hw c \<Longrightarrow> vmcs_read hw f c = Maybe_value v \<Longrightarrow> current_field c f = v"
  using vmcs_read_ok by (auto simp: vmcs_ok_def current_field_def)

text \<open>The control structure after an exit was handled.\<close>

lemma exit_current_field:
  assumes ok: "vmcs_ok hw c" and r: "cpu_vmcs c = Some r"
    and "vm_exit_handler hw vmresume ctx c = Some (Vmm_resume ctx' c')"
  shows "current_field c' f = (if f = field_guest_rip
    then cpu_vmcs_data c r field_guest_rip + cpu_vmcs_data c r field_vm_exit_instruction_length else cpu_vmcs_data c r f)"
proof -
  obtain ctx2 c2 q where h: "vm_exit_handler hw vmresume ctx c = Some (Vmm_resume ctx2 c2)" "cpu_vmcs c = Some q" "cpu_vmcs c2 = Some q"
    "cpu_vmcs_data c2 = (cpu_vmcs_data c)(q := (cpu_vmcs_data c q)(field_guest_rip :=
       cpu_vmcs_data c q field_guest_rip + cpu_vmcs_data c q field_vm_exit_instruction_length))"
    by (rule exit_handled [OF ok, of c vmresume ctx]) (auto simp: exits_to_def)
  then show ?thesis using assms(2,3) by (simp add: current_field_def)
qed

section \<open>What a launch leaves in the control structure\<close>

lemma launched_guest_fields:
  assumes hw: "vmx_accepts hw" and root: "enter_root_mode hw hv4 c2 = (success, c3)"
    and launch: "vm_launch hw env ctx hv4 (setup_vmcs hw (env_mem env) ctx hv4 c3) = (g, h, hv', c')"
  shows "vmcs_ok hw c'" and "vmcs_read hw field_guest_rip c' = Maybe_value (c_rip ctx)"
    and "vmcs_read hw field_guest_rsp c' = Maybe_value (c_rsp ctx)"
    and "(f, v) \<in> set (setup_fields (env_mem env) ctx hv4) \<Longrightarrow>
      f \<notin> {field_host_rip, field_host_rsp, field_guest_rip, field_guest_rsp} \<Longrightarrow> vmcs_read hw f c' = Maybe_value v"
proof -
  let ?c4 = "setup_vmcs hw (env_mem env) ctx hv4 c3"
  let ?ps = "[(field_host_rip, env_vm_exit_entry env), (field_host_rsp, env_stack_end env - 2 * sizeof_context),
    (field_guest_rip, c_rip ctx), (field_guest_rsp, c_rsp ctx)]"
  have c3: "vmcs_ok hw c3"
    using hw root enter_root_mode_enters [of hw hv4 c2] by (auto simp: vmx_accepts_def vmcs_ok_accepts)
  note c4 = setup_vmcs_read(2) [OF c3, of "env_mem env" ctx hv4]
  have c': "c' = run_writes (map (\<lambda>(f, v). vmcs_write hw f v) ?ps) ?c4"
    using launch by (auto simp: vm_launch_def Let_def vmcs_set_host_rip_def vmcs_set_host_rsp_def
        vmcs_set_guest_rip_def vmcs_set_guest_rsp_def)
  have d: "distinct (map fst ?ps)"
    by (simp add: field_host_rip_def field_host_rsp_def field_guest_rip_def field_guest_rsp_def)
  show "vmcs_ok hw c'" unfolding c' by (rule run_writes_read(2) [OF c4 d])
  show "vmcs_read hw field_guest_rip c' = Maybe_value (c_rip ctx)" "vmcs_read hw field_guest_rsp c' = Maybe_value (c_rsp ctx)"
    unfolding c' run_writes_read(1) [OF c4 d]
    by (simp_all add: field_host_rip_def field_host_rsp_def field_guest_rip_def field_guest_rsp_def)
  show "vmcs_read hw f c' = Maybe_value v" if "(f, v) \<in> set (setup_fields (env_mem env) ctx hv4)"
    and "f \<notin> {field_host_rip, field_host_rsp, field_guest_rip, field_guest_rsp}"
    using vm_launch_read [OF c4 launch] that setup_vmcs_read(1) [OF c3] by (simp add: setup_fields_distinct)
qed

primrec context_seg :: "cpu_context \<Rightarrow> seg \<Rightarrow> u16" where
  "context_seg c CS = c_cs c"
| "context_seg c DS = c_ds c"
| "context_seg c ES = c_es c"
| "context_seg c FS = c_fs c"
| "context_seg c GS = c_gs c"
| "context_seg c SS = c_ss c"

lemma ucast_selector: "ucast (ucast w :: u64) = (w :: u16)"
  by (rule bit_eqI) (auto simp: bit_simps)

lemma launched_current_fields:
  assumes launch: "launch_processor hw this env ctx state c = Some (g, hv', c')" and ok: "c_rax g = 0" and hw: "vmx_accepts hw"
  shows "current_field c' field_guest_rip = c_rip ctx" and "current_field c' field_guest_rsp = c_rsp ctx"
    and "current_field c' field_guest_rflags = c_rflags ctx"
    and "ucast (current_field c' (selector_field x)) = context_seg ctx x"
    and "g = ctx\<lparr>c_rip := env_vmlaunch env, c_rflags := c_rflags (env_host_context env), c_rax := 0\<rparr>"
proof -
  obtain r where r: "hypervisor_main hw env ctx (entered ctx (case state of Some hv \<Rightarrow> hv | None \<Rightarrow> create_once this)) c = Some (r, hv', c')"
    "c_rax g = 0 \<longleftrightarrow> (\<exists>gc hc. r = Main_launched gc hc)"
    "case r of Main_error e \<Rightarrow> g = ctx\<lparr>c_rax := of_int (hv_error_code e)\<rparr> | Main_launched gc hc \<Rightarrow> g = gc"
    using launch_processor_main [OF launch] .
  then obtain hc where m: "hypervisor_main hw env ctx (entered ctx (case state of Some hv \<Rightarrow> hv | None \<Rightarrow> create_once this)) c =
      Some (Main_launched g hc, hv', c')" using ok by auto
  obtain hv4 c2 c3 where s: "enter_root_mode hw hv4 c2 = (success, c3)"
    "vm_launch hw env ctx hv4 (setup_vmcs hw (env_mem env) ctx hv4 c3) = (g, hc, hv', c')"
    using main_launched_steps [OF m] by metis
  note f = launched_guest_fields [OF hw s] and cur = current_field_read [OF launched_guest_fields(1) [OF hw s]]
  show "current_field c' field_guest_rip = c_rip ctx" "current_field c' field_guest_rsp = c_rsp ctx"
    by (rule cur, rule f)+
  have "(field_guest_rflags, c_rflags ctx) \<in> set (setup_fields (env_mem env) ctx hv4)"
    by (simp add: setup_fields_def Let_def)
  from f(4) [OF this] show "current_field c' field_guest_rflags = c_rflags ctx"
    by (intro cur) (simp add: field_guest_rflags_def field_host_rip_def field_host_rsp_def field_guest_rip_def field_guest_rsp_def)
  have "(selector_field x, ucast (context_seg ctx x)) \<in> set (setup_fields (env_mem env) ctx hv4)"
    by (cases x) (simp_all add: setup_fields_def Let_def)
  from f(4) [OF this] have "current_field c' (selector_field x) = ucast (context_seg ctx x)"
    by (intro cur) (cases x; simp add: setup_field_defs field_host_rip_def field_host_rsp_def field_guest_rip_def field_guest_rsp_def)
  then show "ucast (current_field c' (selector_field x)) = context_seg ctx x" by (simp add: ucast_selector)
  show "g = ctx\<lparr>c_rip := env_vmlaunch env, c_rflags := c_rflags (env_host_context env), c_rax := 0\<rparr>"
    by (rule launched_context [OF m])
qed

section \<open>Properties\<close>

text \<open>C5: A successful launch puts the caller into the guest.  The context the launch restores reaches
  \<open>vmlaunch\<close>; when the entry succeeds the guest runs where the caller continues, with its stack, flags,
  segments, vector registers and general registers, and 0 in \<open>rax\<close>.  When the processor refuses the entry
  nothing reports it: with 0 in \<open>rax\<close> all the same, the code continues at whatever address lies on top of
  the caller's stack, above its return address.\<close>

theorem guest_starts_at_caller:
  assumes "launch_processor hw this env ctx state c = Some (g, hv', c')" and "c_rax g = 0" and "vmx_accepts hw"
    and "context_at (a_mem m) (a_reg m RDI) = g" and "apart (a_reg m RDI) 0x3a0 (a_reg m RSP - 48) 48"
  shows "let t = run flags restore_context m in a_rip t = env_vmlaunch env \<and>
    (\<exists>u. vmlaunch_asm flags VMsucceed c' t = In_guest u \<and> a_reg u = (context_reg ctx)(RAX := 0) \<and> a_rip u = c_rip ctx \<and>
       a_rflags u = c_rflags ctx \<and> a_seg u = context_seg ctx \<and> (\<forall>i < 16. a_xmm u i = c_xmm ctx i)) \<and>
    (\<forall>result. result \<noteq> VMsucceed \<longrightarrow> (\<exists>w. vmlaunch_asm flags result c' t = In_host w \<and> a_reg w RAX = 0 \<and>
       a_reg w RSP = c_rsp ctx + 8 \<and> a_rip w = read_u64 (a_mem t) (c_rsp ctx)))"
proof -
  note f = launched_current_fields [OF assms(1-3)]
  let ?t = "run flags restore_context m"
  note r = restore_context_run [OF assms(5), of flags, unfolded assms(4) f(5)]
  have reg: "a_reg ?t = (context_reg ctx)(RAX := 0)"
  proof
    fix x show "a_reg ?t x = ((context_reg ctx)(RAX := 0)) x" by (cases x) (simp_all add: r)
  qed
  have seg: "(\<lambda>g. ucast (current_field c' (selector_field g))) = context_seg ctx" using f(4) by (simp add: fun_eq_iff)
  have "\<exists>u. vmlaunch_asm flags VMsucceed c' ?t = In_guest u \<and> a_reg u = (context_reg ctx)(RAX := 0) \<and> a_rip u = c_rip ctx \<and>
       a_rflags u = c_rflags ctx \<and> a_seg u = context_seg ctx \<and> (\<forall>i < 16. a_xmm u i = c_xmm ctx i)"
    by (simp add: vmlaunch_asm_def vm_entry_def guest_state_def f(1-3) seg reg r(5)) (simp add: fun_eq_iff)
  moreover have "\<exists>w. vmlaunch_asm flags result c' ?t = In_host w \<and> a_reg w RAX = 0 \<and>
       a_reg w RSP = c_rsp ctx + 8 \<and> a_rip w = read_u64 (a_mem ?t) (c_rsp ctx)" if "result \<noteq> VMsucceed" for result
    using vm_entry_refused [OF that, of flags c' ?t] by (auto simp: vmlaunch_asm_def reg)
  moreover have "a_rip ?t = env_vmlaunch env" by (simp add: r)
  ultimately show ?thesis by (simp only: Let_def) blast
qed

theorem guest_starts_at_caller_witness:
  "\<exists>g hv' c' m u. launch_processor accepting_hardware 0x1001000 uefi_env zero_context None reset_cpu = Some (g, hv', c') \<and>
     vmlaunch_asm (+) VMsucceed c' (run (+) restore_context m) = In_guest u \<and> a_rip u = 0 \<and> a_reg u = (\<lambda>_. 0)"
proof -
  obtain hvo where found: "found_module uefi_env zero_context reset_cpu 0x1001000 = Some hvo"
    "os_maps_module uefi_memory hvo" "launch_result uefi_memory hvo = success"
    by (rule uefi_found)
  have mem: "env_mem uefi_env = uefi_memory" by (simp add: uefi_env_def)
  obtain g hv' c' where l: "launch_processor accepting_hardware 0x1001000 uefi_env zero_context None reset_cpu = Some (g, hv', c')" "c_rax g = 0"
    using first_processor_result [OF _ uefi_accepts found(1)] found(2,3) uefi_start by (auto simp: mem)
  have g: "g = zero_context\<lparr>c_rip := 0x1100100\<rparr>"
    using launched_current_fields(5) [OF l uefi_accepts] by (simp add: uefi_env_def zero_context_def)
  let ?m = "sample_state\<lparr>a_mem := write_block (0x10000 + 0x80) 8 (byte_of 0x1100100) (\<lambda>_. 0)\<rparr>"
  have zero: "context_at (\<lambda>_. 0) p = zero_context" for p
  proof -
    have "read_le n (\<lambda>_. 0) a = 0" for n a by (induction n arbitrary: a) simp_all
    then show ?thesis
      by (simp add: context_at_def zero_context_def read_u64_def read_u32_def read_u16_def read_xmm_def cong: if_cong)
  qed
  have ctx: "context_at (a_mem ?m) (a_reg ?m RDI) = g"
    using context_at_store(1) [of "0x10000" "0x1100100" "\<lambda>_. 0"] by (simp add: sample_state_def zero g)
  have apart: "apart (a_reg ?m RDI) 0x3a0 (a_reg ?m RSP - 48) 48" by (simp add: sample_state_def apart_def)
  obtain u where u: "vmlaunch_asm (+) VMsucceed c' (run (+) restore_context ?m) = In_guest u"
    "a_reg u = (context_reg zero_context)(RAX := 0)" "a_rip u = c_rip zero_context"
    using guest_starts_at_caller [OF l uefi_accepts ctx apart, of "(+)"] unfolding Let_def by blast
  have "context_reg zero_context x = 0" for x by (cases x) (simp_all add: zero_context_def)
  then have "a_reg u = (\<lambda>_. 0)" "a_rip u = 0" using u(2,3) by (simp_all add: fun_eq_iff zero_context_def)
  with l(1) u(1) show ?thesis by blast
qed

text \<open>C6: A guest survives its exits.  When the compiled code between the assembly does what the handler does
  to the stored context and passes contexts on, the processor gets from the exit through the host to
  \<open>vmresume\<close>; and when the entry succeeds, the guest continues behind the instruction that exited with its
  stack, flags, vector registers, \<open>mxcsr\<close>, x87 state and every general register as they were, except that
  a \<open>cpuid\<close> exit answers in \<open>rax\<close>, \<open>rbx\<close>, \<open>rcx\<close> and \<open>rdx\<close>.  When the processor refuses the entry, the code
  returns, in the host, to the address the guest has in \<open>rax\<close>: that register lies on top of the host stack.\<close>

theorem guest_survives_exit:
  fixes flags ret s prologue vmm
  defines "e \<equiv> run flags (vm_exit_entry ret) s" and "h \<equiv> host_continues flags ret prologue s"
  assumes "vmcs_ok hw c" and "cpu_vmcs c = Some r"
    and "passes_on (a_reg s RSP) 0x740 e (prologue e)"
    and "handles_exit hw vmresume c (a_reg s RSP) h (vmm h)"
    and "vm_exit_handler hw vmresume (context_of s (a_reg s RSP) ret) c = Some (Vmm_resume ctx' c')"
  shows "let t = vm_exit_path flags ret prologue vmm s; data = cpu_vmcs_data c r;
      answer = (if exit_reason_basic (data field_exit_reason) = reason_cpuid
        then context_reg (handle_cpuid hw (context_of s (a_reg s RSP) ret)) else a_reg s) in
    a_rip t = vmresume \<and>
    (\<exists>u. vmresume_asm flags VMsucceed c' t = In_guest u \<and> a_reg u = answer(RSP := data field_guest_rsp) \<and>
       (\<forall>x. x \<notin> {RAX, RBX, RCX, RDX, RSP} \<longrightarrow> a_reg u x = a_reg s x) \<and>
       a_rip u = data field_guest_rip + data field_vm_exit_instruction_length \<and> a_rflags u = data field_guest_rflags \<and>
       (\<forall>i < 16. a_xmm u i = a_xmm s i) \<and> a_mxcsr u = a_mxcsr s \<and> (\<forall>j. x87_byte j \<longrightarrow> a_fx u j = a_fx s j)) \<and>
    (\<forall>result. result \<noteq> VMsucceed \<longrightarrow> (\<exists>w. vmresume_asm flags result c' t = In_host w \<and> a_rip w = answer RAX))"
proof -
  let ?t = "vm_exit_path flags ret prologue vmm s" and ?d = "cpu_vmcs_data c r"
  note p = exit_path_run [where flags = flags and ret = ret and s = s and prologue = prologue and vmm = vmm,
      OF assms(3,4) assms(5) [unfolded e_def] assms(6) [unfolded h_def], unfolded Let_def]
  let ?answer = "if exit_reason_basic (?d field_exit_reason) = reason_cpuid
        then context_reg (handle_cpuid hw (context_of s (a_reg s RSP) ret)) else a_reg s"
  have reg: "a_reg ?t = ?answer" and top: "read_u64 (a_mem ?t) (a_reg s RSP) = a_reg ?t RAX"
    and keep: "\<forall>x. x \<notin> {RAX, RBX, RCX, RDX} \<longrightarrow> a_reg ?t x = a_reg s x" using p by blast+
  then have sp: "a_reg ?t RSP = a_reg s RSP" by simp
  have f: "current_field c' f = (if f = field_guest_rip then ?d field_guest_rip + ?d field_vm_exit_instruction_length else ?d f)" for f
    using exit_current_field [OF assms(3,4,7)] .
  have g: "field_guest_rsp \<noteq> field_guest_rip" "field_guest_rflags \<noteq> field_guest_rip"
    by (simp_all add: field_guest_rsp_def field_guest_rip_def field_guest_rflags_def)
  have "\<exists>w. vmresume_asm flags result c' ?t = In_host w \<and> a_rip w = ?answer RAX" if "result \<noteq> VMsucceed" for result
    using vm_entry_refused [OF that, of flags c' ?t] top by (auto simp: vmresume_asm_def sp simp flip: reg)
  moreover have "\<exists>u. vmresume_asm flags VMsucceed c' ?t = In_guest u \<and> a_reg u = ?answer(RSP := ?d field_guest_rsp) \<and>
       (\<forall>x. x \<notin> {RAX, RBX, RCX, RDX, RSP} \<longrightarrow> a_reg u x = a_reg s x) \<and>
       a_rip u = ?d field_guest_rip + ?d field_vm_exit_instruction_length \<and> a_rflags u = ?d field_guest_rflags \<and>
       (\<forall>i < 16. a_xmm u i = a_xmm s i) \<and> a_mxcsr u = a_mxcsr s \<and> (\<forall>j. x87_byte j \<longrightarrow> a_fx u j = a_fx s j)"
    using p keep by (simp add: vmresume_asm_def vm_entry_def guest_state_def f g flip: reg)
  moreover have "a_rip ?t = vmresume" using p by simp
  ultimately show ?thesis by (simp only: Let_def) blast
qed

theorem guest_survives_exit_witness:
  "let vmm = (\<lambda>h. h\<lparr>a_reg := (a_reg h)(RDI := 0x20000, RSP := 0x1f000), a_mem := write_block (0x20000 + 0x80) 8 (byte_of 0x9000) (a_mem h)\<rparr>);
       t = vm_exit_path (+) 0x5000 (\<lambda>e. e) vmm sample_state
   in a_rip t = 0x9000 \<and> (\<exists>c' u. vmresume_asm (+) VMsucceed c' t = In_guest u \<and> a_rip u = 0x7002 \<and> a_reg u RDI = 0x10000 \<and> a_mxcsr u = 0x1f80)"
proof -
  let ?vmm = "\<lambda>h. h\<lparr>a_reg := (a_reg h)(RDI := 0x20000, RSP := 0x1f000), a_mem := write_block (0x20000 + 0x80) 8 (byte_of 0x9000) (a_mem h)\<rparr>"
  let ?e = "run (+) (vm_exit_entry 0x5000) sample_state" and ?h = "host_continues (+) 0x5000 (\<lambda>e. e) sample_state"
  have sp: "a_reg sample_state RSP = 0x20000" by (simp add: sample_state_def)
  have e: "a_reg ?e RDI = 0x203a0" "a_reg ?e RSP = 0x1fff8" by (simp_all add: vm_exit_entry_run sp)
  have pass: "passes_on (a_reg sample_state RSP) 0x740 ?e ?e"
    unfolding passes_on_def e sp
  proof (intro conjI allI impI)
    show "apart 0x203a0 0x3a0 (0x1fff8 - 48) 48" by (simp add: apart_def)
    fix j :: nat assume j: "j < 0x740"
    have "unat (0x38 + of_nat j :: u64) = 0x38 + j" using j unat_of_nat_u64 [of "0x38 + j"] by simp
    then show "48 \<le> unat (0x20000 + of_nat j - (0x1fff8 - 48) :: u64)" by simp
  qed simp_all
  have handles: "handles_exit accepting_hardware 0x9000 (exited_cpu 18) (a_reg sample_state RSP) ?h (?vmm ?h)"
    unfolding handles_exit_def sp
  proof (intro allI impI conjI)
    fix ctx' c'
    assume h: "vm_exit_handler accepting_hardware 0x9000 (context_at (a_mem ?h) 0x20000) (exited_cpu 18) = Some (Vmm_resume ctx' c')"
    have "exit_reason_basic 18 \<noteq> reason_cpuid" by (simp add: exit_reason_basic_def reason_cpuid_def)
    then have "ctx' = (context_at (a_mem ?h) 0x20000)\<lparr>c_rip := 0x9000\<rparr>"
      using handler_context [OF exited_cpu_ok(1,2) [of 18], of "0x9000" "context_at (a_mem ?h) 0x20000"] h
      by (auto simp: exited_cpu_ok)
    then show "context_at (a_mem (?vmm ?h)) 0x20000 = ctx'"
      using context_at_store(1) [of "0x20000" "0x9000" "a_mem ?h"] by simp
  qed (simp_all add: apart_def)
  obtain ctx' c' where h: "vm_exit_handler accepting_hardware 0x9000 (context_of sample_state (a_reg sample_state RSP) 0x5000) (exited_cpu 18) =
      Some (Vmm_resume ctx' c')" using handler_context [OF exited_cpu_ok(1,2)] by blast
  from guest_survives_exit [where prologue = "\<lambda>e. e" and vmm = ?vmm, OF exited_cpu_ok(1,2) pass handles h]
  obtain u where u: "a_rip (vm_exit_path (+) 0x5000 (\<lambda>e. e) ?vmm sample_state) = 0x9000"
    "vmresume_asm (+) VMsucceed c' (vm_exit_path (+) 0x5000 (\<lambda>e. e) ?vmm sample_state) = In_guest u"
    "\<forall>x. x \<notin> {RAX, RBX, RCX, RDX, RSP} \<longrightarrow> a_reg u x = a_reg sample_state x" "a_mxcsr u = a_mxcsr sample_state"
    "a_rip u = cpu_vmcs_data (exited_cpu 18) 0x1000 field_guest_rip + cpu_vmcs_data (exited_cpu 18) 0x1000 field_vm_exit_instruction_length"
    unfolding Let_def by blast
  have "a_reg u RDI = 0x10000" "a_mxcsr u = 0x1f80" using u(3,4) by (simp_all add: sample_state_def)
  then show ?thesis using u(1,2,5) unfolding Let_def exited_cpu_ok
    by (intro conjI exI [of _ c'] exI [of _ u]) simp_all
qed

end
