(* ===== verification/Loader_Runtime.thy ===== *)
theory Loader_Runtime
  imports Memory
begin

text \<open>
  The runtime functions the loaders for Windows and UEFI bring along
  (\<^verbatim>\<open>windows_loader/src/crt/crt.cpp\<close>, \<^verbatim>\<open>uefi_loader/src/crt/crt.cpp\<close>), and the contract that these and
  those of the hypervisor in \<open>Memory\<close> keep.
\<close>

section \<open>The contract\<close>

text \<open>\<open>dest\<close> does not start inside the source: then the bytes from before the call are copied, and
  nothing else is written.\<close>

locale runtime =
  fixes cpy mov :: "u64 \<Rightarrow> u64 \<Rightarrow> nat \<Rightarrow> memory \<Rightarrow> memory"
    and set :: "u64 \<Rightarrow> u32 \<Rightarrow> nat \<Rightarrow> memory \<Rightarrow> memory"
    and cmp :: "u64 \<Rightarrow> u64 \<Rightarrow> nat \<Rightarrow> memory \<Rightarrow> int"
    and len :: "u64 \<Rightarrow> memory \<Rightarrow> nat option"
  assumes cpy_bytes: "forward_ok dest src n \<Longrightarrow> n \<le> 2 ^ 63 \<Longrightarrow>
      cpy dest src n m x = (if in_range x dest n then m (src + (x - dest)) else m x)"
    and mov_bytes: "forward_ok dest src n \<Longrightarrow> n \<le> 2 ^ 63 \<Longrightarrow>
      mov dest src n m x = (if in_range x dest n then m (src + (x - dest)) else m x)"
    and set_bytes: "set dest v n m x = (if in_range x dest n then ucast v else m x)"
    and cmp_zero: "cmp dest src n m = 0 \<longleftrightarrow> (\<forall>j < n. m (dest + of_nat j) = m (src + of_nat j))"
    and len_first_zero: "m (src + of_nat n) = 0 \<Longrightarrow> \<forall>j < n. m (src + of_nat j) \<noteq> 0 \<Longrightarrow> len src m = Some n"
begin

text \<open>A copy compares equal to its source, and a filled range to any other one filled with the same byte.\<close>

lemma cmp_cpy:
  assumes "forward_ok dest src n" and "n \<le> 2 ^ 63" and "\<forall>j < n. \<not> in_range (src + of_nat j) dest n"
  shows "cmp dest src n (cpy dest src n m) = 0"
proof -
  have "in_range (dest + of_nat j) dest n" if "j < n" for j using that by (auto simp: in_range_def)
  then show ?thesis using assms(3) by (simp add: cmp_zero cpy_bytes [OF assms(1,2)])
qed

lemma cmp_set: "cmp dest src n (set dest v n (set src v n m)) = 0"
proof -
  have "in_range (a + of_nat j) a n" if "j < n" for a and j using that by (auto simp: in_range_def)
  then show ?thesis by (simp add: cmp_zero set_bytes)
qed

lemma len_set: "0 < n \<Longrightarrow> len dest (set dest 0 n m) = Some 0"
proof -
  assume "0 < n"
  then have "in_range (dest + of_nat 0) dest n" unfolding in_range_def by blast
  then show ?thesis by (intro len_first_zero) (simp_all add: set_bytes)
qed

end

interpretation crt: runtime memcpy memmove memset memcmp strlen
  by unfold_locales
    (simp_all add: memcpy_bytes memmove_bytes memset_bytes memcmp_zero strlen_def strlen_from_correct [where i = 0, simplified])

section \<open>The loader for Windows\<close>

definition windows_memcpy :: "u64 \<Rightarrow> u64 \<Rightarrow> nat \<Rightarrow> memory \<Rightarrow> memory" where
  "windows_memcpy dest src count m = loop count (\<lambda>i m. m(dest + of_nat i := m (src + of_nat i))) m"

definition windows_memmove :: "u64 \<Rightarrow> u64 \<Rightarrow> nat \<Rightarrow> memory \<Rightarrow> memory" where
  "windows_memmove dest src count m = loop count (\<lambda>i m. m(dest + of_nat i := m (src + of_nat i))) m"

definition windows_memset :: "u64 \<Rightarrow> u32 \<Rightarrow> nat \<Rightarrow> memory \<Rightarrow> memory" where
  "windows_memset dest v count m = loop count (\<lambda>i m. m(dest + of_nat i := ucast v)) m"

fun windows_memcmp_from :: "nat \<Rightarrow> u64 \<Rightarrow> u64 \<Rightarrow> nat \<Rightarrow> memory \<Rightarrow> int" where
  "windows_memcmp_from 0 dest src i m = 0"
| "windows_memcmp_from (Suc n) dest src i m =
     (let diff = uint (m (dest + of_nat i)) - uint (m (src + of_nat i))
      in if diff \<noteq> 0 then diff else windows_memcmp_from n dest src (i + 1) m)"

definition windows_memcmp :: "u64 \<Rightarrow> u64 \<Rightarrow> nat \<Rightarrow> memory \<Rightarrow> int" where
  "windows_memcmp dest src count m = windows_memcmp_from count dest src 0 m"

partial_function (option) windows_strlen_from :: "u64 \<Rightarrow> nat \<Rightarrow> memory \<Rightarrow> nat option" where
  "windows_strlen_from s i m = (if m (s + of_nat i) = 0 then Some i else windows_strlen_from s (i + 1) m)"

definition windows_strlen :: "u64 \<Rightarrow> memory \<Rightarrow> nat option" where
  "windows_strlen s m = windows_strlen_from s 0 m"

section \<open>The loader for UEFI\<close>

definition uefi_memcpy :: "u64 \<Rightarrow> u64 \<Rightarrow> nat \<Rightarrow> memory \<Rightarrow> memory" where
  "uefi_memcpy dest src count m = loop count (\<lambda>i m. m(dest + of_nat i := m (src + of_nat i))) m"

definition uefi_memmove :: "u64 \<Rightarrow> u64 \<Rightarrow> nat \<Rightarrow> memory \<Rightarrow> memory" where
  "uefi_memmove dest src count m = loop count (\<lambda>i m. m(dest + of_nat i := m (src + of_nat i))) m"

definition uefi_memset :: "u64 \<Rightarrow> u32 \<Rightarrow> nat \<Rightarrow> memory \<Rightarrow> memory" where
  "uefi_memset dest v count m = loop count (\<lambda>i m. m(dest + of_nat i := ucast v)) m"

fun uefi_memcmp_from :: "nat \<Rightarrow> u64 \<Rightarrow> u64 \<Rightarrow> nat \<Rightarrow> memory \<Rightarrow> int" where
  "uefi_memcmp_from 0 dest src i m = 0"
| "uefi_memcmp_from (Suc n) dest src i m =
     (let diff = uint (m (dest + of_nat i)) - uint (m (src + of_nat i))
      in if diff \<noteq> 0 then diff else uefi_memcmp_from n dest src (i + 1) m)"

definition uefi_memcmp :: "u64 \<Rightarrow> u64 \<Rightarrow> nat \<Rightarrow> memory \<Rightarrow> int" where
  "uefi_memcmp dest src count m = uefi_memcmp_from count dest src 0 m"

partial_function (option) uefi_strlen_from :: "u64 \<Rightarrow> nat \<Rightarrow> memory \<Rightarrow> nat option" where
  "uefi_strlen_from s i m = (if m (s + of_nat i) = 0 then Some i else uefi_strlen_from s (i + 1) m)"

definition uefi_strlen :: "u64 \<Rightarrow> memory \<Rightarrow> nat option" where
  "uefi_strlen s m = uefi_strlen_from s 0 m"

section \<open>The contract holds\<close>

text \<open>A search for the first zero byte.\<close>

lemma first_zero:
  fixes f :: "u64 \<Rightarrow> nat \<Rightarrow> memory \<Rightarrow> nat option"
  assumes step: "\<And>i. f s i m = (if m (s + of_nat i) = 0 then Some i else f s (i + 1) m)"
    and "m (s + of_nat (i + n)) = 0" and "\<forall>j < n. m (s + of_nat (i + j)) \<noteq> 0"
  shows "f s i m = Some (i + n)"
proof -
  have "f s i m = Some (i + n)" if "m (s + of_nat (i + n)) = 0" "\<forall>j < n. m (s + of_nat (i + j)) \<noteq> 0" for i
    using that
  proof (induction n arbitrary: i)
    case 0
    then show ?case by (subst step) simp
  next
    case (Suc n)
    have "f s (i + 1) m = Some (i + 1 + n)"
    proof (rule Suc.IH)
      show "m (s + of_nat (i + 1 + n)) = 0" using Suc.prems(1) by simp
      show "\<forall>j < n. m (s + of_nat (i + 1 + j)) \<noteq> 0"
        using Suc.prems(2) by (auto simp: algebra_simps dest: spec [of _ "Suc _"])
    qed
    moreover have "m (s + of_nat i) \<noteq> 0" using Suc.prems(2) by force
    ultimately show ?case by (subst step) simp
  qed
  then show ?thesis using assms(2,3) by blast
qed

lemma windows_memcmp_from_zero:
  "windows_memcmp_from n dest src i m = 0 \<longleftrightarrow> (\<forall>j < n. m (dest + of_nat (i + j)) = m (src + of_nat (i + j)))"
proof -
  have "windows_memcmp_from n dest src i m = memcmp_from n dest src i m"
    by (induction n arbitrary: i) (simp_all add: Let_def)
  then show ?thesis by (simp only: memcmp_from_zero)
qed

lemma windows_strlen_from_correct:
  "m (s + of_nat (i + n)) = 0 \<Longrightarrow> \<forall>j < n. m (s + of_nat (i + j)) \<noteq> 0 \<Longrightarrow> windows_strlen_from s i m = Some (i + n)"
  by (rule first_zero [of "windows_strlen_from"]) (subst windows_strlen_from.simps, rule refl)

interpretation windows_crt: runtime windows_memcpy windows_memmove windows_memset windows_memcmp windows_strlen
proof
  fix dest src :: u64 and n :: nat and m :: memory and v :: u32 and x :: u64
  assume "forward_ok dest src n" "n \<le> 2 ^ 63"
  from memmove_bytes [OF this] show
    "windows_memcpy dest src n m x = (if in_range x dest n then m (src + (x - dest)) else m x)"
    "windows_memmove dest src n m x = (if in_range x dest n then m (src + (x - dest)) else m x)"
    by (simp_all add: windows_memcpy_def windows_memmove_def memmove_def)
next
  fix dest src :: u64 and n :: nat and m :: memory and v :: u32 and x :: u64
  show "windows_memset dest v n m x = (if in_range x dest n then ucast v else m x)"
    using memset_bytes [of dest v n m x] by (simp add: windows_memset_def memset_def)
  show "windows_memcmp dest src n m = 0 \<longleftrightarrow> (\<forall>j < n. m (dest + of_nat j) = m (src + of_nat j))"
    by (simp add: windows_memcmp_def windows_memcmp_from_zero)
  show "windows_strlen src m = Some n" if "m (src + of_nat n) = 0" "\<forall>j < n. m (src + of_nat j) \<noteq> 0"
    using windows_strlen_from_correct [of m src 0 n] that by (simp add: windows_strlen_def)
qed

lemma uefi_memcmp_from_zero:
  "uefi_memcmp_from n dest src i m = 0 \<longleftrightarrow> (\<forall>j < n. m (dest + of_nat (i + j)) = m (src + of_nat (i + j)))"
proof -
  have "uefi_memcmp_from n dest src i m = memcmp_from n dest src i m"
    by (induction n arbitrary: i) (simp_all add: Let_def)
  then show ?thesis by (simp only: memcmp_from_zero)
qed

lemma uefi_strlen_from_correct:
  "m (s + of_nat (i + n)) = 0 \<Longrightarrow> \<forall>j < n. m (s + of_nat (i + j)) \<noteq> 0 \<Longrightarrow> uefi_strlen_from s i m = Some (i + n)"
  by (rule first_zero [of "uefi_strlen_from"]) (subst uefi_strlen_from.simps, rule refl)

interpretation uefi_crt: runtime uefi_memcpy uefi_memmove uefi_memset uefi_memcmp uefi_strlen
proof
  fix dest src :: u64 and n :: nat and m :: memory and v :: u32 and x :: u64
  assume "forward_ok dest src n" "n \<le> 2 ^ 63"
  from memmove_bytes [OF this] show
    "uefi_memcpy dest src n m x = (if in_range x dest n then m (src + (x - dest)) else m x)"
    "uefi_memmove dest src n m x = (if in_range x dest n then m (src + (x - dest)) else m x)"
    by (simp_all add: uefi_memcpy_def uefi_memmove_def memmove_def)
next
  fix dest src :: u64 and n :: nat and m :: memory and v :: u32 and x :: u64
  show "uefi_memset dest v n m x = (if in_range x dest n then ucast v else m x)"
    using memset_bytes [of dest v n m x] by (simp add: uefi_memset_def memset_def)
  show "uefi_memcmp dest src n m = 0 \<longleftrightarrow> (\<forall>j < n. m (dest + of_nat j) = m (src + of_nat j))"
    by (simp add: uefi_memcmp_def uefi_memcmp_from_zero)
  show "uefi_strlen src m = Some n" if "m (src + of_nat n) = 0" "\<forall>j < n. m (src + of_nat j) \<noteq> 0"
    using uefi_strlen_from_correct [of m src 0 n] that by (simp add: uefi_strlen_def)
qed

section \<open>Properties\<close>

text \<open>C39: The runtime functions of the hypervisor and of both loaders keep one contract, the same for all
  three copies: \<open>memcpy\<close> and \<open>memmove\<close> copy the bytes the source held before the call, and change no other
  byte, when the destination does not start inside the source, and the result compares equal when the ranges
  are apart; \<open>strlen\<close> returns the position of the first zero byte; \<open>memset\<close> writes the low byte of its
  argument to the whole range and nothing else.\<close>

theorem runtime_functions_agree:
  "(forward_ok dest src n \<and> n \<le> 2 ^ 63 \<longrightarrow>
      (let copied = memmove dest src n m in
       memcpy dest src n m = copied \<and> windows_memcpy dest src n m = copied \<and> uefi_memcpy dest src n m = copied \<and>
       windows_memmove dest src n m = copied \<and> uefi_memmove dest src n m = copied \<and>
       (\<forall>x. copied x = (if in_range x dest n then m (src + (x - dest)) else m x)) \<and>
       ((\<forall>j < n. \<not> in_range (src + of_nat j) dest n) \<longrightarrow>
          memcmp dest src n copied = 0 \<and> windows_memcmp dest src n copied = 0 \<and> uefi_memcmp dest src n copied = 0))) \<and>
   (m (src + of_nat n) = 0 \<and> (\<forall>j < n. m (src + of_nat j) \<noteq> 0) \<longrightarrow>
      strlen src m = Some n \<and> windows_strlen src m = Some n \<and> uefi_strlen src m = Some n) \<and>
   (\<forall>x. memset dest v n m x = (if in_range x dest n then ucast v else m x)) \<and>
   windows_memset dest v n m = memset dest v n m \<and> uefi_memset dest v n m = memset dest v n m"
proof -
  have copy: "memcpy = memmove" "windows_memcpy = memmove" "uefi_memcpy = memmove" "windows_memmove = memmove" "uefi_memmove = memmove"
    "windows_memset = memset" "uefi_memset = memset"
    by (simp_all add: fun_eq_iff memcpy_def memmove_def memset_def windows_memcpy_def windows_memmove_def windows_memset_def
        uefi_memcpy_def uefi_memmove_def uefi_memset_def)
  have "memcmp dest src n (memmove dest src n m) = 0 \<and> windows_memcmp dest src n (memmove dest src n m) = 0 \<and>
      uefi_memcmp dest src n (memmove dest src n m) = 0"
    if "forward_ok dest src n" "n \<le> 2 ^ 63" "\<forall>j < n. \<not> in_range (src + of_nat j) dest n"
    using crt.cmp_cpy [OF that, of m] windows_crt.cmp_cpy [OF that, of m] uefi_crt.cmp_cpy [OF that, of m] by (simp add: copy)
  then show ?thesis
    unfolding copy Let_def
    by (intro conjI impI allI)
      (simp_all add: crt.mov_bytes crt.set_bytes crt.len_first_zero windows_crt.len_first_zero uefi_crt.len_first_zero)
qed

theorem runtime_functions_agree_witness:
  "windows_memcpy 0x10 0x20 4 (\<lambda>a. ucast a) 0x12 = 0x22 \<and> uefi_memmove 0x10 0x12 4 (\<lambda>a. ucast a) 0x12 = 0x14 \<and>
   uefi_strlen 0x100 (\<lambda>a. if a = 0x102 then 0 else 1) = Some 2"
proof -
  have "in_range 0x12 0x10 4" unfolding in_range_def by (rule exI [of _ 2]) simp
  moreover have "forward_ok 0x10 0x20 4" "forward_ok 0x10 0x12 4" by (simp_all add: forward_ok_def)
  moreover have "\<forall>j < 2. (0x100 :: u64) + of_nat j \<noteq> 0x102" by (simp add: numeral_2_eq_2 less_Suc_eq)
  ultimately show ?thesis
    using runtime_functions_agree [of "0x10" "0x20" 4 "\<lambda>a. ucast a"]
      runtime_functions_agree [of "0x10" "0x12" 4 "\<lambda>a. ucast a"]
      runtime_functions_agree [of 0 "0x100" 2 "\<lambda>a. if a = 0x102 then 0 else 1"] by (simp add: Let_def)
qed

end
