(* ===== verification/Source_Constants.thy ===== *)
theory Source_Constants
  imports Vmx_Setup Elf_Load
begin

text \<open>
  The enumerations of \<^verbatim>\<open>x64/intel/msr.h\<close> and \<^verbatim>\<open>elf_file.h\<close> in full, and that the code which
  computes with their bounds or their first members covers exactly what they list.
\<close>

section \<open>Model-specific registers\<close>

definition ia32_extended_feature_enable :: u32 where "ia32_extended_feature_enable = 0xc0000080"

definition pin_based_controls :: nat where "pin_based_controls = 0x481"
definition processor_based_contorls :: nat where "processor_based_contorls = 0x482"
definition exit_controls :: nat where "exit_controls = 0x483"
definition entry_controls :: nat where "entry_controls = 0x484"
definition misc :: nat where "misc = 0x485"
definition vmcs_enum :: nat where "vmcs_enum = 0x48a"
definition vpid_ept_capability :: nat where "vpid_ept_capability = 0x48c"
definition vm_functions :: nat where "vm_functions = 0x491"

definition vmx_registers :: "nat list" where
  "vmx_registers =
     [vmx_basic, pin_based_controls, processor_based_contorls, exit_controls, entry_controls, misc, cr0_fixed_0, cr0_fixed_1,
      cr4_fixed_0, cr4_fixed_1, vmcs_enum, processor_based_contorls_2, vpid_ept_capability, true_pin_based_controls,
      true_processor_based_controls, true_exit_controls, true_entry_controls, vm_functions]"

text \<open>Each enumerator without a value is one more than the one before it.\<close>

definition mtrr_physbase_1 :: nat where "mtrr_physbase_1 = mtrr_physmask_0 + 1"
definition mtrr_physmask_1 :: nat where "mtrr_physmask_1 = mtrr_physbase_1 + 1"
definition mtrr_physbase_2 :: nat where "mtrr_physbase_2 = mtrr_physmask_1 + 1"
definition mtrr_physmask_2 :: nat where "mtrr_physmask_2 = mtrr_physbase_2 + 1"
definition mtrr_physbase_3 :: nat where "mtrr_physbase_3 = mtrr_physmask_2 + 1"
definition mtrr_physmask_3 :: nat where "mtrr_physmask_3 = mtrr_physbase_3 + 1"
definition mtrr_physbase_4 :: nat where "mtrr_physbase_4 = mtrr_physmask_3 + 1"
definition mtrr_physmask_4 :: nat where "mtrr_physmask_4 = mtrr_physbase_4 + 1"
definition mtrr_physbase_5 :: nat where "mtrr_physbase_5 = mtrr_physmask_4 + 1"
definition mtrr_physmask_5 :: nat where "mtrr_physmask_5 = mtrr_physbase_5 + 1"
definition mtrr_physbase_6 :: nat where "mtrr_physbase_6 = mtrr_physmask_5 + 1"
definition mtrr_physmask_6 :: nat where "mtrr_physmask_6 = mtrr_physbase_6 + 1"
definition mtrr_physbase_7 :: nat where "mtrr_physbase_7 = mtrr_physmask_6 + 1"
definition mtrr_physmask_7 :: nat where "mtrr_physmask_7 = mtrr_physbase_7 + 1"

definition mtrr_pairs :: "(nat \<times> nat) list" where
  "mtrr_pairs =
     [(mtrr_physbase_0, mtrr_physmask_0), (mtrr_physbase_1, mtrr_physmask_1), (mtrr_physbase_2, mtrr_physmask_2),
      (mtrr_physbase_3, mtrr_physmask_3), (mtrr_physbase_4, mtrr_physmask_4), (mtrr_physbase_5, mtrr_physmask_5),
      (mtrr_physbase_6, mtrr_physmask_6), (mtrr_physbase_7, mtrr_physmask_7)]"

lemmas mtrr_register_defs = mtrr_physbase_0_def mtrr_physmask_0_def mtrr_physbase_1_def mtrr_physmask_1_def
  mtrr_physbase_2_def mtrr_physmask_2_def mtrr_physbase_3_def mtrr_physmask_3_def mtrr_physbase_4_def mtrr_physmask_4_def
  mtrr_physbase_5_def mtrr_physmask_5_def mtrr_physbase_6_def mtrr_physmask_6_def mtrr_physbase_7_def mtrr_physmask_7_def

text \<open>\<open>initialize_vmx_msrs\<close> saves every register of the enumeration, and \<open>cached_vmx_msr\<close> gives each of them
  back.\<close>

lemma vmx_registers_range: "vmx_registers = [vmx_begin..<vmx_end]"
  by (simp add: vmx_registers_def vmx_msr_defs pin_based_controls_def processor_based_contorls_def exit_controls_def
      entry_controls_def misc_def vmcs_enum_def vpid_ept_capability_def vm_functions_def upt_rec)

lemma vmx_registers_cached:
  assumes "r \<in> set vmx_registers"
  shows "cached_vmx_msr (initialize_vmx_msrs c hv) r = rdmsr (of_nat r) c"
proof -
  have r: "vmx_begin \<le> r" "r - vmx_begin < vmx_size" using assms by (auto simp: vmx_registers_range vmx_size_def)
  have "\<forall>i < vmx_size. hv_vmx_msrs (initialize_vmx_msrs c hv) i = rdmsr (of_nat (vmx_begin + i)) c"
    unfolding initialize_vmx_msrs_def
    by (rule loop_inv [where I = "\<lambda>k t. \<forall>i < k. hv_vmx_msrs t i = rdmsr (of_nat (vmx_begin + i)) c"])
      (auto simp: less_Suc_eq)
  then show ?thesis using r by (simp add: cached_vmx_msr_def)
qed

text \<open>The registers \<open>initialize_mtrrs\<close> computes for its \<open>i\<close>-th range are the \<open>i\<close>-th pair.\<close>

lemma mtrr_pairs_nth: "i < 8 \<Longrightarrow> mtrr_pairs ! i = (mtrr_physbase_0 + i * 2, mtrr_physmask_0 + i * 2)"
  by (auto simp: mtrr_pairs_def mtrr_register_defs less_Suc_eq numeral_eq_Suc)

section \<open>ELF\<close>

definition elf_machine_x86_64 :: u16 where "elf_machine_x86_64 = 62"
definition elf_machine_aarch64 :: u16 where "elf_machine_aarch64 = 183"
definition relocation_x86_64_relative :: u32 where "relocation_x86_64_relative = 8"
definition relocation_aarch64_relative :: u32 where "relocation_aarch64_relative = 1027"
definition protection_flag_execute :: u32 where "protection_flag_execute = 1"
definition protection_flag_write :: u32 where "protection_flag_write = 2"
definition protection_flag_read :: u32 where "protection_flag_read = 4"

text \<open>Relocations are applied for exactly these two machines.\<close>

lemma relative_relocation_values:
  "relative_relocation_value elf_machine_x86_64 = relocation_x86_64_relative"
  "relative_relocation_value elf_machine_aarch64 = relocation_aarch64_relative"
  "machine \<notin> {elf_machine_x86_64, elf_machine_aarch64} \<Longrightarrow> relative_relocation_value machine = 0"
  by (simp_all add: relative_relocation_value_def elf_machine_x86_64_def elf_machine_aarch64_def
      relocation_x86_64_relative_def relocation_aarch64_relative_def)

end
