(* ===== verification/Vmcs_Types.thy ===== *)
theory Vmcs_Types
  imports Hypervisor_Main
begin

text \<open>
  The widths of the fields of the control structure.  The architecture encodes the width of a field in
  bits 13 and 14 of its number, as the enumeration of \<^verbatim>\<open>x64/intel/vmcs_fields.h\<close> does, and \<open>vmwrite\<close>
  drops the bits of its operand that do not fit.  The accessors of \<^verbatim>\<open>x64/intel/vmcs.h\<close> all take 64-bit
  values, so nothing in the types of the program keeps a value inside its field.
\<close>

section \<open>Widths\<close>

datatype vmcs_width = Width16 | Width64 | Width32 | Natural_width

definition field_width :: "u64 \<Rightarrow> vmcs_width" where
  "field_width f =
     (let w = bits 13 2 f in if w = 0 then Width16 else if w = 1 then Width64 else if w = 2 then Width32 else Natural_width)"

fun width_bits :: "vmcs_width \<Rightarrow> nat" where
  "width_bits Width16 = 16" | "width_bits Width64 = 64" | "width_bits Width32 = 32" | "width_bits Natural_width = 64"

definition fits :: "u64 \<Rightarrow> u64 \<Rightarrow> bool" where
  "fits f v \<longleftrightarrow> take_bit (width_bits (field_width f)) v = v"

lemma take_bit_fits: "take_bit n v = v \<longleftrightarrow> (\<forall>i. bit v i \<longrightarrow> i < n)" for v :: u64
proof
  assume "take_bit n v = v"
  then show "\<forall>i. bit v i \<longrightarrow> i < n" by (metis bit_take_bit_iff)
next
  assume "\<forall>i. bit v i \<longrightarrow> i < n"
  then show "take_bit n v = v" by (intro bit_eqI) (auto simp: bit_take_bit_iff)
qed

lemma fits_iff: "fits f v \<longleftrightarrow> (\<forall>i. bit v i \<longrightarrow> i < width_bits (field_width f))"
  by (simp add: fits_def take_bit_fits)

lemma fits_wide: "width_bits (field_width f) = 64 \<Longrightarrow> fits f v"
  using u64_bit_bound by (auto simp: fits_iff)

lemma fits_selector: "fits f (ucast (v :: u16))"
  by (cases "field_width f") (auto simp: fits_iff bit_ucast_iff dest: bit_imp_le_length)

lemma fits_32: "16 < width_bits (field_width f) \<Longrightarrow> fits f (ucast (v :: u32))"
  by (cases "field_width f") (auto simp: fits_iff bit_ucast_iff dest: bit_imp_le_length)

lemma fits_control: "16 < width_bits (field_width f) \<Longrightarrow> fits f (adjust_msr m v)"
  by (cases "field_width f") (auto simp: fits_iff bit_adjust_msr)

lemma fits_0: "fits f 0"
  by (simp add: fits_iff)

lemma fits_less:
  assumes "unat v < 2 ^ n" and "n \<le> width_bits (field_width f)"
  shows "fits f v"
proof -
  have "bit v i \<Longrightarrow> i < n" for i using take_bit_self_u64 [OF assms(1)] by (simp add: take_bit_fits)
  then show ?thesis using assms(2) by (fastforce simp: fits_iff)
qed

lemma fits_limit: "16 < width_bits (field_width f) \<Longrightarrow> fits f (sd_limit d)"
proof -
  have l: "sd_limit d = bits 0 16 (sd_entry d) OR push_bit 16 (bits 48 4 (sd_entry d))"
    by (simp add: sd_limit_def sd_limit_low_def sd_limit_high_def field_eval)
  show "16 < width_bits (field_width f) \<Longrightarrow> fits f (sd_limit d)"
    by (cases "field_width f") (auto simp: fits_iff l bit_bits bit_or_iff bit_push_bit_iff)
qed

lemmas field_width_eval = field_width_def field_eval

lemma setup_fields_fit:
  assumes "hv_next_virtual_processor hv \<le> max_cpus" and "unat (hv_guest_gdt_limit hv) < 2 ^ 32"
  shows "list_all (\<lambda>(f, v). fits f v) (setup_fields mem ctx hv)"
proof -
  have vpid: "fits field_vpid (of_nat (hv_next_virtual_processor hv))"
    using assms(1) by (intro fits_less [of _ 16])
      (simp_all add: max_cpus_def field_vpid_def field_width_eval unat_of_nat take_bit_nat_eq_self)
  have gdt: "fits field_guest_gdtr_limit (hv_guest_gdt_limit hv)"
    by (rule fits_less [OF assms(2)]) (simp add: field_guest_gdtr_limit_def field_width_eval)
  show ?thesis
    unfolding setup_fields_def Let_def list.pred_inject prod.case
    by (intro conjI vpid gdt; (rule fits_selector fits_0 fits_limit fits_32 fits_control fits_wide; simp add: setup_field_defs field_width_eval; fail)?)
      simp
qed

text \<open>The writes of \<open>vm_launch\<close>.\<close>

definition launch_fields :: "launch_env \<Rightarrow> cpu_context \<Rightarrow> (u64 \<times> u64) list" where
  "launch_fields env ctx =
     [(field_host_rip, env_vm_exit_entry env), (field_host_rsp, env_stack_end env - 2 * sizeof_context),
      (field_guest_rip, c_rip ctx), (field_guest_rsp, c_rsp ctx)]"

lemma launch_fields_writes:
  "snd (snd (snd (vm_launch hw env ctx hv c))) = run_writes (map (\<lambda>(f, v). vmcs_write hw f v) (launch_fields env ctx)) c"
  by (simp add: vm_launch_def Let_def launch_fields_def vmcs_set_host_rip_def vmcs_set_host_rsp_def
      vmcs_set_guest_rip_def vmcs_set_guest_rsp_def)

lemma launch_fields_fit: "list_all (\<lambda>(f, v). fits f v) (launch_fields env ctx)"
  by (simp add: launch_fields_def fits_wide field_width_eval field_host_rip_def field_host_rsp_def
      field_guest_rip_def field_guest_rsp_def)

text \<open>The limit of the table the guest gets.\<close>

lemma intermediate_gdt_limit:
  assumes "initialize_intermediate_gdt mem hv = Some hv'"
  shows "unat (hv_guest_gdt_limit hv') < 2 ^ 32"
proof -
  let ?l = "ucast (tr_limit (hv_gdtr hv)) :: u64"
  have l: "unat ?l < 2 ^ 16" using unsigned_less [where ?'a = nat and w = "tr_limit (hv_gdtr hv)"] by (simp add: unsigned_ucast_eq take_bit_nat_eq_self)
  then have "unat (?l + 16) = unat ?l + 16" by (subst unat_add_lem [THEN iffD1]) simp_all
  then show ?thesis
    using assms l
    by (auto simp: initialize_intermediate_gdt_def copy_os_gdt_def set_gdt_entry_def Let_def split: if_splits bind_splits)
qed

section \<open>Properties\<close>

text \<open>C21: Every value written to the control structure of a guest fits the width of its field: the 68 writes
  of \<open>setup_vmcs\<close> and the four of \<open>vm_launch\<close> are writes of pairs of a field and a value such that no bit of
  the value is beyond the width the number of the field encodes, so \<open>vmwrite\<close> truncates nothing.  The
  limit of the descriptor table is the one \<open>initialize_intermediate_gdt\<close> computed.\<close>

theorem vmcs_values_fit:
  assumes "hv_next_virtual_processor hv \<le> max_cpus"
    and "initialize_intermediate_gdt mem0 hv0 = Some hv1" and "hv_guest_gdt_limit hv = hv_guest_gdt_limit hv1"
  shows "\<exists>ws ls. setup_writes hw mem ctx hv = map (\<lambda>(f, v). vmcs_write hw f v) ws \<and> length ws = 68 \<and>
    snd (snd (snd (vm_launch hw env ctx hv c))) = run_writes (map (\<lambda>(f, v). vmcs_write hw f v) ls) c \<and> length ls = 4 \<and>
    list_all (\<lambda>(f, v). fits f v) (ws @ ls)"
proof (intro exI conjI)
  show "setup_writes hw mem ctx hv = map (\<lambda>(f, v). vmcs_write hw f v) (setup_fields mem ctx hv)"
    by (rule setup_writes_fields)
  show "length (setup_fields mem ctx hv) = 68" unfolding setup_fields_def Let_def by simp
  show "snd (snd (snd (vm_launch hw env ctx hv c))) =
      run_writes (map (\<lambda>(f, v). vmcs_write hw f v) (launch_fields env ctx)) c"
    by (rule launch_fields_writes)
  show "length (launch_fields env ctx) = 4" by (simp add: launch_fields_def)
  have "unat (hv_guest_gdt_limit hv) < 2 ^ 32" using intermediate_gdt_limit [OF assms(2)] assms(3) by simp
  then show "list_all (\<lambda>(f, v). fits f v) (setup_fields mem ctx hv @ launch_fields env ctx)"
    using setup_fields_fit [OF assms(1)] launch_fields_fit by simp
qed

theorem vmcs_values_fit_witness:
  "\<exists>ws. setup_writes accepting_hardware (\<lambda>_. 0) zero_context ((create_once 0x1000)\<lparr>hv_guest_gdt_limit := 31\<rparr>) =
       map (\<lambda>(f, v). vmcs_write accepting_hardware f v) ws \<and> length ws = 68 \<and> list_all (\<lambda>(f, v). fits f v) ws"
proof -
  let ?hv = "(create_once 0x1000)\<lparr>hv_guest_gdt_limit := 31\<rparr>"
  define hv0 where "hv0 = (create_once 0x1000)\<lparr>hv_gdtr := \<lparr>tr_base = 0x5000, tr_limit = 15\<rparr>\<rparr>"
  have hv0: "hv_next_virtual_processor hv0 = 1" "tr_limit (hv_gdtr hv0) = 15" "hv_os_tr hv0 = 0"
    by (simp_all add: hv0_def create_once_def)
  have "\<not> sd_present (from_memory m base 0)" for m base
    by (simp add: from_memory_def empty_descriptor_def sd_present_def)
  then obtain hv1 where i: "initialize_intermediate_gdt (\<lambda>_. 0) hv0 = Some hv1" and l: "unat (hv_guest_gdt_limit hv1) = 31"
    using initialize_intermediate_gdt_new_tss [of 0 hv0 2 "\<lambda>_. 0"] by (auto simp: hv0 max_cpus_def)
  have "hv_guest_gdt_limit ?hv = hv_guest_gdt_limit hv1" using l by (simp add: word_unat_eq_iff)
  moreover have "hv_next_virtual_processor ?hv \<le> max_cpus" by (simp add: create_once_def max_cpus_def)
  ultimately show ?thesis
    using vmcs_values_fit [OF _ i, of ?hv accepting_hardware "\<lambda>_. 0" zero_context] by (simp only: list_all_append) blast
qed

end
