(* ===== verification/Os_Translation.thy ===== *)
theory Os_Translation
  imports Host_Mapping
begin

text \<open>
  The translation \<open>os_page_table::virtual_to_physical\<close> (\<^verbatim>\<open>x64/os_page_table.cpp\<close>) against the walk of the
  processor over the same tables.
\<close>

section \<open>Tables seen through a direct map\<close>

text \<open>The function \<open>physical_to_virtual\<close> of the operating system gives, for the frame of every table, an
  address at which the program reads the contents of the frame.\<close>

definition direct_mapped :: "(u64 \<Rightarrow> u64) \<Rightarrow> (u64 \<Rightarrow> u64) \<Rightarrow> (u64 \<Rightarrow> u64) \<Rightarrow> bool" where
  "direct_mapped mem pmem p2v \<longleftrightarrow>
     (\<forall>f. \<forall>i < 512. mem (p2v (push_bit 12 (bits 12 40 f)) + 8 * of_nat i) = pmem (push_bit 12 (bits 12 40 f) + 8 * of_nat i))"

text \<open>The entries of the walk.\<close>

definition walk_pdpte :: "(u64 \<Rightarrow> u64) \<Rightarrow> u64 \<Rightarrow> u64 \<Rightarrow> u64" where
  "walk_pdpte pmem cr3 a = pmem (push_bit 12 (bits 12 40 (pmem (push_bit 12 (bits 12 40 cr3) + 8 * va_pml4e a))) + 8 * va_pdpte a)"

definition walk_pde :: "(u64 \<Rightarrow> u64) \<Rightarrow> u64 \<Rightarrow> u64 \<Rightarrow> u64" where
  "walk_pde pmem cr3 a = pmem (push_bit 12 (bits 12 40 (walk_pdpte pmem cr3 a)) + 8 * va_pde a)"

lemma direct_mapped_read:
  assumes "direct_mapped mem pmem p2v" and "unat i < 512"
  shows "mem (p2v (push_bit 12 (bits 12 40 f)) + 8 * i) = pmem (push_bit 12 (bits 12 40 f) + 8 * i)"
  using assms(1) [unfolded direct_mapped_def, rule_format, OF assms(2), of f] by simp

text \<open>The entry the processor finds is the entry the program finds.\<close>

lemma os_walk:
  assumes "direct_mapped mem pmem p2v" and "take_bit 52 cr3 = cr3"
  defines "os \<equiv> os_page_table_of cr3 (Some p2v)"
  shows "os_pdpte mem os p2v a = walk_pdpte pmem cr3 a" and "os_pde mem os p2v a = walk_pde pmem cr3 a"
    and "os_pte mem os p2v a = pmem (push_bit 12 (bits 12 40 (walk_pde pmem cr3 a)) + 8 * va_pte a)"
    and "physical_to_virtual os = Some p2v"
proof -
  have m: "(0xfffffffffffff000 :: u64) = NOT (mask 12)" by (simp add: mask_eq_exp_minus_1)
  have "cr3 AND 0xfffffffffffff000 = push_bit 12 (bits 12 40 cr3)"
    unfolding m
  proof (rule bit_eqI)
    fix i
    have "bit cr3 i \<Longrightarrow> i < 52" using assms(2) by (metis bit_take_bit_iff)
    then show "bit (cr3 AND NOT (mask 12)) i \<longleftrightarrow> bit (push_bit 12 (bits 12 40 cr3)) i"
      by (auto simp: bit_and_iff bit_not_iff bit_mask_iff bit_push_bit_iff bit_bits dest: u64_bit_bound)
  qed
  then have "os_pml4 os = p2v (push_bit 12 (bits 12 40 cr3))" by (simp add: os_def os_page_table_of_def)
  then show pdpte: "os_pdpte mem os p2v a = walk_pdpte pmem cr3 a"
    using direct_mapped_read [OF assms(1) va_index_less(4)] direct_mapped_read [OF assms(1) va_index_less(3)]
    by (simp add: os_pdpte_def walk_pdpte_def pte_page_number.get_eq)
  show pde: "os_pde mem os p2v a = walk_pde pmem cr3 a"
    unfolding os_pde_def walk_pde_def pdpte pte_page_number.get_eq by (rule direct_mapped_read [OF assms(1) va_index_less(2)])
  show "os_pte mem os p2v a = pmem (push_bit 12 (bits 12 40 (walk_pde pmem cr3 a)) + 8 * va_pte a)"
    unfolding os_pte_def pde pte_page_number.get_eq by (rule direct_mapped_read [OF assms(1) va_index_less(1)])
  show "physical_to_virtual os = Some p2v" by (simp add: os_def os_page_table_of_def)
qed

section \<open>Large pages\<close>

text \<open>The program shifts the number of the frame, which counts pages of 4 KB, as if it counted large pages.\<close>

lemma large_shift:
  assumes "0 < k" and "k \<le> 40" and "bits 12 k e = 0"
  shows "push_bit (12 + k) (bits 12 40 e) = push_bit (12 + k) (bits (12 + k) (40 - k) e) \<longleftrightarrow>
    bits (12 + k) (40 - k) e = 0"
proof
  assume eq: "push_bit (12 + k) (bits 12 40 e) = push_bit (12 + k) (bits (12 + k) (40 - k) e)"
  have "12 \<le> i \<Longrightarrow> i < 52 \<Longrightarrow> \<not> bit e i" for i
  proof (induction i rule: less_induct)
    case (less i)
    show ?case
    proof (cases "i < 12 + k")
      case True
      have "\<not> bit (bits 12 k e) (i - 12)" using assms(3) by simp
      then show ?thesis using True less.prems by (simp add: bit_bits)
    next
      case False
      have "bit (push_bit (12 + k) (bits 12 40 e)) i \<longleftrightarrow> bit e (i - k)"
        using False less.prems by (auto simp: bit_push_bit_iff bit_bits)
      moreover have "bit (push_bit (12 + k) (bits (12 + k) (40 - k) e)) i \<longleftrightarrow> bit e i"
        using False less.prems assms(2) by (auto simp: bit_push_bit_iff bit_bits)
      moreover have "\<not> bit e (i - k)" using less.IH [of "i - k"] False less.prems assms(1) by simp
      ultimately show ?thesis using eq by simp
    qed
  qed
  then show "bits (12 + k) (40 - k) e = 0" by (intro bit_eqI) (auto simp: bit_bits)
next
  assume "bits (12 + k) (40 - k) e = 0"
  have "bits 12 40 e = 0"
  proof (rule bit_eqI)
    fix i
    have "\<not> bit (bits 12 k e) i" "\<not> bit (bits (12 + k) (40 - k) e) (i - k)"
      using assms(3) \<open>bits (12 + k) (40 - k) e = 0\<close> by simp_all
    then show "bit (bits 12 40 e) i \<longleftrightarrow> bit (0 :: u64) i"
      by (cases "i < k") (auto simp: bit_bits)
  qed
  then show "push_bit (12 + k) (bits 12 40 e) = push_bit (12 + k) (bits (12 + k) (40 - k) e)"
    using \<open>bits (12 + k) (40 - k) e = 0\<close> by simp
qed

lemma large_base:
  assumes "m < 64" and "n + m \<le> 64" and "n < 64"
  shows "push_bit n (bits n m e) + bits 0 n a < 2 ^ n \<longleftrightarrow> bits n m e = 0"
proof -
  have b: "unat (bits n m e) < 2 ^ m" "unat (bits 0 n a) < 2 ^ n" using assms by (simp_all add: bits_less)
  have le: "(unat (bits n m e) + 1) * 2 ^ n \<le> 2 ^ m * (2 ^ n :: nat)" using b(1) by (intro mult_right_mono) simp_all
  also have "\<dots> \<le> 2 ^ 64" using assms(2) power_increasing [of "n + m" 64 "2 :: nat"] by (simp add: power_add mult.commute)
  finally have s: "unat (bits n m e) * 2 ^ n + 2 ^ n \<le> 2 ^ 64" by (simp add: algebra_simps)
  moreover have "0 < (2 :: nat) ^ n" by simp
  ultimately have p: "unat (push_bit n (bits n m e)) = unat (bits n m e) * 2 ^ n" by (intro unat_push_bit) linarith
  have "unat (push_bit n (bits n m e) + bits 0 n a) = unat (bits n m e) * 2 ^ n + unat (bits 0 n a)"
    using s b(2) unfolding p [symmetric] by (subst unat_add_lem [THEN iffD1]) simp_all
  moreover have "unat (2 ^ n :: u64) = 2 ^ n" using unat_push_bit [of 1 n] power_strict_increasing [OF assms(3), of "2 :: nat"] by (simp add: push_bit_eq_mult)
  ultimately show ?thesis using b(2) by (cases "unat (bits n m e)") (auto simp: word_less_nat_alt word_unat_eq_iff)
qed

section \<open>Property\<close>

text \<open>Tables with one 2 MB page, at \<open>0x40000000\<close>.\<close>

definition large_page_memory :: "u64 \<Rightarrow> u64" where
  "large_page_memory x = (if x = 0x1000 then 0x2003 else if x = 0x2000 then 0x3003 else if x = 0x3008 then 0x40000083 else 0)"

text \<open>C18: Where the processor translates an address through a page of 4 KB of the tables of the operating system,
  \<open>os_page_table::virtual_to_physical\<close> gives the same physical address.  Where it translates it through a page of
  1 GB or 2 MB (whose reserved bits and memory type bit are zero), the result is right exactly when the page is the
  first one of physical memory: the program shifts the number of the frame, counted in pages of 4 KB, by
  the size of the large page.  \<open>p2v\<close> gives addresses at which the frames of the tables are read.\<close>

theorem os_translation_by_page_size:
  assumes "direct_mapped mem pmem p2v" and "take_bit 52 cr3 = cr3" and "hw_walk pmem cr3 a = Some q"
    and "pte_large (walk_pdpte pmem cr3 a) \<Longrightarrow> bits 12 18 (walk_pdpte pmem cr3 a) = 0"
    and "pte_large (walk_pde pmem cr3 a) \<Longrightarrow> bits 12 9 (walk_pde pmem cr3 a) = 0"
  shows "let v = os_virtual_to_physical mem (os_page_table_of cr3 (Some p2v)) a in
    if pte_large (walk_pdpte pmem cr3 a) then v = q \<longleftrightarrow> q < 2 ^ 30
    else if pte_large (walk_pde pmem cr3 a) then v = q \<longleftrightarrow> q < 2 ^ 21
    else v = q"
proof -
  let ?os = "os_page_table_of cr3 (Some p2v)"
  let ?e3 = "walk_pdpte pmem cr3 a" and ?e2 = "walk_pde pmem cr3 a"
  note w = os_walk [OF assms(1,2)]
  have v: "os_virtual_to_physical mem ?os a =
      (if pte_large ?e3 then push_bit 30 (bits 12 40 ?e3) + bits 0 30 a
       else if pte_large ?e2 then push_bit 21 (bits 12 40 ?e2) + bits 0 21 a
       else push_bit 12 (bits 12 40 (os_pte mem ?os p2v a)) + bits 0 12 a)"
    unfolding w(1) [symmetric] w(2) [symmetric] os_virtual_to_physical_def w(4) option.case Let_def
    by (simp add: os_pdpte_def os_pde_def os_pte_def pte_page_number.get_eq [symmetric] va_huge_offset.get_eq [symmetric]
        va_large_offset.get_eq [symmetric] va_offset.get_eq [symmetric])
  have q: "q = (if pte_large ?e3 then push_bit 30 (bits 30 22 ?e3) + bits 0 30 a
       else if pte_large ?e2 then push_bit 21 (bits 21 31 ?e2) + bits 0 21 a
       else push_bit 12 (bits 12 40 (os_pte mem ?os p2v a)) + bits 0 12 a)"
    using assms(3) unfolding w(3)
    by (auto simp: hw_walk_def Let_def walk_pdpte_def walk_pde_def pte_large.flag_get_eq split: if_splits)
  show ?thesis
    using v q large_shift [of 18 ?e3] large_shift [of 9 ?e2] large_base [where n = 30 and m = 22 and e = ?e3 and a = a]
      large_base [where n = 21 and m = 31 and e = ?e2 and a = a] assms(4,5)
    by (simp add: Let_def)
qed

theorem os_translation_by_page_size_witness:
  "hw_walk large_page_memory 0x1000 0x200123 = Some 0x40000123 \<and>
   os_virtual_to_physical large_page_memory (os_page_table_of 0x1000 (Some (\<lambda>x. x))) 0x200123 \<noteq> 0x40000123"
proof -
  have e: "walk_pdpte large_page_memory 0x1000 0x200123 = 0x3003" "walk_pde large_page_memory 0x1000 0x200123 = 0x40000083"
    by (simp_all add: walk_pdpte_def walk_pde_def large_page_memory_def va_bits field_eval)
  have w: "hw_walk large_page_memory 0x1000 0x200123 = Some 0x40000123"
    by (simp add: hw_walk_def large_page_memory_def va_bits field_eval)
  have "bits 12 9 0x40000083 = 0" "\<not> pte_large 0x3003" "pte_large 0x40000083"
    by (simp_all add: field_eval pte_large_def)
  then show ?thesis
    using os_translation_by_page_size [of large_page_memory large_page_memory "\<lambda>x. x", OF _ _ w] w
    by (simp add: e direct_mapped_def Let_def)
qed

end
