(* ===== verification/Uefi_Main.thy ===== *)
theory Uefi_Main
  imports Os_Loaders
begin

text \<open>
  The rest of \<^verbatim>\<open>uefi_loader/src/main.cpp\<close>: \<open>file_device_path\<close> and \<open>uefi_main\<close>, which loads the hypervisor and
  then looks for the boot loader to continue with.  The boot services are a parameter, a record of functions over
  the memory and the state of the firmware; the constants and sizes of the headers of the firmware interface
  (which are not part of the program) are the record \<open>uefi_constants\<close>.
\<close>

section \<open>The firmware\<close>

type_synonym efi_guid = "u32 \<times> u16 \<times> u16 \<times> u8 list"

definition g_efi_block_io_protocol_guid :: efi_guid where
  "g_efi_block_io_protocol_guid = (0x964E5B21, 0x6459, 0x11D2, [0x8E, 0x39, 0x00, 0xA0, 0xC9, 0x69, 0x72, 0x3B])"

definition g_efi_loaded_image_protocol_guid :: efi_guid where
  "g_efi_loaded_image_protocol_guid = (0x5B1B31A1, 0x9562, 0x11D2, [0x8E, 0x3F, 0x00, 0xA0, 0xC9, 0x69, 0x72, 0x3B])"

definition g_efi_device_path_protocol_guid :: efi_guid where
  "g_efi_device_path_protocol_guid = (0x09576E91, 0x6D3F, 0x11D2, [0x8E, 0x39, 0x00, 0xA0, 0xC9, 0x69, 0x72, 0x3B])"

definition g_efi_device_path_utilities_protocol_guid :: efi_guid where
  "g_efi_device_path_utilities_protocol_guid = (0x0379BE4E, 0xD706, 0x437D, [0xB0, 0x37, 0xED, 0xB8, 0x2F, 0xB7, 0x72, 0xA4])"

definition g_efi_mp_service_protocol_guid :: efi_guid where
  "g_efi_mp_service_protocol_guid = (0x3fdda605, 0xa76e, 0x4f46, [0xad, 0x29, 0x12, 0xf4, 0x53, 0x1b, 0x3d, 0x08])"

record uefi_constants =
  uc_load_error :: u64
  uc_loader_code :: u64
  uc_media_device_path :: u8
  uc_media_filepath :: u8
  uc_end_type :: u8
  uc_end_entire :: u8
  uc_sizeof_device_path :: nat
  uc_sizeof_filepath :: nat
  uc_path_name :: nat

type_synonym 'o firmware = "memory \<times> 'o"

text \<open>A service with an output parameter gives the status with the value stored there.\<close>

record 'o boot_services =
  bs_locate_protocol :: "efi_guid \<Rightarrow> 'o firmware \<Rightarrow> (u64 \<times> u64) \<times> 'o firmware"
  bs_allocate_pool :: "u64 \<Rightarrow> 'o firmware \<Rightarrow> (u64 \<times> u64) \<times> 'o firmware"
  bs_free_pool :: "u64 \<Rightarrow> 'o firmware \<Rightarrow> 'o firmware"
  bs_handle_protocol :: "u64 \<Rightarrow> efi_guid \<Rightarrow> 'o firmware \<Rightarrow> (u64 \<times> u64) \<times> 'o firmware"
  bs_append_device_path :: "u64 \<Rightarrow> u64 \<Rightarrow> u64 \<Rightarrow> 'o firmware \<Rightarrow> u64 \<times> 'o firmware"
  bs_locate_handle_buffer :: "efi_guid \<Rightarrow> 'o firmware \<Rightarrow> (u64 \<times> u64 \<times> u64) \<times> 'o firmware"
  bs_load_image :: "u64 \<Rightarrow> u64 \<Rightarrow> 'o firmware \<Rightarrow> (u64 \<times> u64) \<times> 'o firmware"
  bs_start_image :: "u64 \<Rightarrow> 'o firmware \<Rightarrow> u64 \<times> 'o firmware"
  bs_image_code_type :: "u64 \<Rightarrow> memory \<Rightarrow> u64"

section \<open>The path of a file\<close>

text \<open>A node of a device path starts with its type, its subtype and two bytes of length.  The file name is a
  list of 16-bit characters without the terminating zero.\<close>

definition write_node :: "u64 \<Rightarrow> u8 \<Rightarrow> u8 \<Rightarrow> u8 \<Rightarrow> u8 \<Rightarrow> memory \<Rightarrow> memory" where
  "write_node p type subtype l0 l1 m = m(p := type, p + 1 := subtype, p + 2 := l0, p + 3 := l1)"

definition write_name :: "u64 \<Rightarrow> u16 list \<Rightarrow> memory \<Rightarrow> memory" where
  "write_name a name m =
     loop (2 * length name) (\<lambda>i m. m(a + of_nat i := ucast (drop_bit (8 * (i mod 2)) (name ! (i div 2))))) m"

definition file_path_node :: "uefi_constants \<Rightarrow> u64 \<Rightarrow> u16 list \<Rightarrow> memory \<Rightarrow> memory" where
  "file_path_node c p name m =
     (let file_name_size = 2 * length name; len = (of_nat (file_name_size + uc_sizeof_filepath c) :: u64);
          m = memset p 0 (file_name_size + uc_sizeof_filepath c + uc_sizeof_device_path c) m;
          m = write_node p (uc_media_device_path c) (uc_media_filepath c) (ucast (len AND 0xff)) (ucast (drop_bit 8 len)) m;
          m = write_name (p + of_nat (uc_path_name c)) name m;
          end_of_device_path = p + ucast (m (p + 2)) + push_bit 8 (ucast (m (p + 3)))
      in write_node end_of_device_path (uc_end_type c) (uc_end_entire c) (of_nat (uc_sizeof_device_path c)) 0 m)"

text \<open>\<open>device_path_from_handle\<close> is an object of type \<open>EFI_DEVICE_PATH\<close> at \<open>local\<close>, but \<open>HandleProtocol\<close> stores a
  pointer of eight bytes there: undefined when the object is smaller.\<close>

definition file_device_path ::
  "'o boot_services \<Rightarrow> uefi_constants \<Rightarrow> u64 \<Rightarrow> u64 \<Rightarrow> u16 list \<Rightarrow> 'o firmware \<Rightarrow> (u64 \<times> 'o firmware) option" where
  "file_device_path b c local device file_name s =
     (let ((status, utilities), s) = bs_locate_protocol b g_efi_device_path_utilities_protocol_guid s
      in if efi_error status then Some (0, s)
         else
           (let size = 2 * length file_name + uc_sizeof_filepath c + uc_sizeof_device_path c;
                ((status, p), (mem, os)) = bs_allocate_pool b (of_nat size) s
            in if efi_error status then Some (0, mem, os)
               else
                 (let s = (file_path_node c p file_name mem, os)
                  in if device = 0 then Some (p, s)
                     else
                       (let ((status, interface), (mem, os)) = bs_handle_protocol b device g_efi_device_path_protocol_guid s
                        in if efi_error status then Some (0, bs_free_pool b p (mem, os))
                           else if uc_sizeof_device_path c < 8 then None
                           else
                             (let (path, s) = bs_append_device_path b utilities local p (write_u64 local interface mem, os)
                              in Some (path, bs_free_pool b p s))))))"

section \<open>The entry point\<close>

definition boot_file_name :: "u16 list" where
  "boot_file_name =
     0x5c # map of_char ''EFI'' @ 0x5c # map of_char ''BOOT'' @ 0x5c # map of_char ''bootx64.efi''"

text \<open>The body of the loop over the file systems: a status ends \<open>uefi_main\<close>, \<open>None\<close> continues.\<close>

definition boot_from ::
  "'o boot_services \<Rightarrow> uefi_constants \<Rightarrow> u64 \<Rightarrow> u64 \<Rightarrow> u64 \<Rightarrow> 'o firmware \<Rightarrow> ('o firmware \<times> u64 option) option" where
  "boot_from b c local image_handle file_system s =
     (let ((status, block_io), s) = bs_handle_protocol b file_system g_efi_block_io_protocol_guid s
      in if efi_error status then Some (s, None)
         else do {
           (file_path, s) \<leftarrow> file_device_path b c local file_system boot_file_name s;
           (if file_path = 0 then Some (s, Some (uc_load_error c))
            else
              (let ((status, image), s) = bs_load_image b image_handle file_path s;
                   s = bs_free_pool b file_path s
               in if efi_error status then Some (s, None)
                  else
                    (let ((status, info), s) = bs_handle_protocol b image g_efi_loaded_image_protocol_guid s
                     in if efi_error status \<or> bs_image_code_type b info (fst s) \<noteq> uc_loader_code c then Some (s, None)
                        else (let (status, s) = bs_start_image b image s in Some (s, Some status)))))
         })"

definition uefi_loader_services ::
  "'o uefi_services \<Rightarrow> (u64 \<Rightarrow> nat \<Rightarrow> u64 \<Rightarrow> ('m \<times> 'o) call) \<Rightarrow> (u64 \<Rightarrow> nat \<Rightarrow> u64 \<Rightarrow> ('m \<times> 'o) call) \<Rightarrow> ('m, 'o) loader_services" where
  "uefi_loader_services u invoke_entry enter =
     \<lparr>ls_allocate_rwx = uefi_allocate_rwx u, ls_physical_to_virtual = 0, ls_call_on_cpu = uefi_call_on_cpu u,
      ls_number_of_cpus = uefi_number_of_cpus u, ls_adjust = Some invoke_entry, ls_enter = enter\<rparr>"

text \<open>\<open>mp\<close> gives the services behind \<open>g_boot_services\<close> and \<open>g_mp_services\<close> for the pointer to the latter,
  \<open>invoke_entry\<close> and \<open>enter\<close> are the calls of a function of the hypervisor.\<close>

definition uefi_main ::
  "'o boot_services \<Rightarrow> uefi_constants \<Rightarrow> (u64 \<Rightarrow> 'o uefi_services) \<Rightarrow> u64 \<Rightarrow> (u64 \<Rightarrow> nat \<Rightarrow> u64 \<Rightarrow> ('m \<times> 'o) call) \<Rightarrow>
   (u64 \<Rightarrow> nat \<Rightarrow> u64 \<Rightarrow> ('m \<times> 'o) call) \<Rightarrow> u64 \<Rightarrow> u64 \<Rightarrow> memory \<Rightarrow> 'm \<times> 'o \<Rightarrow> (u64 \<times> memory \<times> 'm \<times> 'o) option" where
  "uefi_main b c mp local invoke_entry enter binary image_handle mem s =
     (let (m, os) = s; ((status, g_mp_services), (mem, os)) = bs_locate_protocol b g_efi_mp_service_protocol_guid (mem, os)
      in if efi_error status then Some (uc_load_error c, mem, m, os)
         else do {
           (result, mem, m, os) \<leftarrow> zpp_load_elf (uefi_loader_services (mp g_mp_services) invoke_entry enter) binary mem (m, os);
           (if result \<noteq> 0 then Some (uc_load_error c, mem, m, os)
            else
              (let ((status, handles, buffer), (mem, os)) = bs_locate_handle_buffer b g_efi_block_io_protocol_guid (mem, os)
               in if efi_error status then Some (uc_load_error c, mem, m, os)
                  else do {
                    ((mem, os), r) \<leftarrow> loop_ret (unat handles)
                      (\<lambda>i s. boot_from b c local image_handle (read_u64 (fst s) (buffer + 8 * of_nat i)) s) (mem, os);
                    Some (case r of Some status \<Rightarrow> status | None \<Rightarrow> 0, mem, m, os)
                  }))
         })"

section \<open>No path, no boot loader\<close>

lemma file_device_path_null:
  assumes "file_device_path b c local device name s = Some (path, s')" and "uc_sizeof_device_path c < 8" and "device \<noteq> 0"
  shows "path = 0"
  using assms by (auto simp: file_device_path_def Let_def split: prod.splits if_splits)

lemma file_device_path_services:
  assumes "uc_sizeof_device_path c < 8" and "device \<noteq> 0"
  shows "file_device_path (b\<lparr>bs_append_device_path := f, bs_load_image := g, bs_start_image := h\<rparr>) c local device name s =
    file_device_path b c local device name s"
  using assms by (simp add: file_device_path_def Let_def split: prod.split)

definition null_handle_refused :: "'o boot_services \<Rightarrow> bool" where
  "null_handle_refused b \<longleftrightarrow> (\<forall>guid s. efi_error (fst (fst (bs_handle_protocol b 0 guid s))))"

lemma null_handle_refusedD:
  "null_handle_refused b \<Longrightarrow> bs_handle_protocol b 0 guid s = ((status, i), s') \<Longrightarrow> efi_error status"
  unfolding null_handle_refused_def by (metis fst_conv)

lemma boot_from_path:
  assumes "uc_sizeof_device_path c < 8" and "null_handle_refused b"
  shows "boot_from b c local image_handle file_system s =
    (let ((status, block_io), s) = bs_handle_protocol b file_system g_efi_block_io_protocol_guid s
     in if efi_error status then Some (s, None)
        else map_option (\<lambda>(_, s). (s, Some (uc_load_error c))) (file_device_path b c local file_system boot_file_name s))"
proof -
  obtain status io s1 where h: "bs_handle_protocol b file_system g_efi_block_io_protocol_guid s = ((status, io), s1)"
    by (metis surj_pair)
  show ?thesis
  proof (cases "efi_error status")
    case True
    then show ?thesis by (simp add: boot_from_def h)
  next
    case False
    then have d: "file_system \<noteq> 0" using null_handle_refusedD [OF assms(2)] h by blast
    show ?thesis
    proof (cases "file_device_path b c local file_system boot_file_name s1")
      case None
      then show ?thesis using False by (simp add: boot_from_def h)
    next
      case (Some r)
      obtain path s2 where r: "r = (path, s2)" by (cases r)
      have "path = 0" using file_device_path_null [OF _ assms(1) d] Some r by blast
      then show ?thesis using False Some r by (simp add: boot_from_def h)
    qed
  qed
qed

lemma boot_from_services:
  assumes "uc_sizeof_device_path c < 8" and "null_handle_refused b"
  shows "boot_from (b\<lparr>bs_append_device_path := f, bs_load_image := g, bs_start_image := h\<rparr>) c local image_handle file_system s =
    boot_from b c local image_handle file_system s"
proof -
  let ?b = "b\<lparr>bs_append_device_path := f, bs_load_image := g, bs_start_image := h\<rparr>"
  have n: "null_handle_refused ?b" using assms(2) by (simp add: null_handle_refused_def)
  obtain status io s1 where e: "bs_handle_protocol b file_system g_efi_block_io_protocol_guid s = ((status, io), s1)"
    by (metis surj_pair)
  show ?thesis
    using null_handle_refusedD [OF assms(2), of g_efi_block_io_protocol_guid s] e
      file_device_path_services [OF assms(1), where b = b and f = f and g = g and h = h and device = file_system and local = local and s = s1 and name = boot_file_name]
    by (cases "file_system = 0") (auto simp: boot_from_path [OF assms] boot_from_path [OF assms(1) n])
qed

lemma loop_ret_returned:
  "loop_ret n f s = Some (t, Some e) \<Longrightarrow> \<exists>i < n. \<exists>u. f i u = Some (t, Some e)"
proof (induction n)
  case 0
  then show ?case by simp
next
  case (Suc n)
  then show ?case by (auto split: bind_splits option.splits) (use less_Suc_eq in blast)+
qed

section \<open>The bytes of the path\<close>

lemma read_u16_two: "read_u16 m a = w" if "m a = ucast w" and "m (a + 1) = ucast (drop_bit 8 w)"
proof (rule bit_word_eqI)
  fix i
  assume "i < LENGTH(16)"
  then show "bit (read_u16 m a) i \<longleftrightarrow> bit w i"
    using that by (cases "i < 8")
      (auto simp: read_u16_def bit_ucast_iff numeral_2_eq_2 bit_or_iff bit_push_bit_iff bit_drop_bit_eq)
qed

lemma write_name_bytes:
  assumes "2 * length name < 2 ^ 64" and "j < 2 ^ 64"
  shows "write_name a name m (a + of_nat j) =
    (if j < 2 * length name then ucast (drop_bit (8 * (j mod 2)) (name ! (j div 2))) else m (a + of_nat j))"
proof -
  let ?f = "\<lambda>i. ucast (drop_bit (8 * (i mod 2)) (name ! (i div 2))) :: u8"
  let ?I = "\<lambda>k t. \<forall>j < 2 ^ 64. t (a + of_nat j) = (if j < k then ?f j else m (a + of_nat j))"
  have "?I (2 * length name) (write_name a name m)"
    unfolding write_name_def
  proof (rule loop_inv [where I = ?I])
    fix i t
    assume i: "i < 2 * length name" and I: "?I i t"
    show "?I (Suc i) (t(a + of_nat i := ?f i))"
    proof (intro allI impI)
      fix j :: nat
      assume "j < 2 ^ 64"
      then show "(t(a + of_nat i := ?f i)) (a + of_nat j) = (if j < Suc i then ?f j else m (a + of_nat j))"
        using I offset_inj [of j i a] i assms by (auto simp: less_Suc_eq)
    qed
  qed simp
  then show ?thesis using assms(2) by simp
qed

lemma length_bytes:
  assumes "n < 65536"
  shows "(ucast (ucast (of_nat n AND 0xff :: u64) :: u8) :: u64) + push_bit 8 (ucast (ucast (drop_bit 8 (of_nat n :: u64)) :: u8)) =
    of_nat n" (is "?a + ?b = _")
proof -
  have "take_bit 16 (of_nat n :: u64) = of_nat n"
    using assms unat_of_nat_u64 [of n] by (intro take_bit_self_u64) simp
  then have n: "bit (of_nat n :: u64) i \<Longrightarrow> i < 16" for i by (metis bit_take_bit_iff)
  have m: "(0xff :: u64) = mask 8" by (simp add: mask_eq_exp_minus_1)
  have a: "bit ?a i \<longleftrightarrow> i < 8 \<and> bit (of_nat n :: u64) i" for i
    unfolding m by (auto simp: bit_ucast_iff bit_and_iff bit_mask_iff)
  have b: "bit ?b i \<longleftrightarrow> 8 \<le> i \<and> i < 16 \<and> bit (of_nat n :: u64) i" for i
    by (auto simp: bit_push_bit_iff bit_ucast_iff bit_drop_bit_eq)
  have "?a + ?b = ?a OR ?b" by (rule disjunctive_add) (auto simp: a b)
  also have "\<dots> = of_nat n" by (rule bit_eqI) (use n in \<open>auto simp: a b bit_or_iff\<close>)
  finally show ?thesis .
qed

text \<open>The bytes of a node at an offset.\<close>

lemma write_node_bytes:
  assumes "k + 4 \<le> 2 ^ 64" and "j < 2 ^ 64"
  shows "write_node (a + of_nat k) t0 t1 l0 l1 m (a + of_nat j) =
    (if k \<le> j \<and> j < k + 4 then [t0, t1, l0, l1] ! (j - k) else m (a + of_nat j))"
proof -
  have o: "a + of_nat j = a + of_nat k + of_nat i \<longleftrightarrow> j = k + i" if "i < 4" for i
    using offset_inj [of j "k + i" a] that assms by (simp add: add.assoc)
  show ?thesis using o [of 0] o [of 1] o [of 2] o [of 3]
    by (auto simp: write_node_def nth_Cons' numeral_2_eq_2 numeral_3_eq_3)
qed

text \<open>The constants of the UEFI specification for x64.\<close>

definition uefi_constants_x64 :: uefi_constants where
  "uefi_constants_x64 =
     \<lparr>uc_load_error = 0x8000000000000001, uc_loader_code = 1, uc_media_device_path = 4, uc_media_filepath = 4,
      uc_end_type = 0x7f, uc_end_entire = 0xff, uc_sizeof_device_path = 4, uc_sizeof_filepath = 4, uc_path_name = 4\<rparr>"

section \<open>Properties\<close>

text \<open>The device path of a file.  With the sizes of the interface of the firmware, \<open>file_device_path\<close> lays out,
  inside the block of \<open>2 n + 8\<close> bytes it allocated, a node with the type, the length \<open>2 n + 4\<close> and the
  \<open>n\<close> characters of the name, and directly behind the last character, where a path name has its terminating zero,
  the node that ends the path; no byte outside the block changes.\<close>

theorem file_path_layout:
  assumes "uc_sizeof_device_path c = 4" and "uc_sizeof_filepath c = 4" and "uc_path_name c = 4" and "2 * length name + 4 < 65536"
  shows "let t = file_path_node c p name m in t p = uc_media_device_path c \<and> t (p + 1) = uc_media_filepath c \<and>
    unat (t (p + 2)) + 256 * unat (t (p + 3)) = 2 * length name + 4 \<and>
    (\<forall>i < length name. read_u16 t (p + of_nat (4 + 2 * i)) = name ! i) \<and>
    t (p + of_nat (2 * length name + 4)) = uc_end_type c \<and> t (p + of_nat (2 * length name + 5)) = uc_end_entire c \<and>
    t (p + of_nat (2 * length name + 6)) = 4 \<and> t (p + of_nat (2 * length name + 7)) = 0 \<and>
    (\<forall>x. 2 * length name + 8 \<le> unat (x - p) \<longrightarrow> t x = m x)"
proof -
  let ?n = "2 * length name" and ?L = "of_nat (2 * length name + 4) :: u64" and ?t = "file_path_node c p name m"
  define m1 where "m1 = memset p 0 (?n + 8) m"
  define l0 where "l0 = (ucast (?L AND 0xff) :: u8)"
  define l1 where "l1 = (ucast (drop_bit 8 ?L) :: u8)"
  define m2 where "m2 = write_node p (uc_media_device_path c) (uc_media_filepath c) l0 l1 m1"
  define m3 where "m3 = write_name (p + of_nat 4) name m2"
  have m2: "m2 (p + of_nat j) = (if j < 4 then [uc_media_device_path c, uc_media_filepath c, l0, l1] ! j else m1 (p + of_nat j))"
    if "j < 2 ^ 64" for j
    using write_node_bytes [of 0 j p] that by (simp add: m2_def)
  have m3: "m3 (p + of_nat j) = (if j < 4 then m2 (p + of_nat j)
      else if j < 4 + ?n then ucast (drop_bit (8 * ((j - 4) mod 2)) (name ! ((j - 4) div 2))) else m1 (p + of_nat j))"
    if j: "j < 2 ^ 64" for j
  proof (cases "j < 4")
    case True
    have z: "of_nat (2 ^ 64) = (0 :: u64)" by (simp add: word_of_nat_eq_0_iff)
    have "of_nat (2 ^ 64 + j - 4) = (of_nat (2 ^ 64) + of_nat j - 4 :: u64)" by (subst of_nat_diff) simp_all
    then have e: "p + of_nat 4 + of_nat (2 ^ 64 + j - 4) = p + of_nat j" unfolding z by simp
    show ?thesis
      using write_name_bytes [of name "2 ^ 64 + j - 4" "p + of_nat 4" m2, unfolded e, folded m3_def] True assms(4) by auto
  next
    case False
    then have "p + of_nat 4 + of_nat (j - 4) = p + (of_nat j :: u64)" by (simp add: of_nat_diff)
    then show ?thesis
      using write_name_bytes [of name "j - 4" "p + of_nat 4" m2, folded m3_def] m2 [OF j] False j assms(4) by auto
  qed
  have h: "m3 p = uc_media_device_path c" "m3 (p + 1) = uc_media_filepath c" "m3 (p + 2) = l0" "m3 (p + 3) = l1"
    using m3 [of 0] m3 [of 1] m3 [of 2] m3 [of 3] m2 [of 0] m2 [of 1] m2 [of 2] m2 [of 3] by simp_all
  have l: "ucast l0 + push_bit 8 (ucast l1) = ?L" unfolding l0_def l1_def by (rule length_bytes [OF assms(4)])
  then have t: "?t = write_node (p + ?L) (uc_end_type c) (uc_end_entire c) 4 0 m3"
    using h(3,4) by (simp add: file_path_node_def Let_def assms(1-3) add.assoc m1_def m2_def m3_def l0_def l1_def)
  have tb: "?t (p + of_nat j) =
      (if ?n + 4 \<le> j \<and> j < ?n + 8 then [uc_end_type c, uc_end_entire c, 4, 0] ! (j - (?n + 4)) else m3 (p + of_nat j))"
    if "j < 2 ^ 64" for j
    unfolding t using write_node_bytes [of "?n + 4" j p] that assms(4) by simp
  have head: "?t p = uc_media_device_path c" "?t (p + 1) = uc_media_filepath c" "?t (p + 2) = l0" "?t (p + 3) = l1"
    using tb [of 0] tb [of 1] tb [of 2] tb [of 3] h by simp_all
  have len: "unat (?t (p + 2)) + 256 * unat (?t (p + 3)) = ?n + 4"
  proof -
    have small: "unat v < 256" for v :: u8 using unsigned_less [where ?'a = nat and w = v] by simp
    have c: "unat (ucast v :: u64) = unat v" for v :: u8
      using small [of v] by (simp add: unsigned_ucast_eq take_bit_nat_eq_self)
    have p: "unat (push_bit 8 (ucast l1) :: u64) = unat l1 * 256" using small [of l1] by (simp add: unat_push_bit c)
    have "unat (ucast l0 + push_bit 8 (ucast l1) :: u64) = unat l0 + 256 * unat l1"
      using small [of l0] small [of l1] by (subst unat_add_lem [THEN iffD1]) (simp_all add: c p)
    moreover have "unat (of_nat (?n + 4) :: u64) = ?n + 4" by (rule unat_of_nat_u64) (use assms(4) in simp)
    ultimately show ?thesis by (simp only: l head)
  qed
  have chars: "read_u16 ?t (p + of_nat (4 + 2 * i)) = name ! i" if "i < length name" for i
  proof (rule read_u16_two)
    show "?t (p + of_nat (4 + 2 * i)) = ucast (name ! i)"
      using tb [of "4 + 2 * i"] m3 [of "4 + 2 * i"] that assms(4) by simp
    show "?t (p + of_nat (4 + 2 * i) + 1) = ucast (drop_bit 8 (name ! i))"
      using tb [of "5 + 2 * i"] m3 [of "5 + 2 * i"] that assms(4) by (simp add: add.assoc)
  qed
  have tail: "?t (p + of_nat (?n + 4)) = uc_end_type c" "?t (p + of_nat (?n + 5)) = uc_end_entire c"
    "?t (p + of_nat (?n + 6)) = 4" "?t (p + of_nat (?n + 7)) = 0"
    using tb [of "?n + 4"] tb [of "?n + 5"] tb [of "?n + 6"] tb [of "?n + 7"] assms(4) by simp_all
  have other: "file_path_node c p name m x = m x" if x: "?n + 8 \<le> unat (x - p)" for x
  proof -
    let ?j = "unat (x - p)"
    have j: "?j < 2 ^ 64" using unsigned_less [where ?'a = nat and w = "x - p"] by simp
    have "\<not> in_range x p (?n + 8)"
    proof
      assume "in_range x p (?n + 8)"
      then obtain i where i: "i < ?n + 8" "x = p + of_nat i" by (auto simp: in_range_def)
      then have "?j = i" using assms(4) by (simp add: unat_of_nat_u64)
      then show False using x i(1) by simp
    qed
    then have "m1 x = m x" by (simp add: m1_def memset_bytes)
    then show ?thesis using tb [OF j] m3 [OF j] x by simp
  qed
  show ?thesis
    using head(1,2) len chars tail other
    by (simp add: Let_def)
qed

theorem file_path_layout_witness:
  "let t = file_path_node uefi_constants_x64 0x5000 boot_file_name (\<lambda>_. 1)
   in t 0x5000 = 4 \<and> read_u16 t 0x5004 = 0x5c \<and> t 0x502e = 0x7f \<and> t 0x502f = 0xff \<and> t 0x5032 = 1"
proof -
  have n: "length boot_file_name = 21" by (simp add: boot_file_name_def)
  let ?t = "file_path_node uefi_constants_x64 0x5000 boot_file_name (\<lambda>_. 1)"
  note f = file_path_layout [of uefi_constants_x64 boot_file_name "0x5000" "\<lambda>_. 1", unfolded n Let_def]
  have c: "uc_sizeof_device_path uefi_constants_x64 = 4" "uc_sizeof_filepath uefi_constants_x64 = 4" "uc_path_name uefi_constants_x64 = 4"
    by (simp_all add: uefi_constants_x64_def)
  have i: "\<forall>i < 21. read_u16 ?t (0x5000 + of_nat (4 + 2 * i)) = boot_file_name ! i" using f [OF c] by simp
  have o: "\<forall>x. 2 * 21 + 8 \<le> unat (x - 0x5000) \<longrightarrow> ?t x = 1" using f [OF c] by simp
  show ?thesis
    using f [OF c] i [rule_format, of 0] o [rule_format, of "0x5032"] by (simp add: uefi_constants_x64_def boot_file_name_def)
qed

text \<open>C32: No defined run of \<open>uefi_main\<close> reaches a boot loader.  When \<open>HandleProtocol\<close> refuses a null handle and an
  \<open>EFI_DEVICE_PATH\<close> is smaller than a pointer, the outcome of \<open>uefi_main\<close> does not depend on what
  \<open>AppendDevicePath\<close>, \<open>LoadImage\<close> and \<open>StartImage\<close> do, and every defined outcome is \<open>EFI_LOAD_ERROR\<close> or, when
  \<open>zpp_load_elf\<close> succeeded and left the processors as they are now, \<open>EFI_SUCCESS\<close>.  Without the multiprocessor
  services it is \<open>EFI_LOAD_ERROR\<close> and no processor was touched.\<close>

theorem uefi_main_never_boots:
  assumes "uc_sizeof_device_path c < 8" and "null_handle_refused b"
    and "bs_locate_protocol b g_efi_mp_service_protocol_guid (mem, os) = ((located, g), (mem1, os1))"
  shows "uefi_main (b\<lparr>bs_append_device_path := f, bs_load_image := load, bs_start_image := start\<rparr>) c mp local invoke_entry enter binary image_handle mem (m, os) =
      uefi_main b c mp local invoke_entry enter binary image_handle mem (m, os) \<and>
    (efi_error located \<longrightarrow>
       uefi_main b c mp local invoke_entry enter binary image_handle mem (m, os) = Some (uc_load_error c, mem1, m, os1)) \<and>
    (\<forall>status mem' m' os'.
       uefi_main b c mp local invoke_entry enter binary image_handle mem (m, os) = Some (status, mem', m', os') \<longrightarrow>
       status = uc_load_error c \<or>
       status = 0 \<and> (\<exists>mem2 os2. zpp_load_elf (uefi_loader_services (mp g) invoke_entry enter) binary mem1 (m, os1) = Some (0, mem2, m', os2)))"
proof (intro conjI allI impI)
  let ?b = "b\<lparr>bs_append_device_path := f, bs_load_image := load, bs_start_image := start\<rparr>"
  have services: "bs_locate_protocol ?b = bs_locate_protocol b" "bs_locate_handle_buffer ?b = bs_locate_handle_buffer b"
    by simp_all
  show "uefi_main ?b c mp local invoke_entry enter binary image_handle mem (m, os) =
      uefi_main b c mp local invoke_entry enter binary image_handle mem (m, os)"
    unfolding uefi_main_def boot_from_services [OF assms(1,2)] services ..
  show "uefi_main b c mp local invoke_entry enter binary image_handle mem (m, os) = Some (uc_load_error c, mem1, m, os1)"
    if "efi_error located"
    using that assms(3) by (simp add: uefi_main_def)
  fix status mem' m' os'
  assume r: "uefi_main b c mp local invoke_entry enter binary image_handle mem (m, os) = Some (status, mem', m', os')"
  have b: "boot_from b c local image_handle fs t = Some (t', Some e) \<Longrightarrow> e = uc_load_error c" for fs t t' e
    by (auto simp: boot_from_path [OF assms(1,2)] Let_def split: prod.splits if_splits)
  show "status = uc_load_error c \<or>
      status = 0 \<and> (\<exists>mem2 os2. zpp_load_elf (uefi_loader_services (mp g) invoke_entry enter) binary mem1 (m, os1) = Some (0, mem2, m', os2))"
    using r b assms(3)
    by (auto simp: uefi_main_def Let_def split: prod.splits if_splits bind_splits option.splits dest!: loop_ret_returned)
qed

text \<open>A firmware without multiprocessor services.\<close>

definition bare_firmware :: "unit boot_services" where
  "bare_firmware =
     \<lparr>bs_locate_protocol = (\<lambda>_ s. ((0x800000000000000e, 0), s)), bs_allocate_pool = (\<lambda>_ s. ((0x8000000000000009, 0), s)),
      bs_free_pool = (\<lambda>_ s. s), bs_handle_protocol = (\<lambda>_ _ s. ((0x8000000000000002, 0), s)),
      bs_append_device_path = (\<lambda>_ _ _ s. (0, s)), bs_locate_handle_buffer = (\<lambda>_ s. ((0x800000000000000e, 0, 0), s)),
      bs_load_image = (\<lambda>_ _ s. ((0x800000000000000e, 0), s)), bs_start_image = (\<lambda>_ s. (0, s)), bs_image_code_type = (\<lambda>_ _. 0)\<rparr>"

theorem uefi_main_never_boots_witness:
  "\<forall>mp invoke_entry enter.
     uefi_main (bare_firmware\<lparr>bs_append_device_path := (\<lambda>_ _ _ s. (1, s)), bs_load_image := (\<lambda>_ _ s. ((0, 1), s)), bs_start_image := (\<lambda>_ s. (7, s))\<rparr>)
       uefi_constants_x64 mp 0x7000 invoke_entry enter 0x1000 1 (\<lambda>_. 0) ((), ()) = Some (0x8000000000000001, (\<lambda>_. 0), (), ())"
proof (intro allI)
  fix mp invoke_entry enter
  have c: "uc_sizeof_device_path uefi_constants_x64 < 8" by (simp add: uefi_constants_x64_def)
  have n: "null_handle_refused bare_firmware"
    by (simp add: null_handle_refused_def bare_firmware_def efi_error_def bit_numeral_rec)
  have l: "bs_locate_protocol bare_firmware g_efi_mp_service_protocol_guid (\<lambda>_. 0, ()) = ((0x800000000000000e, 0), (\<lambda>_. 0, ()))"
    by (simp add: bare_firmware_def)
  have "efi_error 0x800000000000000e" by (simp add: efi_error_def bit_numeral_rec)
  then show "uefi_main (bare_firmware\<lparr>bs_append_device_path := (\<lambda>_ _ _ s. (1, s)), bs_load_image := (\<lambda>_ _ s. ((0, 1), s)), bs_start_image := (\<lambda>_ s. (7, s))\<rparr>)
       uefi_constants_x64 mp 0x7000 invoke_entry enter 0x1000 1 (\<lambda>_. 0) ((), ()) = Some (0x8000000000000001, (\<lambda>_. 0), (), ())"
    using uefi_main_never_boots [OF c n l, where f = "\<lambda>_ _ _ s. (1, s)" and load = "\<lambda>_ _ s. ((0, 1), s)" and start = "\<lambda>_ s. (7, s)"
      and mp = mp and local = "0x7000" and invoke_entry = invoke_entry and enter = enter and binary = "0x1000" and image_handle = 1 and m = "()"]
    by (simp add: uefi_constants_x64_def)
qed

end
