(* ===== verification/Root_Mode_Asm.thy ===== *)
theory Root_Mode_Asm
  imports Instruction_Asm
begin

text \<open>
  \<open>enter_root_mode\<close>, \<open>load_intermediate_gdt\<close> and \<open>load_os_gdt\<close> of \<^verbatim>\<open>hypervisor.cpp\<close> as calls of the instruction
  wrappers, whose operands are members of the object and layouts on the stack, and their refinement by the
  functions of \<open>Vmx_Setup\<close> and \<open>Gdt_Setup\<close>.
\<close>

section \<open>The functions as calls\<close>

text \<open>The actions of the guards call wrappers, so the state they act on is \<open>None\<close> once a call did not return.\<close>

definition call_guard :: "u64 \<Rightarrow> (sys_state \<Rightarrow> sys_state) \<Rightarrow> u64 \<Rightarrow> sys_state option scope_guard" where
  "call_guard ret w a = scope_guard_of (\<lambda>y. Option.bind y (call_wrapper ret w a 0 0))"

definition enter_root_mode_calls ::
  "processor \<Rightarrow> (nat \<Rightarrow> u64) \<Rightarrow> u64 \<Rightarrow> u64 \<Rightarrow> hypervisor \<Rightarrow> sys_state \<Rightarrow> (hv_error \<times> sys_state) option" where
  "enter_root_mode_calls p ret vmx_physical vmcs_physical hv y = do {
     y \<leftarrow> call_wrapper (ret 0) (sys_run p cr0_asm) 0 0 0 y;
     let cr0 = sys_reg y RAX;
     y \<leftarrow> call_wrapper (ret 2) (sys_run p cr4_asm) 0 0 0 y;
     let cr4 = sys_reg y RAX;
     y \<leftarrow> call_wrapper (ret 3) (sys_run p set_cr0_asm) (hv_host_cr0 hv) 0 0 y;
     let restore_cr0 = call_guard (ret 4) (sys_run p set_cr0_asm) cr0;
     y \<leftarrow> call_wrapper (ret 5) (sys_run p set_cr4_asm) (hv_host_cr4 hv) 0 0 y;
     let restore_cr4 = call_guard (ret 6) (sys_run p set_cr4_asm) cr4;
     y \<leftarrow> call_wrapper (ret 7) (vmxon_asm p) vmx_physical 0 0 y;
     (if low32 (sys_reg y RAX) \<noteq> 0
      then map_option (Pair vmxon_failed) (leave_scope [restore_cr0, restore_cr4] (Some y))
      else do {
        let turn_off_vmx = call_guard (ret 8) (vmxoff_asm p) 0;
        y \<leftarrow> call_wrapper (ret 9) (vmclear_asm p) vmcs_physical 0 0 y;
        (if low32 (sys_reg y RAX) \<noteq> 0
         then map_option (Pair vmclear_failed) (leave_scope [restore_cr0, restore_cr4, turn_off_vmx] (Some y))
         else do {
           y \<leftarrow> call_wrapper (ret 10) (vmptrld_asm p) vmcs_physical 0 0 y;
           (if low32 (sys_reg y RAX) \<noteq> 0
            then map_option (Pair vmptrld_failed) (leave_scope [restore_cr0, restore_cr4, turn_off_vmx] (Some y))
            else map_option (Pair success) (leave_scope
              [guard_cancel restore_cr0, guard_cancel restore_cr4, guard_cancel turn_off_vmx] (Some y)))
         })
      })
   }"

text \<open>The layout is filled and \<open>lgdt\<close> is called; then \<open>ltr\<close>, with a pointer to the member that holds the selector.\<close>

definition layout_set :: "u64 \<Rightarrow> u64 \<Rightarrow> u16 \<Rightarrow> sys_state \<Rightarrow> sys_state" where
  "layout_set g base limit y =
     sys_store (g + 6) 2 (byte_of (ucast limit)) (sys_store (g + 8) 8 (byte_of base) (layout_init g y))"

definition load_intermediate_gdt_calls ::
  "processor \<Rightarrow> (nat \<Rightarrow> u64) \<Rightarrow> u64 \<Rightarrow> u64 \<Rightarrow> hypervisor \<Rightarrow> sys_state \<Rightarrow> sys_state option" where
  "load_intermediate_gdt_calls p ret lgdt_layout guest_tr hv y = do {
     let y = layout_set lgdt_layout (intermediate_gdt_address (hv_this hv) (hv_next_virtual_processor hv - 1))
       (ucast (hv_intermediate_gdt_limit hv)) y;
     y \<leftarrow> call_wrapper (ret 0) (sys_run p lgdt_asm) (gdt_layout_data lgdt_layout) 0 0 y;
     (if hv_guest_tr hv \<noteq> hv_os_tr hv then call_wrapper (ret 2) (sys_run p ltr_asm) guest_tr 0 0 y else Some y)
   }"

definition load_os_gdt_calls ::
  "processor \<Rightarrow> (nat \<Rightarrow> u64) \<Rightarrow> u64 \<Rightarrow> u64 \<Rightarrow> hypervisor \<Rightarrow> sys_state \<Rightarrow> sys_state option" where
  "load_os_gdt_calls p ret lgdt_layout os_tr hv y = do {
     let y = layout_set lgdt_layout (tr_base (hv_gdtr hv)) (tr_limit (hv_gdtr hv)) y;
     y \<leftarrow> call_wrapper (ret 0) (sys_run p lgdt_asm) (gdt_layout_data lgdt_layout) 0 0 y;
     (if hv_guest_tr hv \<noteq> hv_os_tr hv then call_wrapper (ret 2) (sys_run p ltr_asm) os_tr 0 0 y else Some y)
   }"

section \<open>What a call changes\<close>

text \<open>The stack pointer, the preserved registers and the memory outside the return address are kept; the processor
  is \<open>c\<close> afterwards.\<close>

definition called :: "sys_state \<Rightarrow> cpu \<Rightarrow> sys_state \<Rightarrow> bool" where
  "called y c t \<longleftrightarrow> y_cpu t = c \<and> sys_reg t RSP = sys_reg y RSP \<and> (\<forall>x \<in> sysv_preserved. sys_reg t x = sys_reg y x) \<and>
     (\<forall>x. 8 \<le> unat (x - (sys_reg y RSP - 8)) \<longrightarrow> sys_mem t x = sys_mem y x)"

lemma called_refl: "called y (y_cpu y) y"
  by (simp add: called_def)

lemma called_cpu: "called y c t \<Longrightarrow> y_cpu t = c"
  by (simp add: called_def)

lemma called_read:
  assumes "called y c t" and "apart (sys_reg y RSP - 8) 8 a 8"
  shows "read_u64 (sys_mem t) a = read_u64 (sys_mem y) a"
  unfolding read_u64_def by (rule read_le_cong) (use assms apart_offset [OF assms(2)] in \<open>simp add: called_def\<close>)

lemma call_entry_mem: "8 \<le> unat (x - (sys_reg y RSP - 8)) \<Longrightarrow> sys_mem (call_entry ret a0 a1 a2 y) x = sys_mem y x"
  by (simp add: call_entry_def Let_def sys_simps write_block_def)

lemma call_called_mem:
  assumes "called x c y"
    and "\<And>e. y_cpu e = c \<Longrightarrow> sys_reg e RDI = a0 \<Longrightarrow>
      (\<And>z. 8 \<le> unat (z - (sys_reg x RSP - 8)) \<Longrightarrow> sys_mem e z = sys_mem x z) \<Longrightarrow>
      sys_returns e (w e) \<and> sys_mem (w e) = sys_mem e \<and> y_cpu (w e) = c' \<and> P (w e)"
  shows "\<exists>t. call_wrapper ret w a0 a1 a2 y = Some t \<and> called x c' t \<and> P t"
proof -
  let ?e = "call_entry ret a0 a1 a2 y"
  have sp: "sys_reg y RSP = sys_reg x RSP" using assms(1) by (simp add: called_def)
  have m: "sys_mem ?e z = sys_mem x z" if "8 \<le> unat (z - (sys_reg x RSP - 8))" for z
    using call_entry_mem [of z y] that assms(1) sp by (simp add: called_def)
  have "y_cpu ?e = c" using assms(1) by (simp add: call_entry_frame called_cpu)
  then have w: "sys_returns ?e (w ?e)" "sys_mem (w ?e) = sys_mem ?e" "y_cpu (w ?e) = c'" "P (w ?e)"
    using assms(2) [of ?e] m by (simp_all add: call_entry_frame(2))
  then have "call_wrapper ret w a0 a1 a2 y = Some (w ?e)"
    by (simp add: call_wrapper_def sys_returns_def call_entry_frame)
  moreover have "called x c' (w ?e)"
    using w(1,2,3) m sp assms(1) by (simp add: called_def sys_returns_def call_entry_frame)
  ultimately show ?thesis using w(4) by blast
qed

lemma call_called:
  assumes "called x c y"
    and "\<And>e. y_cpu e = c \<Longrightarrow> sys_reg e RDI = a0 \<Longrightarrow> (apart (sys_reg x RSP - 8) 8 a0 8 \<Longrightarrow> read_u64 (sys_mem e) a0 = read_u64 (sys_mem x) a0) \<Longrightarrow>
      sys_returns e (w e) \<and> sys_mem (w e) = sys_mem e \<and> y_cpu (w e) = c' \<and> P (w e)"
  shows "\<exists>t. call_wrapper ret w a0 a1 a2 y = Some t \<and> called x c' t \<and> P t"
proof (rule call_called_mem [OF assms(1)])
  fix e
  assume e: "y_cpu e = c" "sys_reg e RDI = a0" "\<And>z. 8 \<le> unat (z - (sys_reg x RSP - 8)) \<Longrightarrow> sys_mem e z = sys_mem x z"
  show "sys_returns e (w e) \<and> sys_mem (w e) = sys_mem e \<and> y_cpu (w e) = c' \<and> P (w e)"
    using e(1,2)
  proof (rule assms(2))
    assume "apart (sys_reg x RSP - 8) 8 a0 8"
    then show "read_u64 (sys_mem e) a0 = read_u64 (sys_mem x) a0"
      unfolding read_u64_def by (intro read_le_cong e(3) apart_offset)
  qed
qed

section \<open>The calls\<close>

lemma wrapper_mem:
  "sys_mem (sys_run p cr0_asm y) = sys_mem y" "sys_mem (sys_run p cr4_asm y) = sys_mem y"
  "sys_mem (sys_run p set_cr0_asm y) = sys_mem y" "sys_mem (sys_run p set_cr4_asm y) = sys_mem y"
  "sys_mem (sys_run p lgdt_asm y) = sys_mem y" "sys_mem (sys_run p ltr_asm y) = sys_mem y"
  "y_cpu (sys_run p cr0_asm y) = y_cpu y" "y_cpu (sys_run p cr4_asm y) = y_cpu y"
  by (simp_all add: asm_wrapper_defs sys_simps)

lemma control_calls:
  assumes "called x c y"
  shows "\<exists>t. call_wrapper ret (sys_run p cr0_asm) a0 a1 a2 y = Some t \<and> called x c t \<and> sys_reg t RAX = cpu_cr0 c"
    "\<exists>t. call_wrapper ret (sys_run p cr4_asm) a0 a1 a2 y = Some t \<and> called x c t \<and> sys_reg t RAX = cpu_cr4 c"
    "\<exists>t. call_wrapper ret (sys_run p set_cr0_asm) v a1 a2 y = Some t \<and> called x (set_cr0 v c) t \<and> True"
    "\<exists>t. call_wrapper ret (sys_run p set_cr4_asm) v a1 a2 y = Some t \<and> called x (set_cr4 v c) t \<and> True"
  by (rule call_called [OF assms]; simp add: control_wrappers_run wrapper_mem)+

lemma vmx_calls:
  assumes "called x c y" and "apart (sys_reg x RSP - 8) 8 a 8" and "read_u64 (sys_mem x) a = region"
  shows "\<exists>t. call_wrapper ret (vmxon_asm p) a a1 a2 y = Some t \<and> called x (snd (vmxon (p_hw p) region c)) t \<and>
      (low32 (sys_reg t RAX) \<noteq> 0 \<longleftrightarrow> fst (vmxon (p_hw p) region c))"
    "\<exists>t. call_wrapper ret (vmclear_asm p) a a1 a2 y = Some t \<and> called x (snd (vmclear (p_hw p) region c)) t \<and>
      (low32 (sys_reg t RAX) \<noteq> 0 \<longleftrightarrow> fst (vmclear (p_hw p) region c))"
    "\<exists>t. call_wrapper ret (vmptrld_asm p) a a1 a2 y = Some t \<and> called x (snd (vmptrld (p_hw p) region c)) t \<and>
      (low32 (sys_reg t RAX) \<noteq> 0 \<longleftrightarrow> fst (vmptrld (p_hw p) region c))"
proof -
  have low: "low32 (of_bool b) \<noteq> 0 \<longleftrightarrow> b" for b by (simp add: low32_def)
  have run: "sys_returns e (vmx_wrapper p i e) \<and> sys_mem (vmx_wrapper p i e) = sys_mem e \<and> y_cpu (vmx_wrapper p i e) = y_cpu (vmx_result p i e) \<and>
      (low32 (sys_reg (vmx_wrapper p i e) RAX) \<noteq> 0 \<longleftrightarrow> vmx_outcome p i e = VMfailInvalid)"
    if "sys_mem (vmx_result p i e) = sys_mem e" for e i
    using vmx_wrapper_run [of p i e] that low by simp
  note m = vmx_result_machine [where p = p]
  show "\<exists>t. call_wrapper ret (vmxon_asm p) a a1 a2 y = Some t \<and> called x (snd (vmxon (p_hw p) region c)) t \<and>
      (low32 (sys_reg t RAX) \<noteq> 0 \<longleftrightarrow> fst (vmxon (p_hw p) region c))"
    unfolding vmxon_asm_def
    by (rule call_called [OF assms(1)]) (use run [OF vmx_result_mem(1)] m(1) assms(2,3) in auto)
  show "\<exists>t. call_wrapper ret (vmclear_asm p) a a1 a2 y = Some t \<and> called x (snd (vmclear (p_hw p) region c)) t \<and>
      (low32 (sys_reg t RAX) \<noteq> 0 \<longleftrightarrow> fst (vmclear (p_hw p) region c))"
    unfolding vmclear_asm_def
    by (rule call_called [OF assms(1)]) (use run [OF vmx_result_mem(3)] m(2) assms(2,3) in auto)
  show "\<exists>t. call_wrapper ret (vmptrld_asm p) a a1 a2 y = Some t \<and> called x (snd (vmptrld (p_hw p) region c)) t \<and>
      (low32 (sys_reg t RAX) \<noteq> 0 \<longleftrightarrow> fst (vmptrld (p_hw p) region c))"
    unfolding vmptrld_asm_def
    by (rule call_called [OF assms(1)]) (use run [OF vmx_result_mem(4)] m(3) assms(2,3) in auto)
qed

lemma vmxoff_call:
  assumes "called x c y"
  shows "\<exists>t. call_wrapper ret (vmxoff_asm p) a0 a1 a2 y = Some t \<and> called x (vmxoff c) t \<and> True"
  unfolding vmxoff_asm_def
  by (rule call_called [OF assms])
    (use vmx_wrapper_run [where p = p and i = Vmxoff] vmx_result_mem(2) [of p] vmx_result_machine(5) [where p = p] in auto)

lemma call_guard_destroy: "guard_destroy (call_guard ret w a) (Some y) = call_wrapper ret w a 0 0 y"
  by (simp add: call_guard_def)

lemma restore_guards:
  assumes "called x c y"
  shows "\<exists>t. leave_scope [call_guard r1 (sys_run p set_cr0_asm) v, call_guard r2 (sys_run p set_cr4_asm) w] (Some y) = Some t \<and>
    called x (leave_scope [scope_guard_of (set_cr0 v), scope_guard_of (set_cr4 w)] c) t"
proof -
  obtain y1 where y1: "call_wrapper r2 (sys_run p set_cr4_asm) w 0 0 y = Some y1" "called x (set_cr4 w c) y1"
    using control_calls(4) [OF assms] by blast
  show ?thesis using control_calls(3) [OF y1(2)] y1(1) by (simp add: call_guard_destroy)
qed

lemma restore_guards_off:
  assumes "called x c y"
  shows "\<exists>t. leave_scope [call_guard r1 (sys_run p set_cr0_asm) v, call_guard r2 (sys_run p set_cr4_asm) w, call_guard r3 (vmxoff_asm p) 0] (Some y) = Some t \<and>
    called x (leave_scope [scope_guard_of (set_cr0 v), scope_guard_of (set_cr4 w), scope_guard_of vmxoff] c) t"
proof -
  obtain y1 where y1: "call_wrapper r3 (vmxoff_asm p) 0 0 0 y = Some y1" "called x (vmxoff c) y1"
    using vmxoff_call [OF assms] by blast
  show ?thesis using restore_guards [OF y1(2)] y1(1) by (simp add: call_guard_destroy)
qed

section \<open>Layouts in memory\<close>

lemma layout_set_reads:
  "read_table (sys_mem (layout_set g base limit y)) (gdt_layout_data g) = \<lparr>tr_base = base, tr_limit = limit\<rparr>"
proof -
  have "read_u64 (write_block (g + 6) 2 f (write_block (g + 8) 8 (byte_of base) m)) (g + 8) = base" for f m
    by (simp add: read_pushed_other read_u64_pushed apart_def)
  then show ?thesis
    by (simp add: read_table_def gdt_layout_data_def layout_set_def sys_simps read_u16_word add.assoc)
qed

lemma read_table_apart:
  assumes "apart q 8 a 10" and "\<And>z. 8 \<le> unat (z - q) \<Longrightarrow> m' z = m z"
  shows "read_table m' a = read_table m a"
proof -
  have b: "m' (a + of_nat j) = m (a + of_nat j)" if "j < 10" for j
    using assms(2) [OF apart_offset [OF assms(1) that]] .
  have "read_le 2 m' a = read_le 2 m a" by (rule read_le_cong) (rule b, simp)
  moreover have "read_le 8 m' (a + 2) = read_le 8 m (a + 2)"
  proof (rule read_le_cong)
    fix j :: nat assume "j < 8"
    then show "m' (a + 2 + of_nat j) = m (a + 2 + of_nat j)" using b [of "2 + j"] by (simp add: add.assoc)
  qed
  ultimately show ?thesis by (simp add: read_table_def read_u16_def read_u64_def)
qed

lemma table_load_calls:
  assumes "called x c y"
  shows "apart (sys_reg x RSP - 8) 8 a 10 \<Longrightarrow> \<exists>t. call_wrapper ret (sys_run p lgdt_asm) a a1 a2 y = Some t \<and>
      called x (lgdt (read_table (sys_mem x) a) c) t \<and> True"
    "apart (sys_reg x RSP - 8) 8 a 2 \<Longrightarrow> \<exists>t. call_wrapper ret (sys_run p ltr_asm) a a1 a2 y = Some t \<and>
      called x (ltr (read_u16 (sys_mem x) a) c) t \<and> True"
proof -
  show "\<exists>t. call_wrapper ret (sys_run p lgdt_asm) a a1 a2 y = Some t \<and> called x (lgdt (read_table (sys_mem x) a) c) t \<and> True"
    if a: "apart (sys_reg x RSP - 8) 8 a 10"
  proof (rule call_called_mem [OF assms])
    fix e
    assume e: "y_cpu e = c" "sys_reg e RDI = a" "\<And>z. 8 \<le> unat (z - (sys_reg x RSP - 8)) \<Longrightarrow> sys_mem e z = sys_mem x z"
    have "read_table (sys_mem e) a = read_table (sys_mem x) a" by (rule read_table_apart [OF a e(3)])
    then show "sys_returns e (sys_run p lgdt_asm e) \<and> sys_mem (sys_run p lgdt_asm e) = sys_mem e \<and>
        y_cpu (sys_run p lgdt_asm e) = lgdt (read_table (sys_mem x) a) c \<and> True"
      using e(1,2) by (simp add: control_wrappers_run wrapper_mem)
  qed
  show "\<exists>t. call_wrapper ret (sys_run p ltr_asm) a a1 a2 y = Some t \<and> called x (ltr (read_u16 (sys_mem x) a) c) t \<and> True"
    if a: "apart (sys_reg x RSP - 8) 8 a 2"
  proof (rule call_called_mem [OF assms])
    fix e
    assume e: "y_cpu e = c" "sys_reg e RDI = a" "\<And>z. 8 \<le> unat (z - (sys_reg x RSP - 8)) \<Longrightarrow> sys_mem e z = sys_mem x z"
    have "read_le 2 (sys_mem e) a = read_le 2 (sys_mem x) a" by (rule read_le_cong) (rule e(3), rule apart_offset [OF a])
    then show "sys_returns e (sys_run p ltr_asm e) \<and> sys_mem (sys_run p ltr_asm e) = sys_mem e \<and>
        y_cpu (sys_run p ltr_asm e) = ltr (read_u16 (sys_mem x) a) c \<and> True"
      using e(1,2) by (simp add: control_wrappers_run wrapper_mem read_u16_def)
  qed
qed

text \<open>Both loads of a table, with the selector \<open>tr\<close> in the member at \<open>member\<close>.\<close>

lemma layout_set_frame:
  "y_cpu (layout_set g base limit y) = y_cpu y" "sys_reg (layout_set g base limit y) = sys_reg y"
  by (simp_all add: layout_set_def layout_init_def sys_store_def sys_reg_def store_block_def)

lemma layout_set_other:
  assumes "apart (g + 6) 10 a 2"
  shows "read_u16 (sys_mem (layout_set g base limit y)) a = read_u16 (sys_mem y) a"
proof -
  have a: "apart (g + 6) 2 a 2" "apart (g + 8) 8 a 2"
    using apart_part [OF assms, of 0 2 0 2] apart_part [OF assms, of 2 8 0 2] by (simp_all add: add.assoc)
  show ?thesis
    by (simp add: layout_set_def layout_init_def sys_simps read_u16_def read_le_apart a)
qed

lemma load_table:
  assumes "apart (sys_reg y RSP - 8) 8 (gdt_layout_data g) 10" and "apart (sys_reg y RSP - 8) 8 member 2"
    and "apart (gdt_layout_data g) 10 member 2" and "read_u16 (sys_mem y) member = tr"
  shows "\<exists>t. Option.bind (call_wrapper r0 (sys_run p lgdt_asm) (gdt_layout_data g) 0 0 (layout_set g base limit y))
      (\<lambda>y. if b then call_wrapper r1 (sys_run p ltr_asm) member 0 0 y else Some y) = Some t \<and>
    called (layout_set g base limit y)
      (let c = lgdt \<lparr>tr_base = base, tr_limit = limit\<rparr> (y_cpu y) in if b then ltr tr c else c) t"
proof -
  let ?x = "layout_set g base limit y" and ?c = "lgdt \<lparr>tr_base = base, tr_limit = limit\<rparr> (y_cpu y)"
  have x: "called ?x (y_cpu y) ?x" using called_refl [of ?x] by (simp add: layout_set_frame)
  obtain y1 where y1: "call_wrapper r0 (sys_run p lgdt_asm) (gdt_layout_data g) 0 0 ?x = Some y1" "called ?x ?c y1"
    using table_load_calls(1) [OF x, unfolded layout_set_frame, OF assms(1), unfolded layout_set_reads] by blast
  have "read_u16 (sys_mem ?x) member = tr"
    using layout_set_other assms(3,4) by (simp add: gdt_layout_data_def)
  then show ?thesis
    using table_load_calls(2) [OF y1(2), of member r1 p 0 0] y1 assms(2) by (auto simp: layout_set_frame Let_def)
qed

lemma load_gdt_refines:
  assumes "apart (sys_reg y RSP - 8) 8 (gdt_layout_data lgdt_layout) 10" and "apart (sys_reg y RSP - 8) 8 member 2"
    and "apart (gdt_layout_data lgdt_layout) 10 member 2"
  shows "read_u16 (sys_mem y) member = hv_guest_tr hv \<Longrightarrow>
      \<exists>t. load_intermediate_gdt_calls p ret lgdt_layout member hv y = Some t \<and> y_cpu t = load_intermediate_gdt hv (y_cpu y)"
    "read_u16 (sys_mem y) member = hv_os_tr hv \<Longrightarrow>
      \<exists>t. load_os_gdt_calls p ret lgdt_layout member hv y = Some t \<and> y_cpu t = load_os_gdt hv (y_cpu y)"
proof -
  have eta: "\<lparr>tr_base = tr_base r, tr_limit = tr_limit r\<rparr> = r" for r by simp
  show "\<exists>t. load_intermediate_gdt_calls p ret lgdt_layout member hv y = Some t \<and> y_cpu t = load_intermediate_gdt hv (y_cpu y)"
    if "read_u16 (sys_mem y) member = hv_guest_tr hv"
    using load_table [OF assms that, of "ret 0" p "intermediate_gdt_address (hv_this hv) (hv_next_virtual_processor hv - 1)"
      "ucast (hv_intermediate_gdt_limit hv)" "hv_guest_tr hv \<noteq> hv_os_tr hv" "ret 2"]
    unfolding load_intermediate_gdt_calls_def load_intermediate_gdt_def by (auto simp: Let_def called_cpu)
  show "\<exists>t. load_os_gdt_calls p ret lgdt_layout member hv y = Some t \<and> y_cpu t = load_os_gdt hv (y_cpu y)"
    if "read_u16 (sys_mem y) member = hv_os_tr hv"
    using load_table [OF assms that, of "ret 0" p "tr_base (hv_gdtr hv)" "tr_limit (hv_gdtr hv)" "hv_guest_tr hv \<noteq> hv_os_tr hv" "ret 2"]
    unfolding load_os_gdt_calls_def load_os_gdt_def eta by (auto simp: Let_def called_cpu)
qed

section \<open>Properties\<close>

text \<open>C36: \<open>enter_root_mode\<close> down to the instructions.  Its calls of the wrappers, with pointers to the members that
  hold the physical addresses of the VMX region and of the control structure, all return, on every path; the error it
  returns and the processor it leaves, after the guards ran their restoring calls in reverse order, are those of the
  function of the model, and it writes nothing outside the return addresses on its stack.\<close>

theorem enter_root_mode_refines:
  assumes "apart (sys_reg y RSP - 8) 8 vmx_physical 8" and "apart (sys_reg y RSP - 8) 8 vmcs_physical 8"
    and "read_u64 (sys_mem y) vmx_physical = hv_vmx_physical hv" and "read_u64 (sys_mem y) vmcs_physical = hv_vmcs_physical hv"
  shows "\<exists>t. enter_root_mode_calls p ret vmx_physical vmcs_physical hv y =
      Some (fst (enter_root_mode (p_hw p) hv (y_cpu y)), t) \<and> called y (snd (enter_root_mode (p_hw p) hv (y_cpu y))) t"
proof -
  let ?c = "y_cpu y" and ?hw = "p_hw p" and ?x = "hv_vmx_physical hv" and ?v = "hv_vmcs_physical hv"
  let ?c2 = "set_cr4 (hv_host_cr4 hv) (set_cr0 (hv_host_cr0 hv) ?c)"
  obtain y0 where y0: "call_wrapper (ret 0) (sys_run p cr0_asm) 0 0 0 y = Some y0" "called y ?c y0" "sys_reg y0 RAX = cpu_cr0 ?c"
    using control_calls(1) [OF called_refl] by blast
  obtain y1 where y1: "call_wrapper (ret 2) (sys_run p cr4_asm) 0 0 0 y0 = Some y1" "called y ?c y1" "sys_reg y1 RAX = cpu_cr4 ?c"
    using control_calls(2) [OF y0(2)] by blast
  obtain y2 where y2: "call_wrapper (ret 3) (sys_run p set_cr0_asm) (hv_host_cr0 hv) 0 0 y1 = Some y2" "called y (set_cr0 (hv_host_cr0 hv) ?c) y2"
    using control_calls(3) [OF y1(2)] by blast
  obtain y3 where y3: "call_wrapper (ret 5) (sys_run p set_cr4_asm) (hv_host_cr4 hv) 0 0 y2 = Some y3" "called y ?c2 y3"
    using control_calls(4) [OF y2(2)] by blast
  obtain f4 c4 where c4: "vmxon ?hw ?x ?c2 = (f4, c4)" by (cases "vmxon ?hw ?x ?c2")
  obtain y4 where y4: "call_wrapper (ret 7) (vmxon_asm p) vmx_physical 0 0 y3 = Some y4" "called y c4 y4" "low32 (sys_reg y4 RAX) \<noteq> 0 \<longleftrightarrow> f4"
    using vmx_calls(1) [OF y3(2) assms(1,3)] c4 by fastforce
  obtain f5 c5 where c5: "vmclear ?hw ?v c4 = (f5, c5)" by (cases "vmclear ?hw ?v c4")
  obtain y5 where y5: "call_wrapper (ret 9) (vmclear_asm p) vmcs_physical 0 0 y4 = Some y5" "called y c5 y5" "low32 (sys_reg y5 RAX) \<noteq> 0 \<longleftrightarrow> f5"
    using vmx_calls(2) [OF y4(2) assms(2,4)] c5 by fastforce
  obtain f6 c6 where c6: "vmptrld ?hw ?v c5 = (f6, c6)" by (cases "vmptrld ?hw ?v c5")
  obtain y6 where y6: "call_wrapper (ret 10) (vmptrld_asm p) vmcs_physical 0 0 y5 = Some y6" "called y c6 y6" "low32 (sys_reg y6 RAX) \<noteq> 0 \<longleftrightarrow> f6"
    using vmx_calls(3) [OF y5(2) assms(2,4)] c6 by fastforce
  note run = enter_root_mode_calls_def enter_root_mode_def Let_def
  note v = y0(1,3) y1(1,3) y2(1) y3(1) y4(1,3) y5(1,3) y6(1,3) c4 c5 c6
  consider f4 | "\<not> f4" f5 | "\<not> f4" "\<not> f5" f6 | "\<not> f4" "\<not> f5" "\<not> f6" by blast
  then show ?thesis
  proof cases
    case 1
    with restore_guards [OF y4(2)] show ?thesis unfolding run by (auto simp: v)
  next
    case 2
    with restore_guards_off [OF y5(2)] show ?thesis unfolding run by (auto simp: v)
  next
    case 3
    with restore_guards_off [OF y6(2)] show ?thesis unfolding run by (auto simp: v)
  next
    case 4
    with y6(2) show ?thesis unfolding run by (auto simp: v)
  qed
qed

theorem enter_root_mode_refines_witness:
  "\<forall>p ret hv. \<exists>t. enter_root_mode_calls (p\<lparr>p_hw := accepting_hardware\<rparr>) ret 0x10000 0x10008
       (hv\<lparr>hv_vmx_physical := 0x7000, hv_vmcs_physical := 0\<rparr>) sample_sys = Some (success, t) \<and>
     cpu_vmxon (y_cpu t) = Some 0x7000 \<and> cpu_vmcs (y_cpu t) = Some 0"
proof (intro allI)
  fix p :: processor and ret and hv :: hypervisor
  let ?hv = "hv\<lparr>hv_vmx_physical := 0x7000, hv_vmcs_physical := 0\<rparr>" and ?p = "p\<lparr>p_hw := accepting_hardware\<rparr>"
  have r: "sys_reg sample_sys RSP = 0x20000" by (simp add: sample_sys_def sys_reg_def)
  have "read_u64 (\<lambda>_. 0) (0x10008 :: u64) = 0" by (rule read_u64_bytes) (simp add: byte_of_def)
  then have m: "read_u64 (sys_mem sample_sys) 0x10000 = hv_vmx_physical ?hv" "read_u64 (sys_mem sample_sys) 0x10008 = hv_vmcs_physical ?hv"
    by (simp_all add: sample_sys_def sys_mem_def read_u64_pushed read_pushed_other apart_def)
  have a: "apart (sys_reg sample_sys RSP - 8) 8 0x10000 8" "apart (sys_reg sample_sys RSP - 8) 8 0x10008 8"
    by (simp_all add: r apart_def)
  from enter_root_mode_refines [OF a m, of ?p ret]
  show "\<exists>t. enter_root_mode_calls ?p ret 0x10000 0x10008 ?hv sample_sys = Some (success, t) \<and>
      cpu_vmxon (y_cpu t) = Some 0x7000 \<and> cpu_vmcs (y_cpu t) = Some 0"
    by (auto simp: enter_root_mode_def vmxon_def vmclear_def vmptrld_def accepting_hardware_def Let_def called_def cpu_ops)
qed

end
