(* ===== verification/Exit_Reasons.thy ===== *)
theory Exit_Reasons
  imports Vm_Exit
begin

text \<open>
  The basic exit reasons of \<^verbatim>\<open>x64/intel/vmx_exit_reason.h\<close> and what the exit handler does for each.
\<close>

section \<open>The enumeration\<close>

datatype (plugins only:) basic_reason =
    Reason_exception_or_nmi | Reason_external_interrupt | Reason_triple_fault | Reason_init_signal
  | Reason_start_up_ipi | Reason_io_system_management_interrupt | Reason_other_system_management_interrupt
  | Reason_interrupt_window | Reason_nmi_window | Reason_task_switch | Reason_cpuid | Reason_getsec
  | Reason_hlt | Reason_invd | Reason_invlpg | Reason_rdpmc | Reason_rdtsc | Reason_rsm | Reason_vmcall
  | Reason_vmclear | Reason_vmlaunch | Reason_vmptrld | Reason_vmptrst | Reason_vmread | Reason_vmresume
  | Reason_vmwrite | Reason_vmxoff | Reason_vmxon | Reason_control_register_access | Reason_mov_debug_register
  | Reason_io_instruction | Reason_rdmsr | Reason_wrmsr | Reason_entry_invalid_guest_state
  | Reason_entry_failure_msr_loading | Reason_mwait | Reason_monitor_trap_flag | Reason_monitor | Reason_pause
  | Reason_entry_failure_machine_check_event | Reason_tpr_below_threshold | Reason_apic_access
  | Reason_virtualized_eoi | Reason_gdtr_or_idtr | Reason_ldtr_or_tr | Reason_ept_violation
  | Reason_ept_misconfiguration | Reason_invept | Reason_rdtscp | Reason_vmx_preemption_timer | Reason_invvpid
  | Reason_wbinvd | Reason_xsetbv | Reason_apic_write | Reason_rdrand | Reason_invpcid | Reason_vmfunc
  | Reason_encls | Reason_rdseed | Reason_page_modification_log_full | Reason_xsaves | Reason_xrstors
  | Reason_spp_related_event

text \<open>Second names of the same reason.\<close>

definition reason_io_smi :: basic_reason where "reason_io_smi = Reason_io_system_management_interrupt"
definition reason_other_smi :: basic_reason where "reason_other_smi = Reason_other_system_management_interrupt"
definition reason_mov_dr :: basic_reason where "reason_mov_dr = Reason_mov_debug_register"

fun basic_reason_code :: "basic_reason \<Rightarrow> u32" where
  "basic_reason_code Reason_exception_or_nmi = 0"
| "basic_reason_code Reason_external_interrupt = 1"
| "basic_reason_code Reason_triple_fault = 2"
| "basic_reason_code Reason_init_signal = 3"
| "basic_reason_code Reason_start_up_ipi = 4"
| "basic_reason_code Reason_io_system_management_interrupt = 5"
| "basic_reason_code Reason_other_system_management_interrupt = 6"
| "basic_reason_code Reason_interrupt_window = 7"
| "basic_reason_code Reason_nmi_window = 8"
| "basic_reason_code Reason_task_switch = 9"
| "basic_reason_code Reason_cpuid = 10"
| "basic_reason_code Reason_getsec = 11"
| "basic_reason_code Reason_hlt = 12"
| "basic_reason_code Reason_invd = 13"
| "basic_reason_code Reason_invlpg = 14"
| "basic_reason_code Reason_rdpmc = 15"
| "basic_reason_code Reason_rdtsc = 16"
| "basic_reason_code Reason_rsm = 17"
| "basic_reason_code Reason_vmcall = 18"
| "basic_reason_code Reason_vmclear = 19"
| "basic_reason_code Reason_vmlaunch = 20"
| "basic_reason_code Reason_vmptrld = 21"
| "basic_reason_code Reason_vmptrst = 22"
| "basic_reason_code Reason_vmread = 23"
| "basic_reason_code Reason_vmresume = 24"
| "basic_reason_code Reason_vmwrite = 25"
| "basic_reason_code Reason_vmxoff = 26"
| "basic_reason_code Reason_vmxon = 27"
| "basic_reason_code Reason_control_register_access = 28"
| "basic_reason_code Reason_mov_debug_register = 29"
| "basic_reason_code Reason_io_instruction = 30"
| "basic_reason_code Reason_rdmsr = 31"
| "basic_reason_code Reason_wrmsr = 32"
| "basic_reason_code Reason_entry_invalid_guest_state = 33"
| "basic_reason_code Reason_entry_failure_msr_loading = 34"
| "basic_reason_code Reason_mwait = 36"
| "basic_reason_code Reason_monitor_trap_flag = 37"
| "basic_reason_code Reason_monitor = 39"
| "basic_reason_code Reason_pause = 40"
| "basic_reason_code Reason_entry_failure_machine_check_event = 41"
| "basic_reason_code Reason_tpr_below_threshold = 43"
| "basic_reason_code Reason_apic_access = 44"
| "basic_reason_code Reason_virtualized_eoi = 45"
| "basic_reason_code Reason_gdtr_or_idtr = 46"
| "basic_reason_code Reason_ldtr_or_tr = 47"
| "basic_reason_code Reason_ept_violation = 48"
| "basic_reason_code Reason_ept_misconfiguration = 49"
| "basic_reason_code Reason_invept = 50"
| "basic_reason_code Reason_rdtscp = 51"
| "basic_reason_code Reason_vmx_preemption_timer = 52"
| "basic_reason_code Reason_invvpid = 53"
| "basic_reason_code Reason_wbinvd = 54"
| "basic_reason_code Reason_xsetbv = 55"
| "basic_reason_code Reason_apic_write = 56"
| "basic_reason_code Reason_rdrand = 57"
| "basic_reason_code Reason_invpcid = 58"
| "basic_reason_code Reason_vmfunc = 59"
| "basic_reason_code Reason_encls = 60"
| "basic_reason_code Reason_rdseed = 61"
| "basic_reason_code Reason_page_modification_log_full = 62"
| "basic_reason_code Reason_xsaves = 63"
| "basic_reason_code Reason_xrstors = 64"
| "basic_reason_code Reason_spp_related_event = 66"

text \<open>Every reason, in the order of the enumeration.\<close>

definition basic_reasons :: "basic_reason list" where
  "basic_reasons =
     [Reason_exception_or_nmi, Reason_external_interrupt, Reason_triple_fault, Reason_init_signal,
      Reason_start_up_ipi, Reason_io_system_management_interrupt, Reason_other_system_management_interrupt,
      Reason_interrupt_window, Reason_nmi_window, Reason_task_switch, Reason_cpuid, Reason_getsec, Reason_hlt,
      Reason_invd, Reason_invlpg, Reason_rdpmc, Reason_rdtsc, Reason_rsm, Reason_vmcall, Reason_vmclear,
      Reason_vmlaunch, Reason_vmptrld, Reason_vmptrst, Reason_vmread, Reason_vmresume, Reason_vmwrite,
      Reason_vmxoff, Reason_vmxon, Reason_control_register_access, Reason_mov_debug_register,
      Reason_io_instruction, Reason_rdmsr, Reason_wrmsr, Reason_entry_invalid_guest_state,
      Reason_entry_failure_msr_loading, Reason_mwait, Reason_monitor_trap_flag, Reason_monitor, Reason_pause,
      Reason_entry_failure_machine_check_event, Reason_tpr_below_threshold, Reason_apic_access,
      Reason_virtualized_eoi, Reason_gdtr_or_idtr, Reason_ldtr_or_tr, Reason_ept_violation,
      Reason_ept_misconfiguration, Reason_invept, Reason_rdtscp, Reason_vmx_preemption_timer, Reason_invvpid,
      Reason_wbinvd, Reason_xsetbv, Reason_apic_write, Reason_rdrand, Reason_invpcid, Reason_vmfunc, Reason_encls,
      Reason_rdseed, Reason_page_modification_log_full, Reason_xsaves, Reason_xrstors, Reason_spp_related_event]"

lemma basic_reasons_all: "r \<in> set basic_reasons"
  by (cases r; simp add: basic_reasons_def)

lemma basic_reason_code_strict: "sorted_wrt (<) (map (unat \<circ> basic_reason_code) basic_reasons)"
  by (simp add: basic_reasons_def sorted_wrt2 sorted_wrt1 del: sorted_wrt.simps(2))

lemma basic_reason_code_less: "unat (basic_reason_code r) < 67"
  by (cases r; simp)

text \<open>Different reasons have different codes, so a code names at most one reason.\<close>

lemma basic_reason_code_inj: "basic_reason_code r = basic_reason_code r' \<longleftrightarrow> r = r'"
proof
  assume e: "basic_reason_code r = basic_reason_code r'"
  have "distinct (map (unat \<circ> basic_reason_code) basic_reasons)"
    using basic_reason_code_strict by (simp add: strict_sorted_iff)
  then have "inj_on (unat \<circ> basic_reason_code) (set basic_reasons)" by (simp only: distinct_map)
  then show "r = r'" by (rule inj_onD) (simp_all add: e basic_reasons_all)
qed simp

text \<open>\<open>basic()\<close> finds the reason whatever the bits above it are.\<close>

lemma exit_reason_decodes: "exit_reason_basic (ucast (basic_reason_code r) OR push_bit 8 v) = basic_reason_code r"
proof (rule bit_eqI)
  have m: "(0xff :: u64) = mask 8" by (simp add: mask_eq_exp_minus_1)
  have "take_bit 8 (basic_reason_code r) = basic_reason_code r" by (cases r) (simp_all add: take_bit_eq_mask mask_eq_exp_minus_1)
  then have "bit (basic_reason_code r) i \<Longrightarrow> i < 8" for i by (metis bit_take_bit_iff)
  then show "bit (exit_reason_basic (ucast (basic_reason_code r) OR push_bit 8 v)) i \<longleftrightarrow> bit (basic_reason_code r) i" for i
    unfolding exit_reason_basic_def m by (auto simp: bit_simps dest: bit_imp_le_length)
qed

section \<open>The handler by reason\<close>

lemma reasons_code:
  "reason_cpuid = basic_reason_code Reason_cpuid" "reason_invd = basic_reason_code Reason_invd"
  "reason_xsetbv = basic_reason_code Reason_xsetbv"
  by (simp_all add: reason_defs)

text \<open>All but three reasons, faults of the guest and failed entries (bit 31) among them, only skip the
  instruction that exited.\<close>

definition handled :: "hardware \<Rightarrow> basic_reason \<Rightarrow> cpu_context \<Rightarrow> cpu \<Rightarrow> cpu_context \<times> cpu" where
  "handled hw r ctx c =
     (case r of Reason_cpuid \<Rightarrow> (handle_cpuid hw ctx, c) | Reason_xsetbv \<Rightarrow> (ctx, handle_xsetbv ctx c)
      | Reason_invd \<Rightarrow> (ctx, invd c) | _ \<Rightarrow> (ctx, c))"

lemma handle_reason_handled: "handle_reason hw (basic_reason_code r) ctx c = handled hw r ctx c"
  unfolding handle_reason_def reasons_code basic_reason_code_inj by (cases r) (simp_all add: handled_def)

lemma vm_exit_by_reason:
  assumes "vmcs_ok hw c" and "cpu_vmcs c = Some k"
    and "cpu_vmcs_data c k field_exit_reason = ucast (basic_reason_code r) OR push_bit 8 v"
  shows "vm_exit_handler hw vmresume ctx c =
    (let rip = cpu_vmcs_data c k field_guest_rip; (ctx', c') = handled hw r (ctx\<lparr>c_rip := rip\<rparr>) c
     in Some (Vmm_resume (ctx'\<lparr>c_rip := vmresume\<rparr>)
       (snd (vmcs_set_guest_rip hw (rip + cpu_vmcs_data c k field_vm_exit_instruction_length) c'))))"
  using vm_exit_handler_resumes [OF assms(1,2), of vmresume ctx]
  by (simp add: assms(3) exit_reason_decodes handle_reason_handled Let_def split: prod.split)

end
