(* ===== verification/Small_Map_Iteration.thy ===== *)
theory Small_Map_Iteration
  imports Small_Map
begin

text \<open>
  The rest of \<^verbatim>\<open>small_map.h\<close>: construction from a list of values, destruction, and the constant and reverse
  iterators, with what a traversal visits.  A reverse iterator is the forward iterator behind the element it
  points to, as in \<open>std::reverse_iterator\<close>.  The move assignment (and the copy assignment, which calls it) applies
  \<open>->\<close> to a pair, so no program that uses it compiles: there is no behaviour to model.
\<close>

section \<open>Construction and destruction\<close>

definition small_map_of_values :: "('k \<times> 'v) list \<Rightarrow> ('k :: linorder \<times> 'v) list \<Rightarrow> ('k, 'v) small_map option" where
  "small_map_of_values storage values = small_map_of_range storage values"

definition small_map_destroy :: "('k, 'v) small_map \<Rightarrow> ('k, 'v) small_map" where
  "small_map_destroy m = clear m"

section \<open>Iterators\<close>

definition small_map_cbegin :: "('k, 'v) small_map \<Rightarrow> nat" where "small_map_cbegin m = 0"
definition small_map_cend :: "('k, 'v) small_map \<Rightarrow> nat" where "small_map_cend m = m_size m"
definition small_map_rbegin :: "('k, 'v) small_map \<Rightarrow> nat" where "small_map_rbegin m = small_map_end m"
definition small_map_rend :: "('k, 'v) small_map \<Rightarrow> nat" where "small_map_rend m = small_map_begin m"
definition small_map_crbegin :: "('k, 'v) small_map \<Rightarrow> nat" where "small_map_crbegin m = small_map_cend m"
definition small_map_crend :: "('k, 'v) small_map \<Rightarrow> nat" where "small_map_crend m = small_map_cbegin m"

lemmas small_map_iterators = small_map_cbegin_def small_map_cend_def small_map_rbegin_def small_map_rend_def
  small_map_crbegin_def small_map_crend_def small_map_begin_def small_map_end_def

text \<open>A traversal from one iterator to another, with the values it visits; \<open>None\<close> if it leaves the array.\<close>

partial_function (option) traverse :: "('k, 'v) small_map \<Rightarrow> nat \<Rightarrow> nat \<Rightarrow> ('k \<times> 'v) list option" where
  "traverse m it stop =
     (if it = stop then Some [] else do { x \<leftarrow> small_map_value m it; xs \<leftarrow> traverse m (it + 1) stop; Some (x # xs) })"

partial_function (option) traverse_reverse :: "('k, 'v) small_map \<Rightarrow> nat \<Rightarrow> nat \<Rightarrow> ('k \<times> 'v) list option" where
  "traverse_reverse m it stop =
     (if it = stop then Some [] else if it = 0 then None
      else do { x \<leftarrow> small_map_value m (it - 1); xs \<leftarrow> traverse_reverse m (it - 1) stop; Some (x # xs) })"

lemma traverse_entries:
  assumes "n + it = m_size m" and "m_size m \<le> length (m_storage m)"
  shows "traverse m it (m_size m) = Some (drop it (entries m))"
  using assms
proof (induction n arbitrary: it)
  case 0
  then show ?case by (subst traverse.simps) (simp add: entries_def)
next
  case (Suc n)
  then have "traverse m (it + 1) (m_size m) = Some (drop (it + 1) (entries m))" by simp
  moreover have "drop it (entries m) = m_storage m ! it # drop (it + 1) (entries m)"
    using Suc.prems Cons_nth_drop_Suc [of it "entries m"] by (simp add: entries_def)
  ultimately show ?case using Suc.prems by (subst traverse.simps) (simp add: small_map_value_def)
qed

lemma traverse_reverse_entries:
  assumes "it \<le> m_size m" and "m_size m \<le> length (m_storage m)"
  shows "traverse_reverse m it 0 = Some (rev (take it (entries m)))"
  using assms
proof (induction it)
  case 0
  then show ?case by (subst traverse_reverse.simps) simp
next
  case (Suc it)
  have "take (Suc it) (entries m) = take it (entries m) @ [m_storage m ! it]"
    using Suc.prems take_Suc_conv_app_nth [of it "entries m"] by (simp add: entries_def)
  then show ?case using Suc by (subst traverse_reverse.simps) (simp add: small_map_value_def)
qed

text \<open>Both traversals end and visit every value once: forward in the order of the keys, backward in reverse.\<close>

lemma traversals_visit_entries:
  assumes "small_map_inv m"
  shows "traverse m (small_map_begin m) (small_map_end m) = Some (entries m)"
    and "traverse m (small_map_cbegin m) (small_map_cend m) = Some (entries m)"
    and "traverse_reverse m (small_map_rbegin m) (small_map_rend m) = Some (rev (entries m))"
    and "traverse_reverse m (small_map_crbegin m) (small_map_crend m) = Some (rev (entries m))"
  using assms traverse_entries [of "m_size m" 0 m] traverse_reverse_entries [of "m_size m" m]
  by (auto simp: small_map_iterators small_map_inv_def entries_def)

text \<open>A map constructed from values holds, for each key, the last value given for it.\<close>

lemma insert_range_runs: "small_map_insert_range xs m = run_ops (map (\<lambda>(k, v). Emplace k v) xs) m"
  by (induction xs arbitrary: m) (auto simp: small_map_insert_def split: prod.split bind_splits)

lemma fold_emplace: "fold spec_op (map (\<lambda>(k, v). Emplace k v) xs) f = f ++ map_of (rev xs)"
  by (induction xs arbitrary: f) (auto simp: map_add_upd_left split: prod.split)

lemma small_map_of_values_correct:
  assumes "fits_ops (length storage) (map (\<lambda>(k, v). Emplace k v) values) Map.empty"
  shows "\<exists>m. small_map_of_values storage values = Some m \<and> small_map_inv m \<and> small_map_lookup m = map_of (rev values)"
proof -
  have "fits_ops (length (m_storage (default_map storage))) (map (\<lambda>(k, v). Emplace k v) values) (small_map_lookup (default_map storage))"
    using assms by (simp add: default_map_correct)
  from run_ops_correct [OF default_map_correct(1) this] show ?thesis
    by (auto simp: small_map_of_values_def small_map_of_range_def insert_range_runs fold_emplace default_map_correct)
qed

lemma small_map_destroyed: "entries (small_map_destroy m) = []"
  by (simp add: small_map_destroy_def clear_def entries_def)

end
