(* ===== verification/Spec2Isabelle.thy ===== *)
theory Spec2Isabelle
  imports Vm_Entry Loader_Runtime Source_Constants Vmcs_Types Os_Translation Uefi_Main Root_Mode_Asm Exit_Reasons Small_Map_Iteration
begin

text \<open>
  A verification of zpp\_hypervisor, a hypervisor for Intel processors that is loaded by an operating
  system driver or by UEFI and puts the running system into a virtual machine.

  \<^bold>\<open>The program.\<close>  A loader (\<^verbatim>\<open>src/loader\<close>, with \<^verbatim>\<open>src/linux_loader\<close>, \<^verbatim>\<open>src/windows_loader\<close> and
  \<^verbatim>\<open>src/uefi_loader\<close> around it) loads the ELF image of the hypervisor and calls its entry point on every
  processor.  There \<open>zpp_hypervisor_main\<close> (\<^verbatim>\<open>src/hypervisor/src/hypervisor/main.cpp\<close>) creates the state on
  the first call and moves to a private stack; \<open>hypervisor::main\<close> (\<^verbatim>\<open>hypervisor.cpp\<close>) saves the registers,
  builds a page table of its own, the map from physical to virtual addresses of its module, descriptor
  tables and, on the first processor, extended page tables (EPT) that map physical memory one to one
  except for the module itself; it enters VMX root mode, fills the control structure (VMCS) and launches
  the guest where the caller was.  Afterwards it only answers VM exits.

  \<^bold>\<open>Theories, from the bottom.\<close>
  \<^item> \<open>Prelude\<close>: types, loops, and the locale of bit fields that all the entry types interpret.
  \<^item> \<open>Machine\<close>: the processor state and the instruction wrappers of \<^verbatim>\<open>x64/asm.h\<close>, \<^verbatim>\<open>x64/intel/asm.h\<close>,
    \<^verbatim>\<open>msr.h\<close>, \<^verbatim>\<open>context.h\<close>; the outcome of a VMX instruction is a function of the record \<open>hardware\<close>.
  \<^item> \<open>Memory\<close>: byte memory and the runtime functions of \<^verbatim>\<open>crt.cpp\<close>.  \<open>Loader_Runtime\<close>: the copies of them in the
    loaders, and the contract all of them keep.  \<open>Source_Constants\<close>: the enumerations of registers and of ELF in
    full.  \<open>Errors\<close>: \<^verbatim>\<open>maybe.h\<close> and the error
    enumerations.  \<open>Scope_Guard\<close>: \<^verbatim>\<open>scope_guard.h\<close>.  \<open>Small_Map\<close>, \<open>Small_Map_Iteration\<close>: \<^verbatim>\<open>small_map.h\<close>, a
    sorted array that refines a map, and its iterators.
  \<^item> \<open>Virtual_Address\<close>, \<open>Page_Entry\<close>, \<open>Ept_Entry\<close>, \<open>Mtrr\<close>, \<open>Segment_Descriptor\<close>, \<open>Vmcs\<close>: the accessor
    classes of \<^verbatim>\<open>x64/\<close>, one definition per getter and setter.
  \<^item> \<open>Page_Table\<close>, \<open>Host_Mapping\<close>: \<^verbatim>\<open>page_table.h\<close>, \<^verbatim>\<open>page_table.cpp\<close>, \<^verbatim>\<open>os_page_table.cpp\<close>, and the walk of a
    processor over tables in memory, which the tables the code builds are shown to satisfy.  \<open>Os_Translation\<close>:
    the walk over the tables of the operating system, for every page size.
  \<^item> \<open>Elf\<close>, \<open>Elf_Load\<close>: \<^verbatim>\<open>elf_file.h\<close> and \<^verbatim>\<open>elf_image_base.h\<close>.
  \<^item> \<open>Hypervisor_State\<close>: the members of the class \<open>hypervisor\<close> (\<^verbatim>\<open>hypervisor.h\<close>) as a record, the layout of
    the object, \<open>create_once\<close>.
  \<^item> \<open>Module_Setup\<close>, \<open>Ept_Setup\<close>, \<open>Gdt_Setup\<close>, \<open>Vmx_Setup\<close>, \<open>Vm_Exit\<close>, \<open>Hypervisor_Main\<close>: the functions of
    \<^verbatim>\<open>hypervisor.cpp\<close> in the order \<open>main\<close> calls them.  \<open>Exit_Reasons\<close>: the enumeration of exit reasons and what the
    handler does for each.  \<open>Vmcs_Types\<close>: the widths of the fields of the control structure.
  \<^item> \<open>Mtrr_Range\<close>, \<open>Ept_Identity\<close>, \<open>Ept_Protection\<close>, \<open>Ept_Walk\<close>, \<open>Module_Isolation\<close>, \<open>Module_Memory\<close>,
    \<open>Guest_Memory\<close>: what the page tables of the host and of the guest translate, for the walk of the
    processor.
  \<^item> \<open>Launch_Isolation\<close>, \<open>Launch_Progress\<close>, \<open>Launch_Processors\<close>: the launch of one processor and of all of
    them, as an inductive relation over the shared state.
  \<^item> \<open>Module_Frames\<close>, \<open>Guest_Run\<close>: the physical pages of the members of the object, and the system that runs
    after the first launch, a machine of interleaved steps over the state of the hypervisor, the running guests and
    physical memory: later launches, stores and instructions of guests, exits with their handler, and the rest of the
    machine.
  \<^item> \<open>Loader\<close>, \<open>Os_Loaders\<close>, \<open>Loader_Launch\<close>: the loaders, with the functions of the kernels and of the
    firmware as parameters, and their composition with the launch.  \<open>Uefi_Main\<close>: \<open>uefi_main\<close>, which looks for the
    boot loader to continue with.
  \<^item> \<open>Context_Asm\<close>: the assembly that saves and restores a context (\<^verbatim>\<open>x64/asm.h\<close>, \<^verbatim>\<open>x64/asm.cpp\<close>), \<open>_start\<close> and
    \<open>vm_exit_entry\<close>, as programs of a small machine.  \<open>Thunks\<close>: the calling convention thunks of the loaders for
    Windows and UEFI on it.  \<open>Instruction_Asm\<close>: the instruction wrappers and \<open>initialize_registers\<close> on the same
    machine with the system registers, shown to compute the functions of \<open>Machine\<close> and \<open>Vmx_Setup\<close>.
    \<open>Root_Mode_Asm\<close>: the same for \<open>enter_root_mode\<close> and the loads of the descriptor tables.  \<open>Exit_Path\<close>: an exit
    from \<open>vm_exit_entry\<close> through \<open>zpp_vm_exit\<close> and the handler to \<open>vmresume\<close>, with the compiled code between the
    assembly as parameters.  \<open>Vm_Entry\<close>: \<open>vmlaunch\<close> and \<open>vmresume\<close>, and the guest behind them.
  \<^item> \<open>Uefi_Launch\<close>: a concrete image and launch, for which the hypotheses of the theorems hold.

  \<^bold>\<open>Interfaces.\<close>  \<open>bit_field\<close> and \<open>flag\<close> (\<open>Prelude\<close>) state what an accessor promises and are interpreted for
  every field of every entry type.  Page tables are built through the translation of another table, whose
  laws \<open>Host_Mapping\<close> states as a locale and interprets for the tables of the operating system.  The error
  categories interpret the locale of \<open>Errors\<close>.  \<open>cpu_call\<close> (\<open>Loader\<close>) is what the loader relies on to run
  code on a processor; Linux, Windows and UEFI interpret it.  \<open>runtime\<close> (\<open>Loader_Runtime\<close>) is what the runtime
  functions promise; the three copies interpret it.

  \<^bold>\<open>What is shown.\<close> The guest never reaches the pages of the module outside
  \<open>unprotected_memory\<close>, on any processor and after any sequence of launches; the rest of its first 512 GB
  is mapped one to one with the memory types of the range registers; nothing above is mapped. This lasts: it is an
  invariant of the running system, with the tables where they are in physical memory, and no byte of the hidden pages
  changes but on the stacks of the hypervisor and in the VMX regions, whatever the guests do. Every processor has its
  own control structure, identifier and stack. A launch always returns, with success exactly when the module fits, and a
  refused launch leaves the processor as it was. The host page table translates the module as the operating system does
  and reaches nothing else. The control structure holds what it is meant to hold, within the capabilities of the
  processor. Every value written to it fits its field. A launched guest starts where the caller of the entry point
  continues, every exit is resumed, and the guest then continues behind the instruction with the registers it had; an
  entry the processor refuses is not noticed, and after \<open>vmresume\<close> it hands the host to an address of the
  guest's choice. The assembly of the instruction wrappers does what the model of the processor says. A context that was
  captured and is restored continues behind the capture with the registers it had. The loader loads all segments inside
  the block it allocated, applies the relocations, and reports success only when all processors were launched, and the
  thunks keep the registers each convention preserves. Several theorems state where the code departs from its intention
  (the copy constructor of \<open>small_map\<close>, \<open>memmove\<close>, two EPT setters, \<open>xsetbv\<close>, the
  number of relocations, the access rights of segments, large pages of the operating system, the device path of the boot
  loader).

  \<^bold>\<open>Bounds and partiality.\<close>  \<open>None\<close> is undefined behaviour of the C++ code: an index out of an array, a
  search without an end.  Loops with a bound in the code are the recursions \<open>loop\<close>, \<open>loop_opt\<close> and
  \<open>loop_ret\<close> of \<open>Prelude\<close>; the searches for the image base, the end of the dynamic segment and the end of a
  string are \<open>partial_function\<close>s, with theorems that they return.  No fuel is used.  The launch is shown for
  a module of at most \<open>2 ^ 18\<close> pages below 512 GB, whose pages the operating system maps with 4 KB pages,
  at most eight variable range registers and a descriptor table that leaves room for two entries.

  \<^bold>\<open>Not modelled.\<close>  Faults of the instructions (alignment, selectors and reserved bits are taken to be
  right) and the checks of the processor on an entry, whose result is a parameter; caches and translation caches, so
  neither the data an \<open>invd\<close> exit may discard nor stale translations; devices that write into the hidden
  pages, which the program does nothing against; the code the compiler generates between the assembly functions, which is a
  parameter with what the source says of it as hypothesis; the assignment operators of \<open>small_map\<close>, which no program can
  instantiate; constants no code uses; and time: a launch is one step, and processors are launched one after another,
  as the loader does.

  \<^bold>\<open>What is left.\<close>  Every function of the program has a definition; what the map does not cover are comments, includes,
  declarations without a body, type aliases and conversions of the accessor classes to the word they hold.  Further
  work would refine \<open>setup_vmcs\<close> and the exit handler to the calls of the wrappers, as \<open>enter_root_mode\<close> is, and split
  the launch into the steps that could interleave if a loader ran it on two processors at once.
\<close>

section \<open>The launch\<close>

text \<open>C3: Whatever processors are launched, and in whatever order, no guest ever reaches the hypervisor:
  when the first processor was launched on a module the operating system maps, and any number of
  other processors followed (launched or refused), the EPT pointer in the control structure of every
  running guest leads to tables under which each access below 512 GB goes to the same physical
  address, except that the pages of the module outside \<open>unprotected_memory\<close> are unreachable, and
  nothing above is reachable.\<close>

theorem no_guest_reaches_hypervisor:
  assumes "launches hw this env ctx0 c0 hv cs" and "vmx_accepts hw"
    and "found_module env ctx0 c0 this = Some hvo" and "os_maps_module (env_mem env) hvo"
    and "c \<in> set cs" and "ept_in_memory pmem hv" and "unat a < 2 ^ 48"
  shows "\<exists>eptp. vmcs_ept_pointer hw c = Maybe_value eptp \<and>
    ept_walk pmem eptp k a =
      (if unat a < 2 ^ 39 \<and> page_of a \<notin> guarded_pages (env_mem env) hvo then Some (a, guest_type hv a) else None)"
proof -
  note i = launches_isolated [OF assms(1-4)]
  from isolated_distinct(3) [OF i] assms(5) obtain eptp where
    "vmcs_ept_pointer hw c = Maybe_value eptp" "bits 12 40 eptp = host_frame hv (epml4_address (hv_this hv))" by blast
  then show ?thesis using i assms(6,7) by (auto simp: isolated_def tables_hide_def)
qed

theorem no_guest_reaches_hypervisor_witness:
  "\<exists>hv c pmem eptp. launches accepting_hardware 0x1001000 uefi_env zero_context reset_cpu hv [c] \<and>
     ept_in_memory pmem hv \<and> vmcs_ept_pointer accepting_hardware c = Maybe_value eptp \<and>
     ept_walk pmem eptp Ept_write 0x1000000 = None \<and> ept_walk pmem eptp Ept_read 0x123456 = Some (0x123456, guest_type hv 0x123456)"
proof -
  obtain hv c where l: "launches accepting_hardware 0x1001000 uefi_env zero_context reset_cpu hv [c]" by (rule uefi_launches)
  obtain hvo where m: "found_module uefi_env zero_context reset_cpu 0x1001000 = Some hvo" "os_maps_module uefi_memory hvo"
    "4096 \<in> guarded_pages uefi_memory hvo" "291 \<notin> guarded_pages uefi_memory hvo"
    by (rule uefi_found)
  have ok: "os_maps_module (env_mem uefi_env) hvo" "env_mem uefi_env = uefi_memory" using m(2) by (simp_all add: uefi_env_def)
  have "module_mapped hv \<and> (\<exists>k. object_at hv k)"
    using launches_isolated [OF l uefi_accepts m(1) ok(1)] by (simp add: isolated_def)
  then obtain pmem where pmem: "ept_in_memory pmem hv" using ept_in_memory_exists by blast
  note guest = no_guest_reaches_hypervisor [OF l uefi_accepts m(1) ok(1) _ pmem, unfolded ok(2)]
  have "page_of 0x1000000 = 4096" "page_of 0x123456 = 291" by (simp_all add: page_of_div)
  then obtain eptp where "vmcs_ept_pointer accepting_hardware c = Maybe_value eptp" "ept_walk pmem eptp Ept_write 0x1000000 = None"
    "ept_walk pmem eptp Ept_read 0x123456 = Some (0x123456, guest_type hv 0x123456)"
    using guest [of c "0x1000000" Ept_write] guest [of c "0x123456" Ept_read] m(3,4) by auto
  with l pmem show ?thesis by blast
qed

text \<open>C4: The launched processors do not share what must be their own: at most sixteen run, no two of
  them have the same current control structure or the same virtual processor identifier, and the
  identifiers are the numbers from one on, in the order of the launches.\<close>

theorem processors_are_separate:
  assumes "launches hw this env ctx0 c0 hv cs" and "vmx_accepts hw"
    and "found_module env ctx0 c0 this = Some hvo" and "os_maps_module (env_mem env) hvo"
  shows "length cs \<le> 16 \<and> distinct (map cpu_vmcs cs) \<and> distinct (map (vmcs_vpid hw) cs) \<and>
    map (vmcs_vpid hw) (rev cs) = map (\<lambda>n. Maybe_value (of_nat n)) [1..<Suc (length cs)] \<and>
    hv_next_virtual_processor hv = Suc (length cs)"
proof -
  note i = launches_isolated [OF assms]
  have "list_all2 (guest_runs hw hv) [1..<Suc (length cs)] (rev cs)"
    using i list_all2_rev [of "guest_runs hw hv" "rev [1..<Suc (length cs)]" cs] by (simp add: isolated_def del: upt_Suc)
  then have "map (vmcs_vpid hw) (rev cs) = map (\<lambda>n. Maybe_value (of_nat n)) [1..<Suc (length cs)]"
    by (intro nth_equalityI) (auto simp: list_all2_conv_all_nth guest_runs_def simp del: upt_Suc)
  then show ?thesis using i isolated_distinct(1,2) [OF i] by (simp add: isolated_def max_cpus_def)
qed

theorem processors_are_separate_witness:
  "\<exists>hv c. launches accepting_hardware 0x1001000 uefi_env zero_context reset_cpu hv [c] \<and>
     vmcs_vpid accepting_hardware c = Maybe_value 1 \<and> hv_next_virtual_processor hv = 2"
proof -
  obtain hv c where l: "launches accepting_hardware 0x1001000 uefi_env zero_context reset_cpu hv [c]" by (rule uefi_launches)
  obtain hvo where "found_module uefi_env zero_context reset_cpu 0x1001000 = Some hvo" "os_maps_module (env_mem uefi_env) hvo"
    by (rule uefi_found) (simp add: uefi_env_def)
  from processors_are_separate [OF l uefi_accepts this] have "vmcs_vpid accepting_hardware c = Maybe_value 1" "hv_next_virtual_processor hv = 2"
    by simp_all
  with l show ?thesis by blast
qed

text \<open>C8: The launch of the first processor always returns to its caller with a result: on a processor on
  which VMX works, the guest starts at \<open>vmlaunch\<close> with 0 in \<open>rax\<close> when the module fits the map
  and lies in fewer than 1024 regions of 2 MB; otherwise the context of the caller comes back with the
  code of \<open>physical_to_virtual_capacity_error\<close> or \<open>out_of_ept_entries\<close> in \<open>rax\<close>, and
  nothing else changed in it.\<close>

theorem first_launch_result:
  assumes "c_rdi ctx = 0" and "vmx_accepts hw"
    and "found_module env ctx c this = Some hvo" and "os_maps_module (env_mem env) hvo"
    and "unat (mtrr_capabilities_variable_range_register_count (rdmsr ia32_mtrr_capability c)) \<le> 8"
    and "(unat (tr_limit (cpu_gdtr c)) + 1) div 8 + 1 < 0x2000"
  shows "\<exists>g hv' c'. launch_processor hw this env ctx None c = Some (g, hv', c') \<and>
    g = (if launch_result (env_mem env) hvo = success
         then ctx\<lparr>c_rip := env_vmlaunch env, c_rflags := c_rflags (env_host_context env), c_rax := 0\<rparr>
         else ctx\<lparr>c_rax := of_int (hv_error_code (launch_result (env_mem env) hvo))\<rparr>)"
  by (rule first_processor_result [OF assms])

theorem first_launch_result_witness:
  "\<exists>g hv' c'. launch_processor accepting_hardware 0x1001000 uefi_env zero_context None reset_cpu = Some (g, hv', c') \<and>
     c_rip g = 0x1100100 \<and> c_rax g = 0"
proof -
  obtain hvo where m: "found_module uefi_env zero_context reset_cpu 0x1001000 = Some hvo"
    "os_maps_module uefi_memory hvo" "launch_result uefi_memory hvo = success"
    by (rule uefi_found)
  from first_launch_result [OF _ uefi_accepts m(1)] m(2,3) uefi_start show ?thesis by (auto simp: uefi_env_def)
qed

text \<open>C9: Every further processor is launched as long as there is room: while fewer than sixteen
  processors entered and fewer than sixteen are launched, a processor on which VMX works starts its
  guest at \<open>vmlaunch\<close> with 0 in \<open>rax\<close> and every other register of its caller.\<close>

theorem later_launch_succeeds:
  assumes "c_rdi ctx \<noteq> 0" and "vmx_accepts hw"
    and "hv_available_stack_index hv < max_cpus" and "hv_next_virtual_processor hv - 1 < max_cpus"
    and "(unat (tr_limit (cpu_gdtr c)) + 1) div 8 + 1 < 0x2000"
  shows "\<exists>g hv' c'. launch_processor hw this env ctx (Some hv) c = Some (g, hv', c') \<and>
    g = ctx\<lparr>c_rip := env_vmlaunch env, c_rflags := c_rflags (env_host_context env), c_rax := 0\<rparr>"
  by (rule later_processor_launches [OF assms])

theorem later_launch_succeeds_witness:
  "\<exists>g hv' c'. launch_processor accepting_hardware 0x1001000 uefi_env (zero_context\<lparr>c_rdi := 1\<rparr>) (Some (create_once 0x1001000)) reset_cpu =
     Some (g, hv', c') \<and> c_rip g = 0x1100100 \<and> c_rdi g = 1"
  using later_launch_succeeds [OF _ uefi_accepts, of "zero_context\<lparr>c_rdi := 1\<rparr>" "create_once 0x1001000" reset_cpu "0x1001000" uefi_env]
  by (auto simp: create_once_def max_cpus_def reset_cpu_def uefi_env_def)



text \<open>C11: Every processor gets a stack of its own: the context of the caller is stored, unchanged, at the
  top of the private stack with the next free number, the stack pointer lies below it, aligned as
  after a call, and the whole range from the stack pointer to the end of the copy lies inside that stack;
  the stacks of different numbers do not overlap, and the copies of earlier callers stay.\<close>

theorem launch_uses_private_stack:
  assumes "hv_available_stack_index hv < max_cpus" and "va_offset (hv_this hv) = 0"
    and "unat (hv_this hv) + unat sizeof_hypervisor \<le> 2 ^ 64"
  shows "\<exists>ctx' hv'. launch_on_cpu env ctx hv = Some (ctx', hv') \<and>
    hv_stack hv' = (hv_stack hv)(hv_available_stack_index hv := Some ctx) \<and>
    hv_available_stack_index hv' = hv_available_stack_index hv + 1 \<and>
    c_rdi ctx' = hv_this hv \<and> unat (c_rsi ctx') = unat (c_rsp ctx') + 8 \<and> unat (c_rsi ctx') mod 16 = 0 \<and>
    unat (stack_address (hv_this hv) (hv_available_stack_index hv)) < unat (c_rsp ctx') \<and>
    unat (c_rsi ctx') + unat sizeof_context = unat (stack_address (hv_this hv) (hv_available_stack_index hv)) + 0x80000 \<and>
    (\<forall>i < max_cpus. \<forall>j < i.
       unat (stack_address (hv_this hv) j) + 0x80000 \<le> unat (stack_address (hv_this hv) i))"
proof -
  let ?i = "hv_available_stack_index hv" and ?top = "stack_top hv"
  note at = stack_range [OF assms(3)]
  have room: "unat (hv_this hv) + 0x1000 + ?i * 0x80000 + 0x80000 \<le> 2 ^ 64"
    using assms(1,3) by (simp add: max_cpus_def sizeof_hypervisor_def)
  have "unat (stack_address (hv_this hv) ?i + 0x7fc60) = unat (hv_this hv) + 0x1000 + ?i * 0x80000 + 0x7fc60"
    using room at [OF assms(1)] by (subst unat_add_lem [THEN iffD1]) simp_all
  moreover have "?top = stack_address (hv_this hv) ?i + 0x7fc60" by (simp add: stack_top_def sizeof_context_def)
  ultimately have top: "unat ?top = unat (hv_this hv) + 0x1000 + ?i * 0x80000 + 0x7fc60" by simp
  then have rsp: "unat (?top - 8) = unat ?top - 8" by (subst unat_sub) (simp_all add: word_le_nat_alt)
  have "unat (va_offset (hv_this hv)) = unat (hv_this hv) mod 4096" by (simp add: va_offset.get_eq unat_bits)
  then have "unat (hv_this hv) mod 4096 = 0" using assms(2) by simp
  then obtain q where "unat (hv_this hv) = 4096 * q" by (auto simp: mod_eq_0_iff_dvd)
  then have "unat ?top = 16 * (256 * q + 0x100 + ?i * 0x8000 + 0x7fc6)" unfolding top by simp
  then have "unat ?top mod 16 = 0" by (simp only: mod_mult_self1_is_0)
  then show ?thesis
    unfolding launch_on_cpu_def using assms(1) at top rsp room
    by (auto simp: sizeof_context_def)
qed

theorem launch_uses_private_stack_witness:
  "\<exists>ctx' hv'. launch_on_cpu uefi_env zero_context (create_once 0x1001000) = Some (ctx', hv') \<and> c_rdi ctx' = 0x1001000 \<and>
     hv_stack hv' 0 = Some zero_context \<and> unat (c_rsi ctx') = unat (c_rsp ctx') + 8"
  using launch_uses_private_stack [of "create_once 0x1001000" uefi_env zero_context]
  by (auto simp: create_once_def max_cpus_def va_offset_def sizeof_hypervisor_def)

section \<open>The loader\<close>



text \<open>C31: The ways to call a function on a processor keep their contract: under Linux, Windows and UEFI
  alike, the function runs at most once and only bound to the processor that was asked for, and the
  call returns 0 only if the function ran and returned 0.\<close>

theorem call_on_cpu_contract:
  fixes m m' :: 'm and k :: "('mask, 'o) linux_kernel" and w :: "'w windows_kernel" and u :: "'u uefi_services"
  shows "(linux_call_on_cpu k i f (m, s) = Some (r, m', s') \<longrightarrow>
      (m' = m \<and> r \<noteq> 0) \<or> (\<exists>s1 r1 s2. linux_on k i s1 \<and> f (m, s1) = Some (r1, m', s2) \<and> (r = 0 \<longrightarrow> r1 = 0))) \<and>
    (windows_call_on_cpu w i fw (m, sw) = Some (r, m', sw') \<longrightarrow>
      (\<exists>s1 s2. windows_on w i s1 \<and> fw (m, s1) = Some (r, m', s2))) \<and>
    (uefi_call_on_cpu u i fu (m, su) = Some (r, m', su') \<longrightarrow>
      (m' = m \<and> r \<noteq> 0) \<or> (\<exists>s1 s2. uefi_on u i s1 \<and> fu (m, s1) = Some (r, m', s2)))"
proof -
  have "(m' = m \<and> r \<noteq> 0) \<or> (\<exists>s1 r1 s2. linux_on k i s1 \<and> f (m, s1) = Some (r1, m', s2) \<and> (r = 0 \<longrightarrow> r1 = 0))"
    if "linux_call_on_cpu k i f (m, s) = Some (r, m', s')"
    using linux.at_most_once [OF that] linux.success [of k i f m s m' s'] that by (cases "r = 0") auto
  then show ?thesis using windows_call_runs [of w i fw m sw r m' sw'] uefi_call_runs [of u i fu m su r m' su'] by fastforce
qed

theorem call_on_cpu_contract_witness:
  "\<exists>f s1 s2. linux_call_on_cpu small_kernel 3 f (5 :: nat, (), ()) = Some (0, 6, (), ()) \<and>
     linux_on small_kernel 3 s1 \<and> f (5, s1) = Some (0, 6, s2)"
proof -
  let ?f = "(\<lambda>(m, s). Some (0, Suc m, s)) :: (nat \<times> unit \<times> unit) call"
  have c: "linux_call_on_cpu small_kernel 3 ?f (5, (), ()) = Some (0, 6, (), ())"
    by (simp add: linux_call_on_cpu_def small_kernel_def)
  with conjunct1 [OF call_on_cpu_contract [of small_kernel 3 ?f 5 "((), ())" 0 6 "((), ())"]] obtain s1 s2 where
    "linux_on small_kernel 3 s1" "?f (5, s1) = Some (0, 6, s2)" by auto
  with c show ?thesis by blast
qed

section \<open>Accessors\<close>


end
